(* ===== verification/Prelude.thy ===== *)
theory Prelude imports "HOL-Library.Word" "HOL-Library.AList" begin

text \<open>
  Shared vocabulary of the development: bytes and Python strings, the JSON values that the
  Debug Trace tools exchange, Python's truth and equality tests on them, decimal formatting,
  slices, results with exceptions, and the generic list lemmas every component uses.
\<close>

section \<open>Bytes, strings, results\<close>

type_synonym byte = "8 word"
type_synonym bytes = "8 word list"

text \<open>A Python string is the list of its code points; \<open>u\<close> is a string literal.\<close>

type_synonym pystr = "nat list"

definition u :: "string \<Rightarrow> pystr" where
  "u s = map of_char s"

lemma u_inject [simp]: "u s = u t \<longleftrightarrow> s = t"
  by (simp add: u_def inj_map_eq_map [OF inj_of_char])

lemma u_Nil_iff [simp]: "u s = [] \<longleftrightarrow> s = []"
  by (simp add: u_def)

lemma u_Nil_iff' [simp]: "[] = u s \<longleftrightarrow> s = []"
  by (simp add: u_def)

lemma u_empty [simp]: "u [] = []"
  by (simp add: u_def)

lemma u_Cons: "u (c # cs) = of_char c # u cs"
  by (simp add: u_def)

lemma length_u [simp]: "length (u s) = length s"
  by (simp add: u_def)

text \<open>The byte with a given value below 256.\<close>

definition mk_byte :: "nat \<Rightarrow> byte" where
  "mk_byte n = word_of_nat n"

lemma unat_mk_byte: "unat (mk_byte n) = n mod 256"
  by (simp add: mk_byte_def unat_of_nat)

lemma unat_mk_byte_less [simp]: "n < 256 \<Longrightarrow> unat (mk_byte n) = n"
  by (simp add: unat_mk_byte)

lemma mk_byte_unat [simp]: "mk_byte (unat b) = b"
  by (simp add: mk_byte_def)

lemma mk_byte_eval [simp]: "mk_byte 0 = 0" "mk_byte (Suc 0) = 1" "mk_byte (numeral k) = numeral k"
  by (simp_all add: mk_byte_def)

named_theorems codec "round trips and sizes of the byte codecs"
named_theorems pyval "evaluation of Python's tests and conversions on JSON values"

text \<open>Sequencing of computations that may raise.\<close>

fun bindE :: "'e + 'a \<Rightarrow> ('a \<Rightarrow> 'e + 'b) \<Rightarrow> 'e + 'b" where
  "bindE (Inl e) f = Inl e"
| "bindE (Inr x) f = f x"

lemma bindE_Inr_iff: "bindE m f = Inr y \<longleftrightarrow> (\<exists>x. m = Inr x \<and> f x = Inr y)"
  by (cases m) auto

lemma bindE_Inl_iff: "bindE m f = Inl e \<longleftrightarrow> m = Inl e \<or> (\<exists>x. m = Inr x \<and> f x = Inl e)"
  by (cases m) auto

fun mapE :: "('a \<Rightarrow> 'e + 'b) \<Rightarrow> 'a list \<Rightarrow> 'e + 'b list" where
  "mapE f [] = Inr []"
| "mapE f (x # xs) = bindE (f x) (\<lambda>y. bindE (mapE f xs) (\<lambda>ys. Inr (y # ys)))"

fun foldE :: "('a \<Rightarrow> 'b \<Rightarrow> 'e + 'b) \<Rightarrow> 'a list \<Rightarrow> 'b \<Rightarrow> 'e + 'b" where
  "foldE f [] s = Inr s"
| "foldE f (x # xs) s = bindE (f x s) (foldE f xs)"

lemma foldE_total: "\<forall>x \<in> set xs. \<forall>s. f x s = Inr (g x s) \<Longrightarrow> foldE f xs s = Inr (fold g xs s)"
  by (induction xs arbitrary: s) auto

section \<open>Slices\<close>

text \<open>\<open>xs[a:b]\<close> for bounds that are not negative; out-of-range bounds are clipped.\<close>

definition slice :: "'a list \<Rightarrow> nat \<Rightarrow> nat \<Rightarrow> 'a list" where
  "slice xs a b = take (b - a) (drop a xs)"

lemma length_slice [simp]: "length (slice xs a b) = min (b - a) (length xs - a)"
  by (simp add: slice_def min.commute)

lemma set_slice_subset: "set (slice xs a b) \<subseteq> set xs"
  unfolding slice_def by (meson order_trans set_drop_subset set_take_subset)

lemma nth_slice: "i < length (slice xs a b) \<Longrightarrow> slice xs a b ! i = xs ! (a + i)"
  by (auto simp: slice_def)

lemma slice_append_mid [simp]:
  "slice (xs @ ys @ zs) (length xs) (length xs + length ys) = ys"
  by (simp add: slice_def)

lemma drop_append_pre [simp]: "drop (length xs) (xs @ ys) = ys"
  by simp

text \<open>Offsets relative to the end of a known prefix, for reading at \<open>off + k\<close>.\<close>

lemma drop_prefix_plus: "drop (length pre + k) (pre @ xs) = drop k xs"
  by simp

lemma nth_prefix_plus: "(pre @ xs) ! (length pre + k) = xs ! k"
  by (simp add: nth_append)

section \<open>Decimal formatting of integers\<close>

fun str_nat :: "nat \<Rightarrow> pystr" where
  "str_nat n = (if n < 10 then [48 + n] else str_nat (n div 10) @ [48 + n mod 10])"

declare str_nat.simps [simp del]

definition str_int :: "int \<Rightarrow> pystr" where
  "str_int i = (if i < 0 then 45 # str_nat (nat (- i)) else str_nat (nat i))"

lemma str_nat_nonempty: "str_nat n \<noteq> []"
  by (subst str_nat.simps) simp

lemma str_int_nonempty: "str_int i \<noteq> []"
  by (simp add: str_int_def str_nat_nonempty)

section \<open>JSON values\<close>

text \<open>
  The values of \<open>dict[str, Any]\<close> objects and of parsed JSON. A Python float is its IEEE 754
  binary64 pattern; a dict is its list of items in insertion order with distinct keys, which
  \<open>AList.update\<close> maintains (an existing key keeps its place, a new key goes last).
\<close>

datatype json =
    JNull
  | JBool bool
  | JInt int
  | JFloat "64 word"
  | JStr pystr
  | JList "json list"
  | JObj "(pystr \<times> json) list"

type_synonym jdict = "(pystr \<times> json) list"

text \<open>\<open>d.get(k)\<close>: a missing key reads as \<open>None\<close>.\<close>

definition getj :: "jdict \<Rightarrow> pystr \<Rightarrow> json" where
  "getj d k = (case map_of d k of None \<Rightarrow> JNull | Some v \<Rightarrow> v)"

lemma getj_Nil [simp]: "getj [] k = JNull"
  by (simp add: getj_def)

lemma getj_Cons [simp]: "getj ((k', v) # d) k = (if k = k' then v else getj d k)"
  by (simp add: getj_def)

lemma getj_append: "getj (xs @ ys) k = (case map_of xs k of None \<Rightarrow> getj ys k | Some v \<Rightarrow> v)"
  by (simp add: getj_def map_add_def split: option.splits)

lemma getj_update: "getj (AList.update k v d) k' = (if k' = k then v else getj d k')"
  by (simp add: getj_def update_conv')

lemma update_new: "map_of al k = None \<Longrightarrow> AList.update k v al = al @ [(k, v)]"
  by (induction al) (auto split: if_splits)

text \<open>\<open>isinstance\<close> tests; a Python bool is an int.\<close>

fun is_bool :: "json \<Rightarrow> bool" where
  "is_bool (JBool b) = True" | "is_bool _ = False"

fun is_int :: "json \<Rightarrow> bool" where
  "is_int (JInt i) = True" | "is_int (JBool b) = True" | "is_int _ = False"

fun is_float :: "json \<Rightarrow> bool" where
  "is_float (JFloat f) = True" | "is_float _ = False"

fun is_str :: "json \<Rightarrow> bool" where
  "is_str (JStr s) = True" | "is_str _ = False"

fun is_list :: "json \<Rightarrow> bool" where
  "is_list (JList xs) = True" | "is_list _ = False"

fun is_dict :: "json \<Rightarrow> bool" where
  "is_dict (JObj d) = True" | "is_dict _ = False"

text \<open>\<open>isinstance(v, int) and not isinstance(v, bool)\<close>\<close>

definition is_strict_int :: "json \<Rightarrow> bool" where
  "is_strict_int j = (is_int j \<and> \<not> is_bool j)"

lemma is_strict_int_simps [simp]:
  "is_strict_int JNull = False" "is_strict_int (JBool b) = False"
  "is_strict_int (JInt i) = True" "is_strict_int (JFloat f) = False"
  "is_strict_int (JStr s) = False" "is_strict_int (JList l) = False"
  "is_strict_int (JObj d) = False"
  by (simp_all add: is_strict_int_def)

lemma is_strict_intE: "is_strict_int j \<Longrightarrow> \<exists>i. j = JInt i"
  by (cases j) auto

text \<open>The integer an instance of int stands for.\<close>

fun int_val :: "json \<Rightarrow> int" where
  "int_val (JInt i) = i" | "int_val (JBool b) = (if b then 1 else 0)" | "int_val _ = 0"

fun str_val :: "json \<Rightarrow> pystr" where
  "str_val (JStr s) = s" | "str_val _ = []"

fun list_val :: "json \<Rightarrow> json list" where
  "list_val (JList xs) = xs" | "list_val _ = []"

fun dict_val :: "json \<Rightarrow> jdict" where
  "dict_val (JObj d) = d" | "dict_val _ = []"

text \<open>Truth value: empty containers, zeros (both float zeros) and \<open>None\<close> are false.\<close>

fun truthy :: "json \<Rightarrow> bool" where
  "truthy JNull = False"
| "truthy (JBool b) = b"
| "truthy (JInt i) = (i \<noteq> 0)"
| "truthy (JFloat f) = (f \<noteq> 0 \<and> f \<noteq> 0x8000000000000000)"
| "truthy (JStr s) = (s \<noteq> [])"
| "truthy (JList l) = (l \<noteq> [])"
| "truthy (JObj d) = (d \<noteq> [])"

text \<open>\<open>a or b\<close>\<close>

definition or_else :: "json \<Rightarrow> json \<Rightarrow> json" where
  "or_else a b = (if truthy a then a else b)"

section \<open>Floats as bit patterns\<close>

definition f64_sign :: "64 word \<Rightarrow> nat" where "f64_sign w = unat w div 2 ^ 63"
definition f64_exp :: "64 word \<Rightarrow> nat" where "f64_exp w = (unat w div 2 ^ 52) mod 2 ^ 11"
definition f64_mant :: "64 word \<Rightarrow> nat" where "f64_mant w = unat w mod 2 ^ 52"

definition f64_finite :: "64 word \<Rightarrow> bool" where
  "f64_finite w = (f64_exp w \<noteq> 2047)"

text \<open>A finite float is \<open>\<plusminus> sig * 2 ^ (e - 1075)\<close> with \<open>e = max 1 exponent\<close>.\<close>

definition f64_sig :: "64 word \<Rightarrow> nat" where
  "f64_sig w = (if f64_exp w = 0 then f64_mant w else 2 ^ 52 + f64_mant w)"

definition f64_eq_int :: "64 word \<Rightarrow> int \<Rightarrow> bool" where
  "f64_eq_int w i =
     (let e = max 1 (f64_exp w); m = (if f64_sign w = 1 then - int (f64_sig w) else int (f64_sig w))
      in f64_finite w \<and>
         (if 1075 \<le> e then m * 2 ^ (e - 1075) = i else m = i * 2 ^ (1075 - e)))"

text \<open>Python's \<open>v == i\<close> for an int \<open>i\<close>: \<open>True == 1\<close> and \<open>1.0 == 1\<close> hold.\<close>

fun num_eq :: "json \<Rightarrow> int \<Rightarrow> bool" where
  "num_eq (JInt j) i = (j = i)"
| "num_eq (JBool b) i = ((if b then 1 else 0) = i)"
| "num_eq (JFloat f) i = f64_eq_int f i"
| "num_eq _ i = False"

section \<open>The runtime's parameters\<close>

text \<open>Exceptions that escape a function (beside the SDK's own, which have their own type).\<close>

datatype py_exn =
    NameError pystr
  | UnboundLocalError pystr
  | DtjExn pystr pystr "(pystr \<times> json) list"
  | ValueError pystr
  | TypeError pystr
  | KeyError pystr
  | OverflowError
  | AttributeError
  | FileNotFoundError pystr
  | OsError
  | IndexError
  | RecursionError

text \<open>\<open>json.loads\<close> of a text, or of the bytes of a file: a value, an error of the document (\<open>JSONDecodeError\<close> or
  \<open>UnicodeDecodeError\<close>) with its text, or another exception (an integer with too many digits, too deep a nesting).\<close>

datatype loaded = Parsed json | DecodeError pystr | Raises py_exn

text \<open>
  What the code uses of CPython that rests on data outside the repository: the Unicode case
  tables, the shortest decimal rendering of a float, the \<open>repr\<close> of strings, the parser
  of integer literals, the JSON text codec (\<open>Inl\<close> of \<open>json_dumps\<close> is the text of the exception), the lines the
  text layer delivers before it meets invalid UTF-8 (it decodes block by block), and the order in which \<open>list.sort\<close>
  leaves keys that have none of their own (the rank of each position, or an exception). Every theorem holds for all of them; the few
  that rely on a law of one (such as \<open>json.loads(json.dumps(d)) == d\<close>) state it.
\<close>

record runtime =
  casefold :: "pystr \<Rightarrow> pystr"
  lower :: "pystr \<Rightarrow> pystr"
  float_repr :: "64 word \<Rightarrow> pystr"
  str_repr :: "pystr \<Rightarrow> pystr"
  int_of_str :: "pystr \<Rightarrow> int option"
  json_dumps :: "json \<Rightarrow> pystr + bytes"
  json_loads :: "bytes \<Rightarrow> loaded"
  lines_before :: "bytes \<Rightarrow> pystr list"
  odd_order :: "json list \<Rightarrow> py_exn + (nat \<Rightarrow> nat)"

definition join :: "pystr \<Rightarrow> pystr list \<Rightarrow> pystr" where
  "join sep xs = (case xs of [] \<Rightarrow> [] | y # ys \<Rightarrow> y @ concat (map (\<lambda>z. sep @ z) ys))"

fun py_repr :: "runtime \<Rightarrow> json \<Rightarrow> pystr" where
  "py_repr rt JNull = u ''None''"
| "py_repr rt (JBool b) = (if b then u ''True'' else u ''False'')"
| "py_repr rt (JInt i) = str_int i"
| "py_repr rt (JFloat f) = float_repr rt f"
| "py_repr rt (JStr s) = str_repr rt s"
| "py_repr rt (JList xs) = u ''['' @ join (u '', '') (map (py_repr rt) xs) @ u '']''"
| "py_repr rt (JObj d) =
     u ''{'' @ join (u '', '') (map (\<lambda>(k, v). str_repr rt k @ u '': '' @ py_repr rt v) d) @ u ''}''"

text \<open>\<open>str(v)\<close> and the \<open>{v}\<close> of an f-string: a string is itself.\<close>

definition py_str :: "runtime \<Rightarrow> json \<Rightarrow> pystr" where
  "py_str rt j = (case j of JStr s \<Rightarrow> s | _ \<Rightarrow> py_repr rt j)"

text \<open>\<open>type(v).__name__\<close>\<close>

fun type_name :: "json \<Rightarrow> pystr" where
  "type_name JNull = u ''NoneType''"
| "type_name (JBool b) = u ''bool''"
| "type_name (JInt i) = u ''int''"
| "type_name (JFloat f) = u ''float''"
| "type_name (JStr s) = u ''str''"
| "type_name (JList l) = u ''list''"
| "type_name (JObj d) = u ''dict''"

text \<open>\<open>int(v)\<close>\<close>

definition f64_trunc :: "64 word \<Rightarrow> int" where
  "f64_trunc w =
     (let e = max 1 (f64_exp w);
          m = (if 1075 \<le> e then f64_sig w * 2 ^ (e - 1075) else f64_sig w div 2 ^ (1075 - e))
      in if f64_sign w = 1 then - int m else int m)"

fun py_int :: "runtime \<Rightarrow> json \<Rightarrow> py_exn + int" where
  "py_int rt (JInt i) = Inr i"
| "py_int rt (JBool b) = Inr (if b then 1 else 0)"
| "py_int rt (JFloat f) =
     (if f64_finite f then Inr (f64_trunc f)
      else if f64_mant f = 0 then Inl OverflowError
      else Inl (ValueError (u ''cannot convert float NaN to integer'')))"
| "py_int rt (JStr s) =
     (case int_of_str rt s of Some i \<Rightarrow> Inr i
      | None \<Rightarrow> Inl (ValueError (u ''invalid literal for int() with base 10: '' @ str_repr rt s)))"
| "py_int rt _ = Inl (TypeError (u ''int() argument must be a string, a bytes-like object or a real number''))"

section \<open>Substrings, stripping\<close>

text \<open>\<open>needle in hay\<close>\<close>

fun is_prefix :: "'a list \<Rightarrow> 'a list \<Rightarrow> bool" where
  "is_prefix [] ys = True"
| "is_prefix (x # xs) [] = False"
| "is_prefix (x # xs) (y # ys) = (x = y \<and> is_prefix xs ys)"

fun is_infix :: "'a list \<Rightarrow> 'a list \<Rightarrow> bool" where
  "is_infix xs [] = (xs = [])"
| "is_infix xs (y # ys) = (is_prefix xs (y # ys) \<or> is_infix xs ys)"

lemma is_prefix_iff: "is_prefix xs ys \<longleftrightarrow> (\<exists>zs. ys = xs @ zs)"
  by (induction xs ys rule: is_prefix.induct) auto

lemma is_infix_iff: "is_infix xs ys \<longleftrightarrow> (\<exists>as bs. ys = as @ xs @ bs)"
proof (induction xs ys rule: is_infix.induct)
  case (1 xs)
  then show ?case by auto
next
  case (2 xs y ys)
  have "(\<exists>as bs. y # ys = as @ xs @ bs) \<longleftrightarrow>
    (\<exists>bs. y # ys = xs @ bs) \<or> (\<exists>as bs. ys = as @ xs @ bs)"
    by (metis append_Cons append_eq_Cons_conv append_self_conv2)
  with 2 show ?case by (auto simp: is_prefix_iff)
qed

text \<open>The code points \<open>str.isspace\<close> accepts, for \<open>strip\<close> and \<open>rstrip\<close>.\<close>

definition is_space :: "nat \<Rightarrow> bool" where
  "is_space c = ((9 \<le> c \<and> c \<le> 13) \<or> (28 \<le> c \<and> c \<le> 32) \<or> c = 0x85 \<or> c = 0xA0 \<or> c = 0x1680
     \<or> (0x2000 \<le> c \<and> c \<le> 0x200A) \<or> c = 0x2028 \<or> c = 0x2029 \<or> c = 0x202F \<or> c = 0x205F \<or> c = 0x3000)"

definition rstrip :: "pystr \<Rightarrow> pystr" where
  "rstrip s = rev (dropWhile is_space (rev s))"

definition strip :: "pystr \<Rightarrow> pystr" where
  "strip s = rstrip (dropWhile is_space s)"

end
