(* ===== verification/Le_Bytes.thy ===== *)
theory Le_Bytes imports Prelude begin

text \<open>
  The part of Python's \<open>struct\<close> and \<open>int.to_bytes\<close> / \<open>int.from_bytes\<close>
  the code uses: little-endian integers of 1, 2, 4 and 8 bytes, signed and unsigned, packed
  with a range check and read back at an offset, and the bytes of a float's pattern.
\<close>

section \<open>Unsigned little-endian integers\<close>

fun le_nat :: "bytes \<Rightarrow> nat" where
  "le_nat [] = 0"
| "le_nat (b # bs) = unat b + 256 * le_nat bs"

fun nat_le :: "nat \<Rightarrow> nat \<Rightarrow> bytes" where
  "nat_le 0 v = []"
| "nat_le (Suc n) v = mk_byte (v mod 256) # nat_le n (v div 256)"

lemma nat_le_numeral [simp]:
  "nat_le (numeral k) v = mk_byte (v mod 256) # nat_le (pred_numeral k) (v div 256)"
  unfolding numeral_eq_Suc [of k] by (rule nat_le.simps)

lemma length_nat_le [simp, codec]: "length (nat_le n v) = n"
  by (induction n v rule: nat_le.induct) auto

declare nat_le_numeral [simp del]

lemma unat_byte_mod [simp]: "unat (mk_byte (v mod 256)) = v mod 256"
  by simp

lemma le_nat_nat_le_mod: "le_nat (nat_le n v) = v mod 256 ^ n"
proof (induction n v rule: nat_le.induct)
  case (2 n v)
  have "v mod (256 * 256 ^ n) = 256 * (v div 256 mod 256 ^ n) + v mod 256"
    by (rule mod_mult2_eq)
  with 2 show ?case by simp
qed simp

lemma le_nat_nat_le [codec]: "v < 256 ^ n \<Longrightarrow> le_nat (nat_le n v) = v"
  by (simp add: le_nat_nat_le_mod)

lemma le_nat_less: "le_nat bs < 256 ^ length bs"
proof (induction bs)
  case (Cons b bs)
  have "unat b < 256" using unsigned_less [of b, where 'a = nat] by simp
  moreover from Cons have "le_nat bs + 1 \<le> 256 ^ length bs" by simp
  then have "256 * (le_nat bs + 1) \<le> 256 * 256 ^ length bs" by (rule mult_le_mono2)
  ultimately show ?case by simp
qed simp

lemma nat_le_le_nat: "nat_le (length bs) (le_nat bs) = bs"
proof (induction bs)
  case (Cons b bs)
  have b: "unat b < 256" using unsigned_less [of b, where 'a = nat] by simp
  then have "(unat b + 256 * le_nat bs) mod 256 = unat b"
    and "(unat b + 256 * le_nat bs) div 256 = le_nat bs" by simp_all
  with Cons show ?case by simp
qed simp

section \<open>Reading at an offset\<close>

definition byte_at :: "bytes \<Rightarrow> nat \<Rightarrow> nat" where
  "byte_at buf off = unat (buf ! off)"

definition u16_at :: "bytes \<Rightarrow> nat \<Rightarrow> nat" where
  "u16_at buf off = le_nat (slice buf off (off + 2))"

definition u32_at :: "bytes \<Rightarrow> nat \<Rightarrow> nat" where
  "u32_at buf off = le_nat (slice buf off (off + 4))"

definition u64_at :: "bytes \<Rightarrow> nat \<Rightarrow> nat" where
  "u64_at buf off = le_nat (slice buf off (off + 8))"

definition to_signed :: "nat \<Rightarrow> nat \<Rightarrow> int" where
  "to_signed w v = (if v < 2 ^ (w - 1) then int v else int v - 2 ^ w)"

definition of_signed :: "nat \<Rightarrow> int \<Rightarrow> nat" where
  "of_signed w i = nat (i mod 2 ^ w)"

definition i32_at :: "bytes \<Rightarrow> nat \<Rightarrow> int" where
  "i32_at buf off = to_signed 32 (u32_at buf off)"

definition i64_at :: "bytes \<Rightarrow> nat \<Rightarrow> int" where
  "i64_at buf off = to_signed 64 (u64_at buf off)"

lemmas read_at_defs = byte_at_def u16_at_def u32_at_def u64_at_def i32_at_def i64_at_def

lemma read_prefix [codec]:
  "byte_at (pre @ xs) (length pre + k) = byte_at xs k"
  "u16_at (pre @ xs) (length pre + k) = u16_at xs k"
  "u32_at (pre @ xs) (length pre + k) = u32_at xs k"
  "u64_at (pre @ xs) (length pre + k) = u64_at xs k"
  "i32_at (pre @ xs) (length pre + k) = i32_at xs k"
  "i64_at (pre @ xs) (length pre + k) = i64_at xs k"
  "byte_at (pre @ xs) (length pre) = byte_at xs 0"
  "u16_at (pre @ xs) (length pre) = u16_at xs 0"
  "u32_at (pre @ xs) (length pre) = u32_at xs 0"
  "u64_at (pre @ xs) (length pre) = u64_at xs 0"
  by (simp_all add: read_at_defs slice_def nth_append del: One_nat_def flip: numeral_2_eq_2)

lemma slice_prefix [codec]:
  "slice (pre @ xs) (length pre + a) (length pre + b) = slice xs a b"
  "slice (pre @ xs) (length pre) (length pre + b) = slice xs 0 b"
  by (simp_all add: slice_def)

lemma slice_skip [codec]:
  "length xs \<le> a \<Longrightarrow> slice (xs @ ys) a b = slice ys (a - length xs) (b - length xs)"
  by (simp add: slice_def)

lemma slice_whole [codec]: "length xs = b \<Longrightarrow> slice (xs @ ys) 0 b = xs"
  by (simp add: slice_def)

lemma u16_at_bound: "u16_at buf off < 2 ^ 16"
proof -
  have "u16_at buf off < 256 ^ length (slice buf off (off + 2))"
    unfolding u16_at_def by (rule le_nat_less)
  also have "\<dots> \<le> 256 ^ 2" by (rule power_increasing) auto
  finally show ?thesis by simp
qed

lemma u32_at_bound: "u32_at buf off < 2 ^ 32"
proof -
  have "u32_at buf off < 256 ^ length (slice buf off (off + 4))"
    unfolding u32_at_def by (rule le_nat_less)
  also have "\<dots> \<le> 256 ^ 4" by (rule power_increasing) auto
  finally show ?thesis by simp
qed

lemma u64_at_bound: "u64_at buf off < 2 ^ 64"
proof -
  have "u64_at buf off < 256 ^ length (slice buf off (off + 8))"
    unfolding u64_at_def by (rule le_nat_less)
  also have "\<dots> \<le> 256 ^ 8" by (rule power_increasing) auto
  finally show ?thesis by simp
qed

lemma byte_at_bound: "byte_at buf off < 256"
  using unsigned_less [of "buf ! off", where 'a = nat] by (simp add: byte_at_def)

lemma to_signed_of_signed:
  assumes "0 < w" "- (2 ^ (w - 1)) \<le> i" "i < 2 ^ (w - 1)"
  shows "to_signed w (of_signed w i) = i" and "of_signed w i < 2 ^ w"
proof -
  have w: "(2::int) ^ w = 2 * 2 ^ (w - 1)" using assms(1) by (cases w) auto
  show "of_signed w i < 2 ^ w"
    by (simp add: of_signed_def nat_less_iff)
  show "to_signed w (of_signed w i) = i"
  proof (cases "0 \<le> i")
    case True
    with assms w have "i mod 2 ^ w = i" by (simp add: mod_pos_pos_trivial)
    with True assms show ?thesis by (simp add: to_signed_def of_signed_def nat_less_iff)
  next
    case False
    with assms w have "(i + 2 ^ w) mod 2 ^ w = i + 2 ^ w" by (intro mod_pos_pos_trivial) auto
    then have "i mod 2 ^ w = i + 2 ^ w" by simp
    with False assms w show ?thesis
      by (auto simp: to_signed_def of_signed_def nat_less_iff)
  qed
qed

section \<open>Packing with a range check\<close>

text \<open>\<open>struct.pack\<close> raises \<open>struct.error\<close> (here \<open>None\<close>) out of range.\<close>

definition pack_u :: "nat \<Rightarrow> int \<Rightarrow> bytes option" where
  "pack_u n v = (if 0 \<le> v \<and> v < 256 ^ n then Some (nat_le n (nat v)) else None)"

definition pack_i64 :: "int \<Rightarrow> bytes option" where
  "pack_i64 v = (if - (2 ^ 63) \<le> v \<and> v < 2 ^ 63 then Some (nat_le 8 (of_signed 64 v)) else None)"

definition float_le :: "64 word \<Rightarrow> bytes" where
  "float_le w = nat_le 8 (unat w)"

lemma length_pack_u: "pack_u n v = Some bs \<Longrightarrow> length bs = n"
  by (auto simp: pack_u_def split: if_splits)

lemma le_nat_pack_u: "pack_u n v = Some bs \<Longrightarrow> int (le_nat bs) = v"
  by (auto simp: pack_u_def le_nat_nat_le nat_less_iff split: if_splits)

lemma signed_pack_i64: "pack_i64 v = Some bs \<Longrightarrow> length bs = 8 \<and> to_signed 64 (le_nat bs) = v"
proof -
  assume "pack_i64 v = Some bs"
  then have v: "- (2 ^ 63) \<le> v" "v < 2 ^ 63" and bs: "bs = nat_le 8 (of_signed 64 v)"
    by (auto simp: pack_i64_def split: if_splits)
  have s: "to_signed 64 (of_signed 64 v) = v" and "of_signed 64 v < 2 ^ 64"
    using to_signed_of_signed [of 64 v] v by simp_all
  then show ?thesis by (simp add: bs le_nat_nat_le)
qed

end
