(* ===== verification/Utf8.thy ===== *)
theory Utf8 imports Prelude begin

text \<open>
  Python's UTF-8 codec on lists of code points: \<open>str.encode("utf-8")\<close>, which refuses
  surrogates, and \<open>bytes.decode("utf-8")\<close> with the error handlers \<open>strict\<close> and
  \<open>replace\<close>. One step function classifies the sequence at the front of the input, the way
  CPython's decoder does: an ill-formed sequence is consumed up to its first bad byte.
\<close>

section \<open>Encoding\<close>

definition is_scalar :: "nat \<Rightarrow> bool" where
  "is_scalar c = (c < 0x110000 \<and> \<not> (0xD800 \<le> c \<and> c \<le> 0xDFFF))"

definition utf8_cp :: "nat \<Rightarrow> nat list" where
  "utf8_cp c =
     (if c < 0x80 then [c]
      else if c < 0x800 then [0xC0 + c div 64, 0x80 + c mod 64]
      else if c < 0x10000 then [0xE0 + c div 4096, 0x80 + (c div 64) mod 64, 0x80 + c mod 64]
      else [0xF0 + c div 262144, 0x80 + (c div 4096) mod 64, 0x80 + (c div 64) mod 64, 0x80 + c mod 64])"

text \<open>\<open>None\<close> is \<open>UnicodeEncodeError\<close>.\<close>

fun utf8_encode :: "pystr \<Rightarrow> bytes option" where
  "utf8_encode [] = Some []"
| "utf8_encode (c # cs) =
     (if is_scalar c then map_option (\<lambda>bs. map mk_byte (utf8_cp c) @ bs) (utf8_encode cs) else None)"

section \<open>Decoding\<close>

text \<open>A well-formed sequence gives its code point and the continuation bytes used; an ill-formed
  one gives the number of continuation bytes consumed with its first byte.\<close>

datatype utf8_item = Good nat nat | Bad nat

fun utf8_conts :: "nat \<Rightarrow> nat \<Rightarrow> nat \<Rightarrow> nat \<Rightarrow> nat \<Rightarrow> bytes \<Rightarrow> utf8_item" where
  "utf8_conts 0 lo hi acc k bs = Good acc k"
| "utf8_conts (Suc n) lo hi acc k [] = Bad k"
| "utf8_conts (Suc n) lo hi acc k (b # bs) =
     (if lo \<le> unat b \<and> unat b \<le> hi
      then utf8_conts n 0x80 0xBF (acc * 64 + (unat b - 0x80)) (Suc k) bs
      else Bad k)"

definition utf8_step :: "nat \<Rightarrow> bytes \<Rightarrow> utf8_item" where
  "utf8_step b bs =
     (if b < 0x80 then Good b 0
      else if 0xC2 \<le> b \<and> b \<le> 0xDF then utf8_conts (Suc 0) 0x80 0xBF (b - 0xC0) 0 bs
      else if b = 0xE0 then utf8_conts (Suc (Suc 0)) 0xA0 0xBF (b - 0xE0) 0 bs
      else if b = 0xED then utf8_conts (Suc (Suc 0)) 0x80 0x9F (b - 0xE0) 0 bs
      else if 0xE1 \<le> b \<and> b \<le> 0xEF then utf8_conts (Suc (Suc 0)) 0x80 0xBF (b - 0xE0) 0 bs
      else if b = 0xF0 then utf8_conts (Suc (Suc (Suc 0))) 0x90 0xBF (b - 0xF0) 0 bs
      else if 0xF1 \<le> b \<and> b \<le> 0xF3 then utf8_conts (Suc (Suc (Suc 0))) 0x80 0xBF (b - 0xF0) 0 bs
      else if b = 0xF4 then utf8_conts (Suc (Suc (Suc 0))) 0x80 0x8F (b - 0xF0) 0 bs
      else Bad 0)"

fun utf8_decode :: "bytes \<Rightarrow> pystr option" where
  "utf8_decode [] = Some []"
| "utf8_decode (b # bs) =
     (case utf8_step (unat b) bs of
        Good c k \<Rightarrow> map_option ((#) c) (utf8_decode (drop k bs))
      | Bad k \<Rightarrow> None)"

fun utf8_decode_replace :: "bytes \<Rightarrow> pystr" where
  "utf8_decode_replace [] = []"
| "utf8_decode_replace (b # bs) =
     (case utf8_step (unat b) bs of
        Good c k \<Rightarrow> c # utf8_decode_replace (drop k bs)
      | Bad k \<Rightarrow> 0xFFFD # utf8_decode_replace (drop k bs))"

section \<open>Round trip\<close>

lemma utf8_cp_bytes: "c < 0x110000 \<Longrightarrow> \<forall>b \<in> set (utf8_cp c). b < 256"
  by (auto simp: utf8_cp_def)

lemma combine2: "(c::nat) div 64 * 64 + c mod 64 = c"
  by simp

lemma combine3: "(c::nat) div 4096 * 64 + (c div 64) mod 64 = c div 64"
proof -
  have "c div 4096 = c div 64 div 64" by (simp flip: div_mult2_eq)
  then show ?thesis by simp
qed

lemma combine4: "(c::nat) div 262144 * 64 + (c div 4096) mod 64 = c div 4096"
proof -
  have "c div 262144 = c div 4096 div 64" by (simp flip: div_mult2_eq)
  then show ?thesis by simp
qed

lemma utf8_step_cp2:
  assumes "0x80 \<le> c" "c < 0x800"
  shows "utf8_step (0xC0 + c div 64) (mk_byte (0x80 + c mod 64) # bs) = Good c 1"
proof -
  have "2 \<le> c div 64" and "c div 64 < 32" using assms by auto
  then show ?thesis by (simp add: utf8_step_def combine2)
qed

lemma utf8_step_cp3:
  assumes "0x800 \<le> c" "c < 0x10000" "\<not> (0xD800 \<le> c \<and> c \<le> 0xDFFF)"
  shows "utf8_step (0xE0 + c div 4096)
    (mk_byte (0x80 + (c div 64) mod 64) # mk_byte (0x80 + c mod 64) # bs) = Good c 2"
proof -
  define h where "h = c div 4096"
  define m where "m = (c div 64) mod 64"
  have hm: "h * 64 + m = c div 64" unfolding h_def m_def by (rule combine3)
  have b: "64 * (c div 64) \<le> c \<and> c < 64 * (c div 64) + 64" by auto
  have "h < 16" and m: "m < 64" using assms by (auto simp: h_def m_def)
  moreover have "h = 0 \<longrightarrow> 32 \<le> m" using hm assms(1) by auto
  moreover have "h = 13 \<longrightarrow> m < 32" using hm assms(3) b m by linarith
  moreover have "4096 * h + 64 * m + c mod 64 = c" using hm combine2 [of c] by linarith
  ultimately show ?thesis
    unfolding h_def [symmetric] m_def [symmetric]
    by (auto simp: utf8_step_def hm combine2)
qed

lemma utf8_step_cp4:
  assumes "0x10000 \<le> c" "c < 0x110000"
  shows "utf8_step (0xF0 + c div 262144)
    (mk_byte (0x80 + (c div 4096) mod 64) # mk_byte (0x80 + (c div 64) mod 64) #
     mk_byte (0x80 + c mod 64) # bs) = Good c 3"
proof -
  define h where "h = c div 262144"
  define m where "m = (c div 4096) mod 64"
  have hm: "h * 64 + m = c div 4096" unfolding h_def m_def by (rule combine4)
  have "h < 5" and "m < 64" using assms by (auto simp: h_def m_def)
  moreover have "h = 0 \<longrightarrow> 16 \<le> m" using hm assms(1) by auto
  moreover have "h = 4 \<longrightarrow> m < 16" using hm assms(2) by auto
  moreover have "262144 * h + 4096 * m + 64 * ((c div 64) mod 64) + c mod 64 = c"
    using hm combine2 [of c] combine3 [of c] by linarith
  ultimately show ?thesis
    unfolding h_def [symmetric] m_def [symmetric]
    by (auto simp: utf8_step_def hm combine2 combine3)
qed

lemma utf8_decode_cp:
  assumes "is_scalar c"
  shows "utf8_decode (map mk_byte (utf8_cp c) @ bs) = map_option ((#) c) (utf8_decode bs)"
proof -
  consider "c < 0x80" | "0x80 \<le> c" "c < 0x800" | "0x800 \<le> c" "c < 0x10000" | "0x10000 \<le> c"
    by linarith
  then show ?thesis
  proof cases
    case 1
    then show ?thesis by (simp add: utf8_cp_def utf8_step_def)
  next
    case 2
    then have "192 + c div 64 < 256" by auto
    with 2 show ?thesis by (simp add: utf8_cp_def utf8_step_cp2)
  next
    case 3
    then have "224 + c div 4096 < 256" by auto
    with 3 assms show ?thesis
      by (simp add: utf8_cp_def utf8_step_cp3 is_scalar_def numeral_2_eq_2)
  next
    case 4
    with assms have c: "c < 0x110000" by (simp add: is_scalar_def)
    with 4 have "240 + c div 262144 < 256" by auto
    with 4 c show ?thesis by (simp add: utf8_cp_def utf8_step_cp4 numeral_3_eq_3)
  qed
qed

lemma utf8_decode_encode: "utf8_encode s = Some bs \<Longrightarrow> utf8_decode bs = Some s"
  by (induction s arbitrary: bs) (auto simp: utf8_decode_cp split: if_splits)

lemma utf8_decode_length: "utf8_decode bs = Some s \<Longrightarrow> length s \<le> length bs"
proof (induction bs arbitrary: s rule: utf8_decode.induct)
  case (2 b bs)
  then show ?case by (fastforce split: utf8_item.splits)
qed simp

lemma utf8_encode_ascii: "\<forall>c \<in> set s. c < 128 \<Longrightarrow> utf8_encode s = Some (map mk_byte s)"
  by (induction s) (auto simp: is_scalar_def utf8_cp_def)

lemma utf8_encode_length: "utf8_encode s = Some bs \<Longrightarrow> length s \<le> length bs"
  using utf8_decode_encode utf8_decode_length by blast

section \<open>What is decoded\<close>

text \<open>A decoded code point is a scalar value, and its shortest encoding is as long as what was read.\<close>

lemma utf8_conts_range:
  "utf8_conts n 0x80 0xBF acc k bs = Good c k' \<Longrightarrow> k' = k + n \<and> n \<le> length bs \<and> acc * 64 ^ n \<le> c \<and> c < (acc + 1) * 64 ^ n"
proof (induction n arbitrary: acc k bs)
  case (Suc n)
  then obtain b bs' where b: "bs = b # bs'" "0x80 \<le> unat b" "unat b \<le> 0xBF"
      "utf8_conts n 0x80 0xBF (acc * 64 + (unat b - 0x80)) (Suc k) bs' = Good c k'"
    by (cases bs) (auto split: if_splits)
  from Suc.IH [OF b(4)] have c: "k' = Suc k + n" "n \<le> length bs'" "(acc * 64 + (unat b - 0x80)) * 64 ^ n \<le> c"
      "c < (acc * 64 + (unat b - 0x80) + 1) * 64 ^ n" by auto
  have "acc * 64 * 64 ^ n \<le> (acc * 64 + (unat b - 0x80)) * 64 ^ n" by (rule mult_right_mono) simp_all
  moreover have "(acc * 64 + (unat b - 0x80) + 1) * 64 ^ n \<le> ((acc + 1) * 64) * 64 ^ n"
    using b(3) by (intro mult_right_mono) simp_all
  ultimately have "acc * 64 ^ Suc n \<le> c" "c < (acc + 1) * 64 ^ Suc n" using c by (simp_all add: algebra_simps)
  with c b show ?case by simp
qed simp

lemma utf8_conts_first:
  assumes "utf8_conts (Suc n) lo hi acc k bs = Good c k'" "0x80 \<le> lo"
  shows "k' = k + Suc n \<and> Suc n \<le> length bs \<and> (acc * 64 + (lo - 0x80)) * 64 ^ n \<le> c \<and> c < (acc * 64 + (hi - 0x80) + 1) * 64 ^ n"
proof -
  obtain b bs' where b: "bs = b # bs'" "lo \<le> unat b" "unat b \<le> hi"
      "utf8_conts n 0x80 0xBF (acc * 64 + (unat b - 0x80)) (Suc k) bs' = Good c k'"
    using assms by (cases bs) (auto split: if_splits)
  from utf8_conts_range [OF b(4)] have c: "k' = Suc k + n" "n \<le> length bs'" "(acc * 64 + (unat b - 0x80)) * 64 ^ n \<le> c"
      "c < (acc * 64 + (unat b - 0x80) + 1) * 64 ^ n" by auto
  have "(acc * 64 + (lo - 0x80)) * 64 ^ n \<le> (acc * 64 + (unat b - 0x80)) * 64 ^ n"
    by (rule mult_right_mono) (use b(2) in auto)
  from order_trans [OF this c(3)] have l: "(acc * 64 + (lo - 0x80)) * 64 ^ n \<le> c" .
  have "(acc * 64 + (unat b - 0x80) + 1) * 64 ^ n \<le> (acc * 64 + (hi - 0x80) + 1) * 64 ^ n"
    by (rule mult_right_mono) (use b(3) in auto)
  from less_le_trans [OF c(4) this] have "c < (acc * 64 + (hi - 0x80) + 1) * 64 ^ n" .
  with l c(1,2) b(1) show ?thesis by (intro conjI) auto
qed

lemma utf8_step_Good:
  assumes "utf8_step b bs = Good c k"
  shows "is_scalar c \<and> length (utf8_cp c) = Suc k \<and> k \<le> length bs"
proof -
  note [dest!] = utf8_conts_first and [simp] = is_scalar_def utf8_cp_def
  consider "b < 0x80" | "0xC2 \<le> b" "b \<le> 0xDF" | "b = 0xE0" | "b = 0xED" | "0xE1 \<le> b" "b \<le> 0xEF" "b \<noteq> 0xED"
    | "b = 0xF0" | "0xF1 \<le> b" "b \<le> 0xF3" | "b = 0xF4"
    using assms by (fastforce simp: utf8_step_def split: if_splits)
  then show ?thesis
  proof cases
    case 2
    with assms have "utf8_conts (Suc 0) 0x80 0xBF (b - 0xC0) 0 bs = Good c k" by (simp add: utf8_step_def)
    with 2 show ?thesis by (auto simp del: utf8_conts.simps)
  next
    case 5
    with assms have "utf8_conts (Suc (Suc 0)) 0x80 0xBF (b - 0xE0) 0 bs = Good c k" by (simp add: utf8_step_def)
    then have r: "k = 2" "2 \<le> length bs" "(b - 0xE0) * 4096 \<le> c" "c < (b - 0xE0) * 4096 + 4096" by (auto simp del: utf8_conts.simps)
    have "b - 0xE0 \<le> 12 \<or> b - 0xE0 \<ge> 14" "1 \<le> b - 0xE0" "b - 0xE0 \<le> 15" using 5 by auto
    then have "0x800 \<le> c" "c < 0x10000" "c < 0xD800 \<or> 0xDFFF < c" using r by auto
    with r show ?thesis by auto
  next
    case 7
    with assms have "utf8_conts (Suc (Suc (Suc 0))) 0x80 0xBF (b - 0xF0) 0 bs = Good c k" by (simp add: utf8_step_def)
    with 7 show ?thesis by (auto simp del: utf8_conts.simps)
  qed (use assms in \<open>auto simp: utf8_step_def simp del: utf8_conts.simps\<close>)
qed

end
