(* ===== verification/Dtj_Format.thy ===== *)
theory Dtj_Format imports Le_Bytes Utf8 "HOL-Library.Product_Lexorder" begin

text \<open>
  The DTJ v1 data model and record decoders of \<open>dtj_native.py\<close>: structured errors, the
  dictionary, typed field values, and the decoders of the file header, of dictionary chunks,
  of typed payloads and of event chunks. Integers read from the file are natural numbers or
  integers (Python ints); floats are kept as the bit patterns the file holds.
\<close>

section \<open>Format constants and errors\<close>

definition FILE_MAGIC :: bytes where "FILE_MAGIC = [0x44, 0x54, 0x4A, 0x31]"
definition CHUNK_MAGIC :: bytes where "CHUNK_MAGIC = [0x44, 0x54, 0x4A, 0x43]"
lemma length_magic [simp]: "length FILE_MAGIC = 4" "length CHUNK_MAGIC = 4"
  by (simp_all add: FILE_MAGIC_def CHUNK_MAGIC_def)

abbreviation (input) "FORMAT_VERSION \<equiv> 1 :: nat"
abbreviation (input) "HEADER_SIZE \<equiv> 128 :: nat"
abbreviation (input) "CHUNK_HEADER_SIZE \<equiv> 24 :: nat"
abbreviation (input) "CHUNK_TRAILER_SIZE \<equiv> 8 :: nat"
abbreviation (input) "ENDIAN_MAGIC \<equiv> 0x01020304 :: nat"
abbreviation (input) "COMMITTED_MARKER \<equiv> 0xD7C0FFEE :: nat"
abbreviation (input) "MAX_CHUNK_PAYLOAD \<equiv> 16777216 :: nat"
abbreviation (input) "MAX_DICT_NAME_LEN \<equiv> 1024 :: nat"
abbreviation (input) "MAX_DICT_ENTRIES \<equiv> 65535 :: nat"
abbreviation (input) "MAX_EVENTS_PER_CHUNK \<equiv> 65535 :: nat"
abbreviation (input) "MAX_EVENT_PAYLOAD \<equiv> 65535 :: nat"
abbreviation (input) "MAX_BYTES_VALUE \<equiv> 4096 :: nat"
abbreviation (input) "CHUNK_TYPE_DICTIONARY \<equiv> 1 :: nat"
abbreviation (input) "CHUNK_TYPE_EVENT \<equiv> 2 :: nat"

text \<open>The exception \<open>DtjError(kind, message, **fields)\<close>.\<close>

datatype dtj_error = DtjError (err_kind: pystr) (err_message: pystr) (err_fields: jdict)

definition to_error_dict :: "dtj_error \<Rightarrow> jdict" where
  "to_error_dict e =
     (u ''kind'', JStr (err_kind e)) # err_fields e @ [(u ''message'', JStr (err_message e))]"

abbreviation nstr :: "nat \<Rightarrow> pystr" where "nstr n \<equiv> str_int (int n)"
abbreviation jnat :: "nat \<Rightarrow> json" where "jnat n \<equiv> JInt (int n)"

definition malformed :: "string \<Rightarrow> dtj_error" where
  "malformed s = DtjError (u ''MalformedRecord'') (u ''malformed record: '' @ u s) []"

definition limit_exceeded :: "string \<Rightarrow> dtj_error" where
  "limit_exceeded s = DtjError (u ''LimitExceeded'') (u ''limit exceeded: '' @ u s) []"

definition sequence_gap :: "nat \<Rightarrow> nat \<Rightarrow> dtj_error" where
  "sequence_gap expected found = DtjError (u ''SequenceGap'')
     (u ''sequence gap: expected '' @ nstr expected @ u '', found '' @ nstr found)
     [(u ''expected'', jnat expected), (u ''found'', jnat found)]"

lemma err_kind_simps [simp]:
  "err_kind (malformed s) = u ''MalformedRecord''"
  "err_kind (limit_exceeded s) = u ''LimitExceeded''"
  "err_kind (sequence_gap a b) = u ''SequenceGap''"
  by (simp_all add: malformed_def limit_exceeded_def sequence_gap_def)

text \<open>Hexadecimal text: \<open>bytes.hex()\<close> in lower case, \<open>f"{tag:02X}"\<close> in upper case.\<close>

definition hex_lower :: "nat \<Rightarrow> nat" where "hex_lower d = (if d < 10 then 48 + d else 87 + d)"
definition hex_upper :: "nat \<Rightarrow> nat" where "hex_upper d = (if d < 10 then 48 + d else 55 + d)"

definition hex_bytes :: "bytes \<Rightarrow> pystr" where
  "hex_bytes bs = concat (map (\<lambda>b. [hex_lower (unat b div 16), hex_lower (unat b mod 16)]) bs)"

section \<open>The dictionary\<close>

datatype dict_kind = DOMAIN | CATEGORY | EVENT_NAME | STRING

fun kind_num :: "dict_kind \<Rightarrow> nat" where
  "kind_num DOMAIN = 1" | "kind_num CATEGORY = 2" | "kind_num EVENT_NAME = 3" | "kind_num STRING = 4"

definition dict_kind_from_u8 :: "nat \<Rightarrow> dtj_error + dict_kind" where
  "dict_kind_from_u8 v =
     (if v = 1 then Inr DOMAIN else if v = 2 then Inr CATEGORY
      else if v = 3 then Inr EVENT_NAME else if v = 4 then Inr STRING
      else Inl (DtjError (u ''MalformedRecord'')
        (u ''malformed record: unknown dict kind '' @ nstr v) []))"

record dict_entry =
  entry_kind :: dict_kind
  entry_id :: nat
  entry_name :: pystr

record dictionary =
  by_key :: "((dict_kind \<times> nat) \<times> pystr) list"

definition empty_dictionary :: dictionary where
  "empty_dictionary = \<lparr>by_key = []\<rparr>"

definition get_name :: "dictionary \<Rightarrow> dict_kind \<Rightarrow> nat \<Rightarrow> pystr option" where
  "get_name d k i = map_of (by_key d) (k, i)"

definition require :: "dictionary \<Rightarrow> dict_kind \<Rightarrow> nat \<Rightarrow> dtj_error + pystr" where
  "require d k i =
     (case get_name d k i of
        Some n \<Rightarrow> Inr n
      | None \<Rightarrow> Inl (DtjError (u ''UnknownDictionaryId'')
          (u ''unknown dictionary id kind='' @ nstr (kind_num k) @ u '' id='' @ nstr i)
          [(u ''dict_kind'', jnat (kind_num k)), (u ''id'', jnat i)]))"

definition dict_insert :: "dictionary \<Rightarrow> dict_entry \<Rightarrow> dtj_error + dictionary" where
  "dict_insert d e =
     (if entry_id e = 0 then Inl (malformed ''dictionary id must be >= 1'')
      else if MAX_DICT_NAME_LEN < length (entry_name e)
      then Inl (limit_exceeded ''dictionary name too long'')
      else case map_of (by_key d) (entry_kind e, entry_id e) of
        Some existing \<Rightarrow>
          (if existing \<noteq> entry_name e
           then Inl (DtjError (u ''DuplicateDictionaryId'')
             (u ''dictionary id conflict kind='' @ nstr (kind_num (entry_kind e)) @ u '' id='' @ nstr (entry_id e))
             [(u ''dict_kind'', jnat (kind_num (entry_kind e))), (u ''id'', jnat (entry_id e))])
           else Inr d)
      | None \<Rightarrow>
          Inr (d\<lparr>by_key := AList.update (entry_kind e, entry_id e) (entry_name e) (by_key d)\<rparr>))"

definition iter_entries :: "dictionary \<Rightarrow> (dict_kind \<times> nat \<times> pystr) list" where
  "iter_entries d =
     sort_key (\<lambda>(k, i, n). (kind_num k, i)) (map (\<lambda>((k, i), n). (k, i, n)) (by_key d))"

section \<open>Typed values, events, headers\<close>

datatype field_value =
    VBool bool
  | VI32 int
  | VI64 int
  | VU32 nat
  | VU64 nat
  | VF32 nat
  | VF64 nat
  | VEnum nat
  | VVec2 nat nat
  | VVec3 nat nat nat
  | VInterned nat
  | VBytes bytes

fun value_type_name :: "field_value \<Rightarrow> string" where
  "value_type_name (VBool b) = ''bool''"
| "value_type_name (VI32 i) = ''i32''"
| "value_type_name (VI64 i) = ''i64''"
| "value_type_name (VU32 n) = ''u32''"
| "value_type_name (VU64 n) = ''u64''"
| "value_type_name (VF32 w) = ''f32''"
| "value_type_name (VF64 w) = ''f64''"
| "value_type_name (VEnum n) = ''enum''"
| "value_type_name (VVec2 x y) = ''vec2_f32''"
| "value_type_name (VVec3 x y z) = ''vec3_f32''"
| "value_type_name (VInterned n) = ''interned_string''"
| "value_type_name (VBytes bs) = ''bytes''"

record pfield =
  fld_name_id :: nat
  fld_value :: field_value

record event_record =
  monotonic_ns :: nat
  event_sequence :: nat
  domain_id :: nat
  category_id :: nat
  event_name_id :: nat
  correlation_id :: nat
  severity :: nat
  payload :: "pfield list"

record file_header =
  format_version :: nat
  flags :: nat
  session_id :: bytes
  start_utc_unix_ms :: int
  mono_origin_ns :: nat
  producer_name :: pystr
  producer_version :: pystr

section \<open>The file header\<close>

definition nul_terminated :: "bytes \<Rightarrow> pystr" where
  "nul_terminated raw = utf8_decode_replace (takeWhile (\<lambda>b. b \<noteq> 0) raw)"

definition decode_header :: "bytes \<Rightarrow> dtj_error + file_header" where
  "decode_header buf =
     (if length buf < HEADER_SIZE then Inl (malformed ''file shorter than header'')
      else if slice buf 0 4 \<noteq> FILE_MAGIC
      then Inl (DtjError (u ''InvalidMagic'') (u ''invalid DTJ file magic'') [])
      else let version = u16_at buf 4 in
      if version \<noteq> FORMAT_VERSION
      then Inl (DtjError (u ''UnsupportedVersion'') (u ''unsupported DTJ format_version '' @ nstr version)
             [(u ''format_version'', jnat version)])
      else let header_size = u16_at buf 6 in
      if header_size \<noteq> HEADER_SIZE
      then Inl (DtjError (u ''InvalidHeaderSize'') (u ''invalid header_size '' @ nstr header_size)
             [(u ''header_size'', jnat header_size)])
      else if u32_at buf 8 \<noteq> ENDIAN_MAGIC
      then Inl (DtjError (u ''InvalidEndian'') (u ''invalid endian_magic (expected LE 0x01020304)'') [])
      else Inr \<lparr>format_version = version, flags = u32_at buf 12, session_id = slice buf 16 32,
        start_utc_unix_ms = i64_at buf 32, mono_origin_ns = u64_at buf 40,
        producer_name = nul_terminated (slice buf 48 80),
        producer_version = nul_terminated (slice buf 80 96)\<rparr>)"

section \<open>Counted sequences of records\<close>

text \<open>
  Every decoder reads a count and runs its loop body that many times over the same buffer, the
  body advancing the offset: \<open>for _ in range(count): ...\<close>.
\<close>

fun repeat_decode ::
  "(bytes \<Rightarrow> nat \<Rightarrow> 'e + ('a \<times> nat)) \<Rightarrow> nat \<Rightarrow> bytes \<Rightarrow> nat \<Rightarrow> 'e + ('a list \<times> nat)" where
  "repeat_decode body 0 buf off = Inr ([], off)"
| "repeat_decode body (Suc n) buf off =
     bindE (body buf off) (\<lambda>(x, off1).
     bindE (repeat_decode body n buf off1) (\<lambda>(xs, off2). Inr (x # xs, off2)))"

lemma repeat_decode_numeral [simp]:
  "repeat_decode body (numeral k) buf off =
     bindE (body buf off) (\<lambda>(x, off1).
     bindE (repeat_decode body (pred_numeral k) buf off1) (\<lambda>(xs, off2). Inr (x # xs, off2)))"
  unfolding numeral_eq_Suc [of k] by (rule repeat_decode.simps)

section \<open>Dictionary chunks\<close>

definition decode_dict_entry :: "bytes \<Rightarrow> nat \<Rightarrow> dtj_error + (dict_entry \<times> nat)" where
  "decode_dict_entry buf offset =
     (if length buf < offset + 10 then Inl (malformed ''truncated dictionary entry'')
      else bindE (dict_kind_from_u8 (byte_at buf offset)) (\<lambda>kind.
        let eid = u32_at buf (offset + 4);
            name_len = u16_at buf (offset + 8);
            offset = offset + 10
        in if MAX_DICT_NAME_LEN < name_len then Inl (limit_exceeded ''dictionary name too long'')
           else if length buf < offset + name_len then Inl (malformed ''dictionary name truncated'')
           else case utf8_decode (slice buf offset (offset + name_len)) of
             None \<Rightarrow> Inl (malformed ''dictionary name not UTF-8'')
           | Some name \<Rightarrow>
               Inr (\<lparr>entry_kind = kind, entry_id = eid, entry_name = name\<rparr>, offset + name_len)))"

definition decode_dict_entries :: "bytes \<Rightarrow> dtj_error + dict_entry list" where
  "decode_dict_entries buf =
     (if length buf < 4 then Inl (malformed ''dictionary payload too short'')
      else let count = u32_at buf 0 in
      if MAX_DICT_ENTRIES < count then Inl (limit_exceeded ''too many dictionary entries'')
      else bindE (repeat_decode decode_dict_entry count buf 4) (\<lambda>(entries, offset).
        if offset \<noteq> length buf
        then Inl (malformed ''dictionary payload has trailing bytes'')
        else Inr entries))"

section \<open>Typed payloads\<close>

definition decode_value :: "nat \<Rightarrow> bytes \<Rightarrow> dtj_error + (field_value \<times> nat)" where
  "decode_value tag buf =
     (if tag = 0x01 then
        (if buf = [] then Inl (malformed ''bool truncated'')
         else if byte_at buf 0 = 0 then Inr (VBool False, 1)
         else if byte_at buf 0 = 1 then Inr (VBool True, 1)
         else Inl (malformed ''bool not 0/1''))
      else if tag = 0x02 then
        (if length buf < 4 then Inl (malformed ''i32 truncated'') else Inr (VI32 (i32_at buf 0), 4))
      else if tag = 0x03 then
        (if length buf < 8 then Inl (malformed ''i64 truncated'') else Inr (VI64 (i64_at buf 0), 8))
      else if tag = 0x04 then
        (if length buf < 4 then Inl (malformed ''u32 truncated'') else Inr (VU32 (u32_at buf 0), 4))
      else if tag = 0x05 then
        (if length buf < 8 then Inl (malformed ''u64 truncated'') else Inr (VU64 (u64_at buf 0), 8))
      else if tag = 0x06 then
        (if length buf < 4 then Inl (malformed ''f32 truncated'') else Inr (VF32 (u32_at buf 0), 4))
      else if tag = 0x07 then
        (if length buf < 8 then Inl (malformed ''f64 truncated'') else Inr (VF64 (u64_at buf 0), 8))
      else if tag = 0x08 then
        (if length buf < 4 then Inl (malformed ''enum truncated'') else Inr (VEnum (u32_at buf 0), 4))
      else if tag = 0x09 then
        (if length buf < 8 then Inl (malformed ''vec2 truncated'')
         else Inr (VVec2 (u32_at buf 0) (u32_at buf 4), 8))
      else if tag = 0x0A then
        (if length buf < 12 then Inl (malformed ''vec3 truncated'')
         else Inr (VVec3 (u32_at buf 0) (u32_at buf 4) (u32_at buf 8), 12))
      else if tag = 0x0B then
        (if length buf < 4 then Inl (malformed ''interned truncated'')
         else Inr (VInterned (u32_at buf 0), 4))
      else if tag = 0x0C then
        (if length buf < 2 then Inl (malformed ''bytes len truncated'')
         else let len = u16_at buf 0 in
           if MAX_BYTES_VALUE < len then Inl (limit_exceeded ''Bytes value > 4096'')
           else if length buf < 2 + len then Inl (malformed ''bytes truncated'')
           else Inr (VBytes (slice buf 2 (2 + len)), 2 + len))
      else Inl (DtjError (u ''UnknownTypeTag'')
        (u ''unknown typed payload tag 0x'' @ [hex_upper (tag div 16), hex_upper (tag mod 16)])
        [(u ''tag'', jnat tag)]))"

definition decode_field :: "bytes \<Rightarrow> nat \<Rightarrow> dtj_error + (pfield \<times> nat)" where
  "decode_field buf offset =
     (if length buf < offset + 6 then Inl (malformed ''truncated field header'')
      else let name_id = u32_at buf offset; tag = byte_at buf (offset + 4); offset = offset + 6
      in bindE (decode_value tag (drop offset buf)) (\<lambda>(value, consumed).
           Inr (\<lparr>fld_name_id = name_id, fld_value = value\<rparr>, offset + consumed)))"

definition decode_payload :: "bytes \<Rightarrow> dtj_error + pfield list" where
  "decode_payload buf =
     (if length buf < 2 then Inl (malformed ''payload shorter than field_count'')
      else bindE (repeat_decode decode_field (u16_at buf 0) buf 2) (\<lambda>(fields, offset).
        if offset \<noteq> length buf
        then Inl (DtjError (u ''MalformedRecord'')
          (u ''malformed record: payload has '' @ str_int (int (length buf) - int offset) @ u '' trailing bytes'') [])
        else Inr fields))"

section \<open>Event chunks\<close>

definition decode_event :: "bytes \<Rightarrow> nat \<Rightarrow> dtj_error + (event_record \<times> nat)" where
  "decode_event buf offset =
     (if length buf < offset + 40 then Inl (malformed ''truncated event header'')
      else let severity_byte = byte_at buf (offset + 32) in
      if 5 < severity_byte
      then Inl (DtjError (u ''InvalidSeverity'') (u ''invalid severity '' @ nstr severity_byte)
             [(u ''severity'', jnat severity_byte)])
      else let payload_len = u32_at buf (offset + 36) in
      if MAX_EVENT_PAYLOAD < payload_len then Inl (limit_exceeded ''event payload too large'')
      else if length buf < offset + 40 + payload_len
      then Inl (malformed ''event payload truncated'')
      else bindE (decode_payload (slice buf (offset + 40) (offset + 40 + payload_len))) (\<lambda>fields.
        Inr (\<lparr>monotonic_ns = u64_at buf offset, event_sequence = u64_at buf (offset + 8),
               domain_id = u32_at buf (offset + 16), category_id = u32_at buf (offset + 20),
               event_name_id = u32_at buf (offset + 24), correlation_id = u32_at buf (offset + 28),
               severity = severity_byte, payload = fields\<rparr>,
             offset + 40 + payload_len)))"

definition decode_events :: "bytes \<Rightarrow> dtj_error + event_record list" where
  "decode_events buf =
     (if length buf < 4 then Inl (malformed ''event chunk too short'')
      else let count = u32_at buf 0 in
      if MAX_EVENTS_PER_CHUNK < count then Inl (limit_exceeded ''too many events in Event chunk'')
      else bindE (repeat_decode decode_event count buf 4) (\<lambda>(events, offset).
        if offset \<noteq> length buf then Inl (malformed ''event chunk has trailing bytes'')
        else Inr events))"

end
