(* ===== verification/Crc32.thy ===== *)
theory Crc32 imports Prelude begin

text \<open>
  The CRC-32 of \<open>zlib.crc32\<close> (ISO-HDLC, reflected polynomial \<open>0xEDB88320\<close>), which
  the reader checks on every committed chunk, and why it catches corruption: one step of the
  register is a bijection, so two payloads that differ in exactly one byte never agree.
\<close>

unbundle bit_operations_syntax

definition crc_bit :: "32 word \<Rightarrow> 32 word" where
  "crc_bit c = (if bit c 0 then drop_bit 1 c XOR 0xEDB88320 else drop_bit 1 c)"

definition crc_byte :: "32 word \<Rightarrow> byte \<Rightarrow> 32 word" where
  "crc_byte c b = (crc_bit ^^ 8) (c XOR ucast b)"

definition crc32 :: "bytes \<Rightarrow> 32 word" where
  "crc32 bs = NOT (foldl crc_byte 0xFFFFFFFF bs)"

lemma bit32_out: "\<not> bit (c :: 32 word) 32"
  using bit_imp_le_length [of c 32] by auto

lemma crc_bit_top: "bit (crc_bit c) 31 = bit c 0"
  by (simp add: crc_bit_def bit_simps bit32_out)

lemma xor_cancel_right: "(x :: 32 word) XOR k = y XOR k \<longleftrightarrow> x = y"
  by (rule iffI) (drule arg_cong [where f = "\<lambda>z. z XOR k"], simp add: xor.assoc, simp)

lemma crc_bit_inj: "crc_bit c = crc_bit d \<Longrightarrow> c = d"
proof -
  assume eq: "crc_bit c = crc_bit d"
  then have parity: "bit c 0 = bit d 0" by (metis crc_bit_top)
  with eq have dr: "drop_bit 1 c = drop_bit 1 d"
    unfolding crc_bit_def by (cases "bit c 0") (simp_all only: if_True if_False xor_cancel_right)
  show "c = d"
  proof (rule bit_word_eqI)
    fix n assume "n < LENGTH(32)"
    show "bit c n = bit d n"
    proof (cases n)
      case 0
      with parity show ?thesis by simp
    next
      case (Suc m)
      have "bit (drop_bit 1 c) m = bit (drop_bit 1 d) m" by (simp only: dr)
      with Suc show ?thesis by (simp add: bit_simps)
    qed
  qed
qed

lemma crc_bit_pow_inj: "(crc_bit ^^ n) c = (crc_bit ^^ n) d \<Longrightarrow> c = d"
  by (induction n) (auto dest: crc_bit_inj)

lemma crc_byte_inj_state: "crc_byte c b = crc_byte d b \<Longrightarrow> c = d"
  unfolding crc_byte_def by (drule crc_bit_pow_inj) (simp only: xor_cancel_right)

lemma crc_byte_inj_byte: "crc_byte c a = crc_byte c b \<Longrightarrow> a = b"
proof -
  assume "crc_byte c a = crc_byte c b"
  then have "c XOR ucast a = c XOR ucast b"
    unfolding crc_byte_def by (rule crc_bit_pow_inj)
  then have "(ucast a :: 32 word) = ucast b"
    by (simp only: xor.commute [of c] xor_cancel_right)
  then have eq: "(ucast a :: 32 word) = ucast b" .
  show "a = b"
  proof (rule bit_word_eqI)
    fix n assume "n < LENGTH(8)"
    moreover have "bit (ucast a :: 32 word) n = bit (ucast b :: 32 word) n" by (simp only: eq)
    ultimately show "bit a n = bit b n" by (simp add: bit_simps)
  qed
qed

lemma crc_fold_inj: "foldl crc_byte c bs = foldl crc_byte d bs \<Longrightarrow> c = d"
  by (induction bs arbitrary: c d) (auto dest: crc_byte_inj_state)

lemma crc32_one_byte:
  assumes "a \<noteq> b"
  shows "crc32 (xs @ a # ys) \<noteq> crc32 (xs @ b # ys)"
proof
  assume "crc32 (xs @ a # ys) = crc32 (xs @ b # ys)"
  then have "NOT (NOT (foldl crc_byte 0xFFFFFFFF (xs @ a # ys)))
      = NOT (NOT (foldl crc_byte 0xFFFFFFFF (xs @ b # ys)))"
    unfolding crc32_def by (rule arg_cong)
  then have "foldl crc_byte (crc_byte (foldl crc_byte 0xFFFFFFFF xs) a) ys
      = foldl crc_byte (crc_byte (foldl crc_byte 0xFFFFFFFF xs) b) ys" by simp
  then have "crc_byte (foldl crc_byte 0xFFFFFFFF xs) a = crc_byte (foldl crc_byte 0xFFFFFFFF xs) b"
    by (rule crc_fold_inj)
  then have "a = b" by (rule crc_byte_inj_byte)
  with assms show False by contradiction
qed

text \<open>The check value of CRC-32/ISO-HDLC: the nine digits \<open>123456789\<close>.\<close>

lemma crc_byte_unroll: "crc_byte c b = crc_bit (crc_bit (crc_bit (crc_bit (crc_bit (crc_bit
    (crc_bit (crc_bit (c XOR ucast b))))))))"
  unfolding crc_byte_def
  by (simp only: numeral_eq_Suc pred_numeral_simps funpow.simps comp_apply BitM.simps
      One_nat_def id_apply)

lemmas crc_eval = crc32_def crc_byte_unroll crc_bit_def

lemma crc32_check_value:
  "crc32 [0x31, 0x32, 0x33, 0x34, 0x35, 0x36, 0x37, 0x38, 0x39] = 0xCBF43926"
  by (simp add: crc_eval)

end
