(* ===== verification/Dtj_Reader.thy ===== *)
theory Dtj_Reader imports Dtj_Format Crc32 begin

text \<open>
  The session reader \<open>open_session\<close> of \<open>dtj_native.py\<close>: the scan over committed chunks
  with its torn-tail recovery, and the validation of event references. The scan's local
  variables are a record; one loop iteration is \<open>scan_chunk\<close>, whose boolean says that the
  source set \<open>torn_tail\<close> and left the loop.
\<close>

fun insert_all :: "dictionary \<Rightarrow> dict_entry list \<Rightarrow> dtj_error + dictionary" where
  "insert_all d [] = Inr d"
| "insert_all d (e # es) = bindE (dict_insert d e) (\<lambda>d'. insert_all d' es)"

fun validate_fields :: "dictionary \<Rightarrow> pfield list \<Rightarrow> dtj_error + unit" where
  "validate_fields d [] = Inr ()"
| "validate_fields d (f # fs) =
     bindE (require d STRING (fld_name_id f)) (\<lambda>_.
     bindE (case fld_value f of VInterned i \<Rightarrow> bindE (require d STRING i) (\<lambda>_. Inr ()) | _ \<Rightarrow> Inr ())
       (\<lambda>_. validate_fields d fs))"

definition validate_event_refs :: "dictionary \<Rightarrow> event_record \<Rightarrow> dtj_error + unit" where
  "validate_event_refs d ev =
     bindE (require d DOMAIN (domain_id ev)) (\<lambda>_.
     bindE (require d CATEGORY (category_id ev)) (\<lambda>_.
     bindE (require d EVENT_NAME (event_name_id ev)) (\<lambda>_.
     bindE (if correlation_id ev \<noteq> 0 then bindE (require d STRING (correlation_id ev)) (\<lambda>_. Inr ())
            else Inr ()) (\<lambda>_.
     validate_fields d (payload ev)))))"

text \<open>The loop over the decoded events of one chunk; the result is the next expected sequence.\<close>

fun accept_events :: "dictionary \<Rightarrow> nat \<Rightarrow> event_record list \<Rightarrow> dtj_error + nat" where
  "accept_events d expected [] = Inr expected"
| "accept_events d expected (ev # evs) =
     (if event_sequence ev \<noteq> expected then Inl (sequence_gap expected (event_sequence ev))
      else bindE (validate_event_refs d ev) (\<lambda>_. accept_events d (Suc expected) evs))"

record scan =
  sc_dictionary :: dictionary
  sc_events :: "event_record list"
  sc_offset :: nat
  sc_chunk_seq :: nat
  sc_event_seq :: nat

definition init_scan :: scan where
  "init_scan = \<lparr>sc_dictionary = empty_dictionary, sc_events = [], sc_offset = HEADER_SIZE,
     sc_chunk_seq = 1, sc_event_seq = 1\<rparr>"

text \<open>What a committed chunk does to the scan, by its type; unknown types are skipped.\<close>

definition apply_chunk :: "nat \<Rightarrow> bytes \<Rightarrow> scan \<Rightarrow> dtj_error + scan" where
  "apply_chunk chunk_type pl st =
     (if chunk_type = CHUNK_TYPE_DICTIONARY then
        bindE (decode_dict_entries pl) (\<lambda>entries.
        bindE (insert_all (sc_dictionary st) entries) (\<lambda>d. Inr (st\<lparr>sc_dictionary := d\<rparr>)))
      else if chunk_type = CHUNK_TYPE_EVENT then
        bindE (decode_events pl) (\<lambda>decoded.
        bindE (accept_events (sc_dictionary st) (sc_event_seq st) decoded) (\<lambda>next_seq.
        Inr (st\<lparr>sc_event_seq := next_seq, sc_events := sc_events st @ decoded\<rparr>)))
      else Inr st)"

definition scan_chunk :: "bytes \<Rightarrow> scan \<Rightarrow> dtj_error + (scan \<times> bool)" where
  "scan_chunk data st =
     (let offset = sc_offset st; hdr = slice data offset (offset + CHUNK_HEADER_SIZE) in
      if slice hdr 0 4 \<noteq> CHUNK_MAGIC then
        (if offset = HEADER_SIZE then Inl (DtjError (u ''InvalidChunkMagic'') (u ''invalid chunk magic'') [])
         else Inr (st, True))
      else
        let chunk_type = u16_at hdr 4; sequence = u64_at hdr 8; payload_len = u32_at hdr 16;
            need = CHUNK_HEADER_SIZE + payload_len + CHUNK_TRAILER_SIZE;
            remaining = length data - offset
        in if remaining < need then Inr (st, True)
        else if MAX_CHUNK_PAYLOAD < payload_len
        then Inl (DtjError (u ''PayloadTooLarge'')
          (u ''payload_len '' @ nstr payload_len @ u '' exceeds max '' @ nstr MAX_CHUNK_PAYLOAD)
          [(u ''len'', jnat payload_len), (u ''max'', jnat MAX_CHUNK_PAYLOAD)])
        else
          let payload_start = offset + CHUNK_HEADER_SIZE;
              payload_end = payload_start + payload_len;
              pl = slice data payload_start payload_end;
              trailer = slice data payload_end (payload_end + CHUNK_TRAILER_SIZE);
              checksum = u32_at trailer 0;
              committed = u32_at trailer 4
          in if committed \<noteq> COMMITTED_MARKER then Inr (st, True)
          else if checksum \<noteq> unat (crc32 pl)
          then Inl (DtjError (u ''ChecksumMismatch'')
            (u ''checksum mismatch for chunk sequence '' @ nstr sequence) [(u ''sequence'', jnat sequence)])
          else if sequence \<noteq> sc_chunk_seq st
          then Inl (sequence_gap (sc_chunk_seq st) sequence)
          else bindE (apply_chunk chunk_type pl (st\<lparr>sc_chunk_seq := Suc (sc_chunk_seq st)\<rparr>))
            (\<lambda>st1. Inr (st1\<lparr>sc_offset := offset + need\<rparr>, False)))"

lemma bindE_cong [fundef_cong]:
  "m = m' \<Longrightarrow> (\<And>x. m' = Inr x \<Longrightarrow> f x = g x) \<Longrightarrow> bindE m f = bindE m' g"
  by (cases m') auto

lemma apply_chunk_offset: "apply_chunk ct pl st = Inr st' \<Longrightarrow> sc_offset st' = sc_offset st"
  by (auto simp: apply_chunk_def bindE_Inr_iff split: if_splits)

lemma scan_chunk_progress:
  "scan_chunk data st = Inr (st', False) \<Longrightarrow>
     sc_offset st + 32 \<le> sc_offset st' \<and> sc_offset st' \<le> max (length data) (sc_offset st + 32)"
  by (auto simp: scan_chunk_def Let_def bindE_Inr_iff split: if_splits)

function scan_loop :: "bytes \<Rightarrow> scan \<Rightarrow> dtj_error + (scan \<times> bool)" where
  "scan_loop data st =
     (if CHUNK_HEADER_SIZE + CHUNK_TRAILER_SIZE \<le> length data - sc_offset st then
        bindE (scan_chunk data st) (\<lambda>(st', torn).
          if torn then Inr (st', True) else scan_loop data st')
      else Inr (st, False))"
  by pat_completeness auto
termination
  by (relation "measure (\<lambda>(data, st). length data - sc_offset st)")
    (auto dest!: scan_chunk_progress)

declare scan_loop.simps [simp del]

record session_reader =
  header :: file_header
  dictionary_of :: dictionary
  events_of :: "event_record list"
  chunks_committed :: nat
  torn_tail :: bool

text \<open>\<open>open_session\<close>; its argument is what \<open>Path.read_bytes\<close> gives: the file's bytes, or
  the text of the \<open>OSError\<close>.\<close>

definition open_session :: "pystr + bytes \<Rightarrow> dtj_error + session_reader" where
  "open_session contents =
     (case contents of
        Inl exc \<Rightarrow> Inl (DtjError (u ''Io'') (u ''I/O error: '' @ exc) [])
      | Inr data \<Rightarrow>
          if length data < HEADER_SIZE then Inl (malformed ''file shorter than header'')
          else bindE (decode_header (slice data 0 HEADER_SIZE)) (\<lambda>hdr.
            bindE (scan_loop data init_scan) (\<lambda>(st, torn).
            Inr \<lparr>header = hdr, dictionary_of = sc_dictionary st, events_of = sc_events st,
                  chunks_committed = sc_chunk_seq st - 1,
                  torn_tail = (if sc_offset st < length data \<and> \<not> torn then True else torn)\<rparr>)))"

end
