(* ===== verification/Dtj_Writer.thy ===== *)
theory Dtj_Writer imports Dtj_Reader begin

text \<open>
  The byte layout the reader accepts, as an encoder, and the correctness of every decoder against
  it. The writer of the repository is not Python; this encoder is the specification the reader's
  theorems are stated with. A locale states what a loop body of a counted sequence must satisfy,
  and each of the three loop bodies of the reader interprets it.
\<close>

section \<open>The contract of a loop body\<close>

locale record_body =
  fixes body :: "bytes \<Rightarrow> nat \<Rightarrow> 'e + ('a \<times> nat)"
  assumes progress: "body buf off = Inr (x, off') \<Longrightarrow> off < off' \<and> off' \<le> length buf"
begin

lemma repeat_bounds:
  "repeat_decode body n buf off = Inr (xs, off') \<Longrightarrow> off \<le> length buf \<Longrightarrow>
     length xs = n \<and> off + n \<le> off' \<and> off' \<le> length buf"
proof (induction n arbitrary: off xs)
  case (Suc n)
  then obtain x off1 ys where b: "body buf off = Inr (x, off1)"
    and r: "repeat_decode body n buf off1 = Inr (ys, off')" and xs: "xs = x # ys"
    by (auto simp: bindE_Inr_iff)
  from progress [OF b] Suc.IH [OF r] xs show ?case by auto
qed auto

lemma repeat_elem:
  "repeat_decode body n buf off = Inr (xs, off') \<Longrightarrow> x \<in> set xs \<Longrightarrow>
     \<exists>o1 o2. body buf o1 = Inr (x, o2)"
  by (induction n arbitrary: off xs) (fastforce simp: bindE_Inr_iff)+

end

locale record_codec = record_body +
  fixes enc :: "'a \<Rightarrow> bytes" and ok :: "'a \<Rightarrow> bool"
  assumes dec_enc: "ok x \<Longrightarrow>
    body (pre @ enc x @ post) (length pre) = Inr (x, length pre + length (enc x))"
begin

lemma repeat_enc:
  "(\<forall>x \<in> set xs. ok x) \<Longrightarrow>
     repeat_decode body (length xs) (pre @ concat (map enc xs) @ post) (length pre) =
       Inr (xs, length pre + length (concat (map enc xs)))"
proof (induction xs arbitrary: pre)
  case (Cons x xs)
  then have "body (pre @ enc x @ concat (map enc xs) @ post) (length pre) =
      Inr (x, length (pre @ enc x))" by (simp add: dec_enc)
  moreover have "repeat_decode body (length xs) ((pre @ enc x) @ concat (map enc xs) @ post)
      (length (pre @ enc x)) = Inr (xs, length (pre @ enc x) + length (concat (map enc xs)))"
    using Cons by (intro Cons.IH) simp
  ultimately show ?case by simp
qed simp

end

section \<open>Dictionary entries\<close>

definition name_bytes :: "pystr \<Rightarrow> bytes" where
  "name_bytes s = (case utf8_encode s of Some bs \<Rightarrow> bs | None \<Rightarrow> [])"

definition enc_dict_entry :: "dict_entry \<Rightarrow> bytes" where
  "enc_dict_entry e =
     mk_byte (kind_num (entry_kind e)) # 0 # 0 # 0 # nat_le 4 (entry_id e) @
     nat_le 2 (length (name_bytes (entry_name e))) @ name_bytes (entry_name e)"

definition ok_dict_entry :: "dict_entry \<Rightarrow> bool" where
  "ok_dict_entry e = (entry_id e < 2 ^ 32 \<and> utf8_encode (entry_name e) \<noteq> None \<and>
     length (name_bytes (entry_name e)) \<le> MAX_DICT_NAME_LEN)"

lemma kind_num_bound: "1 \<le> kind_num k \<and> kind_num k \<le> 4"
  by (cases k) simp_all

lemma dict_kind_from_u8_num [codec]: "dict_kind_from_u8 (kind_num k) = Inr k"
  by (cases k) (simp_all add: dict_kind_from_u8_def)

lemma decode_name_bytes [codec]: "utf8_encode s \<noteq> None \<Longrightarrow> utf8_decode (name_bytes s) = Some s"
  by (auto simp: name_bytes_def utf8_decode_encode)

lemma u16_enc [codec]: "v < 65536 \<Longrightarrow> u16_at (nat_le 2 v @ xs) 0 = v"
  by (simp add: u16_at_def slice_def le_nat_nat_le)

lemma u32_enc [codec]: "v < 4294967296 \<Longrightarrow> u32_at (nat_le 4 v @ xs) 0 = v"
  by (simp add: u32_at_def slice_def le_nat_nat_le)

lemma u64_enc [codec]: "v < 18446744073709551616 \<Longrightarrow> u64_at (nat_le 8 v @ xs) 0 = v"
  by (simp add: u64_at_def slice_def le_nat_nat_le)

lemma read_enc_end [codec]:
  "v < 65536 \<Longrightarrow> u16_at (nat_le 2 v) 0 = v"
  "v < 4294967296 \<Longrightarrow> u32_at (nat_le 4 v) 0 = v"
  "v < 18446744073709551616 \<Longrightarrow> u64_at (nat_le 8 v) 0 = v"
  by (simp_all add: read_at_defs slice_def le_nat_nat_le)

lemma read_Cons [codec]:
  "byte_at (b # xs) 0 = unat b"
  "0 < n \<Longrightarrow> byte_at (b # xs) n = byte_at xs (n - 1)"
  "0 < n \<Longrightarrow> u16_at (b # xs) n = u16_at xs (n - 1)"
  "0 < n \<Longrightarrow> u32_at (b # xs) n = u32_at xs (n - 1)"
  "0 < n \<Longrightarrow> u64_at (b # xs) n = u64_at xs (n - 1)"
  "0 < n \<Longrightarrow> i64_at (b # xs) n = i64_at xs (n - 1)"
  by (simp_all add: read_at_defs slice_def nth_Cons' drop_Cons')

lemma read_skip [codec]:
  "length a \<le> n \<Longrightarrow> byte_at (a @ xs) n = byte_at xs (n - length a)"
  "length a \<le> n \<Longrightarrow> u16_at (a @ xs) n = u16_at xs (n - length a)"
  "length a \<le> n \<Longrightarrow> u32_at (a @ xs) n = u32_at xs (n - length a)"
  "length a \<le> n \<Longrightarrow> u64_at (a @ xs) n = u64_at xs (n - length a)"
  "length a \<le> n \<Longrightarrow> i64_at (a @ xs) n = i64_at xs (n - length a)"
  by (simp_all add: read_at_defs slice_def nth_append)

lemma slice_Cons [codec]: "0 < a \<Longrightarrow> slice (x # xs) a b = slice xs (a - 1) (b - 1)"
  by (simp add: slice_def drop_Cons')

lemma decode_dict_entry_enc:
  assumes "ok_dict_entry e"
  shows "decode_dict_entry (pre @ enc_dict_entry e @ post) (length pre) =
    Inr (e, length pre + length (enc_dict_entry e))"
proof -
  obtain n where n: "name_bytes (entry_name e) = n" by simp
  from assms have 1: "entry_id e < 4294967296" "length n \<le> 1024"
    and 2: "utf8_decode n = Some (entry_name e)"
    using n by (auto simp: ok_dict_entry_def decode_name_bytes)
  have k: "kind_num (entry_kind e) < 256" using kind_num_bound [of "entry_kind e"] by simp
  show ?thesis
    using 1 2 k by (simp add: decode_dict_entry_def enc_dict_entry_def n codec add.assoc)
qed

lemma decode_dict_entry_progress:
  "decode_dict_entry buf off = Inr (x, off') \<Longrightarrow> off < off' \<and> off' \<le> length buf"
  by (auto simp: decode_dict_entry_def bindE_Inr_iff Let_def split: if_splits option.splits)

interpretation dict_entry_codec: record_codec decode_dict_entry enc_dict_entry ok_dict_entry
  by unfold_locales (auto dest: decode_dict_entry_progress simp: decode_dict_entry_enc)

section \<open>Typed values and fields\<close>

fun value_tag :: "field_value \<Rightarrow> nat" where
  "value_tag (VBool b) = 0x01"
| "value_tag (VI32 i) = 0x02"
| "value_tag (VI64 i) = 0x03"
| "value_tag (VU32 n) = 0x04"
| "value_tag (VU64 n) = 0x05"
| "value_tag (VF32 w) = 0x06"
| "value_tag (VF64 w) = 0x07"
| "value_tag (VEnum n) = 0x08"
| "value_tag (VVec2 x y) = 0x09"
| "value_tag (VVec3 x y z) = 0x0A"
| "value_tag (VInterned n) = 0x0B"
| "value_tag (VBytes bs) = 0x0C"

fun enc_value :: "field_value \<Rightarrow> bytes" where
  "enc_value (VBool b) = [if b then 1 else 0]"
| "enc_value (VI32 i) = nat_le 4 (of_signed 32 i)"
| "enc_value (VI64 i) = nat_le 8 (of_signed 64 i)"
| "enc_value (VU32 n) = nat_le 4 n"
| "enc_value (VU64 n) = nat_le 8 n"
| "enc_value (VF32 w) = nat_le 4 w"
| "enc_value (VF64 w) = nat_le 8 w"
| "enc_value (VEnum n) = nat_le 4 n"
| "enc_value (VVec2 x y) = nat_le 4 x @ nat_le 4 y"
| "enc_value (VVec3 x y z) = nat_le 4 x @ nat_le 4 y @ nat_le 4 z"
| "enc_value (VInterned n) = nat_le 4 n"
| "enc_value (VBytes bs) = nat_le 2 (length bs) @ bs"

fun ok_value :: "field_value \<Rightarrow> bool" where
  "ok_value (VBool b) = True"
| "ok_value (VI32 i) = (- (2 ^ 31) \<le> i \<and> i < 2 ^ 31)"
| "ok_value (VI64 i) = (- (2 ^ 63) \<le> i \<and> i < 2 ^ 63)"
| "ok_value (VU32 n) = (n < 2 ^ 32)"
| "ok_value (VU64 n) = (n < 2 ^ 64)"
| "ok_value (VF32 w) = (w < 2 ^ 32)"
| "ok_value (VF64 w) = (w < 2 ^ 64)"
| "ok_value (VEnum n) = (n < 2 ^ 32)"
| "ok_value (VVec2 x y) = (x < 2 ^ 32 \<and> y < 2 ^ 32)"
| "ok_value (VVec3 x y z) = (x < 2 ^ 32 \<and> y < 2 ^ 32 \<and> z < 2 ^ 32)"
| "ok_value (VInterned n) = (n < 2 ^ 32)"
| "ok_value (VBytes bs) = (length bs \<le> MAX_BYTES_VALUE)"

lemma i32_enc [codec]:
  assumes "- (2 ^ 31) \<le> i" "i < 2 ^ 31"
  shows "i32_at (nat_le 4 (of_signed 32 i) @ xs) 0 = i"
proof -
  have "to_signed 32 (of_signed 32 i) = i" and "of_signed 32 i < 2 ^ 32"
    using to_signed_of_signed [of 32 i] assms by simp_all
  then show ?thesis by (simp add: i32_at_def u32_enc)
qed

lemma i64_enc [codec]:
  assumes "- (2 ^ 63) \<le> i" "i < 2 ^ 63"
  shows "i64_at (nat_le 8 (of_signed 64 i) @ xs) 0 = i"
proof -
  have "to_signed 64 (of_signed 64 i) = i" and "of_signed 64 i < 2 ^ 64"
    using to_signed_of_signed [of 64 i] assms by simp_all
  then show ?thesis by (simp add: i64_at_def u64_enc)
qed

lemma decode_value_enc:
  "ok_value v \<Longrightarrow> decode_value (value_tag v) (enc_value v @ post) = Inr (v, length (enc_value v))"
  by (cases v) (auto simp: decode_value_def codec Let_def)

lemma decode_value_progress:
  "decode_value tag buf = Inr (v, n) \<Longrightarrow> 0 < n \<and> n \<le> length buf"
  by (cases buf) (auto simp: decode_value_def Let_def split: if_splits)

lemma i32_at_range: "- (2 ^ 31) \<le> i32_at buf off \<and> i32_at buf off < 2 ^ 31"
  using u32_at_bound [of buf off] by (auto simp: i32_at_def to_signed_def)

lemma i64_at_range: "- (2 ^ 63) \<le> i64_at buf off \<and> i64_at buf off < 2 ^ 63"
  using u64_at_bound [of buf off] by (auto simp: i64_at_def to_signed_def)

lemma decode_value_ok: "decode_value tag buf = Inr (v, n) \<Longrightarrow> ok_value v"
  using i32_at_range [of buf 0] i64_at_range [of buf 0] u32_at_bound [of buf 0]
    u64_at_bound [of buf 0] u32_at_bound [of buf 4] u32_at_bound [of buf 8]
  by (auto simp: decode_value_def Let_def split: if_splits)

definition enc_field :: "pfield \<Rightarrow> bytes" where
  "enc_field f = nat_le 4 (fld_name_id f) @ mk_byte (value_tag (fld_value f)) # 0 # enc_value (fld_value f)"

definition ok_field :: "pfield \<Rightarrow> bool" where
  "ok_field f = (fld_name_id f < 2 ^ 32 \<and> ok_value (fld_value f))"

lemma value_tag_bound: "value_tag v < 256"
  by (cases v) simp_all

lemma decode_field_enc:
  assumes "ok_field f"
  shows "decode_field (pre @ enc_field f @ post) (length pre) = Inr (f, length pre + length (enc_field f))"
proof -
  from assms have "fld_name_id f < 4294967296" "ok_value (fld_value f)"
    by (simp_all add: ok_field_def)
  then show ?thesis
    using value_tag_bound [of "fld_value f"]
    by (simp add: decode_field_def enc_field_def codec decode_value_enc Let_def)
qed

lemma decode_field_progress:
  "decode_field buf off = Inr (x, off') \<Longrightarrow> off < off' \<and> off' \<le> length buf"
  by (auto simp: decode_field_def bindE_Inr_iff Let_def split: if_splits
      dest!: decode_value_progress)

interpretation field_codec: record_codec decode_field enc_field ok_field
  by unfold_locales (auto dest: decode_field_progress simp: decode_field_enc)

section \<open>Payloads and events\<close>

definition enc_payload :: "pfield list \<Rightarrow> bytes" where
  "enc_payload fs = nat_le 2 (length fs) @ concat (map enc_field fs)"

definition ok_payload :: "pfield list \<Rightarrow> bool" where
  "ok_payload fs = ((\<forall>f \<in> set fs. ok_field f) \<and> length fs < 2 ^ 16 \<and>
     length (enc_payload fs) \<le> MAX_EVENT_PAYLOAD)"

lemma decode_payload_enc:
  assumes "ok_payload fs"
  shows "decode_payload (enc_payload fs) = Inr fs"
proof -
  have "repeat_decode decode_field (length fs) (nat_le 2 (length fs) @ concat (map enc_field fs) @ [])
      (length (nat_le 2 (length fs))) = Inr (fs, length (nat_le 2 (length fs)) + length (concat (map enc_field fs)))"
    using assms by (intro field_codec.repeat_enc) (simp add: ok_payload_def)
  then show ?thesis
    using assms by (simp add: decode_payload_def enc_payload_def ok_payload_def codec)
qed

definition enc_event :: "event_record \<Rightarrow> bytes" where
  "enc_event ev =
     nat_le 8 (monotonic_ns ev) @ nat_le 8 (event_sequence ev) @ nat_le 4 (domain_id ev) @
     nat_le 4 (category_id ev) @ nat_le 4 (event_name_id ev) @ nat_le 4 (correlation_id ev) @
     mk_byte (severity ev) # 0 # 0 # 0 # nat_le 4 (length (enc_payload (payload ev))) @
     enc_payload (payload ev)"

definition ok_event :: "event_record \<Rightarrow> bool" where
  "ok_event ev = (monotonic_ns ev < 2 ^ 64 \<and> event_sequence ev < 2 ^ 64 \<and> domain_id ev < 2 ^ 32 \<and>
     category_id ev < 2 ^ 32 \<and> event_name_id ev < 2 ^ 32 \<and> correlation_id ev < 2 ^ 32 \<and>
     severity ev \<le> 5 \<and> ok_payload (payload ev))"

lemma decode_event_enc:
  assumes "ok_event ev"
  shows "decode_event (pre @ enc_event ev @ post) (length pre) = Inr (ev, length pre + length (enc_event ev))"
proof -
  obtain p where p: "enc_payload (payload ev) = p" by simp
  from assms have b: "monotonic_ns ev < 18446744073709551616" "event_sequence ev < 18446744073709551616"
    "domain_id ev < 4294967296" "category_id ev < 4294967296" "event_name_id ev < 4294967296"
    "correlation_id ev < 4294967296" "severity ev \<le> 5" "severity ev < 256" "length p \<le> 65535"
    and d: "decode_payload p = Inr (payload ev)"
    using p by (auto simp: ok_event_def decode_payload_enc ok_payload_def)
  show ?thesis
    using b d by (simp add: decode_event_def enc_event_def p codec Let_def add.assoc)
qed

lemma decode_event_progress:
  "decode_event buf off = Inr (x, off') \<Longrightarrow> off < off' \<and> off' \<le> length buf"
  by (auto simp: decode_event_def bindE_Inr_iff Let_def split: if_splits)

interpretation event_codec: record_codec decode_event enc_event ok_event
  by unfold_locales (auto dest: decode_event_progress simp: decode_event_enc)

end
