(* ===== verification/Dtj_Session.thy ===== *)
theory Dtj_Session imports Dtj_Writer begin

text \<open>
  What a session file means, and that \<open>open_session\<close> computes it: a session is a header and a
  sequence of chunks; its meaning folds the chunks over a dictionary and an event list with no
  offsets, sequence counters or checksums. The scan over the bytes is shown to refine this.
\<close>

section \<open>Sessions as sequences of chunks\<close>

datatype chunk =
    DictChunk "dict_entry list"
  | EventChunk "event_record list"
  | OtherChunk nat bytes

record trace =
  tr_dictionary :: dictionary
  tr_events :: "event_record list"

definition empty_trace :: trace where
  "empty_trace = \<lparr>tr_dictionary = empty_dictionary, tr_events = []\<rparr>"

text \<open>The events of a session are numbered 1, 2, ... across its chunks.\<close>

fun run_chunk :: "chunk \<Rightarrow> trace \<Rightarrow> dtj_error + trace" where
  "run_chunk (DictChunk es) t =
     bindE (insert_all (tr_dictionary t) es) (\<lambda>d. Inr (t\<lparr>tr_dictionary := d\<rparr>))"
| "run_chunk (EventChunk evs) t =
     bindE (accept_events (tr_dictionary t) (Suc (length (tr_events t))) evs)
       (\<lambda>_. Inr (t\<lparr>tr_events := tr_events t @ evs\<rparr>))"
| "run_chunk (OtherChunk ct pl) t = Inr t"

fun run_chunks :: "chunk list \<Rightarrow> trace \<Rightarrow> dtj_error + trace" where
  "run_chunks [] t = Inr t"
| "run_chunks (c # cs) t = bindE (run_chunk c t) (\<lambda>t'. run_chunks cs t')"

lemma run_chunks_append:
  "run_chunks (xs @ ys) t = bindE (run_chunks xs t) (\<lambda>t'. run_chunks ys t')"
  by (induction xs arbitrary: t) (simp, case_tac "run_chunk a t", auto)

section \<open>The bytes of a chunk and of a header\<close>

fun chunk_tag :: "chunk \<Rightarrow> nat" where
  "chunk_tag (DictChunk es) = CHUNK_TYPE_DICTIONARY"
| "chunk_tag (EventChunk evs) = CHUNK_TYPE_EVENT"
| "chunk_tag (OtherChunk ct pl) = ct"

fun chunk_payload :: "chunk \<Rightarrow> bytes" where
  "chunk_payload (DictChunk es) = nat_le 4 (length es) @ concat (map enc_dict_entry es)"
| "chunk_payload (EventChunk evs) = nat_le 4 (length evs) @ concat (map enc_event evs)"
| "chunk_payload (OtherChunk ct pl) = pl"

fun ok_chunk_body :: "chunk \<Rightarrow> bool" where
  "ok_chunk_body (DictChunk es) = ((\<forall>e \<in> set es. ok_dict_entry e) \<and> length es \<le> MAX_DICT_ENTRIES)"
| "ok_chunk_body (EventChunk evs) = ((\<forall>ev \<in> set evs. ok_event ev) \<and> length evs \<le> MAX_EVENTS_PER_CHUNK)"
| "ok_chunk_body (OtherChunk ct pl) = (ct < 2 ^ 16 \<and> ct \<noteq> CHUNK_TYPE_DICTIONARY \<and> ct \<noteq> CHUNK_TYPE_EVENT)"

definition ok_chunk :: "chunk \<Rightarrow> bool" where
  "ok_chunk c = (ok_chunk_body c \<and> length (chunk_payload c) \<le> MAX_CHUNK_PAYLOAD)"

definition frame_chunk :: "nat \<Rightarrow> nat \<Rightarrow> bytes \<Rightarrow> bytes" where
  "frame_chunk ct seq pl =
     CHUNK_MAGIC @ nat_le 2 ct @ [0, 0] @ nat_le 8 seq @ nat_le 4 (length pl) @ [0, 0, 0, 0] @
     pl @ nat_le 4 (unat (crc32 pl)) @ nat_le 4 COMMITTED_MARKER"

definition enc_chunk :: "nat \<Rightarrow> chunk \<Rightarrow> bytes" where
  "enc_chunk seq c = frame_chunk (chunk_tag c) seq (chunk_payload c)"

fun enc_chunks :: "nat \<Rightarrow> chunk list \<Rightarrow> bytes" where
  "enc_chunks seq [] = []"
| "enc_chunks seq (c # cs) = enc_chunk seq c @ enc_chunks (Suc seq) cs"

lemma length_frame_chunk: "length (frame_chunk ct seq pl) = 32 + length pl"
  by (simp add: frame_chunk_def)

lemma length_enc_chunk: "length (enc_chunk seq c) = 32 + length (chunk_payload c)"
  by (simp add: enc_chunk_def length_frame_chunk)

definition pad_to :: "nat \<Rightarrow> bytes \<Rightarrow> bytes" where
  "pad_to n bs = bs @ replicate (n - length bs) 0"

definition enc_header :: "file_header \<Rightarrow> bytes" where
  "enc_header h =
     FILE_MAGIC @ nat_le 2 (format_version h) @ nat_le 2 HEADER_SIZE @ nat_le 4 ENDIAN_MAGIC @
     nat_le 4 (flags h) @ session_id h @ nat_le 8 (of_signed 64 (start_utc_unix_ms h)) @
     nat_le 8 (mono_origin_ns h) @ pad_to 32 (name_bytes (producer_name h)) @
     pad_to 16 (name_bytes (producer_version h)) @ replicate 32 0"

definition ok_header_name :: "nat \<Rightarrow> pystr \<Rightarrow> bool" where
  "ok_header_name n s = (utf8_encode s \<noteq> None \<and> 0 \<notin> set s \<and> length (name_bytes s) \<le> n)"

definition ok_header :: "file_header \<Rightarrow> bool" where
  "ok_header h = (format_version h = FORMAT_VERSION \<and> flags h < 2 ^ 32 \<and> length (session_id h) = 16 \<and>
     - (2 ^ 63) \<le> start_utc_unix_ms h \<and> start_utc_unix_ms h < 2 ^ 63 \<and> mono_origin_ns h < 2 ^ 64 \<and>
     ok_header_name 32 (producer_name h) \<and> ok_header_name 16 (producer_version h))"

subsection \<open>The header is read back\<close>

lemma utf8_decode_replace_strict: "utf8_decode bs = Some s \<Longrightarrow> utf8_decode_replace bs = s"
  by (induction bs arbitrary: s rule: utf8_decode.induct) (auto split: utf8_item.splits)

lemma utf8_cp_nonzero: "c \<noteq> 0 \<Longrightarrow> 0 \<notin> set (utf8_cp c)"
  by (auto simp: utf8_cp_def)

lemma mk_byte_zero_iff: "n < 256 \<Longrightarrow> mk_byte n = 0 \<longleftrightarrow> n = 0"
  using unat_mk_byte_less [of n] by (metis mk_byte_eval(1) unat_0)

lemma utf8_encode_no_nul: "utf8_encode s = Some bs \<Longrightarrow> 0 \<notin> set s \<Longrightarrow> 0 \<notin> set bs"
proof (induction s arbitrary: bs)
  case (Cons c cs)
  then obtain bs' where bs': "utf8_encode cs = Some bs'" "bs = map mk_byte (utf8_cp c) @ bs'"
    and c: "is_scalar c" by (auto split: if_splits)
  from c have "\<forall>b \<in> set (utf8_cp c). b < 256" by (auto simp: is_scalar_def dest: utf8_cp_bytes)
  moreover have "0 \<notin> set (utf8_cp c)" using Cons.prems by (intro utf8_cp_nonzero) auto
  ultimately have "0 \<notin> mk_byte ` set (utf8_cp c)" by (auto simp: mk_byte_zero_iff dest!: sym [of 0])
  then show ?case using Cons bs' by auto
qed simp

lemma takeWhile_pad: "0 \<notin> set bs \<Longrightarrow> takeWhile (\<lambda>b. b \<noteq> 0) (pad_to n bs) = bs"
  unfolding pad_to_def by (subst takeWhile_append2) (auto simp: takeWhile_eq_Nil_iff hd_replicate)

lemma nul_terminated_pad:
  "ok_header_name n s \<Longrightarrow> nul_terminated (pad_to n (name_bytes s)) = s"
  unfolding nul_terminated_def ok_header_name_def
  by (auto simp: name_bytes_def takeWhile_pad utf8_encode_no_nul
      intro!: utf8_decode_replace_strict utf8_decode_encode)

lemma length_pad_to: "length bs \<le> n \<Longrightarrow> length (pad_to n bs) = n"
  by (simp add: pad_to_def)

lemma decode_header_enc:
  assumes "ok_header h"
  shows "length (enc_header h) = 128" and "decode_header (enc_header h) = Inr h"
proof -
  obtain pn pv where p: "pad_to 32 (name_bytes (producer_name h)) = pn"
    "pad_to 16 (name_bytes (producer_version h)) = pv" by simp
  from assms p have l: "length pn = 32" "length pv = 16" "length (session_id h) = 16"
    and n: "nul_terminated pn = producer_name h" "nul_terminated pv = producer_version h"
    and f: "format_version h = 1" "flags h < 4294967296" "mono_origin_ns h < 18446744073709551616"
    and s: "- (2 ^ 63) \<le> start_utc_unix_ms h" "start_utc_unix_ms h < 2 ^ 63"
    by (auto simp: ok_header_def nul_terminated_pad length_pad_to ok_header_name_def)
  have i: "i64_at (nat_le 8 (of_signed 64 (start_utc_unix_ms h)) @ xs) 0 = start_utc_unix_ms h" for xs
    using s by (rule i64_enc)
  show len: "length (enc_header h) = 128"
    using l by (simp add: enc_header_def p)
  show "decode_header (enc_header h) = Inr h"
    using l n f i
    by (simp add: decode_header_def len)
      (simp add: enc_header_def p codec)
qed


section \<open>One iteration of the scan\<close>

lemma decode_chunk_payload_dict:
  "ok_chunk_body (DictChunk es) \<Longrightarrow> decode_dict_entries (chunk_payload (DictChunk es)) = Inr es"
proof -
  assume ok: "ok_chunk_body (DictChunk es)"
  have "repeat_decode decode_dict_entry (length es)
      (nat_le 4 (length es) @ concat (map enc_dict_entry es) @ []) (length (nat_le 4 (length es))) =
      Inr (es, length (nat_le 4 (length es)) + length (concat (map enc_dict_entry es)))"
    using ok by (intro dict_entry_codec.repeat_enc) simp
  with ok show ?thesis by (simp add: decode_dict_entries_def codec)
qed

lemma decode_chunk_payload_event:
  "ok_chunk_body (EventChunk evs) \<Longrightarrow> decode_events (chunk_payload (EventChunk evs)) = Inr evs"
proof -
  assume ok: "ok_chunk_body (EventChunk evs)"
  have "repeat_decode decode_event (length evs)
      (nat_le 4 (length evs) @ concat (map enc_event evs) @ []) (length (nat_le 4 (length evs))) =
      Inr (evs, length (nat_le 4 (length evs)) + length (concat (map enc_event evs)))"
    using ok by (intro event_codec.repeat_enc) simp
  with ok show ?thesis by (simp add: decode_events_def codec)
qed

text \<open>The scan's state stands for a trace: the counters are determined by it.\<close>

definition trace_of :: "scan \<Rightarrow> trace" where
  "trace_of st = \<lparr>tr_dictionary = sc_dictionary st, tr_events = sc_events st\<rparr>"

definition scan_of :: "nat \<Rightarrow> nat \<Rightarrow> trace \<Rightarrow> scan" where
  "scan_of off seq t = \<lparr>sc_dictionary = tr_dictionary t, sc_events = tr_events t, sc_offset = off,
     sc_chunk_seq = seq, sc_event_seq = Suc (length (tr_events t))\<rparr>"

lemma scan_of_simps [simp]:
  "sc_dictionary (scan_of off seq t) = tr_dictionary t"
  "sc_events (scan_of off seq t) = tr_events t"
  "sc_offset (scan_of off seq t) = off"
  "sc_chunk_seq (scan_of off seq t) = seq"
  "sc_event_seq (scan_of off seq t) = Suc (length (tr_events t))"
  "(scan_of off seq t)\<lparr>sc_offset := off'\<rparr> = scan_of off' seq t"
  "(scan_of off seq t)\<lparr>sc_chunk_seq := seq'\<rparr> = scan_of off seq' t"
  "(scan_of off seq t)\<lparr>sc_dictionary := d\<rparr> = scan_of off seq (t\<lparr>tr_dictionary := d\<rparr>)"
  by (simp_all add: scan_of_def)

lemma init_scan_of: "init_scan = scan_of 128 1 empty_trace"
  by (simp add: init_scan_def scan_of_def empty_trace_def)

lemma accept_events_count: "accept_events d n evs = Inr m \<Longrightarrow> m = n + length evs"
  by (induction evs arbitrary: n) (fastforce simp: bindE_Inr_iff split: if_splits)+

lemma apply_chunk_run:
  assumes "ok_chunk_body c"
  shows "apply_chunk (chunk_tag c) (chunk_payload c) (scan_of off seq t) =
    bindE (run_chunk c t) (\<lambda>t'. Inr (scan_of off seq t'))"
proof (cases c)
  case (DictChunk es)
  with assms have "decode_dict_entries (chunk_payload (DictChunk es)) = Inr es"
    by (intro decode_chunk_payload_dict) simp
  with DictChunk show ?thesis
    by (cases "insert_all (tr_dictionary t) es") (simp_all add: apply_chunk_def del: chunk_payload.simps)
next
  case (EventChunk evs)
  with assms have d: "decode_events (chunk_payload (EventChunk evs)) = Inr evs"
    by (intro decode_chunk_payload_event) simp
  show ?thesis
  proof (cases "accept_events (tr_dictionary t) (Suc (length (tr_events t))) evs")
    case (Inl e)
    with d EventChunk show ?thesis by (simp add: apply_chunk_def del: chunk_payload.simps)
  next
    case (Inr n)
    with accept_events_count [OF Inr] d EventChunk show ?thesis
      by (simp add: apply_chunk_def scan_of_def del: chunk_payload.simps)
  qed
qed (use assms in \<open>simp add: apply_chunk_def\<close>)

lemma scan_frame:
  assumes "off = length pre" "ct < 2 ^ 16" "seq < 2 ^ 64" "length pl \<le> MAX_CHUNK_PAYLOAD"
    and "sc_offset st = off" "sc_chunk_seq st = seq"
  shows "scan_chunk (pre @ frame_chunk ct seq pl @ post) st =
    bindE (apply_chunk ct pl (st\<lparr>sc_chunk_seq := Suc seq\<rparr>))
      (\<lambda>st1. Inr (st1\<lparr>sc_offset := off + length (frame_chunk ct seq pl)\<rparr>, False))"
proof -
  have c: "unat (crc32 pl) < 4294967296" using unsigned_less [of "crc32 pl", where ?'a = nat] by simp
  obtain H T where H: "H = CHUNK_MAGIC @ nat_le 2 ct @ [0, 0] @ nat_le 8 seq @ nat_le 4 (length pl) @ [0, 0, 0, 0]"
    and T: "T = nat_le 4 (unat (crc32 pl)) @ nat_le 4 COMMITTED_MARKER" by simp
  have f: "frame_chunk ct seq pl = H @ pl @ T" by (simp add: frame_chunk_def H T)
  have l: "length H = 24" "length T = 8" by (simp_all add: H T)
  have h: "slice H 0 4 = CHUNK_MAGIC" "u16_at H 4 = ct" "u64_at H 8 = seq" "u32_at H 16 = length pl"
    using assms by (simp_all add: H codec)
  have t: "u32_at T 0 = unat (crc32 pl)" "u32_at T 4 = COMMITTED_MARKER"
    using c by (simp_all add: T codec)
  have s: "slice (H @ pl @ T @ post) 0 24 = H" "slice (H @ pl @ T @ post) 24 (24 + length pl) = pl"
    "slice (H @ pl @ T @ post) (24 + length pl) (32 + length pl) = T"
    using l by (simp_all add: codec)
  show ?thesis
    using assms l
    by (simp add: scan_chunk_def Let_def codec length_frame_chunk add.assoc f s h t)
qed

lemma scan_chunk_enc:
  assumes "ok_chunk c" "seq < 2 ^ 64"
  shows "scan_chunk (pre @ enc_chunk seq c @ post) (scan_of (length pre) seq t) =
    bindE (run_chunk c t) (\<lambda>t'. Inr (scan_of (length pre + length (enc_chunk seq c)) (Suc seq) t', False))"
proof -
  have "chunk_tag c < 2 ^ 16" using assms by (cases c) (auto simp: ok_chunk_def)
  then show ?thesis
    using assms unfolding enc_chunk_def ok_chunk_def
    by (subst scan_frame) (auto simp: apply_chunk_run, cases "run_chunk c t", auto)
qed

section \<open>The loop\<close>

text \<open>
  A tail the scan gives up on: too short for a chunk, without the chunk magic (an error only at
  the first chunk), shorter than its header announces, or without its committed marker.
\<close>

definition torn :: "bool \<Rightarrow> bytes \<Rightarrow> bool" where
  "torn at_first t =
     (length t < 32 \<or>
      (if slice t 0 4 \<noteq> CHUNK_MAGIC then \<not> at_first
       else length t < 32 + u32_at t 16 \<or>
         (u32_at t 16 \<le> MAX_CHUNK_PAYLOAD \<and> u32_at t (28 + u32_at t 16) \<noteq> COMMITTED_MARKER)))"

lemma slice_slice: "slice (slice xs a b) c d = slice xs (a + c) (min b (a + d))"
proof -
  have "min (d - c) (b - a - c) = min b (a + d) - (a + c)" unfolding min_def by arith
  then show ?thesis by (simp add: slice_def drop_take add.commute)
qed

lemma u32_at_slice: "a + off + 4 \<le> b \<Longrightarrow> u32_at (slice xs a b) off = u32_at xs (a + off)"
  by (simp add: u32_at_def slice_slice add.assoc)

lemma scan_chunk_torn:
  assumes "torn at_first t" "32 \<le> length t" "sc_offset st = length pre" "at_first = (length pre = 128)"
  shows "scan_chunk (pre @ t) st = Inr (st, True)"
  using assms
  by (auto simp: scan_chunk_def torn_def Let_def codec slice_slice u32_at_slice add.assoc split: if_splits)

lemma scan_loop_short: "length data - sc_offset st < 32 \<Longrightarrow> scan_loop data st = Inr (st, False)"
  by (subst scan_loop.simps) simp

lemma scan_loop_enc:
  assumes "\<forall>c \<in> set cs. ok_chunk c" "seq + length cs \<le> 2 ^ 64"
    and "torn (length pre = 128 \<and> cs = []) t" "128 \<le> length pre"
  shows "scan_loop (pre @ enc_chunks seq cs @ t) (scan_of (length pre) seq tr) =
    bindE (run_chunks cs tr) (\<lambda>tr'.
      Inr (scan_of (length pre + length (enc_chunks seq cs)) (seq + length cs) tr', 32 \<le> length t))"
  using assms
proof (induction cs arbitrary: pre seq tr)
  case Nil
  show ?case
  proof (cases "32 \<le> length t")
    case True
    with Nil have "scan_chunk (pre @ t) (scan_of (length pre) seq tr) = Inr (scan_of (length pre) seq tr, True)"
      by (intro scan_chunk_torn) auto
    with True show ?thesis by (subst scan_loop.simps) simp
  qed (simp add: scan_loop_short)
next
  case (Cons c cs)
  let ?post = "enc_chunks (Suc seq) cs @ t" and ?off = "length pre + length (enc_chunk seq c)"
  have step: "scan_chunk (pre @ enc_chunk seq c @ ?post) (scan_of (length pre) seq tr) =
      bindE (run_chunk c tr) (\<lambda>t'. Inr (scan_of ?off (Suc seq) t', False))"
    using Cons.prems by (intro scan_chunk_enc) auto
  have IH: "scan_loop ((pre @ enc_chunk seq c) @ ?post) (scan_of (length (pre @ enc_chunk seq c)) (Suc seq) t') =
      bindE (run_chunks cs t') (\<lambda>tr'. Inr (scan_of (?off + length (enc_chunks (Suc seq) cs))
        (Suc seq + length cs) tr', 32 \<le> length t))" for t'
    using Cons.prems by (subst Cons.IH) (auto simp: length_enc_chunk)
  have "32 \<le> length (enc_chunk seq c)" by (simp add: length_enc_chunk)
  with step IH show ?case
    by (subst scan_loop.simps) (cases "run_chunk c tr", auto simp: add.assoc)
qed

section \<open>Reading a session\<close>

definition read_trace :: "file_header \<Rightarrow> nat \<Rightarrow> bool \<Rightarrow> trace \<Rightarrow> session_reader" where
  "read_trace h n tail t = \<lparr>header = h, dictionary_of = tr_dictionary t, events_of = tr_events t,
     chunks_committed = n, torn_tail = tail\<rparr>"

lemma open_session_enc:
  assumes "ok_header h" "\<forall>c \<in> set cs. ok_chunk c" "length cs < 2 ^ 64" "torn (cs = []) t"
  shows "open_session (Inr (enc_header h @ enc_chunks 1 cs @ t)) =
    bindE (run_chunks cs empty_trace) (\<lambda>tr. Inr (read_trace h (length cs) (t \<noteq> []) tr))"
proof -
  note hdr = decode_header_enc [OF assms(1)]
  have loop: "scan_loop (enc_header h @ enc_chunks 1 cs @ t) (scan_of (length (enc_header h)) 1 empty_trace) =
    bindE (run_chunks cs empty_trace) (\<lambda>tr'. Inr (scan_of (length (enc_header h) + length (enc_chunks 1 cs))
      (1 + length cs) tr', 32 \<le> length t))"
    using assms hdr by (intro scan_loop_enc) auto
  have s: "slice (enc_header h @ x) 0 128 = enc_header h" for x
    using hdr by (simp add: slice_whole)
  show ?thesis
    using loop hdr
    by (simp add: open_session_def s init_scan_of read_trace_def)
      (cases "run_chunks cs empty_trace", auto)
qed

end
