(* ===== verification/Dtj_Trace.thy ===== *)
theory Dtj_Trace imports Dtj_Session begin

text \<open>
  What the reader guarantees: recovery after a crash, detection of corrupted payloads, and the
  invariant of every session it accepts.
\<close>

section \<open>Dictionary\<close>

lemma get_name_insert:
  "dict_insert d e = Inr d' \<Longrightarrow>
     get_name d' k i = (if (k, i) = (entry_kind e, entry_id e) then Some (entry_name e) else get_name d k i)"
  by (auto simp: dict_insert_def get_name_def update_conv' split: if_splits option.splits)

lemma dict_insert_keeps: "dict_insert d e = Inr d' \<Longrightarrow> get_name d k i = Some n \<Longrightarrow> get_name d' k i = Some n"
  by (auto simp: dict_insert_def get_name_def update_conv' split: if_splits option.splits)

lemma insert_all_keeps:
  "insert_all d es = Inr d' \<Longrightarrow> get_name d k i = Some n \<Longrightarrow> get_name d' k i = Some n"
  by (induction es arbitrary: d) (auto simp: bindE_Inr_iff dest: dict_insert_keeps)

lemma insert_all_binds:
  "insert_all d es = Inr d' \<Longrightarrow> e \<in> set es \<Longrightarrow> get_name d' (entry_kind e) (entry_id e) = Some (entry_name e)"
  by (induction es arbitrary: d) (fastforce simp: bindE_Inr_iff get_name_insert intro: insert_all_keeps)+

definition wf_dictionary :: "dictionary \<Rightarrow> bool" where
  "wf_dictionary d = (distinct (map fst (by_key d)) \<and>
     (\<forall>((k, i), n) \<in> set (by_key d). 1 \<le> i \<and> length n \<le> MAX_DICT_NAME_LEN))"

lemma wf_empty_dictionary: "wf_dictionary empty_dictionary"
  by (simp add: wf_dictionary_def empty_dictionary_def)

lemma dict_insert_wf: "wf_dictionary d \<Longrightarrow> dict_insert d e = Inr d' \<Longrightarrow> wf_dictionary d'"
  by (auto simp: wf_dictionary_def dict_insert_def update_new map_of_eq_None_iff
      split: if_splits option.splits)

lemma insert_all_wf: "wf_dictionary d \<Longrightarrow> insert_all d es = Inr d' \<Longrightarrow> wf_dictionary d'"
  by (induction es arbitrary: d) (auto simp: bindE_Inr_iff dest: dict_insert_wf)

section \<open>Resolved references\<close>

definition resolves :: "dictionary \<Rightarrow> dict_kind \<Rightarrow> nat \<Rightarrow> bool" where
  "resolves d k i = (get_name d k i \<noteq> None)"

definition refs_resolve :: "dictionary \<Rightarrow> event_record \<Rightarrow> bool" where
  "refs_resolve d ev =
     (resolves d DOMAIN (domain_id ev) \<and> resolves d CATEGORY (category_id ev) \<and>
      resolves d EVENT_NAME (event_name_id ev) \<and>
      (correlation_id ev \<noteq> 0 \<longrightarrow> resolves d STRING (correlation_id ev)) \<and>
      (\<forall>f \<in> set (payload ev). resolves d STRING (fld_name_id f) \<and>
         (\<forall>i. fld_value f = VInterned i \<longrightarrow> resolves d STRING i)))"

lemma require_Inr_iff: "require d k i = Inr n \<longleftrightarrow> get_name d k i = Some n"
  by (auto simp: require_def split: option.splits)

lemma validate_fields_iff:
  "validate_fields d fs = Inr () \<longleftrightarrow>
     (\<forall>f \<in> set fs. resolves d STRING (fld_name_id f) \<and> (\<forall>i. fld_value f = VInterned i \<longrightarrow> resolves d STRING i))"
  by (induction fs) (auto simp: bindE_Inr_iff require_Inr_iff resolves_def split: field_value.splits)

lemma validate_event_refs_iff: "validate_event_refs d ev = Inr () \<longleftrightarrow> refs_resolve d ev"
  unfolding validate_event_refs_def refs_resolve_def
  by (auto simp: bindE_Inr_iff require_Inr_iff resolves_def validate_fields_iff)

lemma refs_resolve_mono:
  "(\<And>k i n. get_name d k i = Some n \<Longrightarrow> get_name d' k i = Some n) \<Longrightarrow> refs_resolve d ev \<Longrightarrow> refs_resolve d' ev"
  unfolding refs_resolve_def resolves_def by blast

lemma accept_events_iff:
  "accept_events d n evs = Inr m \<longleftrightarrow>
     m = n + length evs \<and> map event_sequence evs = [n..<n + length evs] \<and> (\<forall>ev \<in> set evs. refs_resolve d ev)"
proof (induction evs arbitrary: n)
  case (Cons ev evs)
  have "[n..<n + length (ev # evs)] = n # [Suc n..<Suc n + length evs]"
    by (simp add: upt_conv_Cons del: upt_Suc)
  with Cons show ?case by (auto simp: bindE_Inr_iff validate_event_refs_iff simp del: upt_Suc)
qed auto

section \<open>The invariant of the scan\<close>

definition wf_event :: "event_record \<Rightarrow> bool" where
  "wf_event ev = (monotonic_ns ev < 2 ^ 64 \<and> severity ev \<le> 5 \<and> (\<forall>f \<in> set (payload ev). ok_value (fld_value f)))"

definition wf_trace :: "trace \<Rightarrow> bool" where
  "wf_trace t = (wf_dictionary (tr_dictionary t) \<and>
     map event_sequence (tr_events t) = [1..<Suc (length (tr_events t))] \<and>
     (\<forall>ev \<in> set (tr_events t). wf_event ev \<and> refs_resolve (tr_dictionary t) ev))"

lemma wf_empty_trace: "wf_trace empty_trace"
  by (simp add: wf_trace_def empty_trace_def wf_empty_dictionary)

lemma decode_payload_ok: "decode_payload buf = Inr fs \<Longrightarrow> f \<in> set fs \<Longrightarrow> ok_value (fld_value f)"
  by (auto simp: decode_payload_def decode_field_def bindE_Inr_iff Let_def split: if_splits
      dest!: field_codec.repeat_elem decode_value_ok)

lemma decode_event_wf: "decode_event buf off = Inr (ev, off') \<Longrightarrow> wf_event ev"
  by (auto simp: decode_event_def wf_event_def bindE_Inr_iff Let_def split: if_splits
      dest: decode_payload_ok intro: u64_at_bound [simplified])

lemma decode_events_wf: "decode_events buf = Inr evs \<Longrightarrow> ev \<in> set evs \<Longrightarrow> wf_event ev"
  by (auto simp: decode_events_def bindE_Inr_iff Let_def split: if_splits
      dest!: event_codec.repeat_elem decode_event_wf)

definition scan_inv :: "scan \<Rightarrow> bool" where
  "scan_inv st = (wf_trace (trace_of st) \<and> sc_event_seq st = Suc (length (sc_events st)) \<and> 1 \<le> sc_chunk_seq st)"

lemma run_accept_wf:
  assumes "wf_trace t" "accept_events (tr_dictionary t) (Suc (length (tr_events t))) evs = Inr m"
    and "\<forall>ev \<in> set evs. wf_event ev"
  shows "wf_trace (t\<lparr>tr_events := tr_events t @ evs\<rparr>)"
proof -
  have "[1..<Suc (length (tr_events t)) + length evs] =
      [1..<Suc (length (tr_events t))] @ [Suc (length (tr_events t))..<Suc (length (tr_events t)) + length evs]"
    by (rule upt_add_eq_append) simp
  with assms show ?thesis
    by (auto simp: wf_trace_def accept_events_iff simp del: upt_Suc)
qed

lemma run_insert_wf:
  assumes "wf_trace t" "insert_all (tr_dictionary t) es = Inr d"
  shows "wf_trace (t\<lparr>tr_dictionary := d\<rparr>)"
  using assms by (auto simp: wf_trace_def intro: insert_all_wf refs_resolve_mono insert_all_keeps)

lemma apply_chunk_Inr_iff:
  "apply_chunk ct pl st = Inr st' \<longleftrightarrow>
     (if ct = CHUNK_TYPE_DICTIONARY then
        \<exists>es d. decode_dict_entries pl = Inr es \<and> insert_all (sc_dictionary st) es = Inr d \<and>
          st' = st\<lparr>sc_dictionary := d\<rparr>
      else if ct = CHUNK_TYPE_EVENT then
        \<exists>evs n. decode_events pl = Inr evs \<and> accept_events (sc_dictionary st) (sc_event_seq st) evs = Inr n \<and>
          st' = st\<lparr>sc_event_seq := n, sc_events := sc_events st @ evs\<rparr>
      else st' = st)"
  by (auto simp: apply_chunk_def bindE_Inr_iff)

lemma scan_inv_dictionary:
  assumes "scan_inv st" "insert_all (sc_dictionary st) es = Inr d"
  shows "scan_inv (st\<lparr>sc_dictionary := d\<rparr>)"
  using assms run_insert_wf [of "trace_of st" es d] by (simp add: scan_inv_def trace_of_def)

lemma scan_inv_events:
  assumes "scan_inv st" "accept_events (sc_dictionary st) (sc_event_seq st) evs = Inr n"
    and "decode_events pl = Inr evs"
  shows "scan_inv (st\<lparr>sc_event_seq := n, sc_events := sc_events st @ evs\<rparr>)"
proof -
  have "wf_trace ((trace_of st)\<lparr>tr_events := tr_events (trace_of st) @ evs\<rparr>)"
    using assms decode_events_wf
    by (intro run_accept_wf [where m = n]) (auto simp: scan_inv_def trace_of_def)
  with assms accept_events_count [OF assms(2)] show ?thesis
    by (simp add: scan_inv_def trace_of_def)
qed

lemma apply_chunk_inv: "apply_chunk ct pl st = Inr st' \<Longrightarrow> scan_inv st \<Longrightarrow> scan_inv st'"
  by (auto simp: apply_chunk_Inr_iff scan_inv_dictionary scan_inv_events split: if_splits)

lemma scan_inv_counters: "scan_inv st \<Longrightarrow> scan_inv (st\<lparr>sc_offset := off\<rparr>)"
  "scan_inv st \<Longrightarrow> scan_inv (st\<lparr>sc_chunk_seq := Suc n\<rparr>)"
  by (simp_all add: scan_inv_def trace_of_def)

lemma scan_chunk_inv: "scan_chunk data st = Inr (st', b) \<Longrightarrow> scan_inv st \<Longrightarrow> scan_inv st'"
  by (auto simp: scan_chunk_def Let_def bindE_Inr_iff split: if_splits
      intro!: scan_inv_counters dest: apply_chunk_inv)

lemma scan_loop_inv: "scan_loop data st = Inr (st', b) \<Longrightarrow> scan_inv st \<Longrightarrow> scan_inv st'"
proof (induction data st rule: scan_loop.induct)
  case (1 data st)
  show ?case
  proof (cases "32 \<le> length data - sc_offset st")
    case True
    with "1.prems" obtain st1 torn where c: "scan_chunk data st = Inr (st1, torn)"
      and r: "if torn then st' = st1 else scan_loop data st1 = Inr (st', b)"
      by (subst (asm) scan_loop.simps) (auto simp: bindE_Inr_iff split: if_splits)
    from scan_chunk_inv [OF c] "1.prems" have "scan_inv st1" by simp
    with "1.IH" [OF _ c refl] True r show ?thesis by (cases torn) auto
  qed (use "1.prems" in \<open>simp add: scan_loop_short\<close>)
qed


lemma open_session_trace:
  "open_session c = Inr r \<Longrightarrow> wf_trace \<lparr>tr_dictionary = dictionary_of r, tr_events = events_of r\<rparr>"
proof -
  assume a: "open_session c = Inr r"
  have i: "scan_inv init_scan"
    using wf_empty_trace by (simp add: scan_inv_def init_scan_def trace_of_def empty_trace_def)
  from a obtain data st b where "scan_loop data init_scan = Inr (st, b)"
    "dictionary_of r = sc_dictionary st" "events_of r = sc_events st"
    by (auto simp: open_session_def bindE_Inr_iff split: sum.splits if_splits)
  with scan_loop_inv [OF _ i] show ?thesis by (fastforce simp: scan_inv_def trace_of_def)
qed

section \<open>A sample session\<close>

definition sample_header :: file_header where
  "sample_header = \<lparr>format_version = 1, flags = 0, session_id = replicate 16 7,
     start_utc_unix_ms = 1700000000000, mono_origin_ns = 5, producer_name = u ''agent'', producer_version = u ''1.0''\<rparr>"

definition sample_event :: "nat \<Rightarrow> event_record" where
  "sample_event n = \<lparr>monotonic_ns = 10 * n, event_sequence = n, domain_id = 1, category_id = 1, event_name_id = 1,
     correlation_id = 0, severity = 2, payload = [\<lparr>fld_name_id = 1, fld_value = VBool True\<rparr>]\<rparr>"

definition sample_chunks :: "chunk list" where
  "sample_chunks =
     [DictChunk [\<lparr>entry_kind = DOMAIN, entry_id = 1, entry_name = u ''d''\<rparr>,
        \<lparr>entry_kind = CATEGORY, entry_id = 1, entry_name = u ''c''\<rparr>,
        \<lparr>entry_kind = EVENT_NAME, entry_id = 1, entry_name = u ''e''\<rparr>,
        \<lparr>entry_kind = STRING, entry_id = 1, entry_name = u ''s''\<rparr>],
      EventChunk [sample_event 1, sample_event 2]]"

lemmas name_eval = u_Cons is_scalar_def utf8_cp_def name_bytes_def

lemma sample_header_ok: "ok_header sample_header"
  by (simp add: ok_header_def sample_header_def ok_header_name_def name_eval)

lemma sample_chunks_ok: "\<forall>c \<in> set sample_chunks. ok_chunk c"
  by (simp add: sample_chunks_def ok_chunk_def ok_dict_entry_def name_eval enc_dict_entry_def
      ok_event_def sample_event_def ok_payload_def enc_event_def enc_payload_def ok_field_def enc_field_def)

lemma sample_chunks_run:
  "\<exists>t. run_chunks sample_chunks empty_trace = Inr t \<and> length (tr_events t) = 2"
  by (simp add: sample_chunks_def empty_trace_def empty_dictionary_def dict_insert_def u_Cons
      sample_event_def validate_event_refs_def require_def get_name_def)

section \<open>Recovery after a crash\<close>

text \<open>How many of the chunks lie wholly within the first \<open>k\<close> bytes after the header.\<close>

fun contained :: "nat \<Rightarrow> chunk list \<Rightarrow> nat" where
  "contained k [] = 0"
| "contained k (c # cs) =
     (if 32 + length (chunk_payload c) \<le> k then Suc (contained (k - (32 + length (chunk_payload c))) cs) else 0)"

lemma torn_proper_prefix:
  assumes "k < length (enc_chunk seq c)" "ok_chunk c"
  shows "torn b (take k (enc_chunk seq c))"
proof (cases "32 \<le> k")
  case True
  obtain H where H: "H = CHUNK_MAGIC @ nat_le 2 (chunk_tag c) @ [0, 0] @ nat_le 8 seq @
      nat_le 4 (length (chunk_payload c)) @ [0, 0, 0, 0]" by simp
  then have l: "length H = 24" by simp
  have e: "H @ drop 24 (enc_chunk seq c) = enc_chunk seq c"
    by (simp add: enc_chunk_def frame_chunk_def H)
  have "take k (H @ drop 24 (enc_chunk seq c)) = H @ take (k - 24) (drop 24 (enc_chunk seq c))"
    using True l by simp
  then have t: "take k (enc_chunk seq c) = H @ take (k - 24) (drop 24 (enc_chunk seq c))" (is "_ = H @ ?r")
    by (simp only: e)
  have "length (chunk_payload c) < 4294967296" using assms by (simp add: ok_chunk_def)
  then have "slice (H @ ?r) 0 4 = CHUNK_MAGIC" "u32_at (H @ ?r) 16 = length (chunk_payload c)"
    by (simp_all add: H codec)
  with assms True show ?thesis
    unfolding torn_def by (simp add: t [symmetric] length_enc_chunk)
qed (simp add: torn_def min_less_iff_disj)

lemma take_enc_chunks:
  assumes "k \<le> length (enc_chunks seq cs)" "\<forall>c \<in> set cs. ok_chunk c"
  obtains t where "take k (enc_chunks seq cs) = enc_chunks seq (take (contained k cs) cs) @ t"
    and "torn b t" and "t \<noteq> [] \<longleftrightarrow> length (enc_chunks seq (take (contained k cs) cs)) < k"
proof -
  have "\<exists>t. take k (enc_chunks seq cs) = enc_chunks seq (take (contained k cs) cs) @ t \<and> torn b t \<and>
      (t \<noteq> [] \<longleftrightarrow> length (enc_chunks seq (take (contained k cs) cs)) < k)"
    using assms
  proof (induction k cs arbitrary: seq rule: contained.induct)
    case (2 k c cs)
    let ?n = "32 + length (chunk_payload c)"
    show ?case
    proof (cases "?n \<le> k")
      case True
      with "2.prems" have "k - ?n \<le> length (enc_chunks (Suc seq) cs)" by (simp add: length_enc_chunk)
      from "2.IH" [OF True this] "2.prems" obtain t where
        "take (k - ?n) (enc_chunks (Suc seq) cs) = enc_chunks (Suc seq) (take (contained (k - ?n) cs) cs) @ t"
        "torn b t" "t \<noteq> [] \<longleftrightarrow> length (enc_chunks (Suc seq) (take (contained (k - ?n) cs) cs)) < k - ?n"
        by auto
      with True show ?thesis
        by (intro exI [of _ t]) (auto simp: length_enc_chunk)
    next
      case False
      have "enc_chunk seq c \<noteq> []" using length_enc_chunk [of seq c] by force
      with False "2.prems" torn_proper_prefix [of k seq c b] show ?thesis
        by (intro exI [of _ "take k (enc_chunk seq c)"]) (auto simp: length_enc_chunk)
    qed
  qed (auto simp: torn_def)
  then show ?thesis using that by blast
qed

lemma length_contained: "contained k cs \<le> length cs"
  by (induction k cs rule: contained.induct) auto

section \<open>Properties\<close>

text \<open>C1: reading the bytes of a session gives its meaning. For every header and chunk sequence
  within the format's limits, and every torn tail behind them, \<open>open_session\<close> returns what
  folding the chunks over an empty dictionary and event list gives, or the error the first
  offending chunk raises; the tail is reported and nothing of it is read.\<close>

theorem open_session_meaning:
  assumes "ok_header h" "\<forall>c \<in> set cs. ok_chunk c" "length cs < 2 ^ 64" "torn (cs = []) t"
  shows "open_session (Inr (enc_header h @ enc_chunks 1 cs @ t)) =
    bindE (run_chunks cs empty_trace) (\<lambda>tr. Inr (read_trace h (length cs) (t \<noteq> []) tr))"
  using assms by (rule open_session_enc)

lemma sample_length: "length sample_chunks < 2 ^ 64"
  by (simp add: sample_chunks_def)

theorem open_session_meaning_witness:
  "\<exists>r. open_session (Inr (enc_header sample_header @ enc_chunks 1 sample_chunks @ [1])) = Inr r \<and>
     torn_tail r \<and> length (events_of r) = 2"
  using open_session_meaning [OF sample_header_ok sample_chunks_ok sample_length, of "[1]"] sample_chunks_run
  by (auto simp: torn_def read_trace_def)

text \<open>C2: crash recovery. Cut a well-formed session file anywhere behind its header: the reader
  returns exactly the meaning of the chunks that were wholly written, and says that the tail is
  torn just when bytes of a partial chunk remain.\<close>

theorem open_session_truncated:
  assumes "ok_header h" "\<forall>c \<in> set cs. ok_chunk c" "length cs < 2 ^ 64"
    and "k \<le> length (enc_chunks 1 cs)" and "m = contained k cs"
  shows "open_session (Inr (take (128 + k) (enc_header h @ enc_chunks 1 cs))) =
    bindE (run_chunks (take m cs) empty_trace)
      (\<lambda>tr. Inr (read_trace h m (length (enc_chunks 1 (take m cs)) < k) tr))"
proof -
  obtain t where t: "take k (enc_chunks 1 cs) = enc_chunks 1 (take m cs) @ t" "torn (take m cs = []) t"
    and n: "t \<noteq> [] \<longleftrightarrow> length (enc_chunks 1 (take m cs)) < k"
    using assms(5) take_enc_chunks [OF assms(4,2), of "take m cs = []"] by auto
  have "take (128 + k) (enc_header h @ enc_chunks 1 cs) = enc_header h @ enc_chunks 1 (take m cs) @ t"
    using decode_header_enc(1) [OF assms(1)] t by simp
  moreover have "length (take m cs) = m" using assms(5) length_contained [of k cs] by simp
  moreover have "\<forall>c \<in> set (take m cs). ok_chunk c" using assms(2) by (auto dest: in_set_takeD)
  ultimately show ?thesis
    using open_session_enc [of h "take m cs" t] assms(1,3) t(2) unfolding n [symmetric] by simp
qed

theorem open_session_truncated_witness:
  "\<exists>r. open_session (Inr (take (128 + 84) (enc_header sample_header @ enc_chunks 1 sample_chunks))) = Inr r \<and>
     torn_tail r \<and> chunks_committed r = 1 \<and> events_of r = []"
proof -
  have n: "contained 84 sample_chunks = 1" "take 1 sample_chunks = [hd sample_chunks]"
    and l: "length (enc_chunks 1 (take 1 sample_chunks)) = 80" "84 \<le> length (enc_chunks 1 sample_chunks)"
    by (simp_all add: sample_chunks_def length_enc_chunk enc_dict_entry_def name_eval)
  have "\<exists>t. run_chunks (take 1 sample_chunks) empty_trace = Inr t \<and> tr_events t = []"
    by (simp add: sample_chunks_def empty_trace_def empty_dictionary_def dict_insert_def u_Cons)
  then show ?thesis
    using open_session_truncated [OF sample_header_ok sample_chunks_ok sample_length l(2) refl]
    unfolding n(1) l(1) by (auto simp: read_trace_def)
qed

text \<open>C3: what the reader accepts is well formed, whatever the bytes: its events are numbered
  1, 2, ..., every identifier an event uses resolves in the dictionary of the right kind, the
  dictionary has one name of at most 1024 characters per identifier, all identifiers are
  positive, severities are at most 5, and values are within their machine types.\<close>

theorem open_session_wf:
  assumes "open_session contents = Inr r"
  shows "wf_trace \<lparr>tr_dictionary = dictionary_of r, tr_events = events_of r\<rparr>"
  using assms by (rule open_session_trace)

theorem open_session_wf_witness:
  "\<exists>r. open_session (Inr (enc_header sample_header @ enc_chunks 1 sample_chunks)) = Inr r \<and>
     wf_trace \<lparr>tr_dictionary = dictionary_of r, tr_events = events_of r\<rparr>"
proof -
  have "torn False []" by (simp add: torn_def)
  with open_session_enc [OF sample_header_ok sample_chunks_ok sample_length, of "[]"] sample_chunks_run
  obtain r where "open_session (Inr (enc_header sample_header @ enc_chunks 1 sample_chunks)) = Inr r"
    by (auto simp: sample_chunks_def)
  with open_session_wf [OF this] show ?thesis by blast
qed
end
