(* ===== verification/Dtj_Integrity.thy ===== *)
theory Dtj_Integrity imports Dtj_Trace begin

text \<open>
  Integrity of committed data: corrupted payload bytes are detected, a longer file never changes
  what a shorter one said, and where the reader's dictionary layout departs from the format
  specification.
\<close>

section \<open>Corrupted payloads\<close>

lemma scan_corrupt:
  assumes "off = length pre" "length pl \<le> MAX_CHUNK_PAYLOAD" "seq < 2 ^ 64" "i < length pl" "b \<noteq> pl ! i"
    and "sc_offset st = off"
  shows "scan_chunk (pre @ (frame_chunk ct seq pl)[24 + i := b] @ post) st =
    Inl (DtjError (u ''ChecksumMismatch'') (u ''checksum mismatch for chunk sequence '' @ nstr seq) [(u ''sequence'', jnat seq)])"
proof -
  obtain H T where H: "H = CHUNK_MAGIC @ nat_le 2 ct @ [0, 0] @ nat_le 8 seq @ nat_le 4 (length pl) @ [0, 0, 0, 0]"
    and T: "T = nat_le 4 (unat (crc32 pl)) @ nat_le 4 COMMITTED_MARKER" by simp
  define pl' where "pl' = pl[i := b]"
  have l: "length H = 24" "length T = 8" "length pl' = length pl" by (simp_all add: H T pl'_def)
  have "frame_chunk ct seq pl = H @ pl @ T" by (simp add: frame_chunk_def H T)
  then have f: "(frame_chunk ct seq pl)[24 + i := b] = H @ pl' @ T"
    using assms(4) l by (simp add: list_update_append pl'_def)
  have c: "unat (crc32 pl) < 4294967296" using unsigned_less [of "crc32 pl", where ?'a = nat] by simp
  have "crc32 (take i pl @ pl ! i # drop (Suc i) pl) \<noteq> crc32 (take i pl @ b # drop (Suc i) pl)"
    by (rule crc32_one_byte) (use assms in auto)
  then have "crc32 pl \<noteq> crc32 pl'"
    using assms(4) by (simp add: pl'_def upd_conv_take_nth_drop id_take_nth_drop [symmetric])
  then have crc: "unat (crc32 pl) \<noteq> unat (crc32 pl')" by (simp only: word_unat_eq_iff) simp
  have h: "slice H 0 4 = CHUNK_MAGIC" "u64_at H 8 = seq" "u32_at H 16 = length pl"
    using assms by (simp_all add: H codec)
  have t: "u32_at T 0 = unat (crc32 pl)" "u32_at T 4 = COMMITTED_MARKER"
    using c by (simp_all add: T codec)
  have s: "slice (H @ pl' @ T @ post) 0 24 = H" "slice (H @ pl' @ T @ post) 24 (24 + length pl) = pl'"
    "slice (H @ pl' @ T @ post) (24 + length pl) (32 + length pl) = T"
    using l by (simp_all add: codec)
  show ?thesis
    using assms l crc by (simp add: scan_chunk_def Let_def codec add.assoc f s h t)
qed

lemma scan_loop_error:
  assumes "\<forall>c \<in> set cs. ok_chunk c" "seq + length cs \<le> 2 ^ 64" "run_chunks cs tr = Inr tr'" "32 \<le> length x"
    and "\<And>pre t. scan_chunk (pre @ x) (scan_of (length pre) (seq + length cs) t) = Inl e"
  shows "scan_loop (pre @ enc_chunks seq cs @ x) (scan_of (length pre) seq tr) = Inl e"
  using assms
proof (induction cs arbitrary: pre seq tr)
  case Nil
  then show ?case by (subst scan_loop.simps) simp
next
  case (Cons c cs)
  let ?post = "enc_chunks (Suc seq) cs @ x" and ?off = "length pre + length (enc_chunk seq c)"
  from Cons.prems(3) obtain t1 where t1: "run_chunk c tr = Inr t1" "run_chunks cs t1 = Inr tr'"
    by (auto simp: bindE_Inr_iff)
  have step: "scan_chunk (pre @ enc_chunk seq c @ ?post) (scan_of (length pre) seq tr) =
      Inr (scan_of ?off (Suc seq) t1, False)"
    using Cons.prems t1 by (subst scan_chunk_enc) auto
  have "scan_loop ((pre @ enc_chunk seq c) @ ?post) (scan_of (length (pre @ enc_chunk seq c)) (Suc seq) t1) = Inl e"
    using Cons.prems t1 by (intro Cons.IH) auto
  with step show ?case
    by (subst scan_loop.simps) (simp add: length_enc_chunk)
qed

text \<open>C4: corruption is caught. Change one payload byte of any committed chunk to any other value,
  and the session is rejected with a checksum mismatch naming that chunk, whatever follows it.\<close>

theorem open_session_corrupted:
  assumes "ok_header h" "\<forall>c \<in> set cs. ok_chunk c" "ok_chunk c" "length cs < 2 ^ 63"
    and "run_chunks cs empty_trace = Inr tr"
    and "i < length (chunk_payload c)" "b \<noteq> chunk_payload c ! i" "n = Suc (length cs)"
  shows "open_session (Inr (enc_header h @ enc_chunks 1 cs @ (enc_chunk n c)[24 + i := b] @ post)) =
    Inl (DtjError (u ''ChecksumMismatch'') (u ''checksum mismatch for chunk sequence '' @ nstr n) [(u ''sequence'', jnat n)])"
proof -
  let ?e = "DtjError (u ''ChecksumMismatch'') (u ''checksum mismatch for chunk sequence '' @ nstr n) [(u ''sequence'', jnat n)]"
  note hdr = decode_header_enc [OF assms(1)]
  have "scan_loop (enc_header h @ enc_chunks 1 cs @ (enc_chunk n c)[24 + i := b] @ post)
      (scan_of (length (enc_header h)) 1 empty_trace) = Inl ?e"
  proof (rule scan_loop_error [OF assms(2) _ assms(5)])
    show "scan_chunk (pre @ (enc_chunk n c)[24 + i := b] @ post) (scan_of (length pre) (1 + length cs) t) = Inl ?e" for pre t
      unfolding enc_chunk_def using assms by (intro scan_corrupt) (auto simp: ok_chunk_def)
  qed (use assms in \<open>auto simp: length_enc_chunk\<close>)
  moreover have "slice (enc_header h @ x) 0 128 = enc_header h" for x
    using hdr by (simp add: slice_whole)
  ultimately show ?thesis using hdr by (simp add: open_session_def init_scan_of)
qed

theorem open_session_corrupted_witness:
  "\<exists>e. open_session (Inr (enc_header sample_header @ enc_chunks 1 [] @ (enc_chunk 1 (hd sample_chunks))[24 + 0 := 9] @ [])) = Inl e \<and>
     err_kind e = u ''ChecksumMismatch''"
proof -
  have p: "ok_chunk (hd sample_chunks)" using sample_chunks_ok by (auto simp: sample_chunks_def)
  have l: "0 < length (chunk_payload (hd sample_chunks))" "9 \<noteq> chunk_payload (hd sample_chunks) ! 0"
    by (simp_all add: sample_chunks_def nat_le_numeral)
  show ?thesis
    using open_session_corrupted [OF sample_header_ok _ p _ _ l, of "[]" empty_trace 1 "[]"] by simp
qed

section \<open>A longer file\<close>

lemma run_chunk_extends:
  "run_chunk c t = Inr t' \<Longrightarrow> (\<exists>evs. tr_events t' = tr_events t @ evs) \<and>
     (\<forall>k i n. get_name (tr_dictionary t) k i = Some n \<longrightarrow> get_name (tr_dictionary t') k i = Some n)"
  by (cases c) (auto simp: bindE_Inr_iff insert_all_keeps)

lemma run_chunks_extends:
  "run_chunks cs t = Inr t' \<Longrightarrow> (\<exists>evs. tr_events t' = tr_events t @ evs) \<and>
     (\<forall>k i n. get_name (tr_dictionary t) k i = Some n \<longrightarrow> get_name (tr_dictionary t') k i = Some n)"
proof (induction cs arbitrary: t)
  case (Cons c cs)
  then obtain t1 where 1: "run_chunk c t = Inr t1" "run_chunks cs t1 = Inr t'" by (auto simp: bindE_Inr_iff)
  from run_chunk_extends [OF 1(1)] Cons.IH [OF 1(2)] show ?case by auto
qed simp

text \<open>C19: appending is monotone. Once a session file has been read, appending whole chunks to it
  either makes the reader raise an error or keeps everything it said: the events read before are
  a prefix of the events read now, and every dictionary name keeps its meaning.\<close>

theorem open_session_append:
  assumes "ok_header h" "\<forall>c \<in> set (cs @ ds). ok_chunk c" "length (cs @ ds) < 2 ^ 64"
    and "open_session (Inr (enc_header h @ enc_chunks 1 cs)) = Inr r"
    and "open_session (Inr (enc_header h @ enc_chunks 1 (cs @ ds))) = Inr r'"
  shows "(\<exists>evs. events_of r' = events_of r @ evs) \<and>
    (\<forall>k i n. get_name (dictionary_of r) k i = Some n \<longrightarrow> get_name (dictionary_of r') k i = Some n)"
proof -
  have torn: "torn b []" for b by (simp add: torn_def)
  have "bindE (run_chunks cs empty_trace) (\<lambda>tr. Inr (read_trace h (length cs) False tr)) = Inr r"
    using assms open_session_enc [OF assms(1) _ _ torn, of cs] by simp
  then obtain t where t: "run_chunks cs empty_trace = Inr t" "r = read_trace h (length cs) False t"
    by (auto simp: bindE_Inr_iff)
  have "bindE (run_chunks (cs @ ds) empty_trace) (\<lambda>tr. Inr (read_trace h (length (cs @ ds)) False tr)) = Inr r'"
    using assms open_session_enc [OF assms(1) _ _ torn, of "cs @ ds"] by simp
  then obtain t' where t': "run_chunks ds t = Inr t'" "r' = read_trace h (length (cs @ ds)) False t'"
    using t by (auto simp: bindE_Inr_iff run_chunks_append)
  from run_chunks_extends [OF t'(1)] t(2) t'(2) show ?thesis by (simp add: read_trace_def)
qed

theorem open_session_append_witness:
  "\<exists>r r'. open_session (Inr (enc_header sample_header @ enc_chunks 1 [hd sample_chunks])) = Inr r \<and>
     open_session (Inr (enc_header sample_header @ enc_chunks 1 ([hd sample_chunks] @ tl sample_chunks))) = Inr r' \<and>
     (\<exists>evs. events_of r' = events_of r @ evs)"
proof -
  have torn: "torn b []" for b by (simp add: torn_def)
  have cs: "[hd sample_chunks] @ tl sample_chunks = sample_chunks" by (simp add: sample_chunks_def)
  obtain t' where t': "run_chunks sample_chunks empty_trace = Inr t'" using sample_chunks_run by blast
  then obtain t where t: "run_chunks [hd sample_chunks] empty_trace = Inr t"
    by (subst (asm) cs [symmetric]) (auto simp: bindE_Inr_iff)
  have "ok_chunk (hd sample_chunks)" using sample_chunks_ok by (simp add: sample_chunks_def)
  then have 1: "open_session (Inr (enc_header sample_header @ enc_chunks 1 [hd sample_chunks])) =
      Inr (read_trace sample_header 1 False t)"
    using open_session_enc [OF sample_header_ok, of "[hd sample_chunks]" "[]"] t torn by simp
  have 2: "open_session (Inr (enc_header sample_header @ enc_chunks 1 ([hd sample_chunks] @ tl sample_chunks))) =
      Inr (read_trace sample_header (length sample_chunks) False t')"
    using open_session_enc [OF sample_header_ok sample_chunks_ok sample_length torn] t' unfolding cs by simp
  show ?thesis
    using open_session_append [OF sample_header_ok _ _ 1 2] sample_chunks_ok sample_length 1 2 unfolding cs by blast
qed

section \<open>The dictionary layout of the specification\<close>

text \<open>
  A dictionary entry as \<open>specs/dtj-format-v1.md\<close> lays it out, and as the repository's writer
  emits it: kind, identifier, name length and name with no padding, seven bytes of header.
\<close>

definition spec_dict_entry :: "dict_entry \<Rightarrow> bytes" where
  "spec_dict_entry e = mk_byte (kind_num (entry_kind e)) # nat_le 4 (entry_id e) @
     nat_le 2 (length (name_bytes (entry_name e))) @ name_bytes (entry_name e)"

lemma utf8_decode_bytes: "utf8_decode bs = Some s \<Longrightarrow> length (name_bytes s) = length bs \<and> utf8_encode s \<noteq> None"
proof (induction bs arbitrary: s rule: utf8_decode.induct)
  case (2 b bs)
  then obtain c k s' where c: "utf8_step (unat b) bs = Good c k" "utf8_decode (drop k bs) = Some s'" "s = c # s'"
    by (auto split: utf8_item.splits)
  from utf8_step_Good [OF c(1)] "2.IH" [OF c(1,2)] c(3) show ?case by (auto simp: name_bytes_def)
qed (simp add: name_bytes_def)

definition spec_dictionary :: "dict_entry list \<Rightarrow> bytes" where
  "spec_dictionary es = nat_le 4 (length es) @ concat (map spec_dict_entry es)"

lemma spec_dictionary_length: "length (spec_dictionary es) = 4 + (\<Sum>e \<leftarrow> es. 7 + length (name_bytes (entry_name e)))"
  by (simp add: spec_dictionary_def spec_dict_entry_def length_concat comp_def)

text \<open>Every entry the reader returns takes ten bytes and its name.\<close>

lemma decode_dict_entry_size:
  "decode_dict_entry buf off = Inr (e, off') \<Longrightarrow> off' = off + 10 + length (name_bytes (entry_name e))"
  by (auto simp: decode_dict_entry_def Let_def slice_def bindE_Inr_iff split: if_splits option.splits
      dest!: utf8_decode_bytes)

lemma repeat_decode_size:
  "repeat_decode decode_dict_entry n buf off = Inr (es, off') \<Longrightarrow>
   off' = off + (\<Sum>e \<leftarrow> es. 10 + length (name_bytes (entry_name e)))"
proof (induction n arbitrary: off es)
  case (Suc n)
  then obtain e off1 es' where e: "decode_dict_entry buf off = Inr (e, off1)" "es = e # es'"
      and r: "repeat_decode decode_dict_entry n buf off1 = Inr (es', off')"
    by (auto simp: bindE_Inr_iff)
  from Suc.IH [OF r] decode_dict_entry_size [OF e(1)] e(2) show ?case by simp
qed simp

lemma decode_dict_entries_size:
  "decode_dict_entries buf = Inr es \<Longrightarrow> length buf = 4 + (\<Sum>e \<leftarrow> es. 10 + length (name_bytes (entry_name e)))"
  by (auto simp: decode_dict_entries_def Let_def bindE_Inr_iff split: if_splits dest!: repeat_decode_size)

lemma sum_longer: "(\<Sum>e \<leftarrow> e # es. 7 + f e) < (\<Sum>e \<leftarrow> e # es. 10 + (f e :: nat))"
proof -
  have "(\<Sum>e \<leftarrow> es. 7 + f e) \<le> (\<Sum>e \<leftarrow> es. 10 + f e)" by (rule sum_list_mono) simp
  then show ?thesis by simp
qed

lemma spec_first_name_long:
  assumes "3 \<le> length (name_bytes (entry_name e))" "5 \<le> unat (name_bytes (entry_name e) ! 2)" "length es < 65535"
  shows "decode_dict_entries (spec_dictionary (e # es)) = Inl (limit_exceeded ''dictionary name too long'')"
proof -
  obtain a b c bs where n: "name_bytes (entry_name e) = a # b # c # bs"
    using assms(1) by (auto simp: numeral_3_eq_3 Suc_le_length_iff)
  obtain rest where r: "spec_dictionary (e # es) =
      nat_le 4 (Suc (length es)) @ mk_byte (kind_num (entry_kind e)) # nat_le 4 (entry_id e) @
      nat_le 2 (length (name_bytes (entry_name e))) @ a # b # c # rest"
    by (simp add: spec_dictionary_def spec_dict_entry_def n)
  have k: "dict_kind_from_u8 (byte_at (mk_byte (kind_num (entry_kind e)) # xs) 0) = Inr (entry_kind e)" for xs
    using kind_num_bound [of "entry_kind e"] by (simp add: codec)
  have v: "1024 < u16_at (b # c # rest) 0" using assms(2) n by (simp add: u16_at_def slice_def)
  show ?thesis
    unfolding r using assms(3) k v by (simp add: decode_dict_entries_def decode_dict_entry_def codec)
qed

text \<open>C27: the fallback reader does not read the specified dictionary layout. No dictionary chunk laid out as specified
  that holds an entry is read as its entries; and one whose first name has three bytes or more is refused, unless its
  third byte is a control character below 5: the reader takes the second and third byte of the name for its
  length.\<close>

theorem spec_dictionary_rejected:
  "decode_dict_entries (spec_dictionary (e # es)) \<noteq> Inr (e # es) \<and>
   (3 \<le> length (name_bytes (entry_name e)) \<and> 5 \<le> unat (name_bytes (entry_name e) ! 2) \<and> length es < 65535 \<longrightarrow>
    decode_dict_entries (spec_dictionary (e # es)) = Inl (limit_exceeded ''dictionary name too long''))"
proof (intro conjI impI notI)
  assume "decode_dict_entries (spec_dictionary (e # es)) = Inr (e # es)"
  from decode_dict_entries_size [OF this] sum_longer [of "\<lambda>e. length (name_bytes (entry_name e))" e es]
  show False by (simp add: spec_dictionary_length)
qed (simp add: spec_first_name_long)

theorem spec_dictionary_rejected_witness:
  "decode_dict_entries (spec_dictionary [\<lparr>entry_kind = DOMAIN, entry_id = 1, entry_name = u ''game''\<rparr>]) =
    Inl (limit_exceeded ''dictionary name too long'')"
proof -
  have n: "name_bytes (u ''game'') = [103, 97, 109, 101]" by (simp add: name_eval)
  show ?thesis
    using spec_dictionary_rejected [of "\<lparr>entry_kind = DOMAIN, entry_id = 1, entry_name = u ''game''\<rparr>" "[]"] by (simp add: n)
qed

section \<open>Dictionary insertion\<close>

lemma insert_all_lookup:
  "insert_all d es = Inr d' \<Longrightarrow> get_name d' k i = (case get_name d k i of Some n \<Rightarrow> Some n
    | None \<Rightarrow> map_of (map (\<lambda>e. ((entry_kind e, entry_id e), entry_name e)) es) (k, i))"
proof (induction es arbitrary: d)
  case (Cons e es)
  then obtain d1 where d1: "dict_insert d e = Inr d1" "insert_all d1 es = Inr d'" by (auto simp: bindE_Inr_iff)
  from Cons.IH [OF d1(2)] dict_insert_keeps [OF d1(1)] get_name_insert [OF d1(1), of k i]
  show ?case by (auto split: option.splits)
qed (simp split: option.splits)

text \<open>The dictionary is single-assignment. When a dictionary chunk is accepted, every earlier
  binding is unchanged, every entry of the chunk is bound to its own name (so no two entries of an
  accepted session disagree on an identifier), and nothing else becomes bound.\<close>

theorem insert_all_spec:
  assumes "insert_all d es = Inr d'"
  shows "(\<forall>e \<in> set es. get_name d' (entry_kind e) (entry_id e) = Some (entry_name e)) \<and>
    (\<forall>k i. get_name d' k i = (case get_name d k i of Some n \<Rightarrow> Some n
      | None \<Rightarrow> map_of (map (\<lambda>e. ((entry_kind e, entry_id e), entry_name e)) es) (k, i)))"
  using insert_all_binds [OF assms] insert_all_lookup [OF assms] by blast

theorem insert_all_spec_witness:
  "\<exists>d'. insert_all empty_dictionary [\<lparr>entry_kind = DOMAIN, entry_id = 1, entry_name = u ''d''\<rparr>] = Inr d' \<and>
     get_name d' DOMAIN 1 = Some (u ''d'')"
proof -
  obtain d' where d': "insert_all empty_dictionary [\<lparr>entry_kind = DOMAIN, entry_id = 1, entry_name = u ''d''\<rparr>] = Inr d'"
    by (simp add: dict_insert_def empty_dictionary_def)
  then have "\<forall>e \<in> set [\<lparr>entry_kind = DOMAIN, entry_id = 1, entry_name = u ''d''\<rparr>].
      get_name d' (entry_kind e) (entry_id e) = Some (entry_name e)"
    using insert_all_spec by blast
  with d' show ?thesis by simp
qed

end
