(* ===== verification/Dtj_Projection.thy ===== *)
theory Dtj_Projection imports Dtj_Trace begin

text \<open>
  The JSON projection of a session (\<open>dtj_native.py\<close>), and the read layer above it
  (\<open>dtj_core.py\<close>, \<open>dtj_read.py\<close>). A binary32 value of the file is widened to the
  binary64 float Python holds; that this is exact is proved.
\<close>

section \<open>Floats of the file as Python floats\<close>

fun msb :: "nat \<Rightarrow> nat" where
  "msb n = (if n < 2 then 0 else Suc (msb (n div 2)))"

declare msb.simps [simp del]

lemma msb_bounds: "0 < n \<Longrightarrow> 2 ^ msb n \<le> n \<and> n < 2 ^ Suc (msb n)"
proof (induction n rule: msb.induct)
  case (1 n)
  show ?case
  proof (cases "n < 2")
    case True
    with 1 show ?thesis by (simp add: msb.simps)
  next
    case False
    with 1 have "2 ^ msb (n div 2) \<le> n div 2 \<and> n div 2 < 2 ^ Suc (msb (n div 2))" by simp
    with False show ?thesis by (subst (1 2) msb.simps) (auto simp: less_mult_imp_div_less)
  qed
qed

definition pack_f64 :: "nat \<Rightarrow> nat \<Rightarrow> nat \<Rightarrow> 64 word" where
  "pack_f64 s e m = word_of_nat (s * 2 ^ 63 + e * 2 ^ 52 + m)"

text \<open>The value of \<open>struct.unpack("<f", ...)\<close> from the binary32 pattern.\<close>

definition widen_f32 :: "nat \<Rightarrow> 64 word" where
  "widen_f32 b =
     (let s = b div 2 ^ 31; e = (b div 2 ^ 23) mod 2 ^ 8; m = b mod 2 ^ 23
      in if e = 255 then pack_f64 s 2047 (m * 2 ^ 29)
         else if e \<noteq> 0 then pack_f64 s (e + 896) (m * 2 ^ 29)
         else if m = 0 then pack_f64 s 0 0
         else pack_f64 s (msb m + 874) ((m - 2 ^ msb m) * 2 ^ (52 - msb m)))"

lemma pack_f64_parts:
  assumes "s < 2" "e < 2 ^ 11" "m < 2 ^ 52"
  shows "f64_sign (pack_f64 s e m) = s" "f64_exp (pack_f64 s e m) = e" "f64_mant (pack_f64 s e m) = m"
proof -
  have "s * 2 ^ 63 + e * 2 ^ 52 + m < (2 :: nat) ^ 64" using assms by simp
  then have n: "unat (pack_f64 s e m) = s * 2 ^ 63 + e * 2 ^ 52 + m"
    unfolding pack_f64_def by (simp only: unat_of_nat) simp
  have d: "s * 2 ^ 63 + e * 2 ^ 52 + m = (s * 2 ^ 11 + e) * 2 ^ 52 + m" by simp
  have q: "(s * 2 ^ 63 + e * 2 ^ 52 + m) div 2 ^ 52 = s * 2 ^ 11 + e"
    unfolding d using assms(3) by simp
  have r: "(s * 2 ^ 63 + e * 2 ^ 52 + m) mod 2 ^ 52 = m"
    unfolding d by (simp only: mod_mult_self3) (rule mod_less [OF assms(3)])
  have "(s * 2 ^ 63 + e * 2 ^ 52 + m) div 2 ^ 63 = (s * 2 ^ 11 + e) div 2 ^ 11"
    by (simp only: q [symmetric] div_mult2_eq [symmetric] power_add [symmetric]) simp
  also have "\<dots> = s" using assms(2) by simp
  finally show "f64_sign (pack_f64 s e m) = s" unfolding f64_sign_def n .
  show "f64_exp (pack_f64 s e m) = e" unfolding f64_exp_def n q using assms(2) by simp
  show "f64_mant (pack_f64 s e m) = m" unfolding f64_mant_def n r ..
qed

text \<open>Magnitudes of finite floats in units of \<open>2 ^ -1075\<close>.\<close>

definition f64_units :: "64 word \<Rightarrow> nat" where
  "f64_units w = f64_sig w * 2 ^ max 1 (f64_exp w)"

definition f32_units :: "nat \<Rightarrow> nat" where
  "f32_units b =
     (let e = (b div 2 ^ 23) mod 2 ^ 8; m = b mod 2 ^ 23
      in if e = 0 then m * 2 ^ 926 else (2 ^ 23 + m) * 2 ^ (e + 925))"

lemma widen_normal:
  fixes m :: nat
  shows "(2 ^ 52 + m * 2 ^ 29) * 2 ^ (e + 896) = (2 ^ 23 + m) * 2 ^ (e + 925)"
proof -
  have "(2 ^ 52 + m * 2 ^ 29) = (2 ^ 23 + m) * 2 ^ 29" by simp
  moreover have "(2 :: nat) ^ 29 * 2 ^ (e + 896) = 2 ^ (e + 925)"
    by (simp only: power_add [symmetric]) (simp add: add.commute)
  ultimately show ?thesis by (simp only: mult.assoc)
qed

lemma widen_subnormal:
  fixes m :: nat
  assumes "p \<le> 22" "2 ^ p \<le> m"
  shows "(2 ^ 52 + (m - 2 ^ p) * 2 ^ (52 - p)) * 2 ^ (p + 874) = m * 2 ^ 926"
proof -
  have "(2 :: nat) ^ 52 = 2 ^ p * 2 ^ (52 - p)" using assms by (simp only: power_add [symmetric]) simp
  then have "2 ^ 52 + (m - 2 ^ p) * 2 ^ (52 - p) = m * 2 ^ (52 - p)"
    using assms(2) by (simp only: add_mult_distrib [symmetric]) simp
  moreover have "(2 :: nat) ^ (52 - p) * 2 ^ (p + 874) = 2 ^ 926"
    using assms by (simp only: power_add [symmetric]) simp
  ultimately show ?thesis by (simp only: mult.assoc)
qed

lemma widen_f32_exact:
  assumes "b < 2 ^ 32" "(b div 2 ^ 23) mod 2 ^ 8 \<noteq> 255"
  shows "f64_finite (widen_f32 b)" "f64_sign (widen_f32 b) = b div 2 ^ 31" "f64_units (widen_f32 b) = f32_units b"
proof -
  define s e m where "s = b div 2 ^ 31" and "e = (b div 2 ^ 23) mod 2 ^ 8" and "m = b mod 2 ^ 23"
  have s: "s < 2" using assms by (simp add: s_def)
  have e: "e < 255" using assms(2) mod_less_divisor [of "2 ^ 8" "b div 2 ^ 23"] unfolding e_def by simp
  have m: "m < 2 ^ 23" by (simp add: m_def)
  have w: "widen_f32 b = (if e \<noteq> 0 then pack_f64 s (e + 896) (m * 2 ^ 29) else if m = 0 then pack_f64 s 0 0
      else pack_f64 s (msb m + 874) ((m - 2 ^ msb m) * 2 ^ (52 - msb m)))"
    using e unfolding widen_f32_def Let_def s_def [symmetric] e_def [symmetric] m_def [symmetric] by simp
  have v: "f32_units b = (if e = 0 then m * 2 ^ 926 else (2 ^ 23 + m) * 2 ^ (e + 925))"
    unfolding f32_units_def Let_def e_def [symmetric] m_def [symmetric] ..
  have "f64_finite (widen_f32 b) \<and> f64_sign (widen_f32 b) = s \<and> f64_units (widen_f32 b) = f32_units b"
  proof (cases "e = 0")
    case False
    have k: "e + 896 < 2 ^ 11" "m * 2 ^ 29 < 2 ^ 52" using e m by simp_all
    have w': "widen_f32 b = pack_f64 s (e + 896) (m * 2 ^ 29)" unfolding w using False by (rule if_P)
    show ?thesis
      using False e widen_normal [of m e] unfolding w' v f64_finite_def f64_units_def f64_sig_def
      by (simp only: pack_f64_parts [OF s k] if_True if_False) (simp add: max_def)
  next
    case True
    show ?thesis
    proof (cases "m = 0")
      case True
      with \<open>e = 0\<close> show ?thesis
        unfolding w v f64_finite_def f64_units_def f64_sig_def by (simp add: pack_f64_parts s)
    next
      case False
      then have p: "2 ^ msb m \<le> m" "m < 2 ^ Suc (msb m)" using msb_bounds [of m] by simp_all
      have "(2 :: nat) ^ msb m < 2 ^ 23" using p(1) m by linarith
      then have p22: "msb m \<le> 22" using power_strict_increasing_iff [of "2 :: nat" "msb m" 23] by simp
      have "(m - 2 ^ msb m) * 2 ^ (52 - msb m) < 2 ^ msb m * 2 ^ (52 - msb m)" using p by simp
      also have "\<dots> = (2 :: nat) ^ 52" using p22 by (simp only: power_add [symmetric]) simp
      finally have k: "msb m + 874 < 2 ^ 11" "(m - 2 ^ msb m) * 2 ^ (52 - msb m) < 2 ^ 52" using p22 by simp_all
      have w': "widen_f32 b = pack_f64 s (msb m + 874) ((m - 2 ^ msb m) * 2 ^ (52 - msb m))"
        unfolding w using True False by (simp only: simp_thms if_True if_False)
      show ?thesis
        using False True p22 widen_subnormal [OF p22 p(1)] unfolding w' v f64_finite_def f64_units_def f64_sig_def
        by (simp only: pack_f64_parts [OF s k] if_True if_False) (simp add: max_def)
    qed
  qed
  then show "f64_finite (widen_f32 b)" "f64_sign (widen_f32 b) = b div 2 ^ 31" "f64_units (widen_f32 b) = f32_units b"
    by (simp_all add: s_def)
qed


text \<open>Widening a binary32 value of the file to Python's float is exact: for every pattern that
  is not an infinity or a NaN, normal or subnormal, the result is finite and has the same sign
  and the same magnitude.\<close>

theorem widen_f32_value:
  assumes "b < 2 ^ 32" "(b div 2 ^ 23) mod 2 ^ 8 \<noteq> 255"
  shows "f64_finite (widen_f32 b) \<and> f64_sign (widen_f32 b) = b div 2 ^ 31 \<and> f64_units (widen_f32 b) = f32_units b"
  using widen_f32_exact [OF assms] by blast

theorem widen_f32_value_witness: "f64_units (widen_f32 0x3FC00000) = f32_units 0x3FC00000 \<and> f64_units (widen_f32 1) = f32_units 1"
  using widen_f32_value [of "0x3FC00000"] widen_f32_value [of 1] by simp

section \<open>Projection\<close>

definition json_float :: "64 word \<Rightarrow> json" where
  "json_float w = (if f64_finite w then JFloat w else JNull)"

definition json_opt :: "pystr option \<Rightarrow> json" where
  "json_opt v = (case v of None \<Rightarrow> JNull | Some s \<Rightarrow> JStr s)"

fun value_to_json :: "dictionary \<Rightarrow> field_value \<Rightarrow> jdict" where
  "value_to_json d (VBytes bs) = [(u ''hex'', JStr (hex_bytes bs))]"
| "value_to_json d (VInterned i) = [(u ''id'', jnat i), (u ''value'', json_opt (get_name d STRING i))]"
| "value_to_json d (VF32 w) = [(u ''value'', json_float (widen_f32 w))]"
| "value_to_json d (VF64 w) = [(u ''value'', json_float (word_of_nat w))]"
| "value_to_json d (VVec2 x y) = [(u ''value'', JList [json_float (widen_f32 x), json_float (widen_f32 y)])]"
| "value_to_json d (VVec3 x y z) =
     [(u ''value'', JList [json_float (widen_f32 x), json_float (widen_f32 y), json_float (widen_f32 z)])]"
| "value_to_json d (VBool b) = [(u ''value'', JBool b)]"
| "value_to_json d (VI32 i) = [(u ''value'', JInt i)]"
| "value_to_json d (VI64 i) = [(u ''value'', JInt i)]"
| "value_to_json d (VU32 n) = [(u ''value'', jnat n)]"
| "value_to_json d (VU64 n) = [(u ''value'', jnat n)]"
| "value_to_json d (VEnum n) = [(u ''value'', jnat n)]"

definition field_to_json :: "dictionary \<Rightarrow> pfield \<Rightarrow> json" where
  "field_to_json d f = JObj
     ([(u ''name_id'', jnat (fld_name_id f)),
       (u ''name'', json_opt (get_name d STRING (fld_name_id f))),
       (u ''type'', JStr (u (value_type_name (fld_value f))))] @ value_to_json d (fld_value f))"

definition SEVERITY_NAMES :: "string list" where
  "SEVERITY_NAMES = [''trace'', ''debug'', ''info'', ''warn'', ''error'', ''fatal'']"

definition event_to_json :: "dictionary \<Rightarrow> event_record \<Rightarrow> json" where
  "event_to_json d ev = JObj
     [(u ''monotonic_ns'', jnat (monotonic_ns ev)),
      (u ''event_sequence'', jnat (event_sequence ev)),
      (u ''domain_id'', jnat (domain_id ev)),
      (u ''domain'', json_opt (get_name d DOMAIN (domain_id ev))),
      (u ''category_id'', jnat (category_id ev)),
      (u ''category'', json_opt (get_name d CATEGORY (category_id ev))),
      (u ''event_name_id'', jnat (event_name_id ev)),
      (u ''event_name'', json_opt (get_name d EVENT_NAME (event_name_id ev))),
      (u ''correlation_id'', jnat (correlation_id ev)),
      (u ''correlation'', if correlation_id ev \<noteq> 0 then json_opt (get_name d STRING (correlation_id ev)) else JNull),
      (u ''severity'', JStr (u (SEVERITY_NAMES ! severity ev))),
      (u ''payload'', JList (map (field_to_json d) (payload ev)))]"

definition DICT_KIND_NAMES :: "dict_kind \<Rightarrow> string" where
  "DICT_KIND_NAMES k = (case k of DOMAIN \<Rightarrow> ''domain'' | CATEGORY \<Rightarrow> ''category''
     | EVENT_NAME \<Rightarrow> ''event_name'' | STRING \<Rightarrow> ''string'')"

definition native_adapter :: json where
  "native_adapter = JObj [(u ''name'', JStr (u ''dtj-python'')), (u ''version'', JInt 1)]"

definition session_to_projection :: "pystr \<Rightarrow> session_reader \<Rightarrow> jdict" where
  "session_to_projection path r =
     [(u ''ok'', JBool True),
      (u ''adapter'', native_adapter),
      (u ''session_path'', JStr path),
      (u ''header'', JObj
        [(u ''format_version'', jnat (format_version (header r))),
         (u ''flags'', jnat (flags (header r))),
         (u ''session_id_hex'', JStr (hex_bytes (session_id (header r)))),
         (u ''start_utc_unix_ms'', JInt (start_utc_unix_ms (header r))),
         (u ''mono_origin_ns'', jnat (mono_origin_ns (header r))),
         (u ''producer_name'', JStr (producer_name (header r))),
         (u ''producer_version'', JStr (producer_version (header r)))]),
      (u ''chunks_committed'', jnat (chunks_committed r)),
      (u ''torn_tail'', JBool (torn_tail r)),
      (u ''event_count'', jnat (length (events_of r))),
      (u ''dictionary'', JList (map (\<lambda>(k, i, n). JObj
        [(u ''kind'', JStr (u (DICT_KIND_NAMES k))), (u ''id'', jnat i), (u ''name'', JStr n)])
        (iter_entries (dictionary_of r)))),
      (u ''events'', JList (map (event_to_json (dictionary_of r)) (events_of r)))]"

definition native_error_projection :: "pystr \<Rightarrow> dtj_error \<Rightarrow> jdict" where
  "native_error_projection path e =
     [(u ''ok'', JBool False), (u ''adapter'', native_adapter), (u ''session_path'', JStr path),
      (u ''error'', JObj (to_error_dict e))]"

end
