(* ===== verification/Dtj_Read.thy ===== *)
theory Dtj_Read imports Dtj_Projection begin

text \<open>
  The read layer (\<open>dtj_core.py\<close>, \<open>dtj_read.py\<close>) over a host: the file system the process
  sees and the optional Rust extension, which is not part of the repository. The locale
  \<open>event_source\<close> is what every query relies on when a session loads; the native reader
  interprets it.
\<close>

section \<open>The host\<close>

text \<open>What a path names. A file has its content and its \<open>st_mtime_ns\<close>; a directory, and a file
  that cannot be read (with the text of its \<open>OSError\<close>), have their size and time.\<close>

datatype node = Missing | Directory nat int | File bytes int | Unreadable pystr nat int

text \<open>
  The host: the runtime's parameters; \<open>str(Path(p).expanduser())\<close>, \<open>str(Path(p).resolve())\<close> and
  the parent directories of a path, outermost first; the file system; and the Rust extension,
  when it is installed, as a function from a path to an error or the dictionary of \<open>to_dict()\<close>.
\<close>

record host =
  rt :: runtime
  expanduser :: "pystr \<Rightarrow> pystr"
  resolve :: "pystr \<Rightarrow> pystr"
  ancestors :: "pystr \<Rightarrow> pystr list"
  fs :: "pystr \<Rightarrow> node"
  rust_reader :: "(pystr \<Rightarrow> unit + jdict) option"

definition is_file :: "host \<Rightarrow> pystr \<Rightarrow> bool" where
  "is_file h p = (case fs h p of File b m \<Rightarrow> True | Unreadable e n m \<Rightarrow> True | _ \<Rightarrow> False)"

definition read_bytes :: "host \<Rightarrow> pystr \<Rightarrow> pystr + bytes" where
  "read_bytes h p =
     (case fs h p of File b m \<Rightarrow> Inr b | Unreadable e n m \<Rightarrow> Inl e
      | Missing \<Rightarrow> Inl (u ''[Errno 2] No such file or directory: '' @ str_repr (rt h) p)
      | Directory n m \<Rightarrow> Inl (u ''[Errno 21] Is a directory: '' @ str_repr (rt h) p))"

text \<open>\<open>path.stat().st_size\<close>, zero when there is nothing.\<close>

definition size_of_node :: "node \<Rightarrow> nat" where
  "size_of_node n = (case n of Missing \<Rightarrow> 0 | Directory s m \<Rightarrow> s | File b m \<Rightarrow> length b | Unreadable e s m \<Rightarrow> s)"

section \<open>\<open>dtj_core\<close> and \<open>dtj_read\<close>\<close>

text \<open>\<open>error_projection(path, kind_or_exc, message)\<close> of \<open>dtj_core\<close>: an exception, or a kind
  with an optional message.\<close>

definition core_error_projection :: "pystr \<Rightarrow> dtj_error + pystr \<times> pystr option \<Rightarrow> jdict" where
  "core_error_projection path what =
     (case what of
        Inl e \<Rightarrow>
          [(u ''ok'', JBool False), (u ''adapter'', native_adapter), (u ''session_path'', JStr path),
           (u ''error'', JObj (to_error_dict e))]
      | Inr (kind, message) \<Rightarrow>
          [(u ''ok'', JBool False), (u ''adapter'', native_adapter), (u ''session_path'', JStr path),
           (u ''error'', JObj [(u ''kind'', JStr kind),
              (u ''message'', JStr (case message of None \<Rightarrow> [] | Some m \<Rightarrow> m))])])"

text \<open>
  \<open>read_session\<close>. With the Rust extension, an exception of the reader reaches
  \<open>except DtjError\<close>, whose name is a local variable of the function (it is imported further
  down in the same body) and unbound on this path.
\<close>

definition read_session :: "host \<Rightarrow> pystr \<Rightarrow> py_exn + jdict" where
  "read_session h p =
     (let path = expanduser h p in
      if \<not> is_file h path
      then Inr (core_error_projection path (Inr (u ''Io'', Some (u ''session file not found: '' @ path))))
      else case rust_reader h of
        Some f \<Rightarrow> (case f path of Inl e \<Rightarrow> Inl (UnboundLocalError (u ''DtjError'')) | Inr d \<Rightarrow> Inr d)
      | None \<Rightarrow>
          (case open_session (read_bytes h path) of
             Inl e \<Rightarrow> Inr (core_error_projection path (Inl e))
           | Inr r \<Rightarrow> Inr (session_to_projection path r)))"

text \<open>\<open>read_session_dtj\<close> names \<open>error_projection\<close>, which its module does not import.\<close>

definition read_session_dtj :: "host \<Rightarrow> pystr \<Rightarrow> py_exn + jdict" where
  "read_session_dtj h p =
     (let path = expanduser h p in
      if \<not> is_file h path then Inl (NameError (u ''error_projection'')) else read_session h path)"

text \<open>The host without the Rust extension: the program as this repository contains it.\<close>

definition native :: "host \<Rightarrow> host" where
  "native h = h\<lparr>rust_reader := None\<rparr>"

lemma native_simps [simp]:
  "rt (native h) = rt h" "expanduser (native h) = expanduser h" "resolve (native h) = resolve h"
  "ancestors (native h) = ancestors h" "fs (native h) = fs h"
  "rust_reader (native h) = None" "is_file (native h) = is_file h" "read_bytes (native h) = read_bytes h"
  by (simp_all add: native_def is_file_def read_bytes_def fun_eq_iff split: node.splits)

definition is_ok :: "jdict \<Rightarrow> bool" where
  "is_ok d = truthy (getj d (u ''ok''))"

section \<open>What a loaded session promises\<close>

definition numeric_types :: "string list" where
  "numeric_types = [''i32'', ''i64'', ''u32'', ''u64'', ''f32'', ''f64'']"

text \<open>A projected payload field.\<close>

definition field_obj :: "json \<Rightarrow> bool" where
  "field_obj j = (\<exists>d t. j = JObj d \<and> is_str (getj d (u ''name'')) \<and> getj d (u ''type'') = JStr (u t) \<and>
     (t = ''interned_string'' \<longrightarrow> is_str (getj d (u ''value''))) \<and>
     (t \<in> set numeric_types \<longrightarrow> (\<exists>i. getj d (u ''value'') = JInt i \<and> \<bar>i\<bar> < 2 ^ 64) \<or>
        (\<exists>w. getj d (u ''value'') = JFloat w \<and> f64_finite w) \<or> getj d (u ''value'') = JNull))"

text \<open>A projected event with sequence number \<open>n\<close>.\<close>

definition event_obj :: "nat \<Rightarrow> json \<Rightarrow> bool" where
  "event_obj n j = (\<exists>d fs. j = JObj d \<and> getj d (u ''event_sequence'') = jnat n \<and>
     (\<exists>m < 2 ^ 64. getj d (u ''monotonic_ns'') = jnat m) \<and>
     is_str (getj d (u ''domain'')) \<and> is_str (getj d (u ''category'')) \<and> is_str (getj d (u ''event_name'')) \<and>
     (getj d (u ''correlation'') = JNull \<or> is_str (getj d (u ''correlation''))) \<and>
     (\<exists>s \<in> set SEVERITY_NAMES. getj d (u ''severity'') = JStr (u s)) \<and>
     getj d (u ''payload'') = JList fs \<and> (\<forall>f \<in> set fs. field_obj f))"

definition wf_events :: "json list \<Rightarrow> bool" where
  "wf_events evs = (\<forall>i < length evs. event_obj (Suc i) (evs ! i))"

definition wf_projection :: "jdict \<Rightarrow> bool" where
  "wf_projection d = (\<exists>evs. getj d (u ''events'') = JList evs \<and> wf_events evs \<and>
     getj d (u ''event_count'') = jnat (length evs) \<and> is_bool (getj d (u ''torn_tail'')) \<and>
     is_strict_int (getj d (u ''chunks_committed'')) \<and>
     truthy (getj d (u ''adapter'')) \<and> is_dict (getj d (u ''header'')))"

lemma resolves_str: "resolves d k i \<Longrightarrow> is_str (json_opt (get_name d k i))"
  by (auto simp: resolves_def json_opt_def)

lemma field_to_json_obj:
  assumes "resolves d STRING (fld_name_id f)" "ok_value (fld_value f)" "\<forall>i. fld_value f = VInterned i \<longrightarrow> resolves d STRING i"
  shows "field_obj (field_to_json d f)"
  unfolding field_obj_def field_to_json_def
  using assms by (cases "fld_value f") (auto simp: numeric_types_def json_float_def resolves_str)

lemma event_to_json_obj:
  assumes "wf_event ev" "refs_resolve d ev"
  shows "event_obj (event_sequence ev) (event_to_json d ev)"
proof -
  have "severity ev < length SEVERITY_NAMES" using assms(1) by (simp add: wf_event_def SEVERITY_NAMES_def)
  then have "SEVERITY_NAMES ! severity ev \<in> set SEVERITY_NAMES" by simp
  moreover have "\<forall>f \<in> set (payload ev). field_obj (field_to_json d f)"
    using assms by (auto simp: refs_resolve_def wf_event_def intro!: field_to_json_obj)
  ultimately show ?thesis
    using assms unfolding event_obj_def event_to_json_def
    by (auto simp: refs_resolve_def resolves_str wf_event_def)
qed

lemma projection_wf:
  assumes "wf_trace \<lparr>tr_dictionary = dictionary_of r, tr_events = events_of r\<rparr>"
  shows "wf_projection (session_to_projection p r)"
proof -
  have "event_obj (Suc i) (event_to_json (dictionary_of r) (events_of r ! i))" if i: "i < length (events_of r)" for i
  proof -
    have "map event_sequence (events_of r) ! i = Suc i"
      using assms i by (simp add: wf_trace_def del: upt_Suc)
    then have "event_sequence (events_of r ! i) = Suc i" using i by simp
    with assms i show ?thesis
      using event_to_json_obj [of "events_of r ! i" "dictionary_of r"] by (simp add: wf_trace_def)
  qed
  then show ?thesis
    by (simp add: wf_projection_def session_to_projection_def wf_events_def native_adapter_def)
qed

locale event_source =
  fixes load :: "pystr \<Rightarrow> py_exn + jdict"
  assumes load_wf: "load p = Inr d \<Longrightarrow> is_ok d \<Longrightarrow> wf_projection d"

interpretation native_source: event_source "read_session_dtj (native h)" for h
  by unfold_locales
    (auto simp: read_session_dtj_def read_session_def Let_def is_ok_def core_error_projection_def
      dest!: open_session_trace intro: projection_wf split: if_splits sum.splits)

section \<open>A sample host\<close>

definition sample_runtime :: runtime where
  "sample_runtime = \<lparr>casefold = id, lower = id, float_repr = (\<lambda>w. []), str_repr = id, int_of_str = (\<lambda>s. None),
     json_dumps = (\<lambda>j. Inr []), json_loads = (\<lambda>b. DecodeError []),
     lines_before = (\<lambda>b. []), odd_order = (\<lambda>ks. Inr id)\<rparr>"

definition sample_path :: pystr where "sample_path = u ''s.dtj''"

definition sample_bytes :: bytes where
  "sample_bytes = enc_header sample_header @ enc_chunks 1 sample_chunks"

definition sample_host :: host where
  "sample_host = \<lparr>rt = sample_runtime, expanduser = id, resolve = id, ancestors = (\<lambda>p. []),
     fs = (\<lambda>p. if p = sample_path then File sample_bytes 7 else Missing), rust_reader = None\<rparr>"

definition sample_trace :: trace where
  "sample_trace = \<lparr>tr_dictionary = \<lparr>by_key = [((DOMAIN, 1), u ''d''), ((CATEGORY, 1), u ''c''),
     ((EVENT_NAME, 1), u ''e''), ((STRING, 1), u ''s'')]\<rparr>, tr_events = [sample_event 1, sample_event 2]\<rparr>"

lemma sample_run: "run_chunks sample_chunks empty_trace = Inr sample_trace"
  by (simp add: sample_chunks_def empty_trace_def empty_dictionary_def dict_insert_def u_Cons
      sample_event_def validate_event_refs_def require_def get_name_def sample_trace_def)

definition sample_projection :: jdict where
  "sample_projection = session_to_projection sample_path (read_trace sample_header 2 False sample_trace)"

lemma sample_open: "open_session (Inr sample_bytes) = Inr (read_trace sample_header 2 False sample_trace)"
proof -
  have "length sample_chunks = 2" "sample_chunks \<noteq> []" by (simp_all add: sample_chunks_def)
  then show ?thesis
    using open_session_enc [OF sample_header_ok sample_chunks_ok sample_length, of "[]"]
    by (simp add: torn_def sample_bytes_def sample_run)
qed

lemma sample_load: "read_session_dtj (native sample_host) sample_path = Inr sample_projection"
  by (simp add: read_session_dtj_def read_session_def Let_def is_file_def sample_host_def native_def
      read_bytes_def sample_open sample_projection_def)

lemma sample_ok: "is_ok sample_projection"
  by (simp add: is_ok_def sample_projection_def session_to_projection_def)

text \<open>C26: every session the native reader loads has the shape the queries rely on: its events are
  objects numbered 1, 2, ... with string names for domain, category and event, a correlation that
  is a string or null, one of the six severities, and payload fields that all have a name.\<close>

theorem loaded_session_wf:
  assumes "read_session_dtj (native h) p = Inr d" "is_ok d"
  shows "wf_projection d"
  using assms by (rule native_source.load_wf)

theorem loaded_session_wf_witness: "wf_projection sample_projection"
  by (rule loaded_session_wf [OF sample_load sample_ok])

end
