(* ===== verification/Dtj_Search.thy ===== *)
theory Dtj_Search imports Dtj_Read begin

text \<open>
  In-memory search over one session (\<open>dtj_search.py\<close>): argument validation, the AND filters,
  paging, and the text rendering of a page.
\<close>

section \<open>Shared pieces of the query functions\<close>

definition getd :: "jdict \<Rightarrow> pystr \<Rightarrow> json \<Rightarrow> json" where
  "getd d k v = (case map_of d k of None \<Rightarrow> v | Some x \<Rightarrow> x)"

definition core_adapter :: json where
  "core_adapter = JObj [(u ''name'', JStr (u ''dtj-core'')), (u ''version'', JInt 1)]"

definition fail_with :: "json \<Rightarrow> json \<Rightarrow> jdict \<Rightarrow> jdict" where
  "fail_with adapter path err =
     [(u ''ok'', JBool False), (u ''adapter'', adapter), (u ''session_path'', path), (u ''error'', JObj err)]"

definition adapter_of :: "jdict \<Rightarrow> json" where
  "adapter_of d = or_else (getj d (u ''adapter'')) core_adapter"

text \<open>\<open>decoded = load(path); if not decoded.get("ok"): return decoded\<close>, then the rest.\<close>

definition with_loaded :: "py_exn + jdict \<Rightarrow> (jdict \<Rightarrow> jdict) \<Rightarrow> py_exn + jdict" where
  "with_loaded r k = bindE r (\<lambda>d. if is_ok d then Inr (k d) else Inr d)"

abbreviation (input) "MAX_SEARCH_LIMIT \<equiv> 500 :: int"
abbreviation (input) "MAX_OFFSET \<equiv> 100000 :: int"

section \<open>Validation\<close>

definition validate_search_limit :: "json \<Rightarrow> jdict option" where
  "validate_search_limit limit =
     (if is_bool limit \<or> \<not> is_int limit then
        Some [(u ''kind'', JStr (u ''InvalidLimit'')),
          (u ''message'', JStr (u ''limit must be an integer in 1..500, got '' @ type_name limit)),
          (u ''max'', JInt MAX_SEARCH_LIMIT)]
      else if int_val limit < 1 \<or> MAX_SEARCH_LIMIT < int_val limit then
        Some [(u ''kind'', JStr (u ''InvalidLimit'')),
          (u ''message'', JStr (u ''limit must be an integer in 1..500, got '' @ str_int (int_val limit))),
          (u ''limit'', limit), (u ''max'', JInt MAX_SEARCH_LIMIT)]
      else None)"

definition validate_search_offset :: "json \<Rightarrow> jdict option" where
  "validate_search_offset offset =
     (if is_bool offset \<or> \<not> is_int offset then
        Some [(u ''kind'', JStr (u ''InvalidLimit'')),
          (u ''message'', JStr (u ''offset must be an integer in 0..100000, got '' @ type_name offset)),
          (u ''max'', JInt MAX_OFFSET)]
      else if int_val offset < 0 \<or> MAX_OFFSET < int_val offset then
        Some [(u ''kind'', JStr (u ''InvalidLimit'')),
          (u ''message'', JStr (u ''offset must be an integer in 0..100000, got '' @ str_int (int_val offset))),
          (u ''offset'', offset), (u ''max'', JInt MAX_OFFSET)]
      else None)"

definition bad_mono :: "json \<Rightarrow> bool" where
  "bad_mono v = (v \<noteq> JNull \<and> (is_bool v \<or> \<not> is_int v \<or> int_val v < 0))"

definition validate_mono_window :: "json \<Rightarrow> json \<Rightarrow> jdict option" where
  "validate_mono_window mono_from mono_to =
     (if bad_mono mono_from then
        Some [(u ''kind'', JStr (u ''InvalidQuery'')),
          (u ''message'', JStr (u ''mono_from_ns must be a non-negative integer (nanoseconds)''))]
      else if bad_mono mono_to then
        Some [(u ''kind'', JStr (u ''InvalidQuery'')),
          (u ''message'', JStr (u ''mono_to_ns must be a non-negative integer (nanoseconds)''))]
      else if is_int mono_from \<and> is_int mono_to \<and> int_val mono_to < int_val mono_from then
        Some [(u ''kind'', JStr (u ''InvalidQuery'')),
          (u ''message'', JStr (u ''mono_to_ns must be >= mono_from_ns'')),
          (u ''mono_from_ns'', mono_from), (u ''mono_to_ns'', mono_to)]
      else None)"

section \<open>Filters\<close>

record filters =
  f_domain :: "pystr option"
  f_category :: "pystr option"
  f_event_name :: "pystr option"
  f_event :: "pystr option"
  f_correlation_id :: "pystr option"
  f_severity :: "pystr option"
  f_text :: "pystr option"
  f_exclude :: "pystr option"
  f_exclude_category :: "pystr option"
  f_mono_from_ns :: json
  f_mono_to_ns :: json

definition no_filters :: filters where
  "no_filters = \<lparr>f_domain = None, f_category = None, f_event_name = None, f_event = None,
     f_correlation_id = None, f_severity = None, f_text = None, f_exclude = None,
     f_exclude_category = None, f_mono_from_ns = JNull, f_mono_to_ns = JNull\<rparr>"

text \<open>\<open>if isinstance(v, str) and v: parts.append(v)\<close>\<close>

definition str_part :: "json \<Rightarrow> pystr list" where
  "str_part v = (if is_str v \<and> str_val v \<noteq> [] then [str_val v] else [])"

definition field_text_parts :: "json \<Rightarrow> pystr list" where
  "field_text_parts fld =
     (if \<not> is_dict fld then []
      else str_part (getj (dict_val fld) (u ''name'')) @
        (if getj (dict_val fld) (u ''type'') = JStr (u ''interned_string'')
         then str_part (getj (dict_val fld) (u ''value'')) else []))"

definition human_readable_text_parts :: "jdict \<Rightarrow> pystr list" where
  "human_readable_text_parts ev =
     concat (map (\<lambda>k. str_part (getj ev k)) [u ''domain'', u ''category'', u ''event_name'', u ''correlation'']) @
     (if is_list (getj ev (u ''payload'')) then concat (map field_text_parts (list_val (getj ev (u ''payload'')))) else [])"

definition haystack :: "jdict \<Rightarrow> pystr" where
  "haystack ev = join (u '' '') (human_readable_text_parts ev)"

definition eq_filter :: "pystr option \<Rightarrow> json \<Rightarrow> bool" where
  "eq_filter f v = (case f of None \<Rightarrow> True | Some s \<Rightarrow> v = JStr s)"

text \<open>The early returns of \<open>event_matches_native_filters\<close>, in their order.\<close>

definition event_matches_native_filters :: "runtime \<Rightarrow> filters \<Rightarrow> jdict \<Rightarrow> bool" where
  "event_matches_native_filters r f ev =
     (let ev_category = getj ev (u ''category'') in
      if f_exclude_category f \<noteq> None \<and> is_str ev_category \<and>
         casefold r (str_val ev_category) = casefold r (the (f_exclude_category f)) then False
      else let hay = haystack ev in
      if f_exclude f \<noteq> None \<and> f_exclude f \<noteq> Some [] \<and>
         is_infix (casefold r (the (f_exclude f))) (casefold r hay) then False
      else if (f_mono_from_ns f \<noteq> JNull \<or> f_mono_to_ns f \<noteq> JNull) \<and>
         (let mono = getj ev (u ''monotonic_ns'') in
          if is_bool mono \<or> \<not> is_int mono then True
          else if f_mono_from_ns f \<noteq> JNull \<and> int_val mono < int_val (f_mono_from_ns f) then True
          else f_mono_to_ns f \<noteq> JNull \<and> int_val (f_mono_to_ns f) < int_val mono) then False
      else if \<not> eq_filter (f_domain f) (getj ev (u ''domain'')) then False
      else if f_category f \<noteq> None \<and>
         (\<not> is_str ev_category \<or> casefold r (str_val ev_category) \<noteq> casefold r (the (f_category f))) then False
      else if \<not> eq_filter (f_event_name f) (getj ev (u ''event_name'')) then False
      else if f_event f \<noteq> None \<and> f_event f \<noteq> Some [] \<and>
         (\<not> is_str (getj ev (u ''event_name'')) \<or>
          \<not> is_infix (casefold r (the (f_event f))) (casefold r (str_val (getj ev (u ''event_name''))))) then False
      else if \<not> eq_filter (f_correlation_id f) (getj ev (u ''correlation'')) then False
      else if \<not> eq_filter (f_severity f) (getj ev (u ''severity'')) then False
      else if f_text f \<noteq> None \<and> f_text f \<noteq> Some [] \<and>
         \<not> is_infix (casefold r (the (f_text f))) (casefold r hay) then False
      else True)"

section \<open>Text rendering\<close>

definition compact_field :: "json \<Rightarrow> pystr list" where
  "compact_field item =
     (if \<not> is_dict item then []
      else let fname = getj (dict_val item) (u ''name'') in
      if \<not> is_str fname then []
      else if getj (dict_val item) (u ''type'') = JStr (u ''interned_string'') \<and>
        is_str (getj (dict_val item) (u ''value''))
      then [str_val fname @ u ''='' @ str_val (getj (dict_val item) (u ''value''))] else [])"

definition tab :: pystr where "tab = [9]"
definition newline :: pystr where "newline = [10]"

definition compact_event :: "runtime \<Rightarrow> jdict \<Rightarrow> pystr" where
  "compact_event r ev =
     (let cat = or_else (getj ev (u ''category'')) (JStr []);
          name = or_else (getj ev (u ''event_name'')) (JStr []);
          tag = (if truthy cat \<or> truthy name then py_str r cat @ u ''.'' @ py_str r name else u ''<none>'');
          corr = or_else (getj ev (u ''correlation'')) (JStr (u ''-''));
          fields = (if is_list (getj ev (u ''payload''))
            then concat (map compact_field (list_val (getj ev (u ''payload'')))) else []);
          msg0 = join (u '' '') fields;
          msg = (if 120 < length msg0 then take 117 msg0 @ u ''...'' else msg0)
      in rstrip (py_str r (getj ev (u ''event_sequence'')) @ tab @ u ''mono_ns='' @
           py_str r (getj ev (u ''monotonic_ns'')) @ tab @ tag @ tab @ u ''corr='' @ py_str r corr @ tab @ msg))"

definition list_traces_text :: "runtime \<Rightarrow> nat \<Rightarrow> json list \<Rightarrow> nat \<Rightarrow> pystr" where
  "list_traces_text r matched_count returned offset =
     (if matched_count = 0 then u ''No matching lines.''
      else
        nstr matched_count @ u '' match(es); showing '' @ nstr (length returned) @ u '' (offset '' @
        nstr offset @ u '').'' @ newline @
        join newline (map (\<lambda>e. compact_event r (dict_val e)) returned) @
        (if offset + length returned < matched_count then
           newline @ u ''... '' @ nstr (matched_count - offset - length returned) @
           u '' more. Increase offset or tighten filters.''
         else []))"

section \<open>The search\<close>

definition matched_events :: "runtime \<Rightarrow> filters \<Rightarrow> json list \<Rightarrow> json list" where
  "matched_events r f evs = filter (\<lambda>e. is_dict e \<and> event_matches_native_filters r f (dict_val e)) evs"

definition filters_json :: "filters \<Rightarrow> json" where
  "filters_json f = JObj
     [(u ''domain'', json_opt (f_domain f)), (u ''category'', json_opt (f_category f)),
      (u ''event_name'', json_opt (f_event_name f)), (u ''event'', json_opt (f_event f)),
      (u ''correlation_id'', json_opt (f_correlation_id f)), (u ''severity'', json_opt (f_severity f)),
      (u ''text'', json_opt (f_text f)), (u ''exclude'', json_opt (f_exclude f)),
      (u ''exclude_category'', json_opt (f_exclude_category f)),
      (u ''mono_from_ns'', f_mono_from_ns f), (u ''mono_to_ns'', f_mono_to_ns f)]"

definition search_result :: "runtime \<Rightarrow> pystr \<Rightarrow> filters \<Rightarrow> json \<Rightarrow> json \<Rightarrow> jdict \<Rightarrow> jdict" where
  "search_result r path f limit offset decoded =
     (let events = getj decoded (u ''events'') in
      if \<not> is_list events then
        fail_with (adapter_of decoded) (getd decoded (u ''session_path'') (JStr path))
          [(u ''kind'', JStr (u ''AdapterInvalidJson'')),
           (u ''message'', JStr (u ''native DTJ decode missing events list''))]
      else
        let matched = matched_events r f (list_val events);
            off = nat (int_val offset);
            returned = slice matched off (off + nat (int_val limit))
        in [(u ''ok'', JBool True), (u ''adapter'', adapter_of decoded),
            (u ''session_path'', getd decoded (u ''session_path'') (JStr path)),
            (u ''torn_tail'', JBool (truthy (getj decoded (u ''torn_tail'')))),
            (u ''matched_count'', jnat (length matched)), (u ''returned_count'', jnat (length returned)),
            (u ''limit'', limit), (u ''offset'', offset), (u ''filters'', filters_json f),
            (u ''events'', JList returned),
            (u ''text'', JStr (list_traces_text r (length matched) returned off))])"

definition search_session_dtj :: "host \<Rightarrow> pystr \<Rightarrow> filters \<Rightarrow> json \<Rightarrow> json \<Rightarrow> py_exn + jdict" where
  "search_session_dtj h p f limit offset =
     (let path = expanduser h p in
      case validate_search_limit limit of
        Some e \<Rightarrow> Inr (fail_with core_adapter (JStr path) e)
      | None \<Rightarrow> (case validate_search_offset offset of
        Some e \<Rightarrow> Inr (fail_with core_adapter (JStr path) e)
      | None \<Rightarrow> (case validate_mono_window (f_mono_from_ns f) (f_mono_to_ns f) of
        Some e \<Rightarrow> Inr (fail_with core_adapter (JStr path) e)
      | None \<Rightarrow> with_loaded (read_session_dtj h p) (search_result (rt h) path f limit offset))))"

end
