(* ===== verification/Dtj_Search_Props.thy ===== *)
theory Dtj_Search_Props imports Dtj_Search begin

text \<open>
  What a search returns: the filters are a conjunction, raw bytes are never searched, results
  come in event order, and the pages of a query partition its matches.
\<close>

section \<open>Event order\<close>

definition event_seq :: "json \<Rightarrow> int" where
  "event_seq e = int_val (getj (dict_val e) (u ''event_sequence''))"

abbreviation ascending :: "json list \<Rightarrow> bool" where
  "ascending evs \<equiv> sorted_wrt (<) (map event_seq evs)"

lemma event_obj_seq: "event_obj n e \<Longrightarrow> is_dict e \<and> event_seq e = int n"
  by (auto simp: event_obj_def event_seq_def)

lemma wf_events_nth: "wf_events evs \<Longrightarrow> i < length evs \<Longrightarrow> is_dict (evs ! i) \<and> event_seq (evs ! i) = int (Suc i)"
  unfolding wf_events_def by (rule event_obj_seq) blast

lemma wf_events_dict: "wf_events evs \<Longrightarrow> e \<in> set evs \<Longrightarrow> is_dict e"
  by (auto simp: in_set_conv_nth wf_events_nth)

lemma wf_events_ascending: "wf_events evs \<Longrightarrow> ascending evs"
  by (auto simp: sorted_wrt_iff_nth_less wf_events_nth)

lemma wf_events_filter_dict: "wf_events evs \<Longrightarrow> filter is_dict evs = evs"
  by (auto simp: filter_id_conv wf_events_dict)

lemma ascending_filter: "ascending evs \<Longrightarrow> ascending (filter P evs)"
  by (simp add: sorted_wrt_map sorted_wrt_filter)

lemma ascending_slice: "ascending evs \<Longrightarrow> ascending (slice evs a b)"
  unfolding slice_def by (simp add: sorted_wrt_map sorted_wrt_take sorted_wrt_drop)

section \<open>Pages\<close>

lemma concat_slices: "concat (map (\<lambda>i. slice xs (i * l) (i * l + l)) [0..<k]) = take (k * l) xs"
proof (induction k)
  case (Suc k)
  have "take (k * l) xs @ slice xs (k * l) (k * l + l) = take (k * l + l) xs"
    by (simp add: slice_def take_add)
  with Suc show ?case by (simp add: add.commute)
qed simp

section \<open>The search of a loaded session\<close>

definition events_in :: "jdict \<Rightarrow> json list" where
  "events_in d = list_val (getj d (u ''events''))"

lemma events_in_search_result:
  "is_list (getj d (u ''events'')) \<Longrightarrow>
     events_in (search_result r path f limit offset d) =
       slice (matched_events r f (events_in d)) (nat (int_val offset)) (nat (int_val offset) + nat (int_val limit))"
  by (simp add: search_result_def events_in_def Let_def)

lemma is_ok_search_result: "is_ok (search_result r path f limit offset d) = is_list (getj d (u ''events''))"
  by (cases "is_list (getj d (u ''events''))") (simp_all add: search_result_def is_ok_def fail_with_def Let_def)

lemma is_ok_fail_with [simp]: "\<not> is_ok (fail_with a p e)"
  by (simp add: is_ok_def fail_with_def)

lemma with_loaded_Inr_iff:
  "with_loaded r k = Inr out \<longleftrightarrow> (\<exists>d. r = Inr d \<and> out = (if is_ok d then k d else d))"
  by (cases r) (simp_all add: with_loaded_def, blast?)

lemma valid_limit: "validate_search_limit l = None \<longleftrightarrow> is_strict_int l \<and> 1 \<le> int_val l \<and> int_val l \<le> 500"
  by (auto simp: validate_search_limit_def is_strict_int_def)

lemma valid_offset: "validate_search_offset l = None \<longleftrightarrow> is_strict_int l \<and> 0 \<le> int_val l \<and> int_val l \<le> 100000"
  by (auto simp: validate_search_offset_def is_strict_int_def)

lemma matched_events_ascending: "wf_events evs \<Longrightarrow> ascending (matched_events r f evs)"
  unfolding matched_events_def by (intro ascending_filter wf_events_ascending)

lemma set_matched: "e \<in> set (matched_events r f evs) \<longleftrightarrow>
    e \<in> set evs \<and> is_dict e \<and> event_matches_native_filters r f (dict_val e)"
  by (auto simp: matched_events_def)

context event_source begin

lemma loaded_events:
  assumes "load p = Inr d" "is_ok d"
  shows "wf_events (events_in d) \<and> is_list (getj d (u ''events'')) \<and>
    getj d (u ''event_count'') = jnat (length (events_in d))"
  using load_wf [OF assms] by (auto simp: wf_projection_def events_in_def)

lemma search_loaded:
  assumes "with_loaded (load p) (search_result r path f limit offset) = Inr out" "is_ok out"
  shows "\<exists>d. load p = Inr d \<and> is_ok d \<and>
    events_in out = slice (matched_events r f (events_in d)) (nat (int_val offset)) (nat (int_val offset) + nat (int_val limit)) \<and>
    getj out (u ''matched_count'') = jnat (length (matched_events r f (events_in d))) \<and>
    ascending (events_in out)"
proof -
  from assms obtain d where d: "load p = Inr d" "is_ok d" "out = search_result r path f limit offset d"
    by (auto simp: with_loaded_Inr_iff split: if_splits)
  from loaded_events [OF d(1,2)] have w: "wf_events (events_in d)" "is_list (getj d (u ''events''))" by simp_all
  have "getj out (u ''matched_count'') = jnat (length (matched_events r f (events_in d)))"
    using w by (simp add: d(3) search_result_def Let_def events_in_def)
  with d w events_in_search_result [OF w(2)] matched_events_ascending [OF w(1)] show ?thesis
    by (auto intro: ascending_slice)
qed

lemma search_loaded_ok:
  assumes "load p = Inr d" "is_ok d"
  shows "\<exists>out. with_loaded (load p) (search_result r path f limit offset) = Inr out \<and> is_ok out \<and>
    events_in out = slice (matched_events r f (events_in d)) (nat (int_val offset)) (nat (int_val offset) + nat (int_val limit))"
  using loaded_events [OF assms] assms
  by (simp add: with_loaded_def is_ok_search_result events_in_search_result)

end

lemma search_session_Inr:
  assumes "search_session_dtj h p f limit offset = Inr out" "is_ok out"
  shows "validate_search_limit limit = None" "validate_search_offset offset = None"
    "validate_mono_window (f_mono_from_ns f) (f_mono_to_ns f) = None"
    "with_loaded (read_session_dtj h p) (search_result (rt h) (expanduser h p) f limit offset) = Inr out"
  using assms by (auto simp: search_session_dtj_def Let_def split: option.splits)

text \<open>C7: a search returns one page of the matching events of the session and nothing else: the
  events returned are the slice at the offset of all events that match, at most the limit and
  never more than 500 of them, in strictly ascending event order, and the match count is that of
  the whole session.\<close>

theorem search_session_page:
  assumes "search_session_dtj (native h) p f limit offset = Inr out" "is_ok out"
  shows "\<exists>d. read_session_dtj (native h) p = Inr d \<and> is_ok d \<and>
    events_in out = slice (matched_events (rt h) f (events_in d)) (nat (int_val offset)) (nat (int_val offset) + nat (int_val limit)) \<and>
    getj out (u ''matched_count'') = jnat (length (matched_events (rt h) f (events_in d))) \<and>
    length (events_in out) \<le> 500 \<and> ascending (events_in out)"
proof -
  note s = search_session_Inr [OF assms]
  from s(4) have "with_loaded (read_session_dtj (native h) p) (search_result (rt h) (expanduser h p) f limit offset) = Inr out"
    by simp
  from native_source.search_loaded [OF this assms(2)] obtain d where
    d: "read_session_dtj (native h) p = Inr d" "is_ok d"
    "events_in out = slice (matched_events (rt h) f (events_in d)) (nat (int_val offset)) (nat (int_val offset) + nat (int_val limit))"
    "getj out (u ''matched_count'') = jnat (length (matched_events (rt h) f (events_in d)))" "ascending (events_in out)"
    by blast
  moreover have "length (events_in out) \<le> 500" using s(1) by (simp add: d(3) valid_limit min_le_iff_disj nat_le_iff)
  ultimately show ?thesis by blast
qed


lemma sample_events: "events_in sample_projection =
    [event_to_json (tr_dictionary sample_trace) (sample_event 1), event_to_json (tr_dictionary sample_trace) (sample_event 2)]"
  by (simp add: sample_projection_def session_to_projection_def events_in_def read_trace_def sample_trace_def)

lemma no_filters_window: "validate_mono_window (f_mono_from_ns no_filters) (f_mono_to_ns no_filters) = None"
  by (simp add: validate_mono_window_def bad_mono_def no_filters_def)

lemma sample_search:
  "\<exists>out. search_session_dtj (native sample_host) sample_path no_filters (JInt 1) (JInt 0) = Inr out \<and> is_ok out"
proof -
  have v: "validate_search_limit (JInt 1) = None" "validate_search_offset (JInt 0) = None"
    by (simp_all add: valid_limit valid_offset)
  from native_source.search_loaded_ok [OF sample_load sample_ok, of "rt sample_host"
      "expanduser sample_host sample_path" no_filters "JInt 1" "JInt 0"]
  show ?thesis by (auto simp: search_session_dtj_def Let_def v no_filters_window)
qed

theorem search_session_page_witness:
  "\<exists>out. search_session_dtj (native sample_host) sample_path no_filters (JInt 1) (JInt 0) = Inr out \<and>
     length (events_in out) \<le> 500"
  using sample_search search_session_page by blast

text \<open>The pages of a query partition its matches. Reading \<open>k\<close> consecutive pages of \<open>l\<close>
  events and appending them gives the first \<open>k * l\<close> matching events: no match is lost or
  repeated between pages.\<close>

theorem search_pages_partition:
  assumes "read_session_dtj (native h) p = Inr d" "is_ok d" "1 \<le> l" "l \<le> 500" "k * l \<le> 100000 + l"
    and "validate_mono_window (f_mono_from_ns f) (f_mono_to_ns f) = None"
  shows "concat (map (\<lambda>i. case search_session_dtj (native h) p f (jnat l) (jnat (i * l)) of
      Inl e \<Rightarrow> [] | Inr out \<Rightarrow> events_in out) [0..<k]) =
    take (k * l) (matched_events (rt h) f (events_in d))"
proof -
  have page: "(case search_session_dtj (native h) p f (jnat l) (jnat (i * l)) of
      Inl e \<Rightarrow> [] | Inr out \<Rightarrow> events_in out) =
      slice (matched_events (rt h) f (events_in d)) (i * l) (i * l + l)" if i: "i < k" for i
  proof -
    have "Suc i * l \<le> k * l" using i by (intro mult_le_mono1) simp
    then have "i * l \<le> 100000" using assms(5) by simp
    then have "int i * int l \<le> 100000" by (simp flip: of_nat_mult)
    with assms have v: "validate_search_limit (jnat l) = None" "validate_search_offset (jnat (i * l)) = None"
      by (auto simp: valid_limit valid_offset)
    from native_source.search_loaded_ok [OF assms(1,2), of "rt h" "expanduser h p" f "jnat l" "jnat (i * l)"]
    show ?thesis
      using assms(6) v by (auto simp: search_session_dtj_def Let_def nat_mult_distrib)
  qed
  have "map (\<lambda>i. case search_session_dtj (native h) p f (jnat l) (jnat (i * l)) of
      Inl e \<Rightarrow> [] | Inr out \<Rightarrow> events_in out) [0..<k] =
      map (\<lambda>i. slice (matched_events (rt h) f (events_in d)) (i * l) (i * l + l)) [0..<k]"
    by (rule map_cong [OF refl], rule page) simp
  then show ?thesis by (simp only: concat_slices)
qed

theorem search_pages_partition_witness:
  "concat (map (\<lambda>i. case search_session_dtj (native sample_host) sample_path no_filters (jnat 1) (jnat (i * 1)) of
      Inl e \<Rightarrow> [] | Inr out \<Rightarrow> events_in out) [0..<2]) =
    take (2 * 1) (matched_events (rt sample_host) no_filters (events_in sample_projection))"
  by (rule search_pages_partition [OF sample_load sample_ok])
    (simp_all add: no_filters_window)

definition folded_in :: "runtime \<Rightarrow> pystr \<Rightarrow> pystr \<Rightarrow> bool" where
  "folded_in r needle hay = (\<exists>a b. casefold r hay = a @ casefold r needle @ b)"

definition given :: "pystr option \<Rightarrow> (pystr \<Rightarrow> bool) \<Rightarrow> bool" where
  "given f P = (case f of None \<Rightarrow> True | Some s \<Rightarrow> P s)"

definition in_window :: "filters \<Rightarrow> json \<Rightarrow> bool" where
  "in_window f m =
     ((f_mono_from_ns f = JNull \<and> f_mono_to_ns f = JNull) \<or>
      (is_strict_int m \<and> (f_mono_from_ns f = JNull \<or> int_val (f_mono_from_ns f) \<le> int_val m) \<and>
       (f_mono_to_ns f = JNull \<or> int_val m \<le> int_val (f_mono_to_ns f))))"

text \<open>The filters are a conjunction: an event matches exactly when each filter that is given
  holds of it on its own.\<close>

theorem filters_conjunction:
  "event_matches_native_filters r f ev =
    (given (f_domain f) (\<lambda>s. getj ev (u ''domain'') = JStr s) \<and>
     given (f_category f) (\<lambda>s. \<exists>c. getj ev (u ''category'') = JStr c \<and> casefold r c = casefold r s) \<and>
     given (f_exclude_category f) (\<lambda>s. \<nexists>c. getj ev (u ''category'') = JStr c \<and> casefold r c = casefold r s) \<and>
     given (f_event_name f) (\<lambda>s. getj ev (u ''event_name'') = JStr s) \<and>
     given (f_event f) (\<lambda>s. s = [] \<or> (\<exists>n. getj ev (u ''event_name'') = JStr n \<and> folded_in r s n)) \<and>
     given (f_correlation_id f) (\<lambda>s. getj ev (u ''correlation'') = JStr s) \<and>
     given (f_severity f) (\<lambda>s. getj ev (u ''severity'') = JStr s) \<and>
     given (f_text f) (\<lambda>s. s = [] \<or> folded_in r s (haystack ev)) \<and>
     given (f_exclude f) (\<lambda>s. s = [] \<or> \<not> folded_in r s (haystack ev)) \<and>
     in_window f (getj ev (u ''monotonic_ns'')))"
proof -
  have str: "is_str j \<longleftrightarrow> (\<exists>s. j = JStr s)" for j by (cases j) auto
  have w: "((f_mono_from_ns f \<noteq> JNull \<or> f_mono_to_ns f \<noteq> JNull) \<and>
         (let mono = m in
          if is_bool mono \<or> \<not> is_int mono then True
          else if f_mono_from_ns f \<noteq> JNull \<and> int_val mono < int_val (f_mono_from_ns f) then True
          else f_mono_to_ns f \<noteq> JNull \<and> int_val (f_mono_to_ns f) < int_val mono)) = (\<not> in_window f m)" for m
    unfolding in_window_def is_strict_int_def Let_def by (cases "is_bool m"; cases "is_int m") (auto simp: not_less)
  have fi: "folded_in r s n = is_infix (casefold r s) (casefold r n)" for s n
    by (simp add: folded_in_def is_infix_iff)
  have xc: "(g \<noteq> None \<and> is_str v \<and> casefold r (str_val v) = casefold r (the g)) =
      (\<not> given g (\<lambda>s. \<nexists>c. v = JStr c \<and> casefold r c = casefold r s))" for g v
    by (cases g) (auto simp: given_def str)
  have ct: "(g \<noteq> None \<and> (\<not> is_str v \<or> casefold r (str_val v) \<noteq> casefold r (the g))) =
      (\<not> given g (\<lambda>s. \<exists>c. v = JStr c \<and> casefold r c = casefold r s))" for g v
    by (cases g) (auto simp: given_def str)
  have ev: "(g \<noteq> None \<and> g \<noteq> Some [] \<and> (\<not> is_str v \<or> \<not> is_infix (casefold r (the g)) (casefold r (str_val v)))) =
      (\<not> given g (\<lambda>s. s = [] \<or> (\<exists>n. v = JStr n \<and> folded_in r s n)))" for g v
    by (cases g) (auto simp: given_def str fi)
  have tx: "(g \<noteq> None \<and> g \<noteq> Some [] \<and> \<not> is_infix (casefold r (the g)) (casefold r hay)) =
      (\<not> given g (\<lambda>s. s = [] \<or> folded_in r s hay))" for g hay
    by (cases g) (auto simp: given_def fi)
  have ex: "(g \<noteq> None \<and> g \<noteq> Some [] \<and> is_infix (casefold r (the g)) (casefold r hay)) =
      (\<not> given g (\<lambda>s. s = [] \<or> \<not> folded_in r s hay))" for g hay
    by (cases g) (auto simp: given_def fi)
  have eq: "eq_filter g v = given g (\<lambda>s. v = JStr s)" for g v
    by (cases g) (auto simp: given_def eq_filter_def)
  have if_False: "(if \<not> P then False else Q) = (P \<and> Q)" for P Q by simp
  show ?thesis
    unfolding event_matches_native_filters_def w Let_def [where s = "getj ev (u ''category'')"]
      Let_def [where s = "haystack ev"] xc ct ev tx ex eq if_False
    by (rule iffI; elim conjE; intro conjI TrueI; assumption)
qed

theorem filters_conjunction_witness:
  "event_matches_native_filters sample_runtime (no_filters\<lparr>f_exclude := Some (u ''x'')\<rparr>) [(u ''domain'', JStr (u ''abc''))]"
proof -
  have "\<not> folded_in sample_runtime (u ''x'') (haystack [(u ''domain'', JStr (u ''abc''))])"
    by (simp add: folded_in_def haystack_def human_readable_text_parts_def str_part_def join_def
        sample_runtime_def u_Cons Cons_eq_append_conv)
  then show ?thesis
    using filters_conjunction [of sample_runtime "no_filters\<lparr>f_exclude := Some (u ''x'')\<rparr>" "[(u ''domain'', JStr (u ''abc''))]"]
    by (simp add: given_def no_filters_def in_window_def)
qed

fun scrub_value :: "field_value \<Rightarrow> field_value" where
  "scrub_value (VBytes bs) = VBytes []"
| "scrub_value v = v"

definition scrub :: "event_record \<Rightarrow> event_record" where
  "scrub ev = ev\<lparr>payload := map (\<lambda>f. f\<lparr>fld_value := scrub_value (fld_value f)\<rparr>) (payload ev)\<rparr>"

lemma field_text_parts_scrub:
  "field_text_parts (field_to_json d (f\<lparr>fld_value := scrub_value (fld_value f)\<rparr>)) = field_text_parts (field_to_json d f)"
  by (cases "fld_value f") (simp_all add: field_to_json_def field_text_parts_def)

lemma haystack_scrub: "haystack (dict_val (event_to_json d (scrub ev))) = haystack (dict_val (event_to_json d ev))"
  by (simp add: haystack_def human_readable_text_parts_def event_to_json_def scrub_def field_text_parts_scrub comp_def)

text \<open>Raw bytes are never searchable. Replacing the content of every byte-string value of an
  event, and nothing else, changes no filter's answer.\<close>

theorem bytes_never_searched:
  "event_matches_native_filters r f (dict_val (event_to_json d (scrub ev))) =
   event_matches_native_filters r f (dict_val (event_to_json d ev))"
proof -
  have k:
    "getj (dict_val (event_to_json d (scrub ev))) (u ''category'') = getj (dict_val (event_to_json d ev)) (u ''category'')"
    "getj (dict_val (event_to_json d (scrub ev))) (u ''monotonic_ns'') = getj (dict_val (event_to_json d ev)) (u ''monotonic_ns'')"
    "getj (dict_val (event_to_json d (scrub ev))) (u ''domain'') = getj (dict_val (event_to_json d ev)) (u ''domain'')"
    "getj (dict_val (event_to_json d (scrub ev))) (u ''event_name'') = getj (dict_val (event_to_json d ev)) (u ''event_name'')"
    "getj (dict_val (event_to_json d (scrub ev))) (u ''correlation'') = getj (dict_val (event_to_json d ev)) (u ''correlation'')"
    "getj (dict_val (event_to_json d (scrub ev))) (u ''severity'') = getj (dict_val (event_to_json d ev)) (u ''severity'')"
    by (simp_all add: event_to_json_def scrub_def)
  show ?thesis unfolding event_matches_native_filters_def haystack_scrub k by (rule refl)
qed

text \<open>Arguments are validated before any file is touched: when the limit, the offset or the
  time window is invalid, the answer is a structured error that does not depend on the file
  system.\<close>

theorem invalid_search_no_io:
  assumes "validate_search_limit limit \<noteq> None \<or> validate_search_offset offset \<noteq> None \<or>
    validate_mono_window (f_mono_from_ns f) (f_mono_to_ns f) \<noteq> None"
  shows "\<exists>out. search_session_dtj h p f limit offset = Inr out \<and> \<not> is_ok out \<and>
    (\<forall>files. search_session_dtj (h\<lparr>fs := files\<rparr>) p f limit offset = Inr out)"
  using assms by (auto simp: search_session_dtj_def Let_def split: option.splits)

theorem invalid_search_no_io_witness:
  "\<exists>out. search_session_dtj sample_host sample_path no_filters (JInt 501) (JInt 0) = Inr out \<and> \<not> is_ok out"
proof -
  have "validate_search_limit (JInt 501) \<noteq> None" by (simp add: validate_search_limit_def)
  then show ?thesis using invalid_search_no_io [of "JInt 501" "JInt 0" no_filters sample_host sample_path] by blast
qed

end
