(* ===== verification/Dtj_Query.thy ===== *)
theory Dtj_Query imports Dtj_Search_Props begin

text \<open>
  The bounded queries of \<open>dtj_query.py\<close>: tail, range, context window, text and regular
  expression search, and the neighbourhood of a correlation. The regular expression engine of the
  standard library is a parameter; the pattern checks in front of it are modelled.
\<close>

section \<open>Shared pieces\<close>

abbreviation (input) "MAX_REGEX_PATTERN_LEN \<equiv> 256 :: nat"
abbreviation (input) "MAX_CONTEXT_WINDOW \<equiv> 200 :: int"
abbreviation (input) "MAX_NEIGHBOURHOOD \<equiv> 100 :: int"

definition base_result :: "pystr \<Rightarrow> jdict \<Rightarrow> jdict" where
  "base_result path decoded =
     [(u ''ok'', JBool True), (u ''adapter'', adapter_of decoded), (u ''session_path'', JStr path),
      (u ''torn_tail'', JBool (truthy (getj decoded (u ''torn_tail''))))]"

definition fail_at :: "pystr \<Rightarrow> jdict \<Rightarrow> jdict" where
  "fail_at path err = fail_with core_adapter (JStr path) err"

definition with_loadedE :: "py_exn + jdict \<Rightarrow> (jdict \<Rightarrow> py_exn + jdict) \<Rightarrow> py_exn + jdict" where
  "with_loadedE r k = bindE r (\<lambda>d. if is_ok d then k d else Inr d)"

text \<open>What \<open>for e in (decoded.get("events") or [])\<close> iterates over.\<close>

definition iter_events :: "jdict \<Rightarrow> py_exn + json list" where
  "iter_events d =
     (case or_else (getj d (u ''events'')) (JList []) of
        JList xs \<Rightarrow> Inr xs
      | JStr s \<Rightarrow> Inr (map (\<lambda>c. JStr [c]) s)
      | JObj o' \<Rightarrow> Inr (map (\<lambda>(k, v). JStr k) o')
      | v \<Rightarrow> Inl (TypeError (u (''object is not iterable''))))"

definition dict_events :: "jdict \<Rightarrow> py_exn + json list" where
  "dict_events d = bindE (iter_events d) (\<lambda>es. Inr (filter is_dict es))"

section \<open>Tail\<close>

definition tail_result :: "pystr \<Rightarrow> json \<Rightarrow> jdict \<Rightarrow> jdict" where
  "tail_result path n decoded =
     (let events = or_else (getj decoded (u ''events'')) (JList []) in
      if \<not> is_list events
      then fail_at path [(u ''kind'', JStr (u ''MalformedRecord'')), (u ''message'', JStr (u ''events list missing''))]
      else let evs = list_val events; k = nat (int_val n);
               returned = (if k < length evs then drop (length evs - k) evs else evs)
           in base_result path decoded @
             [(u ''n'', n), (u ''event_count'', jnat (length evs)), (u ''returned_count'', jnat (length returned)),
              (u ''events'', JList returned)])"

definition tail_events_dtj :: "host \<Rightarrow> pystr \<Rightarrow> json \<Rightarrow> py_exn + jdict" where
  "tail_events_dtj h p n =
     (let path = expanduser h p in
      case validate_search_limit n of
        Some e \<Rightarrow> Inr (fail_at path e)
      | None \<Rightarrow> with_loaded (read_session_dtj h p) (tail_result path n))"

section \<open>Range\<close>

definition range_result :: "pystr \<Rightarrow> json \<Rightarrow> json \<Rightarrow> jdict \<Rightarrow> py_exn + jdict" where
  "range_result path start end decoded =
     bindE (iter_events decoded) (\<lambda>es.
       let events = filter (\<lambda>e. is_dict e \<and> is_int (getj (dict_val e) (u ''event_sequence'')) \<and>
             int_val start \<le> int_val (getj (dict_val e) (u ''event_sequence'')) \<and>
             int_val (getj (dict_val e) (u ''event_sequence'')) \<le> int_val end) es
       in Inr (base_result path decoded @
            [(u ''start'', start), (u ''end'', end), (u ''returned_count'', jnat (length events)),
             (u ''events'', JList events)]))"

definition get_event_range_dtj :: "host \<Rightarrow> pystr \<Rightarrow> json \<Rightarrow> json \<Rightarrow> py_exn + jdict" where
  "get_event_range_dtj h p start end =
     (let path = expanduser h p in
      if \<not> is_int start \<or> \<not> is_int end \<or> is_bool start \<or> is_bool end
      then Inr (fail_at path [(u ''kind'', JStr (u ''InvalidRange'')),
        (u ''message'', JStr (u ''start and end must be integers (event_sequence)''))])
      else if int_val end < int_val start
      then Inr (fail_at path [(u ''kind'', JStr (u ''InvalidRange'')),
        (u ''message'', JStr (u ''end must be >= start'')), (u ''start'', start), (u ''end'', end)])
      else if MAX_SEARCH_LIMIT < int_val end - int_val start + 1
      then Inr (fail_at path [(u ''kind'', JStr (u ''ResultTooLarge'')),
        (u ''message'', JStr (u ''requested range size '' @ str_int (int_val end - int_val start + 1) @
           u '' exceeds max 500'')), (u ''max'', JInt MAX_SEARCH_LIMIT)])
      else with_loadedE (read_session_dtj h p) (range_result path start end))"

section \<open>Context window\<close>

definition bad_window :: "int \<Rightarrow> json \<Rightarrow> bool" where
  "bad_window max_value v = (is_bool v \<or> \<not> is_int v \<or> int_val v < 0 \<or> max_value < int_val v)"

definition window_error :: "string \<Rightarrow> int \<Rightarrow> jdict" where
  "window_error name max_value =
     [(u ''kind'', JStr (u ''InvalidLimit'')),
      (u ''message'', JStr (u name @ u '' must be an integer in 0..'' @ str_int max_value)),
      (u ''max'', JInt max_value)]"

text \<open>\<open>next((i for i, e in enumerate(events) if ...), None)\<close>\<close>

fun find_index :: "('a \<Rightarrow> bool) \<Rightarrow> 'a list \<Rightarrow> nat option" where
  "find_index P [] = None"
| "find_index P (x # xs) = (if P x then Some 0 else map_option Suc (find_index P xs))"

definition context_result :: "pystr \<Rightarrow> json \<Rightarrow> json \<Rightarrow> json \<Rightarrow> jdict \<Rightarrow> py_exn + jdict" where
  "context_result path seqno before after decoded =
     bindE (dict_events decoded) (\<lambda>events.
       case find_index (\<lambda>e. num_eq (getj (dict_val e) (u ''event_sequence'')) (int_val seqno)) events of
         None \<Rightarrow> Inr (fail_at path [(u ''kind'', JStr (u ''MissingEvent'')),
           (u ''message'', JStr (u ''event_sequence '' @ str_int (int_val seqno) @ u '' not found'')),
           (u ''event_sequence'', seqno)])
       | Some idx \<Rightarrow>
           let lo = idx - nat (int_val before);
               hi = min (length events) (idx + nat (int_val after) + 1);
               window = slice events lo hi
           in Inr (base_result path decoded @
                [(u ''event_sequence'', seqno), (u ''before'', before), (u ''after'', after),
                 (u ''returned_count'', jnat (length window)), (u ''events'', JList window)]))"

definition context_around_event_dtj :: "host \<Rightarrow> pystr \<Rightarrow> json \<Rightarrow> json \<Rightarrow> json \<Rightarrow> py_exn + jdict" where
  "context_around_event_dtj h p seqno before after =
     (let path = expanduser h p in
      if bad_window MAX_CONTEXT_WINDOW before then Inr (fail_at path (window_error ''before'' MAX_CONTEXT_WINDOW))
      else if bad_window MAX_CONTEXT_WINDOW after then Inr (fail_at path (window_error ''after'' MAX_CONTEXT_WINDOW))
      else if is_bool seqno \<or> \<not> is_int seqno
      then Inr (fail_at path [(u ''kind'', JStr (u ''InvalidRange'')),
        (u ''message'', JStr (u ''event_sequence must be an integer''))])
      else with_loadedE (read_session_dtj h p) (context_result path seqno before after))"

section \<open>Structured and text search\<close>

definition structured_search_dtj :: "host \<Rightarrow> pystr \<Rightarrow> filters \<Rightarrow> json \<Rightarrow> json \<Rightarrow> py_exn + jdict" where
  "structured_search_dtj h p f limit offset = search_session_dtj h p f limit offset"

definition text_search_dtj :: "host \<Rightarrow> pystr \<Rightarrow> json \<Rightarrow> pystr option \<Rightarrow> pystr option \<Rightarrow> json \<Rightarrow> py_exn + jdict" where
  "text_search_dtj h p query domain category limit =
     (if \<not> is_str query \<or> str_val query = []
      then Inr (fail_at (expanduser h p) [(u ''kind'', JStr (u ''InvalidQuery'')),
        (u ''message'', JStr (u ''query must be a non-empty string''))])
      else search_session_dtj h p
        (no_filters\<lparr>f_domain := domain, f_category := category, f_text := Some (str_val query)\<rparr>) limit (JInt 0))"

section \<open>Regular expression search\<close>

text \<open>\<open>re.compile(pattern, re.IGNORECASE)\<close>: the error text, or whether \<open>search\<close> finds a match.\<close>

type_synonym regex_engine = "pystr \<Rightarrow> pystr + (pystr \<Rightarrow> bool)"

text \<open>\<open>re.search(r"(\.\*){2,}|\(\?[^)]*\)\+", pattern)\<close>\<close>

fun group_plus :: "pystr \<Rightarrow> bool" where
  "group_plus [] = False"
| "group_plus (c # cs) =
     ((is_prefix (u ''(?'') (c # cs) \<and> is_prefix (u '')+'') (dropWhile (\<lambda>x. x \<noteq> 41) (drop 1 cs))) \<or> group_plus cs)"

definition catastrophic :: "pystr \<Rightarrow> bool" where
  "catastrophic pattern = (is_infix (u ''.*.*'') pattern \<or> group_plus pattern)"

definition scalar_types :: "string list" where
  "scalar_types = [''bool'', ''i32'', ''i64'', ''u32'', ''u64'', ''f32'', ''f64'', ''enum'']"

definition field_parts :: "runtime \<Rightarrow> json \<Rightarrow> pystr list" where
  "field_parts r fld =
     (if \<not> is_dict fld then []
      else let d = dict_val fld in
        str_part (getj d (u ''name'')) @
        (if getj d (u ''type'') = JStr (u ''interned_string'') then str_part (getj d (u ''value''))
         else if getj d (u ''type'') \<in> (\<lambda>t. JStr (u t)) ` set scalar_types then [py_str r (getj d (u ''value''))]
         else []))"

definition text_parts :: "runtime \<Rightarrow> jdict \<Rightarrow> pystr list" where
  "text_parts r ev =
     concat (map (\<lambda>k. str_part (getj ev k))
       [u ''domain'', u ''category'', u ''event_name'', u ''correlation'', u ''severity'']) @
     (if is_list (getj ev (u ''payload'')) then concat (map (field_parts r) (list_val (getj ev (u ''payload'')))) else [])"

definition regex_hit :: "runtime \<Rightarrow> (pystr \<Rightarrow> bool) \<Rightarrow> pystr option \<Rightarrow> pystr option \<Rightarrow> json \<Rightarrow> bool" where
  "regex_hit r found domain category e =
     (is_dict e \<and> eq_filter domain (getj (dict_val e) (u ''domain'')) \<and>
      eq_filter category (getj (dict_val e) (u ''category'')) \<and> found (join (u '' '') (text_parts r (dict_val e))))"

definition regex_result ::
  "runtime \<Rightarrow> pystr \<Rightarrow> pystr \<Rightarrow> (pystr \<Rightarrow> bool) \<Rightarrow> pystr option \<Rightarrow> pystr option \<Rightarrow> json \<Rightarrow> jdict \<Rightarrow> py_exn + jdict" where
  "regex_result r path pattern found domain category limit decoded =
     bindE (iter_events decoded) (\<lambda>es.
       let matched = filter (regex_hit r found domain category) es;
           returned = take (nat (int_val limit)) matched
       in Inr (base_result path decoded @
            [(u ''pattern'', JStr pattern), (u ''matched_count'', jnat (length matched)),
             (u ''returned_count'', jnat (length returned)), (u ''limit'', limit), (u ''events'', JList returned)]))"

definition regex_search_dtj ::
  "regex_engine \<Rightarrow> host \<Rightarrow> pystr \<Rightarrow> json \<Rightarrow> pystr option \<Rightarrow> pystr option \<Rightarrow> json \<Rightarrow> py_exn + jdict" where
  "regex_search_dtj re h p pattern domain category limit =
     (let path = expanduser h p in
      case validate_search_limit limit of
        Some e \<Rightarrow> Inr (fail_at path e)
      | None \<Rightarrow>
          if \<not> is_str pattern \<or> \<not> truthy pattern
          then Inr (fail_at path [(u ''kind'', JStr (u ''InvalidQuery'')),
            (u ''message'', JStr (u ''pattern must be a non-empty string''))])
          else if MAX_REGEX_PATTERN_LEN < length (str_val pattern)
          then Inr (fail_at path [(u ''kind'', JStr (u ''InvalidQuery'')),
            (u ''message'', JStr (u ''pattern length '' @ nstr (length (str_val pattern)) @ u '' exceeds max 256'')),
            (u ''max'', JInt 256)])
          else if catastrophic (str_val pattern)
          then Inr (fail_at path [(u ''kind'', JStr (u ''InvalidQuery'')),
            (u ''message'', JStr (u ''pattern rejected as potentially catastrophic''))])
          else case re (str_val pattern) of
            Inl exc \<Rightarrow> Inr (fail_at path [(u ''kind'', JStr (u ''InvalidQuery'')),
              (u ''message'', JStr (u ''invalid regex: '' @ exc))])
          | Inr found \<Rightarrow> with_loadedE (read_session_dtj h p)
              (regex_result (rt h) path (str_val pattern) found domain category limit))"

section \<open>Correlation neighbourhood\<close>

definition select_window :: "json list \<Rightarrow> nat \<Rightarrow> nat \<Rightarrow> (nat \<times> json) list \<Rightarrow> nat \<Rightarrow> (nat \<times> json) list" where
  "select_window events before after selected idx =
     foldl (\<lambda>sel j. AList.update j (events ! j) sel) selected
       [idx - before ..< min (length events) (idx + after + 1)]"

definition neighbourhood_result ::
  "pystr \<Rightarrow> pystr \<Rightarrow> json \<Rightarrow> json \<Rightarrow> json \<Rightarrow> jdict \<Rightarrow> py_exn + jdict" where
  "neighbourhood_result path corr before after limit decoded =
     bindE (dict_events decoded) (\<lambda>events.
       let hit_indexes = filter (\<lambda>i. getj (dict_val (events ! i)) (u ''correlation'') = JStr corr) [0..<length events]
       in if hit_indexes = []
          then Inr (base_result path decoded @
            [(u ''correlation_id'', JStr corr), (u ''matched_count'', JInt 0), (u ''returned_count'', JInt 0),
             (u ''limit'', limit), (u ''events'', JList [])])
          else
            let selected = foldl (select_window events (nat (int_val before)) (nat (int_val after))) [] hit_indexes;
                ordered = map snd (sort_key fst selected)
            in if nat (int_val limit) < length ordered
               then Inr (fail_at path [(u ''kind'', JStr (u ''ResultTooLarge'')),
                 (u ''message'', JStr (u ''neighbourhood result '' @ nstr (length ordered) @ u '' exceeds limit '' @
                    str_int (int_val limit) @ u ''; tighten before/after or raise limit'')),
                 (u ''matched_count'', jnat (length ordered)), (u ''limit'', limit), (u ''max'', JInt MAX_SEARCH_LIMIT)])
               else Inr (base_result path decoded @
                 [(u ''correlation_id'', JStr corr), (u ''before'', before), (u ''after'', after),
                  (u ''matched_count'', jnat (length ordered)), (u ''returned_count'', jnat (length ordered)),
                  (u ''limit'', limit), (u ''events'', JList ordered)]))"

definition correlation_neighbourhood_dtj ::
  "host \<Rightarrow> pystr \<Rightarrow> json \<Rightarrow> json \<Rightarrow> json \<Rightarrow> json \<Rightarrow> py_exn + jdict" where
  "correlation_neighbourhood_dtj h p corr before after limit =
     (let path = expanduser h p in
      case validate_search_limit limit of
        Some e \<Rightarrow> Inr (fail_at path e)
      | None \<Rightarrow>
          if \<not> is_str corr \<or> \<not> truthy corr
          then Inr (fail_at path [(u ''kind'', JStr (u ''InvalidQuery'')),
            (u ''message'', JStr (u ''correlation_id must be a non-empty string''))])
          else if bad_window MAX_NEIGHBOURHOOD before
          then Inr (fail_at path (window_error ''before'' MAX_NEIGHBOURHOOD))
          else if bad_window MAX_NEIGHBOURHOOD after
          then Inr (fail_at path (window_error ''after'' MAX_NEIGHBOURHOOD))
          else with_loadedE (read_session_dtj h p)
            (neighbourhood_result path (str_val corr) before after limit))"

end
