(* ===== verification/Dtj_Query_Props.thy ===== *)
theory Dtj_Query_Props imports Dtj_Query begin

text \<open>
  The queries return exact windows of the session. The lemmas of the locale \<open>event_source\<close>
  compute each query on a loaded session; the properties follow for the native reader.
\<close>

section \<open>Windows of numbered events\<close>

lemma find_index_Some: "find_index P xs = Some i \<longleftrightarrow> i < length xs \<and> P (xs ! i) \<and> (\<forall>j < i. \<not> P (xs ! j))"
proof (induction xs arbitrary: i)
  case (Cons x xs)
  show ?case
  proof (cases i)
    case (Suc k)
    have "(\<forall>j < Suc k. \<not> P ((x # xs) ! j)) = (\<not> P x \<and> (\<forall>j < k. \<not> P (xs ! j)))"
      by (auto simp: less_Suc_eq_0_disj)
    with Suc Cons show ?thesis by auto
  qed auto
qed simp

lemma find_index_None: "find_index P xs = None \<longleftrightarrow> (\<forall>x \<in> set xs. \<not> P x)"
  by (induction xs) auto

lemma wf_events_num_eq:
  assumes "wf_events evs" "i < length evs"
  shows "num_eq (getj (dict_val (evs ! i)) (u ''event_sequence'')) n \<longleftrightarrow> n = int (Suc i)"
    and "is_int (getj (dict_val (evs ! i)) (u ''event_sequence''))"
proof -
  have "event_obj (Suc i) (evs ! i)" using assms by (simp add: wf_events_def)
  then have "getj (dict_val (evs ! i)) (u ''event_sequence'') = jnat (Suc i)" by (auto simp: event_obj_def)
  then show "num_eq (getj (dict_val (evs ! i)) (u ''event_sequence'')) n \<longleftrightarrow> n = int (Suc i)"
    and "is_int (getj (dict_val (evs ! i)) (u ''event_sequence''))" by auto
qed

lemma wf_events_find:
  assumes "wf_events evs"
  shows "find_index (\<lambda>e. num_eq (getj (dict_val e) (u ''event_sequence'')) n) evs =
    (if 1 \<le> n \<and> n \<le> int (length evs) then Some (nat (n - 1)) else None)"
proof (cases "1 \<le> n \<and> n \<le> int (length evs)")
  case True
  then have i: "nat (n - 1) < length evs" "int (Suc (nat (n - 1))) = n" by auto
  have "\<not> num_eq (getj (dict_val (evs ! j)) (u ''event_sequence'')) n" if "j < nat (n - 1)" for j
    using wf_events_num_eq(1) [OF assms, of j n] that i by simp
  then show ?thesis
    using True i wf_events_num_eq(1) [OF assms i(1), of n] by (auto simp: find_index_Some)
next
  case False
  have "\<not> num_eq (getj (dict_val e) (u ''event_sequence'')) n" if "e \<in> set evs" for e
  proof -
    from that obtain i where "i < length evs" "e = evs ! i" by (auto simp: in_set_conv_nth)
    with wf_events_num_eq(1) [OF assms this(1), of n] False show ?thesis by auto
  qed
  with False show ?thesis by (auto simp: find_index_None)
qed

text \<open>Selecting by consecutive numbers is slicing.\<close>

lemma filter_index_range:
  assumes "\<And>i. i < length xs \<Longrightarrow> P (xs ! i) \<longleftrightarrow> a \<le> i \<and> i < b"
  shows "filter P xs = slice xs a b"
  using assms
proof (induction xs arbitrary: a b)
  case (Cons x xs)
  have h: "P x \<longleftrightarrow> a = 0 \<and> 0 < b" using Cons.prems [of 0] by simp
  have "P (xs ! i) \<longleftrightarrow> a - 1 \<le> i \<and> i < b - 1" if "i < length xs" for i
    using Cons.prems [of "Suc i"] that by auto
  then have "filter P xs = slice xs (a - 1) (b - 1)" by (rule Cons.IH)
  with h show ?case by (cases a; cases b) (auto simp: slice_def)
qed (simp add: slice_def)

lemma wf_events_range:
  assumes "wf_events evs"
  shows "filter (\<lambda>e. is_dict e \<and> is_int (getj (dict_val e) (u ''event_sequence'')) \<and>
      s \<le> int_val (getj (dict_val e) (u ''event_sequence'')) \<and>
      int_val (getj (dict_val e) (u ''event_sequence'')) \<le> t) evs = slice evs (nat (s - 1)) (nat t)"
proof (rule filter_index_range)
  fix i assume i: "i < length evs"
  from wf_events_nth [OF assms i] wf_events_num_eq(2) [OF assms i]
  show "(is_dict (evs ! i) \<and> is_int (getj (dict_val (evs ! i)) (u ''event_sequence'')) \<and>
      s \<le> int_val (getj (dict_val (evs ! i)) (u ''event_sequence'')) \<and>
      int_val (getj (dict_val (evs ! i)) (u ''event_sequence'')) \<le> t) \<longleftrightarrow> nat (s - 1) \<le> i \<and> i < nat t"
    by (auto simp: event_seq_def)
qed

lemma events_in_base [simp]:
  "events_in (base_result path d @ xs) = events_in xs" "is_ok (base_result path d @ xs)"
  by (simp_all add: events_in_def base_result_def is_ok_def)

lemma events_in_Cons: "k \<noteq> u ''events'' \<Longrightarrow> events_in ((k, v) # xs) = events_in xs"
  "events_in [(u ''events'', JList evs)] = evs"
  by (simp_all add: events_in_def)

lemma is_ok_fail_at [simp]: "\<not> is_ok (fail_at path e)"
  by (simp add: fail_at_def)

context event_source begin

lemma loaded_iter:
  assumes "load p = Inr d" "is_ok d"
  shows "iter_events d = Inr (events_in d)" "dict_events d = Inr (events_in d)"
proof -
  from loaded_events [OF assms] have w: "wf_events (events_in d)" "is_list (getj d (u ''events''))" by simp_all
  then obtain evs where "getj d (u ''events'') = JList evs" by (cases "getj d (u ''events'')") auto
  then show i: "iter_events d = Inr (events_in d)"
    by (cases evs) (simp_all add: iter_events_def or_else_def events_in_def)
  show "dict_events d = Inr (events_in d)"
    using wf_events_filter_dict [OF w(1)] by (simp add: dict_events_def i)
qed

lemma range_loaded:
  assumes "load p = Inr d" "is_ok d"
  shows "\<exists>out. with_loadedE (load p) (range_result path (JInt s) (JInt t)) = Inr out \<and> is_ok out \<and>
    events_in out = slice (events_in d) (nat (s - 1)) (nat t)"
  using assms loaded_iter [OF assms] loaded_events [OF assms]
  by (simp add: with_loadedE_def range_result_def Let_def wf_events_range events_in_Cons)

lemma tail_loaded:
  assumes "load p = Inr d" "is_ok d" "1 \<le> n"
  shows "\<exists>out. with_loaded (load p) (tail_result path (jnat n)) = Inr out \<and> is_ok out \<and>
    events_in out = drop (length (events_in d) - n) (events_in d)"
proof -
  from loaded_events [OF assms(1,2)] obtain evs where e: "getj d (u ''events'') = JList evs"
    by (cases "getj d (u ''events'')") auto
  then have "or_else (getj d (u ''events'')) (JList []) = JList evs" by (simp add: or_else_def)
  with e assms show ?thesis
    by (simp add: with_loaded_def tail_result_def Let_def events_in_Cons) (simp add: events_in_def)
qed

lemma context_loaded:
  assumes "load p = Inr d" "is_ok d"
  shows "\<exists>out. with_loadedE (load p) (context_result path (JInt n) (jnat b) (jnat a)) = Inr out \<and>
    (if 1 \<le> n \<and> n \<le> int (length (events_in d))
     then is_ok out \<and> events_in out = slice (events_in d) (nat (n - 1) - b) (nat n + a)
     else \<not> is_ok out \<and> getj (dict_val (getj out (u ''error''))) (u ''kind'') = JStr (u ''MissingEvent''))"
proof -
  have "slice xs i (min (length xs) j) = slice xs i j" for xs :: "json list" and i j
    by (simp add: slice_def min_def)
  moreover have "nat n = Suc (nat (n - 1))" if "1 \<le> n" using that by simp
  moreover have "getj (dict_val (getj (fail_at path ((u ''kind'', k) # es)) (u ''error''))) (u ''kind'') = k" for k es
    by (simp add: fail_at_def fail_with_def)
  ultimately show ?thesis
    using assms loaded_iter [OF assms] loaded_events [OF assms]
    by (auto simp: with_loadedE_def context_result_def wf_events_find events_in_Cons Let_def)
qed

end

section \<open>The correlation neighbourhood\<close>

lemma select_window_map:
  "map_of (select_window events b a sel i) j =
     (if i - b \<le> j \<and> j < min (length events) (i + a + 1) then Some (events ! j) else map_of sel j)"
proof -
  have "map_of (foldl (\<lambda>sel j. AList.update j (events ! j) sel) sel js) j =
      (if j \<in> set js then Some (events ! j) else map_of sel j)" for js
    by (induction js arbitrary: sel) (auto simp: update_conv')
  then show ?thesis by (simp add: select_window_def)
qed

lemma select_window_distinct: "distinct (map fst sel) \<Longrightarrow> distinct (map fst (select_window events b a sel i))"
proof -
  have "distinct (map fst sel) \<Longrightarrow>
      distinct (map fst (foldl (\<lambda>sel j. AList.update j (events ! j) sel) sel js))" for js
    by (induction js arbitrary: sel) (auto simp: distinct_update)
  then show "distinct (map fst sel) \<Longrightarrow> distinct (map fst (select_window events b a sel i))"
    by (simp add: select_window_def)
qed

lemma select_windows:
  "distinct (map fst sel) \<Longrightarrow>
     distinct (map fst (foldl (select_window events b a) sel hits)) \<and>
     (\<forall>j. map_of (foldl (select_window events b a) sel hits) j =
       (if \<exists>i \<in> set hits. i - b \<le> j \<and> j < min (length events) (i + a + 1) then Some (events ! j) else map_of sel j))"
  by (induction hits arbitrary: sel) (auto simp: select_window_distinct select_window_map)

text \<open>A map from positions to their elements, sorted by position, lists the elements selected.\<close>

lemma sorted_positions:
  assumes d: "distinct (map fst sel)" and m: "\<And>j. map_of sel j = (if P j then Some (xs ! j) else None)"
    and b: "\<And>j. P j \<Longrightarrow> j < length xs"
  shows "map snd (sort_key fst sel) = map ((!) xs) (filter P [0..<length xs])"
proof -
  let ?s = "sort_key fst sel"
  from d have "distinct (map fst ?s)" by (simp add: distinct_map)
  moreover have "set (map fst ?s) = {j. P j}"
  proof -
    have "fst ` set sel = dom (map_of sel)" by (simp add: dom_map_of_conv_image_fst)
    then show ?thesis using m by (auto simp: dom_def split: if_splits)
  qed
  moreover have "{j. P j} = set (filter P [0..<length xs])" using b by auto
  ultimately have keys: "map fst ?s = filter P [0..<length xs]"
    by (intro sorted_distinct_set_unique) (simp_all add: sorted_sort_key sorted_wrt_filter)
  have "map snd ?s = map (\<lambda>e. xs ! fst e) ?s"
  proof (rule map_cong [OF refl])
    fix e assume "e \<in> set ?s"
    then have "(fst e, snd e) \<in> set sel" by (simp only: set_sort prod.collapse)
    with d have "map_of sel (fst e) = Some (snd e)" by (rule map_of_is_SomeI)
    with m [of "fst e"] show "snd e = xs ! fst e" by (auto split: if_splits)
  qed
  also have "\<dots> = map ((!) xs) (map fst ?s)" by simp
  finally show ?thesis by (simp only: keys)
qed

definition near_hits :: "nat \<Rightarrow> nat \<Rightarrow> nat list \<Rightarrow> nat \<Rightarrow> bool" where
  "near_hits b a hits j = (\<exists>i \<in> set hits. i \<le> j + b \<and> j \<le> i + a)"

definition correlation_hits :: "pystr \<Rightarrow> json list \<Rightarrow> nat list" where
  "correlation_hits c events = filter (\<lambda>i. getj (dict_val (events ! i)) (u ''correlation'') = JStr c) [0..<length events]"

definition neighbours :: "pystr \<Rightarrow> nat \<Rightarrow> nat \<Rightarrow> json list \<Rightarrow> json list" where
  "neighbours c b a events =
     map ((!) events) (filter (near_hits b a (correlation_hits c events)) [0..<length events])"

lemma neighbourhood_ordered:
  "map snd (sort_key fst (foldl (select_window events b a) [] (correlation_hits c events))) = neighbours c b a events"
  unfolding neighbours_def
proof (subst sorted_positions)
  let ?P = "\<lambda>j. \<exists>i \<in> set (correlation_hits c events). i - b \<le> j \<and> j < min (length events) (i + a + 1)"
  note w = select_windows [of "[]" events b a "correlation_hits c events"]
  from w show "distinct (map fst (foldl (select_window events b a) [] (correlation_hits c events)))" by simp
  from w show "map_of (foldl (select_window events b a) [] (correlation_hits c events)) j =
      (if ?P j then Some (events ! j) else None)" for j by auto
  show "j < length events" if "?P j" for j using that by auto
  show "map ((!) events) (filter ?P [0..<length events]) =
      map ((!) events) (filter (near_hits b a (correlation_hits c events)) [0..<length events])"
    by (rule arg_cong [where f = "map ((!) events)"], rule filter_cong)
      (auto simp: near_hits_def le_diff_conv less_Suc_eq_le)
qed

lemma neighbourhood_length:
  "length (foldl (select_window events b a) [] (correlation_hits c events)) = length (neighbours c b a events)"
  using arg_cong [OF neighbourhood_ordered, of length events b a c] by simp

lemma neighbours_no_hits: "correlation_hits c events = [] \<Longrightarrow> neighbours c b a events = []"
  by (simp add: neighbours_def near_hits_def)

context event_source begin

lemma neighbourhood_loaded:
  assumes "load p = Inr d" "is_ok d"
  shows "\<exists>out. with_loadedE (load p) (neighbourhood_result path c (jnat b) (jnat a) (jnat l)) = Inr out \<and>
    (if length (neighbours c b a (events_in d)) \<le> l
     then is_ok out \<and> events_in out = neighbours c b a (events_in d)
     else \<not> is_ok out \<and> getj (dict_val (getj out (u ''error''))) (u ''kind'') = JStr (u ''ResultTooLarge''))"
proof -
  have "getj (dict_val (getj (fail_at path ((u ''kind'', k) # es)) (u ''error''))) (u ''kind'') = k" for k es
    by (simp add: fail_at_def fail_with_def)
  then show ?thesis
    using assms loaded_iter [OF assms] neighbours_no_hits [of c "events_in d" b a]
    by (auto simp: with_loadedE_def neighbourhood_result_def events_in_Cons Let_def
        correlation_hits_def [symmetric] neighbourhood_ordered neighbourhood_length)
qed

end

section \<open>Properties\<close>

lemma valid_window: "bad_window m (jnat n) \<longleftrightarrow> m < int n"
  by (simp add: bad_window_def)

text \<open>A range query returns exactly the events numbered \<open>s\<close> to \<open>t\<close>: the slice of the session
  from position \<open>s - 1\<close> to position \<open>t\<close>, for every range of at most 500 numbers.\<close>

theorem event_range_exact:
  assumes "read_session_dtj (native h) p = Inr d" "is_ok d" "s \<le> t" "t - s < 500"
  shows "\<exists>out. get_event_range_dtj (native h) p (JInt s) (JInt t) = Inr out \<and> is_ok out \<and>
    events_in out = slice (events_in d) (nat (s - 1)) (nat t)"
  using assms native_source.range_loaded [OF assms(1,2), of "expanduser h p" s t]
  by (simp add: get_event_range_dtj_def Let_def)

theorem event_range_exact_witness:
  "\<exists>out. get_event_range_dtj (native sample_host) sample_path (JInt 2) (JInt 7) = Inr out \<and>
     events_in out = slice (events_in sample_projection) 1 7"
  using event_range_exact [OF sample_load sample_ok, of 2 7] by auto

text \<open>A context query returns the event asked for with its neighbours: the slice of at most
  \<open>b\<close> events before it and \<open>a\<close> after it, clipped at the ends of the session; an event number
  that does not occur is the structured error \<open>MissingEvent\<close>.\<close>

theorem context_window_exact:
  assumes "read_session_dtj (native h) p = Inr d" "is_ok d" "b \<le> 200" "a \<le> 200"
  shows "\<exists>out. context_around_event_dtj (native h) p (JInt n) (jnat b) (jnat a) = Inr out \<and>
    (if 1 \<le> n \<and> n \<le> int (length (events_in d))
     then is_ok out \<and> events_in out = slice (events_in d) (nat (n - 1) - b) (nat n + a)
     else \<not> is_ok out \<and> getj (dict_val (getj out (u ''error''))) (u ''kind'') = JStr (u ''MissingEvent''))"
  using assms native_source.context_loaded [OF assms(1,2), of "expanduser h p" n b a]
  by (simp add: context_around_event_dtj_def Let_def valid_window)

theorem context_window_exact_witness:
  "\<exists>out. context_around_event_dtj (native sample_host) sample_path (JInt 1) (jnat 30) (jnat 0) = Inr out \<and>
     is_ok out \<and> events_in out = slice (events_in sample_projection) 0 1"
  using context_window_exact [OF sample_load sample_ok, of 30 0 1] by (simp add: sample_events)

text \<open>C40: The neighbourhood of a correlation is every event within \<open>b\<close> positions before or \<open>a\<close>
  after an event with that correlation, each exactly once and in session order, however the
  windows overlap; a result larger than the limit is refused as a whole, never cut.\<close>

theorem neighbourhood_exact:
  assumes "read_session_dtj (native h) p = Inr d" "is_ok d" "b \<le> 100" "a \<le> 100" "1 \<le> l" "l \<le> 500" "c \<noteq> []"
  shows "\<exists>out. correlation_neighbourhood_dtj (native h) p (JStr c) (jnat b) (jnat a) (jnat l) = Inr out \<and>
    (if length (neighbours c b a (events_in d)) \<le> l
     then is_ok out \<and> events_in out = neighbours c b a (events_in d)
     else \<not> is_ok out \<and> getj (dict_val (getj out (u ''error''))) (u ''kind'') = JStr (u ''ResultTooLarge''))"
proof -
  have "validate_search_limit (jnat l) = None" using assms by (simp add: valid_limit)
  with assms native_source.neighbourhood_loaded [OF assms(1,2), of "expanduser h p" c b a l] show ?thesis
    by (simp add: correlation_neighbourhood_dtj_def Let_def valid_window)
qed

theorem neighbourhood_exact_witness:
  "\<exists>out. correlation_neighbourhood_dtj (native sample_host) sample_path (JStr (u ''s'')) (jnat 5) (jnat 5) (jnat 100) = Inr out \<and>
     is_ok out \<and> events_in out = neighbours (u ''s'') 5 5 (events_in sample_projection)"
proof -
  have "length (neighbours (u ''s'') 5 5 (events_in sample_projection)) \<le> length (events_in sample_projection)"
    unfolding neighbours_def by (simp add: le_trans [OF length_filter_le])
  then have "length (neighbours (u ''s'') 5 5 (events_in sample_projection)) \<le> 100" by (simp add: sample_events)
  then show ?thesis using neighbourhood_exact [OF sample_load sample_ok, of 5 5 100 "u ''s''"] by auto
qed

definition events_of_result :: "py_exn + jdict \<Rightarrow> json list option" where
  "events_of_result r = (case r of Inl e \<Rightarrow> None | Inr d \<Rightarrow> if is_ok d then Some (events_in d) else None)"

text \<open>The window queries agree: the context of event \<open>n\<close> is the range from \<open>n - b\<close> to
  \<open>n + a\<close>, and the tail of \<open>k\<close> events is the range that ends at the last event.\<close>

theorem window_queries_agree:
  assumes "read_session_dtj (native h) p = Inr d" "is_ok d" "len = int (length (events_in d))"
    and "1 \<le> n" "n \<le> len" "b \<le> 200" "a \<le> 200" "1 \<le> k" "k \<le> 500"
  shows "events_of_result (context_around_event_dtj (native h) p (JInt n) (jnat b) (jnat a)) =
      events_of_result (get_event_range_dtj (native h) p (JInt (n - int b)) (JInt (n + int a))) \<and>
    events_of_result (tail_events_dtj (native h) p (jnat k)) =
      events_of_result (get_event_range_dtj (native h) p (JInt (len - int k + 1)) (JInt len))"
proof -
  have i: "nat (n - int b - 1) = nat (n - 1) - b" "nat (n + int a) = nat n + a" using assms by auto
  have t: "nat (len - int k) = length (events_in d) - k" "nat len = length (events_in d)" using assms by auto
  have l: "validate_search_limit (jnat k) = None" using assms by (simp add: valid_limit)
  have 1: "events_of_result (context_around_event_dtj (native h) p (JInt n) (jnat b) (jnat a)) =
      events_of_result (get_event_range_dtj (native h) p (JInt (n - int b)) (JInt (n + int a)))"
    using assms i native_source.context_loaded [OF assms(1,2), of "expanduser h p" n b a]
      native_source.range_loaded [OF assms(1,2), of "expanduser h p" "n - int b" "n + int a"]
    by (auto simp: context_around_event_dtj_def get_event_range_dtj_def Let_def valid_window events_of_result_def)
  have 2: "events_of_result (tail_events_dtj (native h) p (jnat k)) =
      events_of_result (get_event_range_dtj (native h) p (JInt (len - int k + 1)) (JInt len))"
    using assms t l native_source.tail_loaded [OF assms(1,2,8), of "expanduser h p"]
      native_source.range_loaded [OF assms(1,2), of "expanduser h p" "len - int k + 1" len]
    by (auto simp: tail_events_dtj_def get_event_range_dtj_def Let_def events_of_result_def slice_def)
  from 1 2 show ?thesis ..
qed

theorem window_queries_agree_witness:
  "events_of_result (tail_events_dtj (native sample_host) sample_path (jnat 1)) =
     events_of_result (get_event_range_dtj (native sample_host) sample_path (JInt 2) (JInt 2))"
  using window_queries_agree [OF sample_load sample_ok refl, of 1 0 0 1] by (simp add: sample_events)

text \<open>A session file that does not exist makes every query raise \<open>NameError\<close>, with and
  without the Rust extension: the structured error the reader means to return is built by a
  function its module never imports.\<close>

theorem missing_session_raises:
  assumes "\<not> is_file h (expanduser h p)"
  shows "(validate_search_limit n = None \<longrightarrow> tail_events_dtj h p n = Inl (NameError (u ''error_projection''))) \<and>
    (s \<le> t \<and> t - s < 500 \<longrightarrow> get_event_range_dtj h p (JInt s) (JInt t) = Inl (NameError (u ''error_projection''))) \<and>
    (b \<le> 200 \<and> a \<le> 200 \<longrightarrow>
      context_around_event_dtj h p (JInt n') (jnat b) (jnat a) = Inl (NameError (u ''error_projection''))) \<and>
    (validate_search_limit n = None \<and> validate_search_offset off = None \<and>
      validate_mono_window (f_mono_from_ns f) (f_mono_to_ns f) = None \<longrightarrow>
      search_session_dtj h p f n off = Inl (NameError (u ''error_projection'')))"
proof -
  have r: "read_session_dtj h p = Inl (NameError (u ''error_projection''))"
    using assms by (simp add: read_session_dtj_def Let_def)
  show ?thesis
    by (simp add: tail_events_dtj_def get_event_range_dtj_def context_around_event_dtj_def search_session_dtj_def
        r with_loaded_def with_loadedE_def Let_def valid_window)
qed

theorem missing_session_raises_witness:
  "tail_events_dtj sample_host (u ''none.dtj'') (JInt 5) = Inl (NameError (u ''error_projection''))"
proof -
  have "\<not> is_file sample_host (expanduser sample_host (u ''none.dtj''))"
    by (simp add: is_file_def sample_host_def sample_path_def)
  moreover have "validate_search_limit (JInt 5) = None" by (simp add: valid_limit)
  ultimately show ?thesis using missing_session_raises by blast
qed

text \<open>A pattern that is empty, longer than 256 characters or matches the catastrophic-pattern
  check is refused before the regular expression engine sees it: the answer is the structured
  error \<open>InvalidQuery\<close> whatever the engine would do.\<close>

theorem regex_guard:
  assumes "validate_search_limit limit = None"
    and "pat = [] \<or> 256 < length pat \<or> (\<exists>x y. pat = x @ u ''.*.*'' @ y)"
  shows "\<exists>out. \<not> is_ok out \<and> getj (dict_val (getj out (u ''error''))) (u ''kind'') = JStr (u ''InvalidQuery'') \<and>
    (\<forall>re. regex_search_dtj re h p (JStr pat) domain category limit = Inr out)"
proof -
  have k: "getj (dict_val (getj (fail_at path ((u ''kind'', k) # es)) (u ''error''))) (u ''kind'') = k" for path k es
    by (simp add: fail_at_def fail_with_def)
  consider "pat = []" | "pat \<noteq> []" "256 < length pat" | "pat \<noteq> []" "\<not> 256 < length pat" "catastrophic pat"
    using assms(2) by (auto simp: catastrophic_def is_infix_iff)
  then show ?thesis
    by cases (use assms(1) k in \<open>auto simp: regex_search_dtj_def Let_def intro!: exI [where P = "\<lambda>x. \<not> is_ok x \<and> _ x"]\<close>)
qed

theorem regex_guard_witness:
  "\<exists>out. \<not> is_ok out \<and>
    (\<forall>re. regex_search_dtj re sample_host sample_path (JStr (u ''a.*.*b'')) None None (JInt 5) = Inr out)"
proof -
  have "validate_search_limit (JInt 5) = None" by (simp add: valid_limit)
  moreover have "u ''a.*.*b'' = u ''a'' @ u ''.*.*'' @ u ''b''" by (simp add: u_Cons)
  ultimately show ?thesis using regex_guard [of "JInt 5" "u ''a.*.*b''" sample_host sample_path None None] by blast
qed

end
