(* ===== verification/Dtj_Index.thy ===== *)
theory Dtj_Index imports Dtj_Query begin

text \<open>
  The rebuildable index (\<open>dtj_index.py\<close>). The file system is explicit: the functions that write
  return it updated, every operating system call that may fail does so under the control of a
  fault schedule, and the source may be changed by others while it is decoded.
\<close>

section \<open>Files\<close>

type_synonym files = "pystr \<Rightarrow> node"

text \<open>\<open>_source_identity\<close>; \<open>None\<close> is the \<open>OSError\<close> of \<open>stat\<close>.\<close>

record identity =
  source_path :: pystr
  source_size :: int
  source_mtime_ns :: int

definition source_identity :: "host \<Rightarrow> pystr \<Rightarrow> identity option" where
  "source_identity h session =
     (case fs h session of
        Missing \<Rightarrow> None
      | Directory n m \<Rightarrow> Some \<lparr>source_path = resolve h session, source_size = int n, source_mtime_ns = m\<rparr>
      | File b m \<Rightarrow> Some \<lparr>source_path = resolve h session, source_size = int (length b), source_mtime_ns = m\<rparr>
      | Unreadable e n m \<Rightarrow> Some \<lparr>source_path = resolve h session, source_size = int n, source_mtime_ns = m\<rparr>)"

definition index_error :: "pystr \<Rightarrow> pystr \<Rightarrow> jdict \<Rightarrow> jdict" where
  "index_error session index err =
     [(u ''ok'', JBool False), (u ''adapter'', core_adapter), (u ''session_path'', JStr session),
      (u ''index_path'', JStr index), (u ''error'', JObj err)]"

abbreviation (input) kind_message :: "string \<Rightarrow> pystr \<Rightarrow> jdict" where
  "kind_message k m \<equiv> [(u ''kind'', JStr (u k)), (u ''message'', JStr m)]"

section \<open>The document\<close>

abbreviation (input) "INDEX_SCHEMA_VERSION \<equiv> 1 :: int"
definition INDEX_FORMAT :: pystr where "INDEX_FORMAT = u ''dtj-json-index-v1''"

text \<open>\<open>by_x[key].append(seq)\<close> on a \<open>defaultdict(list)\<close>, when the field is a string.\<close>

definition group_add :: "string \<Rightarrow> jdict \<Rightarrow> jdict \<Rightarrow> jdict" where
  "group_add field ev groups =
     (if is_str (getj ev (u field)) then
        let key = str_val (getj ev (u field))
        in AList.update key (JList (list_val (getd groups key (JList [])) @ [getj ev (u ''event_sequence'')])) groups
      else groups)"

record groups =
  by_domain :: jdict
  by_category :: jdict
  by_event_name :: jdict
  by_correlation :: jdict
  by_severity :: jdict

fun group_events :: "json list \<Rightarrow> groups \<Rightarrow> py_exn + groups" where
  "group_events [] g = Inr g"
| "group_events (ev # evs) g =
     (if \<not> is_dict ev then Inl (ValueError (u ''event is not an object''))
      else if \<not> is_int (getj (dict_val ev) (u ''event_sequence''))
      then Inl (ValueError (u ''event_sequence missing''))
      else group_events evs
        \<lparr>by_domain = group_add ''domain'' (dict_val ev) (by_domain g),
         by_category = group_add ''category'' (dict_val ev) (by_category g),
         by_event_name = group_add ''event_name'' (dict_val ev) (by_event_name g),
         by_correlation = group_add ''correlation'' (dict_val ev) (by_correlation g),
         by_severity = group_add ''severity'' (dict_val ev) (by_severity g)\<rparr>)"

definition empty_groups :: groups where
  "empty_groups = \<lparr>by_domain = [], by_category = [], by_event_name = [], by_correlation = [], by_severity = []\<rparr>"

definition build_document :: "runtime \<Rightarrow> identity \<Rightarrow> jdict \<Rightarrow> json list \<Rightarrow> py_exn + jdict" where
  "build_document r ident decoded events =
     bindE (group_events events empty_groups) (\<lambda>g.
     bindE (py_int r (or_else (getj decoded (u ''chunks_committed'')) (JInt 0))) (\<lambda>chunks.
     Inr [(u ''format'', JStr INDEX_FORMAT), (u ''schema_version'', JInt INDEX_SCHEMA_VERSION),
       (u ''adapter'', core_adapter), (u ''source_path'', JStr (source_path ident)),
       (u ''source_size'', JInt (source_size ident)), (u ''source_mtime_ns'', JInt (source_mtime_ns ident)),
       (u ''header'', if is_dict (getj decoded (u ''header'')) then getj decoded (u ''header'') else JObj []),
       (u ''chunks_committed'', JInt chunks), (u ''torn_tail'', JBool (truthy (getj decoded (u ''torn_tail'')))),
       (u ''event_count'', jnat (length events)),
       (u ''indexes'', JObj [(u ''by_domain'', JObj (by_domain g)), (u ''by_category'', JObj (by_category g)),
          (u ''by_event_name'', JObj (by_event_name g)), (u ''by_correlation'', JObj (by_correlation g)),
          (u ''by_severity'', JObj (by_severity g))]),
       (u ''events'', JList events)]))"

section \<open>Atomic publication\<close>

datatype io_step = MakeDir | UnlinkStale | OpenTmp | WriteTmp | ReopenTmp | ReplaceIndex | Cleanup

text \<open>
  The environment of one build: which calls fail (with the text of the error), what a failing
  write leaves in the temporary file, the temporary name that \<open>uuid4\<close> gave, and the time stamp
  and size the file system gives to what is created.
\<close>

record io_env =
  fault :: "io_step \<Rightarrow> pystr option"
  partial_write :: bytes
  tmp_name :: pystr
  now_ns :: int
  dir_size :: nat

text \<open>\<open>path.parent.mkdir(parents=True, exist_ok=True)\<close>\<close>

fun make_dirs :: "io_env \<Rightarrow> pystr list \<Rightarrow> files \<Rightarrow> (py_exn + unit) \<times> files" where
  "make_dirs env [] f = (Inr (), f)"
| "make_dirs env (p # ps) f =
     (case f p of
        Directory n m \<Rightarrow> make_dirs env ps f
      | Missing \<Rightarrow>
          (if fault env MakeDir \<noteq> None then (Inl OsError, f)
           else make_dirs env ps (f(p := Directory (dir_size env) (now_ns env))))
      | _ \<Rightarrow> (Inl OsError, f))"

text \<open>The body of the \<open>try\<close>: \<open>Inl\<close> is the text of the exception it raises.\<close>

definition is_dir :: "node \<Rightarrow> bool" where
  "is_dir n = (case n of Directory s m \<Rightarrow> True | _ \<Rightarrow> False)"

definition write_tmp :: "io_env \<Rightarrow> runtime \<Rightarrow> jdict \<Rightarrow> files \<Rightarrow> (pystr + unit) \<times> files" where
  "write_tmp env r doc f =
     (if is_dir (f (tmp_name env)) then (Inl (u ''[Errno 21] Is a directory: '' @ str_repr r (tmp_name env)), f)
      else if f (tmp_name env) \<noteq> Missing \<and> fault env UnlinkStale \<noteq> None then (Inl (the (fault env UnlinkStale)), f)
      else let f = (if f (tmp_name env) \<noteq> Missing then f(tmp_name env := Missing) else f) in
      case fault env OpenTmp of Some e \<Rightarrow> (Inl e, f)
      | None \<Rightarrow>
          (case json_dumps r (JObj doc) of
             Inl e \<Rightarrow> (Inl e, f(tmp_name env := File (partial_write env) (now_ns env)))
           | Inr body \<Rightarrow>
               (case fault env WriteTmp of
                  Some e \<Rightarrow> (Inl e, f(tmp_name env := File (partial_write env) (now_ns env)))
                | None \<Rightarrow> (Inr (), f(tmp_name env := File (body @ [10]) (now_ns env))))))"

definition int_error_text :: "py_exn \<Rightarrow> pystr" where
  "int_error_text e = (case e of ValueError m \<Rightarrow> m | TypeError m \<Rightarrow> m
     | RecursionError \<Rightarrow> u ''maximum recursion depth exceeded while decoding a JSON object from a unicode string''
     | _ \<Rightarrow> u ''cannot convert float infinity to integer'')"

text \<open>\<open>json.load\<close> of the temporary file and the two checks on what it gives.\<close>

definition check_tmp :: "io_env \<Rightarrow> runtime \<Rightarrow> nat \<Rightarrow> files \<Rightarrow> pystr + unit" where
  "check_tmp env r count f =
     (case fault env ReopenTmp of Some e \<Rightarrow> Inl e
      | None \<Rightarrow>
          (case f (tmp_name env) of
             File b m \<Rightarrow>
               (case json_loads r b of DecodeError m \<Rightarrow> Inl m | Raises e \<Rightarrow> Inl (int_error_text e) | Parsed check \<Rightarrow>
                 if \<not> is_dict check
                 then Inl ([39] @ type_name check @ [39] @ u '' object has no attribute '' @ [39] @ u ''get'' @ [39])
                 else if \<not> num_eq (getj (dict_val check) (u ''schema_version'')) INDEX_SCHEMA_VERSION
                 then Inl (u ''temp index schema_version mismatch'')
                 else (case py_int r (getd (dict_val check) (u ''event_count'') (JInt (-1))) of
                     Inl e \<Rightarrow> Inl (int_error_text e)
                   | Inr n \<Rightarrow> if n \<noteq> int count then Inl (u ''temp index event_count mismatch'') else Inr ()))
           | _ \<Rightarrow> Inl (u ''[Errno 2] No such file or directory'')))"

definition publish :: "io_env \<Rightarrow> runtime \<Rightarrow> pystr \<Rightarrow> jdict \<Rightarrow> nat \<Rightarrow> files \<Rightarrow> (pystr + unit) \<times> files" where
  "publish env r index doc count f =
     (case write_tmp env r doc f of
        (Inl e, f1) \<Rightarrow> (Inl e, f1)
      | (Inr _, f1) \<Rightarrow>
          (case check_tmp env r count f1 of
             Inl e \<Rightarrow> (Inl e, f1)
           | Inr _ \<Rightarrow>
               (case fault env ReplaceIndex of
                  Some e \<Rightarrow> (Inl e, f1)
                | None \<Rightarrow>
                    if is_dir (f1 index)
                    then (Inl (u ''[Errno 21] Is a directory: '' @ str_repr r (tmp_name env) @ u '' -> '' @ str_repr r index), f1)
                    else (Inr (), f1(index := f1 (tmp_name env), tmp_name env := Missing)))))"

text \<open>The \<open>except\<close> branch removes the temporary file, ignoring an \<open>OSError\<close>.\<close>

definition cleanup :: "io_env \<Rightarrow> files \<Rightarrow> files" where
  "cleanup env f =
     (if f (tmp_name env) \<noteq> Missing \<and> \<not> is_dir (f (tmp_name env)) \<and> fault env Cleanup = None then f(tmp_name env := Missing) else f)"

definition try_publish :: "io_env \<Rightarrow> runtime \<Rightarrow> pystr \<Rightarrow> jdict \<Rightarrow> nat \<Rightarrow> files \<Rightarrow> (pystr + unit) \<times> files" where
  "try_publish env r index doc count f =
     (case publish env r index doc count f of
        (Inl exc, f1) \<Rightarrow> (Inl exc, cleanup env f1)
      | (Inr _, f1) \<Rightarrow> (Inr (), f1))"

section \<open>Building\<close>

definition built_result :: "pystr \<Rightarrow> pystr \<Rightarrow> jdict \<Rightarrow> string \<Rightarrow> json \<Rightarrow> nat \<Rightarrow> int \<Rightarrow> bool \<Rightarrow> jdict" where
  "built_result session index decoded status adapter count chunks tail =
     [(u ''ok'', JBool True), (u ''adapter'', adapter), (u ''session_path'', JStr session),
      (u ''index'', JObj [(u ''schema_version'', JInt INDEX_SCHEMA_VERSION), (u ''path'', JStr index),
         (u ''status'', JStr (u status)), (u ''event_count'', jnat count),
         (u ''chunks_committed'', JInt chunks), (u ''torn_tail'', JBool tail)])]"

text \<open>
  \<open>_build_index_atomic\<close>. Others may change the file system while the source is decoded: \<open>h\<close> is
  the host before, \<open>reader\<close> reads what it reads, and \<open>later\<close> is the file system from then on.
\<close>

definition build_index_atomic ::
  "io_env \<Rightarrow> host \<Rightarrow> files \<Rightarrow> (pystr \<Rightarrow> py_exn + jdict) \<Rightarrow> pystr \<Rightarrow> pystr \<Rightarrow> (py_exn + jdict) \<times> files" where
  "build_index_atomic env h later reader session index =
     (case source_identity h session of
        None \<Rightarrow> (Inr (index_error session index (kind_message ''Io'' (u ''session file not found: '' @ session))), fs h)
      | Some before \<Rightarrow>
          (case reader session of
             Inl e \<Rightarrow> (Inl e, later)
           | Inr decoded \<Rightarrow>
               if \<not> is_ok decoded then (Inr decoded, later)
               else if source_identity (h\<lparr>fs := later\<rparr>) session \<noteq> Some before
               then (Inr (index_error session index (kind_message ''SourceChanged''
                 (u ''session source identity changed during decode; index was not published''))), later)
               else if \<not> is_list (getj decoded (u ''events''))
               then (Inr (index_error session index (kind_message ''AdapterInvalidJson''
                 (u ''native DTJ decode missing events list''))), later)
               else let events = list_val (getj decoded (u ''events'')) in
               (case build_document (rt h) before decoded events of
                  Inl e \<Rightarrow> (Inl e, later)
                | Inr doc \<Rightarrow>
                    (case make_dirs env (ancestors h index) later of
                       (Inl e, f) \<Rightarrow> (Inl e, f)
                     | (Inr _, f) \<Rightarrow>
                         (case try_publish env (rt h) index doc (length events) f of
                            (Inl exc, f) \<Rightarrow> (Inr (index_error session index (kind_message ''IndexBuildFailed''
                                (u ''failed to publish index: '' @ exc))), f)
                          | (Inr _, f) \<Rightarrow>
                              (bindE (py_int (rt h) (or_else (getj decoded (u ''chunks_committed'')) (JInt 0)))
                                 (\<lambda>chunks. Inr (built_result session index decoded ''built'' (adapter_of decoded)
                                    (length events) chunks (truthy (getj decoded (u ''torn_tail''))))), f))))))"

section \<open>Opening\<close>

definition identity_matches :: "runtime \<Rightarrow> jdict \<Rightarrow> identity \<Rightarrow> py_exn + bool" where
  "identity_matches r doc ident =
     (if getj doc (u ''source_path'') \<noteq> JStr (source_path ident) then Inr False
      else bindE (py_int r (or_else (getj doc (u ''source_size'')) (JInt (-1)))) (\<lambda>size.
        if size \<noteq> source_size ident then Inr False
        else bindE (py_int r (or_else (getj doc (u ''source_mtime_ns'')) (JInt (-1)))) (\<lambda>mtime.
          Inr (mtime = source_mtime_ns ident))))"

text \<open>\<open>_open_validated_index\<close>: \<open>Inr (Inl e)\<close> is the structured error, \<open>Inr (Inr doc)\<close> the document.\<close>

definition open_validated_index :: "host \<Rightarrow> pystr \<Rightarrow> pystr \<Rightarrow> py_exn + (jdict + jdict)" where
  "open_validated_index h session index =
     (let err = \<lambda>e. Inr (Inl (index_error session index e)) in
      if \<not> is_file h index
      then err (kind_message ''IndexMissing'' (u ''index file not found: '' @ index))
      else case source_identity h session of
        None \<Rightarrow> err (kind_message ''Io'' (u ''session file not found: '' @ session))
      | Some ident \<Rightarrow>
          (case (case read_bytes h index of Inl exc \<Rightarrow> DecodeError exc | Inr b \<Rightarrow> json_loads (rt h) b) of
             DecodeError exc \<Rightarrow> err (kind_message ''CorruptIndex'' (u ''index is not readable JSON: '' @ exc))
           | Raises e \<Rightarrow> Inl e
           | Parsed j \<Rightarrow>
               if \<not> is_dict j then err (kind_message ''CorruptIndex'' (u ''index root must be a JSON object''))
               else let doc = dict_val j; schema = getj doc (u ''schema_version'') in
               if getj doc (u ''format'') \<noteq> JStr INDEX_FORMAT
               then err (kind_message ''CorruptIndex'' (u ''index format '' @ py_repr (rt h) (getj doc (u ''format'')) @
                 u '' is not '' @ py_repr (rt h) (JStr INDEX_FORMAT)))
               else if schema = JNull
               then err (kind_message ''CorruptIndex'' (u ''index meta missing schema_version''))
               else if \<not> num_eq schema INDEX_SCHEMA_VERSION
               then err (kind_message ''UnsupportedIndexSchema'' (u ''index schema_version '' @ py_str (rt h) schema @
                 u '' unsupported; expected 1'') @ [(u ''schema_version'', schema), (u ''expected'', JInt INDEX_SCHEMA_VERSION)])
               else bindE (identity_matches (rt h) doc ident) (\<lambda>fresh.
                 if \<not> fresh then err (kind_message ''StaleIndex'' (u
                   ''index source identity does not match current session file (path/size/mtime_ns + stored header metadata); rebuild required''))
                 else Inr (Inr doc))))"

definition try_reuse_index :: "host \<Rightarrow> pystr \<Rightarrow> pystr \<Rightarrow> py_exn + jdict" where
  "try_reuse_index h session index =
     bindE (open_validated_index h session index) (\<lambda>opened.
       case opened of
         Inl e \<Rightarrow> Inr e
       | Inr doc \<Rightarrow>
           bindE (py_int (rt h) (or_else (getj doc (u ''event_count'')) (JInt 0))) (\<lambda>count.
           bindE (py_int (rt h) (or_else (getj doc (u ''chunks_committed'')) (JInt 0))) (\<lambda>chunks.
           Inr [(u ''ok'', JBool True), (u ''adapter'', core_adapter), (u ''session_path'', JStr session),
             (u ''index'', JObj [(u ''schema_version'', JInt INDEX_SCHEMA_VERSION), (u ''path'', JStr index),
               (u ''status'', JStr (u ''reused'')), (u ''event_count'', JInt count),
               (u ''chunks_committed'', JInt chunks), (u ''torn_tail'', JBool (truthy (getj doc (u ''torn_tail''))))])])))"

definition index_session_dtj ::
  "io_env \<Rightarrow> host \<Rightarrow> files \<Rightarrow> pystr \<Rightarrow> pystr \<Rightarrow> bool \<Rightarrow> (pystr \<Rightarrow> py_exn + jdict) option \<Rightarrow> (py_exn + jdict) \<times> files" where
  "index_session_dtj env h later session_path index_path rebuild read_fn =
     (let session = expanduser h session_path; index = expanduser h index_path;
          reader = (case read_fn of None \<Rightarrow> read_session_dtj h | Some f \<Rightarrow> f) in
      if \<not> is_file h session
      then (Inr (index_error session index (kind_message ''Io'' (u ''session file not found: '' @ session))), fs h)
      else if \<not> rebuild then
        (if \<not> is_file h index
         then (Inr (index_error session index (kind_message ''IndexMissing''
           (u ''index file not found: '' @ index @ u ''; call with rebuild=true to build''))), fs h)
         else (try_reuse_index h session index, fs h))
      else build_index_atomic env h later reader session index)"

section \<open>Reading through the index\<close>

definition index_filter :: "pystr option \<Rightarrow> pystr option \<Rightarrow> pystr option \<Rightarrow> pystr option \<Rightarrow> pystr option \<Rightarrow> json \<Rightarrow> bool" where
  "index_filter domain category event_name correlation sev e =
     (is_dict e \<and> eq_filter domain (getj (dict_val e) (u ''domain'')) \<and>
      eq_filter category (getj (dict_val e) (u ''category'')) \<and>
      eq_filter event_name (getj (dict_val e) (u ''event_name'')) \<and>
      eq_filter correlation (getj (dict_val e) (u ''correlation'')) \<and>
      eq_filter sev (getj (dict_val e) (u ''severity'')))"

definition filter_events ::
  "runtime \<Rightarrow> json list \<Rightarrow> pystr option \<Rightarrow> pystr option \<Rightarrow> pystr option \<Rightarrow> pystr option \<Rightarrow> pystr option \<Rightarrow> py_exn + json list" where
  "filter_events r events domain category event_name correlation sev =
     (let out = filter (index_filter domain category event_name correlation sev) events in
      bindE (mapE (\<lambda>e. py_int r (or_else (getj (dict_val e) (u ''event_sequence'')) (JInt 0))) out) (\<lambda>keys.
        Inr (map snd (sort_key fst (zip keys out)))))"

definition load_validated_index_events ::
  "host \<Rightarrow> pystr \<Rightarrow> pystr \<Rightarrow> pystr option \<Rightarrow> pystr option \<Rightarrow> pystr option \<Rightarrow> pystr option \<Rightarrow> pystr option \<Rightarrow> py_exn + jdict" where
  "load_validated_index_events h session_path index_path domain category event_name correlation_name sev =
     (let session = expanduser h session_path; index = expanduser h index_path in
      bindE (open_validated_index h session index) (\<lambda>opened.
        case opened of
          Inl e \<Rightarrow> Inr e
        | Inr doc \<Rightarrow>
            bindE (iter_events doc) (\<lambda>es.
            bindE (filter_events (rt h) es domain category event_name correlation_name sev) (\<lambda>events.
            Inr [(u ''ok'', JBool True), (u ''adapter'', core_adapter), (u ''session_path'', JStr session),
              (u ''index_path'', JStr index), (u ''torn_tail'', JBool (truthy (getj doc (u ''torn_tail'')))),
              (u ''events'', JList events)]))))"

text \<open>The loop over the indexed events; an element that is not an object ends it with an error.\<close>

fun index_matches :: "runtime \<Rightarrow> filters \<Rightarrow> json list \<Rightarrow> json list option" where
  "index_matches r f [] = Some []"
| "index_matches r f (e # es) =
     (if \<not> is_dict e then None
      else if event_matches_native_filters r f (dict_val e) then map_option ((#) e) (index_matches r f es)
      else index_matches r f es)"

definition search_session_dtj_index :: "host \<Rightarrow> pystr \<Rightarrow> pystr \<Rightarrow> filters \<Rightarrow> json \<Rightarrow> json \<Rightarrow> py_exn + jdict" where
  "search_session_dtj_index h session_path index_path f limit offset =
     (let session = expanduser h session_path; index = expanduser h index_path in
      case validate_search_limit limit of
        Some e \<Rightarrow> Inr (index_error session index e)
      | None \<Rightarrow> (case validate_search_offset offset of
        Some e \<Rightarrow> Inr (index_error session index e)
      | None \<Rightarrow> (case validate_mono_window (f_mono_from_ns f) (f_mono_to_ns f) of
        Some e \<Rightarrow> Inr (index_error session index e)
      | None \<Rightarrow>
          bindE (open_validated_index h session index) (\<lambda>opened.
            case opened of
              Inl e \<Rightarrow> Inr e
            | Inr doc \<Rightarrow>
                if \<not> is_list (getj doc (u ''events''))
                then Inr (index_error session index (kind_message ''CorruptIndex'' (u ''index events list missing or invalid'')))
                else (case index_matches (rt h) f (list_val (getj doc (u ''events''))) of
                    None \<Rightarrow> Inr (index_error session index
                      (kind_message ''CorruptIndex'' (u ''index event projection is not an object'')))
                  | Some matched \<Rightarrow>
                      let off = nat (int_val offset); returned = slice matched off (off + nat (int_val limit)) in
                      Inr [(u ''ok'', JBool True), (u ''adapter'', core_adapter), (u ''session_path'', JStr session),
                        (u ''index_path'', JStr index), (u ''torn_tail'', JBool (truthy (getj doc (u ''torn_tail'')))),
                        (u ''matched_count'', jnat (length matched)), (u ''returned_count'', jnat (length returned)),
                        (u ''limit'', limit), (u ''offset'', offset), (u ''events'', JList returned)])))))"

end
