(* ===== verification/Atomic_Publish.thy ===== *)
theory Atomic_Publish imports Dtj_Index begin

text \<open>
  The contract of publishing a file through a temporary name: whatever fails, the target holds
  either its old content or a complete new one. The index builder and the configuration writer
  both interpret it; the consequence for any history of publications is proved once.
\<close>

locale atomic_publish =
  fixes run :: "'op \<Rightarrow> files \<Rightarrow> 'r \<times> files"
    and target :: "'op \<Rightarrow> pystr" and scratch :: "'op \<Rightarrow> pystr"
    and done_ok :: "'r \<Rightarrow> bool" and content :: "'op \<Rightarrow> bytes \<Rightarrow> bool"
  assumes all_or_nothing: "run x f = (r, f') \<Longrightarrow> scratch x \<noteq> target x \<Longrightarrow>
      (if done_ok r then \<exists>b m. f' (target x) = File b m \<and> content x b else f' (target x) = f (target x))"
    and frame: "run x f = (r, f') \<Longrightarrow> p \<noteq> target x \<Longrightarrow> p \<noteq> scratch x \<Longrightarrow> f' p = f p"
begin

definition run_all :: "'op list \<Rightarrow> files \<Rightarrow> files" where
  "run_all xs f = foldl (\<lambda>f x. snd (run x f)) f xs"

text \<open>After any history of publications to one target, it holds what it held at first or a
  complete content of one of them.\<close>

lemma history:
  assumes "\<forall>x \<in> set xs. target x = t \<and> scratch x \<noteq> t"
  shows "run_all xs f t = f t \<or> (\<exists>x \<in> set xs. \<exists>b m. run_all xs f t = File b m \<and> content x b)"
  using assms
proof (induction xs arbitrary: f)
  case (Cons x xs)
  obtain r f' where r: "run x f = (r, f')" by (cases "run x f")
  from Cons.prems have x: "target x = t" "scratch x \<noteq> t" by simp_all
  have "f' t = f t \<or> (\<exists>b m. f' t = File b m \<and> content x b)"
    using all_or_nothing [OF r] x by (cases "done_ok r") auto
  moreover have "run_all (x # xs) f = run_all xs f'" by (simp add: run_all_def r)
  moreover from Cons have "run_all xs f' t = f' t \<or> (\<exists>x \<in> set xs. \<exists>b m. run_all xs f' t = File b m \<and> content x b)"
    by simp
  ultimately show ?case by auto
qed (simp add: run_all_def)

text \<open>Nothing but the targets and the temporary names changes.\<close>

lemma history_frame: "\<forall>x \<in> set xs. p \<noteq> target x \<and> p \<noteq> scratch x \<Longrightarrow> run_all xs f p = f p"
proof (induction xs arbitrary: f)
  case (Cons x xs)
  obtain r f' where r: "run x f = (r, f')" by (cases "run x f")
  with Cons frame [OF r, of p] show ?case by (simp add: run_all_def)
qed (simp add: run_all_def)

end

section \<open>The index publication satisfies it\<close>

type_synonym index_op = "io_env \<times> runtime \<times> pystr \<times> jdict \<times> nat"

definition run_index_op :: "index_op \<Rightarrow> files \<Rightarrow> (pystr + unit) \<times> files" where
  "run_index_op x f = (case x of (env, r, index, doc, count) \<Rightarrow> try_publish env r index doc count f)"

definition index_target :: "index_op \<Rightarrow> pystr" where
  "index_target x = (case x of (env, r, index, doc, count) \<Rightarrow> index)"

definition index_scratch :: "index_op \<Rightarrow> pystr" where
  "index_scratch x = (case x of (env, r, index, doc, count) \<Rightarrow> tmp_name env)"

definition index_content :: "index_op \<Rightarrow> bytes \<Rightarrow> bool" where
  "index_content x b = (case x of (env, r, index, doc, count) \<Rightarrow>
     \<exists>body. json_dumps r (JObj doc) = Inr body \<and> b = body @ [10])"

lemma write_tmp_frame: "write_tmp env r doc f = (res, f1) \<Longrightarrow> p \<noteq> tmp_name env \<Longrightarrow> f1 p = f p"
  by (auto simp: write_tmp_def Let_def split: if_splits option.splits sum.splits)

lemma write_tmp_done:
  "write_tmp env r doc f = (Inr x, f1) \<Longrightarrow>
     \<exists>body. json_dumps r (JObj doc) = Inr body \<and> f1 (tmp_name env) = File (body @ [10]) (now_ns env)"
  by (auto simp: write_tmp_def Let_def split: if_splits option.splits sum.splits)

lemma cleanup_frame: "p \<noteq> tmp_name env \<Longrightarrow> cleanup env f p = f p"
  by (simp add: cleanup_def)

lemma try_publish_cases:
  assumes "try_publish env r index doc count f = (res, f')"
  obtains (failed) e f1 where "res = Inl e" "f' = cleanup env f1" "\<forall>p. p \<noteq> tmp_name env \<longrightarrow> f1 p = f p"
  | (published) f1 body where "res = Inr ()" "f' = f1(index := File (body @ [10]) (now_ns env), tmp_name env := Missing)"
      "json_dumps r (JObj doc) = Inr body" "\<forall>p. p \<noteq> tmp_name env \<longrightarrow> f1 p = f p"
proof (cases "write_tmp env r doc f")
  case (Pair w f1)
  note frame = write_tmp_frame [OF Pair]
  show ?thesis
  proof (cases w)
    case (Inl e)
    with Pair assms frame show ?thesis by (intro failed [of e f1]) (auto simp: try_publish_def publish_def)
  next
    case (Inr x)
    with Pair write_tmp_done [of env r doc f x f1] obtain body where
      b: "json_dumps r (JObj doc) = Inr body" "f1 (tmp_name env) = File (body @ [10]) (now_ns env)" by auto
    have p: "publish env r index doc count f =
        (case check_tmp env r count f1 of Inl e \<Rightarrow> (Inl e, f1)
         | Inr _ \<Rightarrow> (case fault env ReplaceIndex of Some e \<Rightarrow> (Inl e, f1)
            | None \<Rightarrow> if is_dir (f1 index)
                then (Inl (u ''[Errno 21] Is a directory: '' @ str_repr r (tmp_name env) @ u '' -> '' @ str_repr r index), f1)
                else (Inr (), f1(index := f1 (tmp_name env), tmp_name env := Missing))))"
      using Pair Inr by (simp add: publish_def)
    show ?thesis
    proof (cases "fst (publish env r index doc count f)")
      case (Inl e)
      then have "publish env r index doc count f = (Inl e, f1)"
        unfolding p by (auto split: sum.splits option.splits if_splits)
      with assms frame show ?thesis by (intro failed [of e f1]) (auto simp: try_publish_def)
    next
      case (Inr y)
      then have "publish env r index doc count f = (Inr (), f1(index := f1 (tmp_name env), tmp_name env := Missing))"
        unfolding p by (auto split: sum.splits option.splits if_splits)
      with assms frame b show ?thesis by (intro published [of f1 body]) (auto simp: try_publish_def)
    qed
  qed
qed

interpretation index_publish: atomic_publish run_index_op index_target index_scratch "\<lambda>r. r = Inr ()" index_content
proof unfold_locales
  fix x :: index_op and f :: files and r :: "pystr + unit" and f' :: files
  assume "run_index_op x f = (r, f')" and n: "index_scratch x \<noteq> index_target x"
  then show "if r = Inr () then \<exists>b m. f' (index_target x) = File b m \<and> index_content x b else f' (index_target x) = f (index_target x)"
    by (cases x) (auto simp: run_index_op_def index_target_def index_scratch_def index_content_def cleanup_frame elim!: try_publish_cases)
next
  fix x :: index_op and f :: files and r :: "pystr + unit" and f' :: files and p :: pystr
  assume "run_index_op x f = (r, f')" and "p \<noteq> index_target x" and "p \<noteq> index_scratch x"
  then show "f' p = f p"
    by (cases x) (auto simp: run_index_op_def index_target_def index_scratch_def cleanup_frame elim!: try_publish_cases)
qed

end
