(* ===== verification/Dtj_Index_Props.thy ===== *)
theory Dtj_Index_Props imports Atomic_Publish Dtj_Query_Props begin

text \<open>
  The index is derived data: it is published whole or not at all, a search through it answers
  what a search of its source answers, and it is refused as soon as the source's identity differs.
\<close>

section \<open>The document of a loaded session\<close>

lemma group_events_total: "\<forall>e \<in> set evs. is_dict e \<and> is_int (getj (dict_val e) (u ''event_sequence'')) \<Longrightarrow>
    \<exists>g'. group_events evs g = Inr g'"
  by (induction evs arbitrary: g) auto

lemma wf_events_ints: "wf_events evs \<Longrightarrow> \<forall>e \<in> set evs. is_dict e \<and> is_int (getj (dict_val e) (u ''event_sequence''))"
  using wf_events_num_eq(2) wf_events_nth by (fastforce simp: in_set_conv_nth)

definition grouped :: "string \<Rightarrow> json list \<Rightarrow> pystr \<Rightarrow> json list" where
  "grouped field evs key = map (\<lambda>e. getj (dict_val e) (u ''event_sequence''))
     (filter (\<lambda>e. getj (dict_val e) (u field) = JStr key) evs)"

lemma getd_update: "getd (AList.update k v d) k' x = (if k' = k then v else getd d k' x)"
  by (simp add: getd_def update_conv')

lemma group_add_lookup:
  "getd (group_add field ev g) key (JList []) =
     (if getj ev (u field) = JStr key
      then JList (list_val (getd g key (JList [])) @ [getj ev (u ''event_sequence'')]) else getd g key (JList []))"
  by (cases "getj ev (u field)") (auto simp: group_add_def getd_update Let_def)

text \<open>One fold per field; the five groups of the record are independent.\<close>

definition group_fold :: "string \<Rightarrow> json list \<Rightarrow> jdict \<Rightarrow> jdict" where
  "group_fold field evs g = foldl (\<lambda>g e. group_add field (dict_val e) g) g evs"

lemma group_events_folds:
  "group_events evs g = Inr g' \<Longrightarrow>
     by_domain g' = group_fold ''domain'' evs (by_domain g) \<and>
     by_category g' = group_fold ''category'' evs (by_category g) \<and>
     by_event_name g' = group_fold ''event_name'' evs (by_event_name g) \<and>
     by_correlation g' = group_fold ''correlation'' evs (by_correlation g) \<and>
     by_severity g' = group_fold ''severity'' evs (by_severity g)"
  by (induction evs arbitrary: g) (auto simp: group_fold_def split: if_splits)

lemma group_fold_lookup:
  "is_list (getd g key (JList [])) \<Longrightarrow>
     getd (group_fold field evs g) key (JList []) = JList (list_val (getd g key (JList [])) @ grouped field evs key)"
proof (induction evs arbitrary: g)
  case Nil
  then show ?case by (cases "getd g key (JList [])") (auto simp: group_fold_def grouped_def)
next
  case (Cons e evs)
  have "group_fold field (e # evs) g = group_fold field evs (group_add field (dict_val e) g)"
    by (simp add: group_fold_def)
  moreover have "is_list (getd (group_add field (dict_val e) g) key (JList []))"
    using Cons.prems by (simp add: group_add_lookup)
  ultimately show ?case
    using Cons.IH [of "group_add field (dict_val e) g"] by (auto simp: group_add_lookup grouped_def)
qed

lemma group_fold_empty: "getd (group_fold field evs []) key (JList []) = JList (grouped field evs key)"
  using group_fold_lookup [of "[]" key field evs] by (simp add: getd_def)

section \<open>Building natively\<close>

text \<open>What \<open>build_document\<close> records, for a loaded session.\<close>

lemma build_document_fields:
  assumes "build_document r ident d evs = Inr doc"
  shows "getj doc (u ''format'') = JStr INDEX_FORMAT" "getj doc (u ''schema_version'') = JInt 1"
    "getj doc (u ''source_path'') = JStr (source_path ident)" "getj doc (u ''source_size'') = JInt (source_size ident)"
    "getj doc (u ''source_mtime_ns'') = JInt (source_mtime_ns ident)" "getj doc (u ''events'') = JList evs"
    "getj doc (u ''event_count'') = jnat (length evs)"
  using assms by (auto simp: build_document_def bindE_Inr_iff)

lemma build_index_ok:
  assumes "build_index_atomic env h later reader session index = (Inr out, f')" "is_ok out"
  obtains ident d doc body f m where "source_identity h session = Some ident" "reader session = Inr d" "is_ok d"
    "is_list (getj d (u ''events''))" "source_identity (h\<lparr>fs := later\<rparr>) session = Some ident"
    "build_document (rt h) ident d (events_in d) = Inr doc" "json_dumps (rt h) (JObj doc) = Inr body"
    "make_dirs env (ancestors h index) later = (Inr m, f)"
    "f' index = (if index = tmp_name env then Missing else File (body @ [10]) (now_ns env))"
    "\<forall>p. p \<noteq> index \<longrightarrow> p \<noteq> tmp_name env \<longrightarrow> f' p = f p"
proof -
  from assms obtain ident where i: "source_identity h session = Some ident"
    by (cases "source_identity h session") (auto simp: build_index_atomic_def is_ok_def index_error_def)
  from assms i obtain d where d: "reader session = Inr d"
    by (cases "reader session") (auto simp: build_index_atomic_def)
  have ok: "is_ok d" using assms i d by (auto simp: build_index_atomic_def split: if_splits)
  have e: "\<not> is_ok (index_error session index x)" for x by (simp add: is_ok_def index_error_def)
  have s: "source_identity (h\<lparr>fs := later\<rparr>) session = Some ident" "is_list (getj d (u ''events''))"
    using assms i d ok e by (auto simp: build_index_atomic_def split: if_splits)
  from assms i d ok s obtain doc where doc: "build_document (rt h) ident d (events_in d) = Inr doc"
    by (cases "build_document (rt h) ident d (events_in d)") (auto simp: build_index_atomic_def events_in_def Let_def)
  obtain mr f where m: "make_dirs env (ancestors h index) later = (mr, f)" by (cases "make_dirs env (ancestors h index) later")
  from assms i d ok s doc m obtain mu where mu: "mr = Inr mu"
    by (cases mr) (auto simp: build_index_atomic_def events_in_def Let_def)
  obtain pr pf where p: "try_publish env (rt h) index doc (length (events_in d)) f = (pr, pf)"
    by (cases "try_publish env (rt h) index doc (length (events_in d)) f")
  from assms i d ok s doc m mu p e obtain pu where pu: "pr = Inr pu" and f': "f' = pf"
    by (cases pr) (auto simp: build_index_atomic_def events_in_def Let_def)
  from p pu show ?thesis
    by (cases rule: try_publish_cases) (use that i d ok s doc m mu f' in auto)
qed

lemma make_dirs_frame: "make_dirs env ps f = (r, f1) \<Longrightarrow> p \<notin> set ps \<Longrightarrow> f1 p = f p"
  by (induction env ps f rule: make_dirs.induct) (auto split: node.splits if_splits)

lemma build_document_chunks:
  "build_document r ident d evs = Inr doc \<Longrightarrow> \<exists>c. py_int r (or_else (getj d (u ''chunks_committed'')) (JInt 0)) = Inr c"
  by (auto simp: build_document_def bindE_Inr_iff)

lemma build_index_not_ok:
  assumes "build_index_atomic env h later reader session index = (res, f')" "tmp_name env \<noteq> index"
    and "index \<notin> set (ancestors h index)" "\<forall>out. res = Inr out \<longrightarrow> \<not> is_ok out"
  shows "f' index = later index \<or> f' = fs h"
proof (cases "f' = fs h \<or> f' = later")
  case False
  obtain ident where i: "source_identity h session = Some ident"
    using assms False by (cases "source_identity h session") (auto simp: build_index_atomic_def)
  obtain d where d: "reader session = Inr d" using assms False i by (cases "reader session") (auto simp: build_index_atomic_def)
  have c: "is_ok d" "source_identity (h\<lparr>fs := later\<rparr>) session = Some ident" "is_list (getj d (u ''events''))"
    using assms False i d by (auto simp: build_index_atomic_def split: if_splits)
  obtain doc where doc: "build_document (rt h) ident d (list_val (getj d (u ''events''))) = Inr doc"
    using assms False i d c by (cases "build_document (rt h) ident d (list_val (getj d (u ''events'')))")
      (auto simp: build_index_atomic_def Let_def)
  obtain mr f where m: "make_dirs env (ancestors h index) later = (mr, f)" by (cases "make_dirs env (ancestors h index) later")
  have mf: "f index = later index" using make_dirs_frame [OF m assms(3)] .
  show ?thesis
  proof (cases mr)
    case (Inl e)
    then show ?thesis using assms i d c doc m mf by (auto simp: build_index_atomic_def Let_def)
  next
    case (Inr mu)
    obtain pr pf where p: "try_publish env (rt h) index doc (length (list_val (getj d (u ''events'')))) f = (pr, pf)"
      by (cases "try_publish env (rt h) index doc (length (list_val (getj d (u ''events'')))) f")
    obtain ch where ch: "py_int (rt h) (or_else (getj d (u ''chunks_committed'')) (JInt 0)) = Inr ch"
      using build_document_chunks [OF doc] ..
    have "is_ok (built_result session index d st ad n cc tl)" for st ad n cc tl by (simp add: is_ok_def built_result_def)
    then have "\<exists>e. pr = Inl e" "f' = pf"
      using assms i d c doc m Inr p ch by (auto simp: build_index_atomic_def Let_def split: sum.splits)
    with p mf assms(2) show ?thesis by (auto simp: cleanup_frame elim!: try_publish_cases)
  qed
qed (use assms in auto)

text \<open>C6: building an index is atomic. Whatever system call fails and whatever others do to the
  source meanwhile, either the build reports success and the index holds the complete encoded
  document of the session just read, or it reports failure (or raises) and the index file is
  exactly what it was.\<close>

theorem index_build_atomic:
  assumes "build_index_atomic env h later reader session index = (res, f')"
    and "tmp_name env \<noteq> index" "index \<notin> set (ancestors h index)"
  shows "(\<exists>out ident d doc body. res = Inr out \<and> is_ok out \<and> source_identity h session = Some ident \<and>
      source_identity (h\<lparr>fs := later\<rparr>) session = Some ident \<and> reader session = Inr d \<and> is_ok d \<and>
      build_document (rt h) ident d (events_in d) = Inr doc \<and> json_dumps (rt h) (JObj doc) = Inr body \<and>
      f' index = File (body @ [10]) (now_ns env)) \<or>
    (\<forall>out. res = Inr out \<longrightarrow> \<not> is_ok out) \<and> (f' index = later index \<or> f' = fs h)"
proof (cases "\<exists>out. res = Inr out \<and> is_ok out")
  case True
  then obtain out where o': "res = Inr out" "is_ok out" by blast
  from build_index_ok [OF assms(1) [unfolded o'(1)] o'(2)] o' assms(2) show ?thesis by (smt (verit))
next
  case False
  with build_index_not_ok [OF assms] show ?thesis by blast
qed

section \<open>Reading it back\<close>

text \<open>The documented law of the JSON codec, for one value: what is written is read back.\<close>

definition json_faithful :: "runtime \<Rightarrow> json \<Rightarrow> bool" where
  "json_faithful r j = (\<forall>body. json_dumps r j = Inr body \<longrightarrow> json_loads r (body @ [10]) = Parsed j)"

definition file_identity :: "host \<Rightarrow> pystr \<Rightarrow> bytes \<Rightarrow> int \<Rightarrow> identity" where
  "file_identity h session b m =
     \<lparr>source_path = resolve h session, source_size = int (length b), source_mtime_ns = m\<rparr>"

lemma source_identity_file: "fs h session = File b m \<Longrightarrow> source_identity h session = Some (file_identity h session b m)"
  by (simp add: source_identity_def file_identity_def)

definition stale_error :: "pystr \<Rightarrow> pystr \<Rightarrow> jdict" where
  "stale_error session index = index_error session index (kind_message ''StaleIndex'' (u
     ''index source identity does not match current session file (path/size/mtime_ns + stored header metadata); rebuild required''))"

lemma open_written:
  assumes "build_document (rt h) (file_identity h session b m) d evs = Inr doc"
    and "json_loads (rt h) body = Parsed (JObj doc)" "fs h index = File body t" "fs h session = File b' m'"
  shows "open_validated_index h session index =
    (if length b \<noteq> 0 \<and> length b' = length b \<and> m' = (if m = 0 then - 1 else m) then Inr (Inr doc)
     else Inr (Inl (stale_error session index)))"
proof -
  note f = build_document_fields [OF assms(1)]
  have i: "is_file h index" using assms(3) by (simp add: is_file_def)
  have r: "(case read_bytes h index of Inl exc \<Rightarrow> DecodeError exc | Inr b \<Rightarrow> json_loads (rt h) b) = Parsed (JObj doc)" using assms by (simp add: read_bytes_def)
  have "identity_matches (rt h) doc (file_identity h session b' m') =
      Inr (length b \<noteq> 0 \<and> length b' = length b \<and> m' = (if m = 0 then - 1 else m))"
    by (auto simp: identity_matches_def f file_identity_def or_else_def)
  then show ?thesis
    unfolding open_validated_index_def r source_identity_file [OF assms(4)]
    by (simp add: i f stale_error_def)
qed

lemma index_matches_all: "\<forall>e \<in> set evs. is_dict e \<Longrightarrow> index_matches r f evs = Some (matched_events r f evs)"
  by (induction evs) (auto simp: matched_events_def)

lemma native_file_length:
  assumes "read_session_dtj (native h) p = Inr d" "is_ok d" "expanduser h p = p" "fs h p = File b m"
  shows "128 \<le> length b"
proof (rule ccontr)
  assume "\<not> 128 \<le> length b"
  then have "open_session (Inr b) = Inl (malformed ''file shorter than header'')" by (simp add: open_session_def)
  then have "\<not> is_ok d"
    using assms by (auto simp: read_session_dtj_def read_session_def Let_def read_bytes_def is_ok_def
        core_error_projection_def split: if_splits)
  with assms(2) show False by contradiction
qed

text \<open>The file system after a successful build of the index of an unchanged session.\<close>

lemma built_index:
  assumes "build_index_atomic env (native h) later (read_session_dtj (native h)) session index = (Inr out, f')" "is_ok out"
    and "expanduser h session = session" "fs h session = File b m" "later session = File b m"
    and "session \<noteq> index" "session \<noteq> tmp_name env" "tmp_name env \<noteq> index" "session \<notin> set (ancestors h index)"
  obtains d doc body where "read_session_dtj (native h) session = Inr d" "is_ok d" "128 \<le> length b"
    "build_document (rt h) (file_identity h session b m) d (events_in d) = Inr doc" "json_dumps (rt h) (JObj doc) = Inr body"
    "f' index = File (body @ [10]) (now_ns env)" "f' session = File b m"
proof -
  from build_index_ok [OF assms(1,2)] obtain ident d doc body f mu where
    i: "source_identity (native h) session = Some ident" and d: "read_session_dtj (native h) session = Inr d" "is_ok d"
    and doc: "build_document (rt (native h)) ident d (events_in d) = Inr doc" "json_dumps (rt (native h)) (JObj doc) = Inr body"
    and mk: "make_dirs env (ancestors (native h) index) later = (mu, f)"
    and ix: "f' index = (if index = tmp_name env then Missing else File (body @ [10]) (now_ns env))"
    and fr: "\<forall>p. p \<noteq> index \<longrightarrow> p \<noteq> tmp_name env \<longrightarrow> f' p = f p" by metis
  have "ident = file_identity h session b m"
    using i assms(4) by (simp add: source_identity_def file_identity_def)
  moreover have "f' session = File b m"
    using fr make_dirs_frame [OF mk, of session] assms by simp
  moreover have "f' index = File (body @ [10]) (now_ns env)" using ix assms(8) by simp
  ultimately show ?thesis using that d doc native_file_length [OF d assms(3,4)] by simp
qed

text \<open>Reading a session depends on the file system at its own path only.\<close>

lemma read_session_local:
  assumes "expanduser h p = p" "f p = fs h p"
  shows "read_session_dtj (native (h\<lparr>fs := f\<rparr>)) p = read_session_dtj (native h) p"
proof -
  have "read_bytes (h\<lparr>fs := f\<rparr>) p = read_bytes h p" "is_file (h\<lparr>fs := f\<rparr>) p = is_file h p"
    using assms by (simp_all add: read_bytes_def is_file_def split: node.splits)
  with assms show ?thesis by (simp add: read_session_dtj_def read_session_def Let_def)
qed

section \<open>A build without faults succeeds\<close>

lemma make_dirs_ok:
  "fault env MakeDir = None \<Longrightarrow> \<forall>p \<in> set ps. f p = Missing \<or> is_dir (f p) \<Longrightarrow> \<exists>f1. make_dirs env ps f = (Inr (), f1)"
proof (induction env ps f rule: make_dirs.induct)
  case (2 env p ps f)
  show ?case
  proof (cases "f p")
    case Missing
    with "2.prems" have "\<forall>q \<in> set ps. (f(p := Directory (dir_size env) (now_ns env))) q = Missing \<or>
        is_dir ((f(p := Directory (dir_size env) (now_ns env))) q)" by (auto simp: is_dir_def)
    with "2.IH" Missing "2.prems" have "\<exists>f1. make_dirs env ps (f(p := Directory (dir_size env) (now_ns env))) = (Inr (), f1)"
      by blast
    with Missing "2.prems"(1) show ?thesis by simp
  next
    case (Directory n m)
    with 2 show ?thesis by simp
  qed (use "2.prems" in \<open>auto simp: is_dir_def\<close>)
qed simp

lemma fault_free_build:
  assumes "read_session_dtj (native h) session = Inr d" "is_ok d" "fs h session = File b m" "later session = File b m"
    and "fault env = (\<lambda>s. None)" "tmp_name env \<noteq> index" "index \<notin> set (ancestors h index)" "tmp_name env \<notin> set (ancestors h index)"
    and "\<forall>p \<in> set (ancestors h index). later p = Missing \<or> is_dir (later p)"
    and "\<not> is_dir (later index)" "\<not> is_dir (later (tmp_name env))"
    and "\<forall>doc. build_document (rt h) (file_identity h session b m) d (events_in d) = Inr doc \<longrightarrow>
      (\<exists>body. json_dumps (rt h) (JObj doc) = Inr body) \<and> json_faithful (rt h) (JObj doc)"
  shows "\<exists>out f'. build_index_atomic env (native h) later (read_session_dtj (native h)) session index = (Inr out, f') \<and> is_ok out"
proof -
  from native_source.load_wf [OF assms(1,2)] obtain c where c: "getj d (u ''chunks_committed'') = JInt c"
    by (auto simp: wf_projection_def dest: is_strict_intE)
  then have chunks: "py_int r (or_else (getj d (u ''chunks_committed'')) (JInt 0)) = Inr c" for r
    by (simp add: or_else_def)
  from native_source.loaded_events [OF assms(1,2)] have w: "wf_events (events_in d)" "is_list (getj d (u ''events''))" by simp_all
  obtain g where "group_events (events_in d) empty_groups = Inr g" using group_events_total [OF wf_events_ints [OF w(1)]] by blast
  then obtain doc where doc: "build_document (rt h) (file_identity h session b m) d (events_in d) = Inr doc"
    by (simp add: build_document_def chunks)
  with assms(12) obtain body where body: "json_dumps (rt h) (JObj doc) = Inr body" "json_loads (rt h) (body @ [10]) = Parsed (JObj doc)"
    by (auto simp: json_faithful_def)
  obtain f where f: "make_dirs env (ancestors h index) later = (Inr (), f)"
    using make_dirs_ok [of env "ancestors h index" later] assms(5,9) by auto
  have fx: "\<not> is_dir (f index)" "\<not> is_dir (f (tmp_name env))"
    using make_dirs_frame [OF f] assms(7,8,10,11) by simp_all
  note fields = build_document_fields [OF doc]
  have "getd doc (u ''event_count'') x = jnat (length (events_in d))" for x
    using doc by (auto simp: build_document_def bindE_Inr_iff getd_def)
  then have "\<exists>f'. try_publish env (rt h) index doc (length (events_in d)) f = (Inr (), f')"
    using assms(5,6) body fx
    by (simp add: try_publish_def publish_def write_tmp_def Let_def check_tmp_def fields)
  then obtain f' where p: "try_publish env (rt h) index doc (length (events_in d)) f = (Inr (), f')" ..
  have i: "source_identity (native h) session = Some (file_identity h session b m)"
    "source_identity ((native h)\<lparr>fs := later\<rparr>) session = Some (file_identity h session b m)"
    using assms(3,4) by (simp_all add: source_identity_def file_identity_def)
  show ?thesis
    unfolding build_index_atomic_def i
    using assms(1,2) w doc f p chunks by (simp add: events_in_def [symmetric] Let_def is_ok_def built_result_def)
qed

text \<open>When no system call fails, the source does not change meanwhile and the parent path is
  usable, building the index of a loadable session succeeds.\<close>

theorem index_build_succeeds:
  assumes "read_session_dtj (native h) session = Inr d" "is_ok d" "fs h session = File b m" "later session = File b m"
    and "fault env = (\<lambda>s. None)" "tmp_name env \<noteq> index" "index \<notin> set (ancestors h index)" "tmp_name env \<notin> set (ancestors h index)"
    and "\<forall>p \<in> set (ancestors h index). later p = Missing \<or> is_dir (later p)"
    and "\<not> is_dir (later index)" "\<not> is_dir (later (tmp_name env))"
    and "\<forall>doc. build_document (rt h) (file_identity h session b m) d (events_in d) = Inr doc \<longrightarrow>
      (\<exists>body. json_dumps (rt h) (JObj doc) = Inr body) \<and> json_faithful (rt h) (JObj doc)"
  shows "\<exists>out f'. build_index_atomic env (native h) later (read_session_dtj (native h)) session index = (Inr out, f') \<and> is_ok out"
  using assms by (rule fault_free_build)

section \<open>A sample index\<close>

definition sample_index :: pystr where "sample_index = u ''i.json''"

definition sample_env :: io_env where
  "sample_env = \<lparr>fault = (\<lambda>s. None), partial_write = [], tmp_name = u ''i.tmp'', now_ns = 9, dir_size = 0\<rparr>"

definition sample_doc :: jdict where
  "sample_doc = (case build_document sample_runtime (file_identity sample_host sample_path sample_bytes 7)
     sample_projection (events_in sample_projection) of Inr doc \<Rightarrow> doc | Inl e \<Rightarrow> [])"

definition index_host :: host where
  "index_host = sample_host\<lparr>rt := sample_runtime\<lparr>json_dumps := (\<lambda>j. Inr []), json_loads := (\<lambda>b. Parsed (JObj sample_doc))\<rparr>\<rparr>"

lemma index_host_simps [simp]:
  "fs index_host = fs sample_host" "expanduser index_host = id" "ancestors index_host = (\<lambda>p. [])"
  "rt index_host = sample_runtime\<lparr>json_dumps := (\<lambda>j. Inr []), json_loads := (\<lambda>b. Parsed (JObj sample_doc))\<rparr>"
  by (simp_all add: index_host_def sample_host_def)

lemma sample_fs: "fs sample_host sample_path = File sample_bytes 7" "fs sample_host sample_index = Missing"
  "fs sample_host (tmp_name sample_env) = Missing"
  by (simp_all add: sample_host_def sample_path_def sample_index_def sample_env_def)

lemma index_host_load: "read_session_dtj (native index_host) sample_path = Inr sample_projection"
  by (simp add: read_session_dtj_def read_session_def Let_def is_file_def sample_fs
      read_bytes_def sample_open sample_projection_def)

lemma py_int_JInt_runtime: "getj d k = JInt c \<Longrightarrow> py_int r (or_else (getj d k) (JInt 0)) = Inr c"
  by (simp add: or_else_def)

lemma sample_doc_built:
  "build_document (rt index_host) (file_identity index_host sample_path sample_bytes 7) sample_projection (events_in sample_projection) = Inr doc
   \<Longrightarrow> doc = sample_doc"
proof -
  have c: "getj sample_projection (u ''chunks_committed'') = JInt 2"
    by (simp add: sample_projection_def session_to_projection_def read_trace_def)
  have i: "file_identity index_host sample_path sample_bytes 7 = file_identity sample_host sample_path sample_bytes 7"
    by (simp add: file_identity_def index_host_def)
  show "build_document (rt index_host) (file_identity index_host sample_path sample_bytes 7) sample_projection (events_in sample_projection) = Inr doc
   \<Longrightarrow> doc = sample_doc"
    unfolding sample_doc_def i
    by (auto simp: build_document_def bindE_Inr_iff py_int_JInt_runtime [OF c])
qed

lemma sample_faithful:
  "\<forall>doc. build_document (rt index_host) (file_identity index_host sample_path sample_bytes 7) sample_projection (events_in sample_projection) = Inr doc \<longrightarrow>
     (\<exists>body. json_dumps (rt index_host) (JObj doc) = Inr body) \<and> json_faithful (rt index_host) (JObj doc)"
proof (intro allI impI)
  fix doc
  assume "build_document (rt index_host) (file_identity index_host sample_path sample_bytes 7) sample_projection (events_in sample_projection) = Inr doc"
  then have "doc = sample_doc" by (rule sample_doc_built)
  then show "(\<exists>body. json_dumps (rt index_host) (JObj doc) = Inr body) \<and> json_faithful (rt index_host) (JObj doc)"
    by (simp add: json_faithful_def)
qed

lemma sample_fault: "fault sample_env = (\<lambda>s. None)"
  by (simp add: sample_env_def)

lemma sample_names: "sample_path \<noteq> sample_index" "sample_path \<noteq> tmp_name sample_env" "tmp_name sample_env \<noteq> sample_index"
  by (simp_all add: sample_path_def sample_index_def sample_env_def)

theorem index_build_succeeds_witness:
  "\<exists>out f'. build_index_atomic sample_env (native index_host) (fs sample_host) (read_session_dtj (native index_host)) sample_path sample_index =
     (Inr out, f') \<and> is_ok out"
  by (rule index_build_succeeds [OF index_host_load sample_ok _ _ _ _ _ _ _ _ _ sample_faithful])
    (simp_all add: sample_fs sample_names is_dir_def sample_fault)

text \<open>C5: a search through the index answers what a search of the session answers. After a successful
  build, while the session file keeps its content and time stamp, every valid query returns the
  same events and the same match count from the index as from the decoded source. The codec law is
  assumed for the one document written; the time stamp must not be zero (see the next property).\<close>

theorem index_search_agrees:
  assumes "build_index_atomic env (native h) later (read_session_dtj (native h)) session index = (Inr out, f')" "is_ok out"
    and "expanduser h session = session" "expanduser h index = index" "fs h session = File b m" "later session = File b m"
    and "session \<noteq> index" "session \<noteq> tmp_name env" "tmp_name env \<noteq> index" "session \<notin> set (ancestors h index)"
    and "m \<noteq> 0" "\<forall>d doc. read_session_dtj (native h) session = Inr d \<longrightarrow>
      build_document (rt h) (file_identity h session b m) d (events_in d) = Inr doc \<longrightarrow> json_faithful (rt h) (JObj doc)"
    and "validate_search_limit limit = None" "validate_search_offset offset = None"
    and "validate_mono_window (f_mono_from_ns f) (f_mono_to_ns f) = None" "h' = h\<lparr>fs := f'\<rparr>"
  shows "\<exists>o1 o2. search_session_dtj (native h') session f limit offset = Inr o1 \<and> is_ok o1 \<and>
    search_session_dtj_index (native h') session index f limit offset = Inr o2 \<and> is_ok o2 \<and>
    events_in o2 = events_in o1 \<and> getj o2 (u ''matched_count'') = getj o1 (u ''matched_count'')"
proof -
  obtain d doc body where d: "read_session_dtj (native h) session = Inr d" "is_ok d" "128 \<le> length b"
    and doc: "build_document (rt h) (file_identity h session b m) d (events_in d) = Inr doc" "json_dumps (rt h) (JObj doc) = Inr body"
    and f': "f' index = File (body @ [10]) (now_ns env)" "f' session = File b m"
    using built_index [OF assms(1,2,3,5-10)] by metis
  have ld: "json_loads (rt h) (body @ [10]) = Parsed (JObj doc)" using assms(12) d doc by (auto simp: json_faithful_def)
  have r: "read_session_dtj (native h') session = Inr d"
    using d read_session_local [OF assms(3), of f'] f' assms(5,16) by simp
  from native_source.loaded_events [OF r d(2)] have w: "wf_events (events_in d)" by simp
  obtain o1 where o1: "search_session_dtj (native h') session f limit offset = Inr o1" "is_ok o1"
    using native_source.search_loaded_ok [OF r d(2), of "rt h" session f limit offset] assms(3,13-16)
    by (auto simp: search_session_dtj_def Let_def)
  from search_session_Inr(4) [OF o1]
  have "with_loaded (read_session_dtj (native h') session) (search_result (rt h) session f limit offset) = Inr o1"
    using assms(3,16) by simp
  from native_source.search_loaded [OF this o1(2)] r
  have e1: "events_in o1 = slice (matched_events (rt h) f (events_in d)) (nat (int_val offset)) (nat (int_val offset) + nat (int_val limit))"
    "getj o1 (u ''matched_count'') = jnat (length (matched_events (rt h) f (events_in d)))" by auto
  have "b \<noteq> []" using d(3) by auto
  then have op: "open_validated_index (native h') session index = Inr (Inr doc)"
    using open_written [of "native h'" session b m d "events_in d" doc "body @ [10]" index "now_ns env" b m] doc ld f' assms(11,16) d(3)
    by (simp add: file_identity_def)
  have ev: "getj doc (u ''events'') = JList (events_in d)" using build_document_fields(6) [OF doc(1)] .
  have im: "index_matches (rt h) f (events_in d) = Some (matched_events (rt h) f (events_in d))"
    using wf_events_dict [OF w] by (simp add: index_matches_all)
  obtain o2 where o2: "search_session_dtj_index (native h') session index f limit offset = Inr o2" "is_ok o2"
    "events_in o2 = slice (matched_events (rt h) f (events_in d)) (nat (int_val offset)) (nat (int_val offset) + nat (int_val limit))"
    "getj o2 (u ''matched_count'') = jnat (length (matched_events (rt h) f (events_in d)))"
    using assms(3,4,13-16) op im by (simp add: search_session_dtj_index_def Let_def ev is_ok_def events_in_def)
  from o1 o2 e1 show ?thesis by auto
qed

lemma sample_build:
  obtains out f' where "build_index_atomic sample_env (native index_host) (fs sample_host) (read_session_dtj (native index_host))
      sample_path sample_index = (Inr out, f')" "is_ok out"
proof -
  have "\<exists>out f'. build_index_atomic sample_env (native index_host) (fs sample_host) (read_session_dtj (native index_host))
      sample_path sample_index = (Inr out, f') \<and> is_ok out"
    by (rule fault_free_build [OF index_host_load sample_ok _ _ _ _ _ _ _ _ _ sample_faithful])
      (simp_all add: sample_fs sample_names is_dir_def sample_fault)
  then show ?thesis using that by blast
qed

lemma sample_codec:
  "\<forall>d doc. read_session_dtj (native index_host) sample_path = Inr d \<longrightarrow>
     build_document (rt index_host) (file_identity index_host sample_path sample_bytes 7) d (events_in d) = Inr doc \<longrightarrow>
     json_faithful (rt index_host) (JObj doc)"
  using sample_faithful by (simp add: index_host_load)

theorem index_search_agrees_witness:
  "\<exists>f' o1 o2. search_session_dtj (native (index_host\<lparr>fs := f'\<rparr>)) sample_path no_filters (JInt 5) (JInt 0) = Inr o1 \<and>
     search_session_dtj_index (native (index_host\<lparr>fs := f'\<rparr>)) sample_path sample_index no_filters (JInt 5) (JInt 0) = Inr o2 \<and>
     events_in o2 = events_in o1"
proof -
  obtain out f' where b: "build_index_atomic sample_env (native index_host) (fs sample_host) (read_session_dtj (native index_host))
      sample_path sample_index = (Inr out, f')" "is_ok out" by (rule sample_build)
  have v: "validate_search_limit (JInt 5) = None" "validate_search_offset (JInt 0) = None"
    by (simp_all add: valid_limit valid_offset)
  show ?thesis
    using index_search_agrees [OF b _ _ _ _ sample_names _ _ sample_codec v no_filters_window refl]
    by (auto simp: sample_fs)
qed

theorem index_build_atomic_witness:
  "\<exists>res f'. build_index_atomic sample_env (native index_host) (fs sample_host) (read_session_dtj (native index_host)) sample_path sample_index =
     (res, f') \<and> (\<exists>body. f' sample_index = File (body @ [10]) (now_ns sample_env))"
proof -
  obtain out f' where b: "build_index_atomic sample_env (native index_host) (fs sample_host) (read_session_dtj (native index_host))
      sample_path sample_index = (Inr out, f')" "is_ok out" by (rule sample_build)
  from index_build_atomic [OF b(1)] b sample_names show ?thesis by auto
qed

text \<open>After any history of index publications, with any faults in any of them, the index file
  holds what it held at first or one complete document.\<close>

theorem index_history_whole:
  assumes "\<forall>x \<in> set xs. index_target x = t \<and> index_scratch x \<noteq> t"
  shows "foldl (\<lambda>f x. snd (run_index_op x f)) f xs t = f t \<or>
    (\<exists>x \<in> set xs. \<exists>b m. foldl (\<lambda>f x. snd (run_index_op x f)) f xs t = File b m \<and> index_content x b)"
  using index_publish.history [OF assms, of f] by (simp add: index_publish.run_all_def)

theorem index_history_whole_witness:
  "foldl (\<lambda>f x. snd (run_index_op x f)) (\<lambda>p. Missing) [(sample_env, sample_runtime, sample_index, [], 0)] sample_index = Missing \<or>
   (\<exists>x \<in> set [(sample_env, sample_runtime, sample_index, [], 0)]. \<exists>b m.
     foldl (\<lambda>f x. snd (run_index_op x f)) (\<lambda>p. Missing) [(sample_env, sample_runtime, sample_index, [], 0)] sample_index = File b m \<and>
     index_content x b)"
  by (rule index_history_whole) (simp add: index_target_def index_scratch_def sample_names)

text \<open>A stale index is never served. After a successful build, as soon as the session file has a
  different length or a different time stamp, every query through the index is the structured error
  \<open>StaleIndex\<close>. A session whose time stamp is zero is refused even when nothing changed, because the
  comparison reads a stored zero as missing.\<close>

theorem stale_index_refused:
  assumes "build_index_atomic env (native h) later (read_session_dtj (native h)) session index = (Inr out, f')" "is_ok out"
    and "expanduser h session = session" "expanduser h index = index" "fs h session = File b m" "later session = File b m"
    and "session \<noteq> index" "session \<noteq> tmp_name env" "tmp_name env \<noteq> index" "session \<notin> set (ancestors h index)"
    and "\<forall>d doc. read_session_dtj (native h) session = Inr d \<longrightarrow>
      build_document (rt h) (file_identity h session b m) d (events_in d) = Inr doc \<longrightarrow> json_faithful (rt h) (JObj doc)"
    and "length b' \<noteq> length b \<or> 0 \<le> m' \<and> m' \<noteq> m \<or> m = 0 \<and> m' = 0" "h' = h\<lparr>fs := f'(session := File b' m')\<rparr>"
    and "validate_search_limit limit = None" "validate_search_offset offset = None"
    and "validate_mono_window (f_mono_from_ns f) (f_mono_to_ns f) = None"
  shows "search_session_dtj_index (native h') session index f limit offset = Inr (stale_error session index)"
proof -
  obtain d doc body where d: "read_session_dtj (native h) session = Inr d" "128 \<le> length b"
    and doc: "build_document (rt h) (file_identity h session b m) d (events_in d) = Inr doc" "json_dumps (rt h) (JObj doc) = Inr body"
    and f': "f' index = File (body @ [10]) (now_ns env)"
    using built_index [OF assms(1,2,3,5-10)] by metis
  have ld: "json_loads (rt h) (body @ [10]) = Parsed (JObj doc)" using assms(11) d doc by (auto simp: json_faithful_def)
  have "open_validated_index (native h') session index =
      (if length b \<noteq> 0 \<and> length b' = length b \<and> m' = (if m = 0 then - 1 else m) then Inr (Inr doc)
       else Inr (Inl (stale_error session index)))"
    using open_written [of "native h'" session b m d "events_in d" doc "body @ [10]" index "now_ns env" b' m'] doc ld f' assms(7,13)
    by (simp add: file_identity_def)
  then have "open_validated_index (native h') session index = Inr (Inl (stale_error session index))"
    using assms(12) by (auto split: if_splits)
  then show ?thesis
    using assms(3,4,13-16) by (simp add: search_session_dtj_index_def Let_def)
qed

theorem stale_index_refused_witness:
  "\<exists>f'. search_session_dtj_index (native (index_host\<lparr>fs := f'(sample_path := File sample_bytes 8)\<rparr>)) sample_path sample_index
     no_filters (JInt 5) (JInt 0) = Inr (stale_error sample_path sample_index)"
proof -
  obtain out f' where b: "build_index_atomic sample_env (native index_host) (fs sample_host) (read_session_dtj (native index_host))
      sample_path sample_index = (Inr out, f')" "is_ok out" by (rule sample_build)
  have v: "validate_search_limit (JInt 5) = None" "validate_search_offset (JInt 0) = None"
    by (simp_all add: valid_limit valid_offset)
  show ?thesis
    using stale_index_refused [OF b _ _ _ _ sample_names _ sample_codec _ refl v no_filters_window, of sample_bytes 8]
    by (auto simp: sample_fs)
qed

text \<open>The inverted maps of an index are exact: each lists, for each name, the sequence numbers of
  the events that carry it, in order, and nothing for other names.\<close>

theorem index_groups_exact:
  assumes "group_events evs empty_groups = Inr g"
  shows "getd (by_domain g) key (JList []) = JList (grouped ''domain'' evs key) \<and>
    getd (by_category g) key (JList []) = JList (grouped ''category'' evs key) \<and>
    getd (by_event_name g) key (JList []) = JList (grouped ''event_name'' evs key) \<and>
    getd (by_correlation g) key (JList []) = JList (grouped ''correlation'' evs key) \<and>
    getd (by_severity g) key (JList []) = JList (grouped ''severity'' evs key)"
  using group_events_folds [OF assms] by (simp add: empty_groups_def group_fold_empty)

theorem index_groups_exact_witness:
  "\<exists>g. group_events (events_in sample_projection) empty_groups = Inr g \<and>
     getd (by_domain g) (u ''d'') (JList []) = JList (grouped ''domain'' (events_in sample_projection) (u ''d''))"
proof -
  have "wf_events (events_in sample_projection)"
    using native_source.loaded_events [OF sample_load sample_ok] by simp
  then obtain g where g: "group_events (events_in sample_projection) empty_groups = Inr g"
    using group_events_total [OF wf_events_ints] by blast
  from index_groups_exact [OF g, of "u ''d''"] g show ?thesis by blast
qed

end
