(* ===== verification/Sdk_Protocol.thy ===== *)
theory Sdk_Protocol imports Dtj_Writer begin

text \<open>
  The binary protocol of the Python SDK (\<open>dtj_sdk/protocol.py\<close>, \<open>exceptions.py\<close>): frames, the
  request encoders, the response decoders and the value encoding.
\<close>

section \<open>Exceptions\<close>

datatype sdk_error =
    DTJProtocolError pystr
  | DTJConnectionError pystr
  | DTJAgentNotFoundError pystr
  | DTJValueError pystr
  | DTJSessionError pystr
  | PyValueError pystr
  | StructError
  | UnicodeEncodeError
  | PyOSError pystr

section \<open>Opcodes, kinds, tags\<close>

abbreviation (input) "CMD_HELLO \<equiv> 0x01 :: nat"
abbreviation (input) "CMD_OPEN_SESSION \<equiv> 0x02 :: nat"
abbreviation (input) "CMD_APPEND_EVENT \<equiv> 0x03 :: nat"
abbreviation (input) "CMD_FINISH_SESSION \<equiv> 0x04 :: nat"
abbreviation (input) "CMD_PING \<equiv> 0x05 :: nat"
abbreviation (input) "CMD_INTERN \<equiv> 0x06 :: nat"
abbreviation (input) "RESP_HELLO_OK \<equiv> 0x81 :: nat"
abbreviation (input) "RESP_OPEN_SESSION_OK \<equiv> 0x82 :: nat"
abbreviation (input) "RESP_APPEND_EVENT_OK \<equiv> 0x83 :: nat"
abbreviation (input) "RESP_INTERN_OK \<equiv> 0x86 :: nat"
abbreviation (input) "RESP_ERROR \<equiv> 0xFF :: nat"
abbreviation (input) "PROTOCOL_VERSION \<equiv> 1 :: nat"
abbreviation (input) "MAX_FRAME_SIZE \<equiv> 1048576 :: nat"

definition SEVERITY_MAP :: "(pystr \<times> nat) list" where
  "SEVERITY_MAP = [(u ''trace'', 0), (u ''debug'', 1), (u ''info'', 2), (u ''warn'', 3), (u ''error'', 4), (u ''fatal'', 5)]"

section \<open>Packing\<close>

text \<open>\<open>struct.pack\<close> of one integer, or \<open>struct.error\<close>; \<open>str.encode("utf-8")\<close>.\<close>

definition packE :: "nat \<Rightarrow> int \<Rightarrow> sdk_error + bytes" where
  "packE n v = (case pack_u n v of None \<Rightarrow> Inl StructError | Some bs \<Rightarrow> Inr bs)"

definition pack_qE :: "int \<Rightarrow> sdk_error + bytes" where
  "pack_qE v = (case pack_i64 v of None \<Rightarrow> Inl StructError | Some bs \<Rightarrow> Inr bs)"

definition encodeE :: "pystr \<Rightarrow> sdk_error + bytes" where
  "encodeE s = (case utf8_encode s of None \<Rightarrow> Inl UnicodeEncodeError | Some bs \<Rightarrow> Inr bs)"

section \<open>Frames\<close>

definition encode_frame :: "nat \<Rightarrow> bytes \<Rightarrow> sdk_error + bytes" where
  "encode_frame opcode body =
     (let len = 1 + length body in
      if MAX_FRAME_SIZE < len
      then Inl (DTJProtocolError (u ''Frame too large: '' @ str_int (int len) @ u '' > 1048576''))
      else Inr (nat_le 4 len @ [mk_byte opcode] @ body))"

definition decode_frame :: "bytes \<Rightarrow> sdk_error + (nat \<times> bytes)" where
  "decode_frame data =
     (if length data < 5 then Inl (DTJProtocolError (u ''Frame too short''))
      else let len = u32_at data 0 in
      if MAX_FRAME_SIZE < len then Inl (DTJProtocolError (u ''Frame too large: '' @ str_int (int len)))
      else if length data < 4 + len then Inl (DTJProtocolError (u ''Frame truncated''))
      else Inr (byte_at data 4, slice data 5 (5 + len - 1)))"

section \<open>Requests\<close>

definition encode_hello :: "sdk_error + bytes" where
  "encode_hello = bindE (packE 4 (int PROTOCOL_VERSION)) (\<lambda>body. encode_frame CMD_HELLO body)"

record metadata =
  md_file_name :: pystr
  md_session_id :: bytes
  md_start_utc_unix_ms :: int
  md_mono_origin_ns :: int
  md_producer_name :: pystr
  md_producer_version :: pystr

definition encode_open_session :: "metadata \<Rightarrow> sdk_error + bytes" where
  "encode_open_session md =
     (if length (md_session_id md) \<noteq> 16 then Inl (PyValueError (u ''session_id must be 16 bytes''))
      else bindE (encodeE (md_producer_name md)) (\<lambda>pn.
        if 32 < length pn then Inl (PyValueError (u ''producer_name must be <= 32 bytes''))
        else bindE (encodeE (md_producer_version md)) (\<lambda>pv.
          if 16 < length pv then Inl (PyValueError (u ''producer_version must be <= 16 bytes''))
          else bindE (encodeE (md_file_name md)) (\<lambda>fn.
            bindE (packE 2 (int (length fn))) (\<lambda>fnl.
            bindE (pack_qE (md_start_utc_unix_ms md)) (\<lambda>utc.
            bindE (packE 8 (md_mono_origin_ns md)) (\<lambda>mono.
            bindE (packE 2 (int (length pn))) (\<lambda>pnl.
            bindE (packE 2 (int (length pv))) (\<lambda>pvl.
            encode_frame CMD_OPEN_SESSION
              (fnl @ fn @ md_session_id md @ utc @ mono @ pnl @ pn @ pvl @ pv))))))))))"

definition encode_intern :: "dict_kind \<Rightarrow> pystr \<Rightarrow> sdk_error + bytes" where
  "encode_intern kind name =
     bindE (encodeE name) (\<lambda>nb.
       if 1024 < length nb then Inl (PyValueError (u ''name too long (max 1024 bytes)''))
       else bindE (packE 2 (int (length nb))) (\<lambda>len.
         encode_frame CMD_INTERN (mk_byte (kind_num kind) # len @ nb)))"

definition encode_append_event ::
  "int \<Rightarrow> nat \<Rightarrow> nat \<Rightarrow> nat \<Rightarrow> nat \<Rightarrow> nat \<Rightarrow> nat \<Rightarrow> nat \<Rightarrow> bytes \<Rightarrow> sdk_error + bytes" where
  "encode_append_event ts domn cat name corr sev field_id tag value_body =
     bindE (packE 8 ts) (\<lambda>mono_b.
     bindE (packE 4 (int domn)) (\<lambda>dom_b.
     bindE (packE 4 (int cat)) (\<lambda>cat_b.
     bindE (packE 4 (int name)) (\<lambda>name_b.
     bindE (packE 4 (int corr)) (\<lambda>corr_b.
     bindE (packE 2 1) (\<lambda>count_b.
     bindE (packE 4 (int field_id)) (\<lambda>field_b.
     encode_frame CMD_APPEND_EVENT
       (mono_b @ dom_b @ cat_b @ name_b @ corr_b @ [mk_byte sev] @ count_b @ field_b @ [mk_byte tag] @
        [0, 0, 0] @ value_body))))))))"

definition encode_finish_session :: "sdk_error + bytes" where
  "encode_finish_session = encode_frame CMD_FINISH_SESSION []"

definition encode_ping :: "sdk_error + bytes" where
  "encode_ping = encode_frame CMD_PING []"

section \<open>Responses\<close>

definition decode_hello_ok :: "bytes \<Rightarrow> sdk_error + nat" where
  "decode_hello_ok body =
     (if length body \<noteq> 4 then Inl (DTJProtocolError (u ''HelloOk body must be 4 bytes'')) else Inr (u32_at body 0))"

definition decode_intern_ok :: "bytes \<Rightarrow> sdk_error + nat" where
  "decode_intern_ok body =
     (if length body \<noteq> 4 then Inl (DTJProtocolError (u ''InternOk body must be 4 bytes'')) else Inr (u32_at body 0))"

definition decode_append_event_ok :: "bytes \<Rightarrow> sdk_error + nat" where
  "decode_append_event_ok body =
     (if length body \<noteq> 8 then Inl (DTJProtocolError (u ''AppendEventOk body must be 8 bytes'')) else Inr (u64_at body 0))"

definition decode_error :: "bytes \<Rightarrow> pystr" where
  "decode_error body = utf8_decode_replace body"

section \<open>Values\<close>

datatype sdk_value = SVal json | SBytes bytes

definition encode_value :: "sdk_value \<Rightarrow> sdk_error + (nat \<times> bytes)" where
  "encode_value v =
     (case v of
        SVal (JBool b) \<Rightarrow> Inr (0x01, [if b then 1 else 0])
      | SVal (JInt i) \<Rightarrow>
          (if - (2 ^ 63) \<le> i \<and> i < 2 ^ 63 then bindE (pack_qE i) (\<lambda>b. Inr (0x03, b))
           else if 0 \<le> i \<and> i < 2 ^ 64 then bindE (packE 8 i) (\<lambda>b. Inr (0x05, b))
           else Inl (DTJValueError (u ''Integer out of range: '' @ str_int i)))
      | SVal (JFloat f) \<Rightarrow> Inr (0x07, float_le f)
      | SVal (JStr s) \<Rightarrow> Inl (DTJValueError (u ''Strings must be interned first; use field_name_id from intern''))
      | SBytes bs \<Rightarrow>
          (if 2 ^ 32 - 1 < int (length bs) then Inl (DTJValueError (u ''Bytes too long''))
           else bindE (packE 4 (int (length bs))) (\<lambda>len. Inr (0x0C, len @ bs)))
      | SVal j \<Rightarrow> Inl (DTJValueError (u ''Unsupported value type: '' @ type_name j)))"

section \<open>Frame round trip\<close>

lemma encode_frame_Inr:
  "encode_frame opc body = Inr fr \<longleftrightarrow> length body < MAX_FRAME_SIZE \<and> fr = nat_le 4 (Suc (length body)) @ [mk_byte opc] @ body"
  by (auto simp: encode_frame_def Let_def)

lemma decode_encode_frame:
  assumes "encode_frame opc body = Inr fr" "opc < 256"
  shows "decode_frame (fr @ rest) = Inr (opc, body)"
proof -
  from assms(1) have l: "Suc (length body) \<le> 1048576" and fr: "fr = nat_le 4 (Suc (length body)) @ [mk_byte opc] @ body"
    by (auto simp: encode_frame_Inr)
  then have "u32_at (fr @ rest) 0 = Suc (length body)" by (simp add: codec)
  moreover have "slice (fr @ rest) 5 (5 + length body) = body" by (simp add: fr slice_def)
  moreover have "byte_at (fr @ rest) 4 = opc" using assms(2) by (simp add: fr codec)
  ultimately show ?thesis using l by (simp add: decode_frame_def fr Let_def)
qed

lemma packE_Inr: "packE n v = Inr bs \<longleftrightarrow> 0 \<le> v \<and> v < 256 ^ n \<and> bs = nat_le n (nat v)"
  by (auto simp: packE_def pack_u_def split: option.splits if_splits)

lemma pack_qE_Inr: "pack_qE v = Inr bs \<longleftrightarrow> - (2 ^ 63) \<le> v \<and> v < 2 ^ 63 \<and> bs = nat_le 8 (of_signed 64 v)"
  by (auto simp: pack_qE_def pack_i64_def split: option.splits if_splits)

lemma encodeE_Inr: "encodeE s = Inr bs \<longleftrightarrow> utf8_encode s = Some bs"
  by (auto simp: encodeE_def split: option.splits)

end
