(* ===== verification/Sdk_Client.thy ===== *)
theory Sdk_Client imports Sdk_Protocol begin

text \<open>
  The trace session of the Python SDK (\<open>dtj_sdk/client.py\<close>, \<open>discovery.py\<close>): reading frames from
  a socket that delivers bytes in arbitrary pieces, interning with its caches, emitting, closing,
  and opening with the discovery and the process of the agent. What the outside world does (the
  bytes the agent sends, failing calls, the file system) is data of the state or of an environment.
\<close>

section \<open>Computations with a state and an exception\<close>

type_synonym ('s, 'a) sm = "'s \<Rightarrow> (sdk_error + 'a) \<times> 's"

definition bindS :: "('s, 'a) sm \<Rightarrow> ('a \<Rightarrow> ('s, 'b) sm) \<Rightarrow> ('s, 'b) sm" where
  "bindS m f s = (case m s of (Inl e, s1) \<Rightarrow> (Inl e, s1) | (Inr x, s1) \<Rightarrow> f x s1)"

definition liftS :: "sdk_error + 'a \<Rightarrow> ('s, 'a) sm" where
  "liftS r s = (r, s)"

lemma bindS_Inr_iff: "bindS m f s = (Inr y, s2) \<longleftrightarrow> (\<exists>x s1. m s = (Inr x, s1) \<and> f x s1 = (Inr y, s2))"
  by (auto simp: bindS_def split: prod.splits sum.splits)

lemma liftS_iff [simp]: "liftS r s = (x, s1) \<longleftrightarrow> r = x \<and> s1 = s"
  by (auto simp: liftS_def)

section \<open>The socket\<close>

text \<open>
  \<open>incoming\<close> are the pieces the kernel will deliver, \<open>at_end\<close> what \<open>recv\<close> does after them: an
  empty read (the peer closed) or an exception (a timeout). \<open>sent\<close> are the frames handed to
  \<open>sendall\<close>; \<open>send_fault n\<close> says whether the n-th of them raises.
\<close>

record conn =
  incoming :: "bytes list"
  at_end :: "sdk_error option"
  sent :: "bytes list"
  send_fault :: "nat \<Rightarrow> sdk_error option"
  sock_closed :: bool

definition bad_socket :: sdk_error where
  "bad_socket = PyOSError (u ''[Errno 9] Bad file descriptor'')"

definition sendall :: "bytes \<Rightarrow> (conn, unit) sm" where
  "sendall data c =
     (if sock_closed c then (Inl bad_socket, c)
      else case send_fault c (length (sent c)) of
        Some e \<Rightarrow> (Inl e, c)
      | None \<Rightarrow> (Inr (), c\<lparr>sent := sent c @ [data]\<rparr>))"

definition recv :: "nat \<Rightarrow> (conn, bytes) sm" where
  "recv n c =
     (if sock_closed c then (Inl bad_socket, c)
      else case incoming c of
        [] \<Rightarrow> ((case at_end c of None \<Rightarrow> Inr [] | Some e \<Rightarrow> Inl e), c)
      | s # ss \<Rightarrow> (Inr (take n s), c\<lparr>incoming := (if length s \<le> n then ss else drop n s # ss)\<rparr>))"

text \<open>\<open>while len(buf) < need: chunk = sock.recv(need - len(buf)); ...\<close>\<close>

function recv_loop :: "nat \<Rightarrow> bytes \<Rightarrow> (conn, bytes) sm" where
  "recv_loop need buf c =
     (if need \<le> length buf then (Inr buf, c)
      else case recv (need - length buf) c of
        (Inl e, c1) \<Rightarrow> (Inl e, c1)
      | (Inr chunk, c1) \<Rightarrow>
          if chunk = [] then (Inl (DTJConnectionError (u ''Socket closed unexpectedly'')), c1)
          else recv_loop need (buf @ chunk) c1)"
  by pat_completeness auto
termination
  by (relation "measure (\<lambda>(need, buf, c). need - length buf)") (auto, case_tac b, auto)

declare recv_loop.simps [simp del]

definition read_frame :: "(conn, bytes) sm" where
  "read_frame =
     bindS (recv_loop 4 []) (\<lambda>len_buf.
       let len = le_nat len_buf in
       if MAX_FRAME_SIZE < len then liftS (Inl (DTJProtocolError (u ''Frame too large: '' @ str_int (int len))))
       else bindS (recv_loop len []) (\<lambda>pl. liftS (Inr (len_buf @ pl))))"

text \<open>\<open>sendall(frame); response = _read_frame(sock); opcode, body = decode_frame(response)\<close>\<close>

definition exchange :: "bytes \<Rightarrow> (conn, nat \<times> bytes) sm" where
  "exchange frame = bindS (sendall frame) (\<lambda>_. bindS read_frame (\<lambda>response. liftS (decode_frame response)))"

definition hex_opcode :: "nat \<Rightarrow> pystr" where
  "hex_opcode n = u ''0x'' @ (if n < 16 then [hex_lower n] else [hex_lower (n div 16), hex_lower (n mod 16)])"

text \<open>The checks every caller makes on a response: an error frame, or another opcode.\<close>

definition expect :: "string \<Rightarrow> string \<Rightarrow> nat \<Rightarrow> nat \<times> bytes \<Rightarrow> sdk_error + bytes" where
  "expect what wanted want r =
     (case r of (opc, body) \<Rightarrow>
        if opc = RESP_ERROR then Inl (DTJProtocolError (u what @ u '' failed: '' @ decode_error body))
        else if opc \<noteq> want then Inl (DTJProtocolError (u ''Expected '' @ u wanted @ u '', got '' @ hex_opcode opc))
        else Inr body)"

section \<open>The session\<close>

type_synonym cache = "(pystr \<times> nat) list"

record session =
  sk :: conn
  closed :: bool
  domain_cache :: cache
  category_cache :: cache
  event_name_cache :: cache
  string_cache :: cache
  agent_running :: bool

definition cache_of :: "dict_kind \<Rightarrow> session \<Rightarrow> cache" where
  "cache_of k s = (case k of DOMAIN \<Rightarrow> domain_cache s | CATEGORY \<Rightarrow> category_cache s
     | EVENT_NAME \<Rightarrow> event_name_cache s | STRING \<Rightarrow> string_cache s)"

definition set_cache :: "dict_kind \<Rightarrow> cache \<Rightarrow> session \<Rightarrow> session" where
  "set_cache k c s = (case k of DOMAIN \<Rightarrow> s\<lparr>domain_cache := c\<rparr> | CATEGORY \<Rightarrow> s\<lparr>category_cache := c\<rparr>
     | EVENT_NAME \<Rightarrow> s\<lparr>event_name_cache := c\<rparr> | STRING \<Rightarrow> s\<lparr>string_cache := c\<rparr>)"

text \<open>A computation on the socket, run inside the session.\<close>

definition on_socket :: "(conn, 'a) sm \<Rightarrow> (session, 'a) sm" where
  "on_socket m s = (case m (sk s) of (r, c) \<Rightarrow> (r, s\<lparr>sk := c\<rparr>))"

definition intern :: "dict_kind \<Rightarrow> pystr \<Rightarrow> (session, nat) sm" where
  "intern kind name s =
     (case map_of (cache_of kind s) name of
        Some i \<Rightarrow> (Inr i, s)
      | None \<Rightarrow>
          bindS (liftS (encode_intern kind name)) (\<lambda>frame.
          bindS (on_socket (exchange frame)) (\<lambda>response.
          bindS (liftS (expect ''Intern'' ''InternOk'' RESP_INTERN_OK response)) (\<lambda>body.
          bindS (liftS (decode_intern_ok body)) (\<lambda>dict_id s.
            (Inr dict_id, set_cache kind (AList.update name dict_id (cache_of kind s)) s))))) s)"

definition severity_names_text :: pystr where
  "severity_names_text = u ''['' @ join (u '', '') (map (\<lambda>(n, v). [39] @ n @ [39]) SEVERITY_MAP) @ u '']''"

text \<open>\<open>emit\<close>; \<open>now\<close> is what \<open>time.monotonic_ns()\<close> returns.\<close>

definition emit ::
  "runtime \<Rightarrow> int \<Rightarrow> pystr \<Rightarrow> pystr \<Rightarrow> pystr \<Rightarrow> pystr \<Rightarrow> pystr \<Rightarrow> sdk_value \<Rightarrow> pystr option \<Rightarrow> (session, nat) sm" where
  "emit r now domain cat name sev field_name v correlation s =
     (if closed s then (Inl (DTJSessionError (u ''Session already closed'')), s)
      else case map_of SEVERITY_MAP (lower r sev) of
        None \<Rightarrow> (Inl (DTJValueError (u ''Invalid severity: '' @ sev @ u ''. Must be one of '' @ severity_names_text)), s)
      | Some severity_val \<Rightarrow>
          bindS (intern DOMAIN domain) (\<lambda>dom_id.
          bindS (intern CATEGORY cat) (\<lambda>cat_id.
          bindS (intern EVENT_NAME name) (\<lambda>name_id.
          bindS (case correlation of Some (c # cs) \<Rightarrow> intern STRING (c # cs) | _ \<Rightarrow> liftS (Inr 0)) (\<lambda>corr_id.
          bindS (intern STRING field_name) (\<lambda>field_id.
          bindS (case v of
              SVal (JStr str) \<Rightarrow> bindS (intern STRING str) (\<lambda>i. liftS (Inr (0x0B, nat_le 4 i)))
            | _ \<Rightarrow> liftS (encode_value v)) (\<lambda>(tag, value_body).
          bindS (liftS (encode_append_event now dom_id cat_id name_id corr_id severity_val field_id tag value_body)) (\<lambda>frame.
          bindS (on_socket (exchange frame)) (\<lambda>response.
          bindS (liftS (expect ''AppendEvent'' ''AppendEventOk'' RESP_APPEND_EVENT_OK response)) (\<lambda>body.
          liftS (decode_append_event_ok body)))))))))) s)"

text \<open>\<open>close\<close>: whatever the farewell does, the socket is closed and the agent stopped.\<close>

definition close_session :: "session \<Rightarrow> session" where
  "close_session s =
     (if closed s then s
      else let s1 = s\<lparr>closed := True\<rparr>;
               (r, s2) = bindS (liftS encode_finish_session) (\<lambda>frame. on_socket (exchange frame)) s1
           in s2\<lparr>sk := (sk s2)\<lparr>sock_closed := True\<rparr>, agent_running := False\<rparr>)"

section \<open>The no-op session\<close>

record noop =
  warning_emitted :: bool
  warnings :: nat

definition noop_emit :: "noop \<Rightarrow> noop" where
  "noop_emit s = (if warning_emitted s then s else s\<lparr>warning_emitted := True, warnings := Suc (warnings s)\<rparr>)"

section \<open>Discovery and the agent process\<close>

record discovery_env =
  agent_path :: "pystr option"
  socket_path :: "pystr option"
  executable :: "pystr \<Rightarrow> bool"
  env_agent_path :: "pystr option"
  which_agent :: "pystr option"
  cargo_agent :: pystr
  socket_dir_fault :: "sdk_error option"
  data_dir_fault :: "sdk_error option"
  popen_fault :: "pystr option"
  new_socket :: pystr

definition non_empty :: "pystr option \<Rightarrow> bool" where
  "non_empty p = (p \<noteq> None \<and> p \<noteq> Some [])"

text \<open>The candidates after an explicit path, in the order they are tried.\<close>

definition candidates :: "discovery_env \<Rightarrow> pystr list" where
  "candidates d =
     (if non_empty (env_agent_path d) then [the (env_agent_path d)] else []) @
     (if non_empty (which_agent d) then [the (which_agent d)] else []) @
     [u ''/opt/homebrew/bin/dtj-agent'', u ''/usr/local/bin/dtj-agent'', cargo_agent d]"

definition find_agent :: "discovery_env \<Rightarrow> sdk_error + pystr option" where
  "find_agent d =
     (if non_empty (agent_path d) then
        (if executable d (the (agent_path d)) then Inr (agent_path d)
         else Inl (DTJAgentNotFoundError (u ''Specified agent_path not executable: '' @ the (agent_path d))))
      else Inr (find (executable d) (candidates d)))"

text \<open>The state of \<open>AgentDiscovery\<close>: whether it holds a process (\<open>_process is not None\<close>) and a temporary directory
  (\<open>_temp_socket_dir is not None\<close>). \<open>agent_running\<close> of a session is the first of them. Whether the process it has let
  go of ends, the program does not know either: \<open>stop_agent\<close> asks it to terminate, kills it after five seconds, and
  drops the handle whatever these attempts raise.\<close>

record process =
  running :: bool
  temp_dir :: bool

definition start_agent :: "discovery_env \<Rightarrow> bool \<Rightarrow> (process, pystr) sm" where
  "start_agent d with_config p =
     (if non_empty (socket_path d) then (Inr (the (socket_path d)), p)
      else case find_agent d of
        Inl e \<Rightarrow> (Inl e, p)
      | Inr None \<Rightarrow> (Inl (DTJAgentNotFoundError
          (u ''dtj-agent not found. Install dtj-agent or set DTJ_AGENT_PATH. Tracing disabled.'')), p)
      | Inr (Some agent) \<Rightarrow>
          (case socket_dir_fault d of Some e \<Rightarrow> (Inl e, p)
           | None \<Rightarrow>
               let p = p\<lparr>temp_dir := True\<rparr> in
               if \<not> with_config \<and> data_dir_fault d \<noteq> None then (Inl (the (data_dir_fault d)), p)
               else (case popen_fault d of
                   Some e \<Rightarrow> (Inl (DTJConnectionError
                     ((if with_config then u ''Failed to start dtj-agent with --config: '' else u ''Failed to start dtj-agent: '') @ e)),
                     p\<lparr>temp_dir := False\<rparr>)
                 | None \<Rightarrow> (Inr (new_socket d), p\<lparr>running := True\<rparr>))))"

definition stop_agent :: "process \<Rightarrow> process" where
  "stop_agent p = p\<lparr>running := False, temp_dir := False\<rparr>"

section \<open>Opening\<close>

record open_env =
  disc :: discovery_env
  enabled :: bool
  config_path :: "pystr option"
  data_dir :: "pystr option"
  is_config_file :: "pystr \<Rightarrow> bool"
  resolve_config :: "pystr \<Rightarrow> pystr"
  env_config :: "pystr option"
  config_candidates :: "pystr list"
  connect :: "pystr \<Rightarrow> sdk_error + conn"
  meta :: metadata

text \<open>\<open>find_config_path\<close>; the candidates are \<open>.dtj/config.toml\<close> in the working directory and its
  parents, nearest first; \<open>resolve_config\<close> is \<open>Path.resolve\<close>.\<close>

definition find_config_path :: "open_env \<Rightarrow> pystr option" where
  "find_config_path e =
     (if non_empty (config_path e) then
        (if is_config_file e (the (config_path e)) then Some (resolve_config e (the (config_path e))) else None)
      else if non_empty (env_config e) then
        (if is_config_file e (the (env_config e)) then Some (resolve_config e (the (env_config e))) else None)
      else map_option (resolve_config e) (find (is_config_file e) (config_candidates e)))"

datatype opened = NoOp | Active session

definition error_text :: "sdk_error \<Rightarrow> pystr" where
  "error_text e = (case e of DTJProtocolError m \<Rightarrow> m | DTJConnectionError m \<Rightarrow> m | DTJAgentNotFoundError m \<Rightarrow> m
     | DTJValueError m \<Rightarrow> m | DTJSessionError m \<Rightarrow> m | PyValueError m \<Rightarrow> m | PyOSError m \<Rightarrow> m
     | StructError \<Rightarrow> u ''argument out of range'' | UnicodeEncodeError \<Rightarrow> u ''surrogates not allowed'')"

definition handshake :: "metadata \<Rightarrow> (conn, unit) sm" where
  "handshake md =
     bindS (liftS encode_hello) (\<lambda>hello.
     bindS (exchange hello) (\<lambda>r.
     bindS (liftS (expect ''Hello'' ''HelloOk'' RESP_HELLO_OK r)) (\<lambda>body.
     bindS (liftS (decode_hello_ok body)) (\<lambda>version.
     if version \<noteq> PROTOCOL_VERSION
     then liftS (Inl (DTJProtocolError (u ''Protocol version mismatch: '' @ str_int (int version) @ u '' != 1'')))
     else
       bindS (liftS (encode_open_session md)) (\<lambda>frame.
       bindS (exchange frame) (\<lambda>r.
       bindS (liftS (expect ''OpenSession'' ''OpenSessionOk'' RESP_OPEN_SESSION_OK r)) (\<lambda>body.
       liftS (Inr ()))))))))"

definition new_session :: "conn \<Rightarrow> bool \<Rightarrow> session" where
  "new_session c run = \<lparr>sk = c, closed = False, domain_cache = [], category_cache = [], event_name_cache = [],
     string_cache = [], agent_running = run\<rparr>"

definition open_trace :: "open_env \<Rightarrow> (process, opened) sm" where
  "open_trace e p =
     (if \<not> enabled e then (Inr NoOp, p)
      else if config_path e \<noteq> None \<and> \<not> is_config_file e (the (config_path e))
      then (Inl (DTJConnectionError (u ''Explicit config_path not found: '' @ the (config_path e))), p)
      else
        let with_config = (find_config_path e \<noteq> None \<and> data_dir e = None) in
        if \<not> non_empty (socket_path (disc e)) \<and> isl (find_agent (disc e))
        then (Inl (projl (find_agent (disc e))), p)
        else if \<not> non_empty (socket_path (disc e)) \<and> find_agent (disc e) = Inr None then (Inr NoOp, p)
        else case start_agent (disc e) with_config p of
          (Inl (DTJAgentNotFoundError m), p1) \<Rightarrow> (Inr NoOp, p1)
        | (Inl x, p1) \<Rightarrow> (Inl (DTJConnectionError (u ''Failed to start agent: '' @ error_text x)), p1)
        | (Inr path, p1) \<Rightarrow>
            (case connect e path of
               Inl x \<Rightarrow> (Inl x, p1)
             | Inr c \<Rightarrow>
                 (case handshake (meta e) c of
                    (Inl x, c1) \<Rightarrow> (Inl x, stop_agent p1)
                  | (Inr _, c1) \<Rightarrow> (Inr (Active (new_session c1 (running p1))), p1))))"

end
