(* ===== verification/Sdk_Props.thy ===== *)
theory Sdk_Props imports Sdk_Client begin

text \<open>
  What the SDK guarantees: frames survive any fragmentation, requests carry the documented layout,
  names are interned once and used consistently, and a session releases its resources.
\<close>

section \<open>Frames\<close>

text \<open>A frame is decoded to the opcode and the body it was encoded from, whatever follows it.\<close>

theorem frame_roundtrip:
  assumes "encode_frame opc body = Inr fr" "opc < 256"
  shows "decode_frame (fr @ rest) = Inr (opc, body)"
  using assms by (rule decode_encode_frame)

theorem frame_roundtrip_witness: "\<exists>fr. encode_frame 6 [1, 2] = Inr fr \<and> decode_frame (fr @ [9]) = Inr (6, [1, 2])"
proof -
  obtain fr where fr: "encode_frame 6 [1, 2] = Inr fr" by (simp add: encode_frame_def)
  then show ?thesis using frame_roundtrip [OF fr, of "[9]"] by simp
qed

section \<open>Reading from a fragmented stream\<close>

definition stream :: "conn \<Rightarrow> bytes" where
  "stream c = concat (incoming c)"

definition live :: "conn \<Rightarrow> bool" where
  "live c = (\<not> sock_closed c \<and> [] \<notin> set (incoming c))"

definition same_conn :: "conn \<Rightarrow> conn \<Rightarrow> bool" where
  "same_conn c c' = (at_end c' = at_end c \<and> sent c' = sent c \<and> send_fault c' = send_fault c \<and> sock_closed c' = sock_closed c)"

lemma same_conn_refl [simp]: "same_conn c c"
  by (simp add: same_conn_def)

lemma same_conn_trans: "same_conn a b \<Longrightarrow> same_conn b c \<Longrightarrow> same_conn a c"
  by (simp add: same_conn_def)

lemma recv_piece:
  assumes "live c" "stream c \<noteq> []" "0 < n"
  obtains k c' where "recv n c = (Inr (take k (stream c)), c')" "0 < k" "k \<le> n" "k \<le> length (stream c)"
    "stream c' = drop k (stream c)" "live c'" "same_conn c c'"
proof -
  from assms obtain s ss where s: "incoming c = s # ss" "s \<noteq> []" by (cases "incoming c") (auto simp: live_def stream_def)
  have "recv n c = (Inr (take (min n (length s)) (stream c)), c\<lparr>incoming := (if length s \<le> n then ss else drop n s # ss)\<rparr>)"
    using assms s by (auto simp: recv_def live_def stream_def min_def)
  moreover have "stream (c\<lparr>incoming := (if length s \<le> n then ss else drop n s # ss)\<rparr>) = drop (min n (length s)) (stream c)"
    using s by (auto simp: stream_def min_def)
  ultimately show ?thesis
    using assms s by (intro that [of "min n (length s)" "c\<lparr>incoming := (if length s \<le> n then ss else drop n s # ss)\<rparr>"])
      (auto simp: live_def stream_def same_conn_def split: if_splits)
qed

lemma recv_loop_stream:
  "live c \<Longrightarrow> length buf \<le> need \<Longrightarrow> need \<le> length buf + length (stream c) \<Longrightarrow>
     \<exists>c'. recv_loop need buf c = (Inr (buf @ take (need - length buf) (stream c)), c') \<and>
       stream c' = drop (need - length buf) (stream c) \<and> live c' \<and> same_conn c c'"
proof (induction need buf c rule: recv_loop.induct)
  case (1 need buf c)
  show ?case
  proof (cases "need \<le> length buf")
    case True
    with "1.prems" show ?thesis by (simp add: recv_loop.simps)
  next
    case False
    then have "stream c \<noteq> []" "0 < need - length buf" using "1.prems" by auto
    then obtain k c1 where k: "recv (need - length buf) c = (Inr (take k (stream c)), c1)" "0 < k" "k \<le> need - length buf"
      "k \<le> length (stream c)" "stream c1 = drop k (stream c)" "live c1" "same_conn c c1"
      using recv_piece [OF "1.prems"(1)] by metis
    have ne: "take k (stream c) \<noteq> []" using k by auto
    have "\<exists>c'. recv_loop need (buf @ take k (stream c)) c1 =
        (Inr ((buf @ take k (stream c)) @ take (need - length (buf @ take k (stream c))) (stream c1)), c') \<and>
        stream c' = drop (need - length (buf @ take k (stream c))) (stream c1) \<and> live c' \<and> same_conn c1 c'"
      using "1.prems" k False ne by (intro "1.IH" [OF False k(1) [symmetric] refl ne]) auto
    then obtain c' where c': "recv_loop need (buf @ take k (stream c)) c1 =
        (Inr ((buf @ take k (stream c)) @ take (need - length buf - k) (drop k (stream c))), c')"
        "stream c' = drop (need - length buf - k) (drop k (stream c))" "live c'" "same_conn c1 c'"
      using k by auto
    have "take k (stream c) @ take (need - length buf - k) (drop k (stream c)) = take (need - length buf) (stream c)"
      using k(3) by (metis le_add_diff_inverse take_add)
    moreover have "drop (need - length buf - k) (drop k (stream c)) = drop (need - length buf) (stream c)"
      using k(3) by (simp del: diff_diff_left)
    ultimately show ?thesis
      using False k ne c' same_conn_trans [OF k(7) c'(4)] by (subst recv_loop.simps) simp
  qed
qed

lemma read_frame_stream:
  assumes "live c" "encode_frame opc body = Inr fr" "stream c = fr @ rest"
  shows "\<exists>c'. read_frame c = (Inr fr, c') \<and> stream c' = rest \<and> live c' \<and> same_conn c c'"
proof -
  define n where "n = Suc (length body)"
  from assms(2) have fr: "fr = nat_le 4 n @ mk_byte opc # body" "n \<le> 1048576" by (auto simp: encode_frame_Inr n_def)
  have len: "length fr = 4 + n" by (simp add: fr n_def)
  obtain c1 where c1: "recv_loop 4 [] c = (Inr (take 4 (stream c)), c1)" "stream c1 = drop 4 (stream c)" "live c1" "same_conn c c1"
    using recv_loop_stream [of c "[]" 4] assms(1,3) len by auto
  have t: "take 4 (stream c) = nat_le 4 n" "drop 4 (stream c) = mk_byte opc # body @ rest"
    by (simp_all add: assms(3) fr)
  have v: "le_nat (nat_le 4 n) = n" using fr(2) by (simp add: le_nat_nat_le)
  obtain c2 where c2: "recv_loop n [] c1 = (Inr (take n (stream c1)), c2)" "stream c2 = drop n (stream c1)" "live c2" "same_conn c1 c2"
    using recv_loop_stream [of c1 "[]" n] c1 t by (auto simp: n_def)
  have "take n (stream c1) = mk_byte opc # body" "drop n (stream c1) = rest" using c1(2) t by (simp_all add: n_def)
  with c1 c2 t v fr show ?thesis
    using same_conn_trans [OF c1(4) c2(4)]
    by (auto simp: read_frame_def bindS_def Let_def liftS_def)
qed

text \<open>C9: reading a frame does not depend on how the stream is cut. Whatever non-empty pieces the
  socket delivers, when the bytes to come begin with an encoded frame, \<open>_read_frame\<close> returns
  exactly that frame and leaves exactly the bytes behind it.\<close>

theorem read_frame_any_fragmentation:
  assumes "encode_frame opc body = Inr fr" "concat pieces = fr @ rest" "[] \<notin> set pieces"
  shows "\<exists>c'. read_frame \<lparr>incoming = pieces, at_end = e, sent = out, send_fault = flt, sock_closed = False\<rparr> = (Inr fr, c') \<and>
    concat (incoming c') = rest \<and> sent c' = out"
proof -
  let ?c = "\<lparr>incoming = pieces, at_end = e, sent = out, send_fault = flt, sock_closed = False\<rparr>"
  have "live ?c" "stream ?c = fr @ rest" using assms by (simp_all add: live_def stream_def)
  from read_frame_stream [OF this(1) assms(1) this(2)] show ?thesis by (auto simp: stream_def same_conn_def)
qed

theorem read_frame_any_fragmentation_witness:
  "\<exists>c'. read_frame \<lparr>incoming = [[3, 0], [0, 0, 6, 1], [2, 7]], at_end = None, sent = [], send_fault = (\<lambda>n. None), sock_closed = False\<rparr> =
     (Inr [3, 0, 0, 0, 6, 1, 2], c') \<and> concat (incoming c') = [7]"
proof -
  have "encode_frame 6 [1, 2] = Inr [3, 0, 0, 0, 6, 1, 2]" by (simp add: encode_frame_def nat_le_numeral)
  from read_frame_any_fragmentation [OF this, of "[[3, 0], [0, 0, 6, 1], [2, 7]]" "[7]" None "[]" "\<lambda>n. None"]
  show ?thesis by auto
qed

section \<open>What a call sends\<close>

lemma recv_sent: "recv n c = (r, c') \<Longrightarrow> sent c' = sent c"
  by (auto simp: recv_def split: if_splits list.splits)

lemma recv_loop_sent: "recv_loop need buf c = (r, c') \<Longrightarrow> sent c' = sent c"
proof (induction need buf c rule: recv_loop.induct)
  case (1 need buf c)
  show ?case
  proof (cases "need \<le> length buf")
    case True
    with "1.prems" show ?thesis by (simp add: recv_loop.simps)
  next
    case False
    obtain x c1 where r: "recv (need - length buf) c = (x, c1)" by (cases "recv (need - length buf) c")
    show ?thesis
    proof (cases x)
      case (Inl e)
      with "1.prems" False r recv_sent [OF r] show ?thesis by (subst (asm) recv_loop.simps) auto
    next
      case (Inr chunk)
      with "1.prems" False r recv_sent [OF r] "1.IH" [OF False, of x c1 chunk] show ?thesis
        by (subst (asm) recv_loop.simps) (auto split: if_splits)
    qed
  qed
qed

lemma read_frame_sent: "read_frame c = (r, c') \<Longrightarrow> sent c' = sent c"
  by (auto simp: read_frame_def bindS_def Let_def liftS_def split: prod.splits sum.splits if_splits dest!: recv_loop_sent)

lemma exchange_sent:
  "exchange fr c = (r, c') \<Longrightarrow> sent c' = sent c @ [fr] \<or> (\<exists>e. r = Inl e) \<and> sent c' = sent c"
  by (auto simp: exchange_def bindS_def sendall_def liftS_def split: prod.splits sum.splits if_splits option.splits
      dest!: read_frame_sent)

text \<open>One state is reached from another by interning at most \<open>j\<close> names.\<close>

definition interning :: "nat \<Rightarrow> session \<Rightarrow> session \<Rightarrow> bool" where
  "interning j s s' =
     ((\<exists>frs. sent (sk s') = sent (sk s) @ frs \<and> length frs \<le> j \<and> (\<forall>f \<in> set frs. \<exists>k n. encode_intern k n = Inr f)) \<and>
      (\<forall>k n i. map_of (cache_of k s) n = Some i \<longrightarrow> map_of (cache_of k s') n = Some i) \<and>
      closed s' = closed s \<and> agent_running s' = agent_running s)"

lemma interning_refl: "interning j s s"
  by (simp add: interning_def exI [of _ "[]"])

lemma interning_trans:
  assumes "interning i s t" "interning j t v"
  shows "interning (i + j) s v"
proof -
  from assms obtain xs ys where
    xs: "sent (sk t) = sent (sk s) @ xs" "length xs \<le> i" "\<forall>f \<in> set xs. \<exists>k n. encode_intern k n = Inr f" and
    ys: "sent (sk v) = sent (sk t) @ ys" "length ys \<le> j" "\<forall>f \<in> set ys. \<exists>k n. encode_intern k n = Inr f"
    by (auto simp: interning_def)
  have "sent (sk v) = sent (sk s) @ xs @ ys" "length (xs @ ys) \<le> i + j" "\<forall>f \<in> set (xs @ ys). \<exists>k n. encode_intern k n = Inr f"
    using xs ys by auto
  then have "\<exists>frs. sent (sk v) = sent (sk s) @ frs \<and> length frs \<le> i + j \<and> (\<forall>f \<in> set frs. \<exists>k n. encode_intern k n = Inr f)"
    by blast
  with assms show ?thesis by (simp add: interning_def)
qed

lemma interning_keeps: "interning j s s' \<Longrightarrow> map_of (cache_of k s) n = Some i \<Longrightarrow> map_of (cache_of k s') n = Some i"
  by (simp add: interning_def)

lemma cache_of_simps [simp]:
  "cache_of k (s\<lparr>sk := c\<rparr>) = cache_of k s"
  "cache_of k' (set_cache k q s) = (if k' = k then q else cache_of k' s)"
  "sk (set_cache k q s) = sk s" "closed (set_cache k q s) = closed s" "agent_running (set_cache k q s) = agent_running s"
  by (cases k; cases k'; simp add: cache_of_def set_cache_def)+

lemma on_socket_simps:
  "on_socket m s = (r, s') \<longleftrightarrow> (\<exists>c. m (sk s) = (r, c) \<and> s' = s\<lparr>sk := c\<rparr>)"
  by (auto simp: on_socket_def split: prod.splits)

lemma intern_cached: "map_of (cache_of k s) n = Some i \<Longrightarrow> intern k n s = (Inr i, s)"
  by (simp add: intern_def)

lemma intern_Inr:
  assumes "intern k n s = (Inr i, s')" "map_of (cache_of k s) n = None"
  obtains fr c where "encode_intern k n = Inr fr" "sent c = sent (sk s) @ [fr]" "i < 2 ^ 32"
    "s' = set_cache k (AList.update n i (cache_of k s)) (s\<lparr>sk := c\<rparr>)"
proof -
  from assms obtain fr resp c body where x: "encode_intern k n = Inr fr" "exchange fr (sk s) = (Inr resp, c)"
    "expect ''Intern'' ''InternOk'' RESP_INTERN_OK resp = Inr body" "decode_intern_ok body = Inr i"
    "s' = set_cache k (AList.update n i (cache_of k s)) (s\<lparr>sk := c\<rparr>)"
    by (auto simp: intern_def bindS_Inr_iff on_socket_simps)
  moreover have "i < 2 ^ 32" using x(4) u32_at_bound [of body 0] by (auto simp: decode_intern_ok_def split: if_splits)
  ultimately show ?thesis using that exchange_sent [OF x(2)] by auto
qed

lemma intern_fails:
  assumes "intern k n s = (Inl e, s')"
  shows "interning 1 s s'" "\<forall>k'. cache_of k' s' = cache_of k' s"
proof -
  have none: "map_of (cache_of k s) n = None" using assms by (cases "map_of (cache_of k s) n") (auto simp: intern_def)
  have "s' = s \<or> (\<exists>fr r c. encode_intern k n = Inr fr \<and> exchange fr (sk s) = (r, c) \<and> s' = s\<lparr>sk := c\<rparr>)"
    using assms none by (auto simp: intern_def bindS_def liftS_def on_socket_def split: prod.splits sum.splits)
  then show "interning 1 s s'" "\<forall>k'. cache_of k' s' = cache_of k' s"
    by (auto simp: interning_def dest!: exchange_sent intro: exI [of _ "[]"]) blast
qed

lemma intern_ok:
  assumes "intern k n s = (Inr i, s')"
  shows "interning 1 s s'" "map_of (cache_of k s') n = Some i"
proof -
  show "interning 1 s s'"
  proof (cases "map_of (cache_of k s) n")
    case (Some j)
    with assms show ?thesis by (auto simp: intern_cached interning_refl)
  next
    case None
    with assms obtain fr c where x: "encode_intern k n = Inr fr" "sent c = sent (sk s) @ [fr]"
      "s' = set_cache k (AList.update n i (cache_of k s)) (s\<lparr>sk := c\<rparr>)" by (rule intern_Inr)
    with None show ?thesis
      by (auto simp: interning_def update_conv' intro!: exI [of _ "[fr]"])
  qed
  show "map_of (cache_of k s') n = Some i"
  proof (cases "map_of (cache_of k s) n")
    case (Some j)
    with assms show ?thesis by (auto simp: intern_cached)
  next
    case None
    with assms obtain fr c where "s' = set_cache k (AList.update n i (cache_of k s)) (s\<lparr>sk := c\<rparr>)" by (rule intern_Inr)
    then show ?thesis by (simp add: update_conv')
  qed
qed

lemma intern_interning: "intern k n s = (r, s') \<Longrightarrow> interning 1 s s'"
  by (cases r) (auto dest: intern_ok intern_fails)

text \<open>A name is interned once. When interning succeeds the cache of its kind holds the identifier,
  all other bindings are as before, a name that was cached costs no frame and any other exactly the
  one documented request; asking again returns the same identifier and changes nothing.\<close>

theorem intern_once:
  assumes "intern k n s = (Inr i, s')"
  shows "map_of (cache_of k s') n = Some i \<and>
    (\<forall>k' m. (k', m) \<noteq> (k, n) \<longrightarrow> map_of (cache_of k' s') m = map_of (cache_of k' s) m) \<and>
    (case map_of (cache_of k s) n of Some j \<Rightarrow> i = j \<and> s' = s
     | None \<Rightarrow> \<exists>fr. encode_intern k n = Inr fr \<and> sent (sk s') = sent (sk s) @ [fr]) \<and>
    intern k n s' = (Inr i, s')"
proof (cases "map_of (cache_of k s) n")
  case (Some j)
  with assms show ?thesis by (simp add: intern_cached)
next
  case None
  with assms obtain fr c where x: "encode_intern k n = Inr fr" "sent c = sent (sk s) @ [fr]"
    "s' = set_cache k (AList.update n i (cache_of k s)) (s\<lparr>sk := c\<rparr>)" by (rule intern_Inr)
  have "map_of (cache_of k s') n = Some i" by (simp add: x(3) update_conv')
  with x None intern_cached [OF this] show ?thesis by (auto simp: update_conv')
qed

definition sample_session :: "bytes list \<Rightarrow> session" where
  "sample_session pieces = new_session
     \<lparr>incoming = pieces, at_end = None, sent = [], send_fault = (\<lambda>n. None), sock_closed = False\<rparr> True"

text \<open>The agent's answer to an intern request: identifier 7.\<close>

definition intern_answer :: bytes where
  "intern_answer = [5, 0, 0, 0, 0x86, 7, 0, 0, 0]"

lemma exchange_answer:
  assumes "live c" "stream c = ans @ rest" "encode_frame opc body = Inr ans" "opc < 256" "send_fault c = (\<lambda>n. None)"
  obtains c' where "exchange fr c = (Inr (opc, body), c')" "stream c' = rest" "live c'" "send_fault c' = (\<lambda>n. None)"
    "sent c' = sent c @ [fr]"
proof -
  have l: "live (c\<lparr>sent := sent c @ [fr]\<rparr>)" "stream (c\<lparr>sent := sent c @ [fr]\<rparr>) = ans @ rest"
    using assms by (simp_all add: live_def stream_def)
  from read_frame_stream [OF l(1) assms(3) l(2)] obtain c' where
    c': "read_frame (c\<lparr>sent := sent c @ [fr]\<rparr>) = (Inr ans, c')" "stream c' = rest" "live c'"
      "same_conn (c\<lparr>sent := sent c @ [fr]\<rparr>) c'" by blast
  have "decode_frame ans = Inr (opc, body)" using decode_encode_frame [OF assms(3,4), of "[]"] by simp
  then have "exchange fr c = (Inr (opc, body), c')"
    using assms c' by (simp add: exchange_def bindS_def sendall_def live_def liftS_def)
  with c' assms(5) show ?thesis by (intro that [of c']) (auto simp: same_conn_def)
qed

lemma sample_intern: "\<exists>s'. intern DOMAIN (u ''ai'') (sample_session [[5, 0], [0, 0, 0x86, 7, 0, 0, 0]]) = (Inr 7, s')"
proof -
  let ?s = "sample_session [[5, 0], [0, 0, 0x86, 7, 0, 0, 0]]"
  have a: "encode_frame 0x86 [7, 0, 0, 0] = Inr intern_answer" by (simp add: encode_frame_def nat_le_numeral intern_answer_def)
  have l: "live (sk ?s)" "stream (sk ?s) = intern_answer @ []" "send_fault (sk ?s) = (\<lambda>n. None)"
    by (simp_all add: live_def stream_def sample_session_def new_session_def intern_answer_def)
  obtain fr where fr: "encode_intern DOMAIN (u ''ai'') = Inr fr"
    by (simp add: encode_intern_def encodeE_def u_Cons is_scalar_def utf8_cp_def packE_def pack_u_def encode_frame_def)
  obtain c' where "exchange fr (sk ?s) = (Inr (0x86, [7, 0, 0, 0]), c')"
    using exchange_answer [OF l(1,2) a _ l(3), of fr] by auto
  moreover have "cache_of DOMAIN ?s = []" by (simp add: sample_session_def new_session_def cache_of_def)
  ultimately show ?thesis
    by (simp add: intern_def bindS_def liftS_def fr on_socket_def expect_def decode_intern_ok_def u32_at_def slice_def)
qed

theorem intern_once_witness:
  "\<exists>s'. intern DOMAIN (u ''ai'') (sample_session [[5, 0], [0, 0, 0x86, 7, 0, 0, 0]]) = (Inr 7, s') \<and>
     intern DOMAIN (u ''ai'') s' = (Inr 7, s')"
proof -
  obtain s' where s': "intern DOMAIN (u ''ai'') (sample_session [[5, 0], [0, 0, 0x86, 7, 0, 0, 0]]) = (Inr 7, s')"
    using sample_intern by blast
  from intern_once [OF s'] s' show ?thesis by blast
qed

end
