(* ===== verification/Sdk_Session_Props.thy ===== *)
theory Sdk_Session_Props imports Sdk_Props Dtj_Read begin

text \<open>
  Emitting, closing and opening: what is sent, that resources are released, and the layout and value
  encodings of the requests.
\<close>

section \<open>Emitting\<close>

lemma emit_steps:
  assumes "emit r now domain cat name sev field_name v corr s = (Inr seq, s')"
  obtains sv d s1 c s2 n s3 co s4 f s5 tag body s6 fr resp cn where
    "\<not> closed s" "map_of SEVERITY_MAP (lower r sev) = Some sv"
    "intern DOMAIN domain s = (Inr d, s1)" "intern CATEGORY cat s1 = (Inr c, s2)" "intern EVENT_NAME name s2 = (Inr n, s3)"
    "(case corr of Some (x # xs) \<Rightarrow> intern STRING (x # xs) | _ \<Rightarrow> liftS (Inr 0)) s3 = (Inr co, s4)"
    "intern STRING field_name s4 = (Inr f, s5)"
    "(case v of SVal (JStr str) \<Rightarrow> bindS (intern STRING str) (\<lambda>i. liftS (Inr (0x0B, nat_le 4 i))) | _ \<Rightarrow> liftS (encode_value v)) s5 =
      (Inr (tag, body), s6)"
    "encode_append_event now d c n co sv f tag body = Inr fr" "exchange fr (sk s6) = (Inr resp, cn)" "s' = s6\<lparr>sk := cn\<rparr>"
  using assms by (auto simp: emit_def bindS_Inr_iff on_socket_simps split: if_splits option.splits prod.splits)

lemma value_step_interning:
  "(case v of SVal (JStr str) \<Rightarrow> bindS (intern STRING str) (\<lambda>i. liftS (Inr (0x0B, nat_le 4 i))) | _ \<Rightarrow> liftS (encode_value v)) s = (r, s') \<Longrightarrow>
     interning 1 s s'"
  by (auto simp: bindS_def interning_refl split: sdk_value.splits json.splits prod.splits sum.splits dest!: intern_interning)

lemma corr_step_interning:
  "(case corr of Some (x # xs) \<Rightarrow> intern STRING (x # xs) | _ \<Rightarrow> liftS (Inr 0)) s = (r, s') \<Longrightarrow> interning 1 s s'"
  by (auto simp: interning_refl split: option.splits list.splits dest: intern_interning)

text \<open>C14: a successful emit sends at most six intern requests and then exactly one event frame, and
  the identifiers in that frame are the ones the session's caches hold for the names passed in.\<close>

theorem emit_sends_event:
  assumes "emit r now domain cat name sev field_name v corr s = (Inr seq, s')"
  shows "\<exists>frs d c n co f sv tag body fr.
    sent (sk s') = sent (sk s) @ frs @ [fr] \<and> length frs \<le> 6 \<and> (\<forall>x \<in> set frs. \<exists>k nm. encode_intern k nm = Inr x) \<and>
    encode_append_event now d c n co sv f tag body = Inr fr \<and> map_of SEVERITY_MAP (lower r sev) = Some sv \<and>
    map_of (domain_cache s') domain = Some d \<and> map_of (category_cache s') cat = Some c \<and>
    map_of (event_name_cache s') name = Some n \<and> map_of (string_cache s') field_name = Some f \<and>
    (case corr of Some (x # xs) \<Rightarrow> map_of (string_cache s') (x # xs) = Some co | _ \<Rightarrow> co = 0) \<and>
    (case v of SVal (JStr str) \<Rightarrow> tag = 0x0B \<and> (\<exists>i. map_of (string_cache s') str = Some i \<and> body = nat_le 4 i)
     | _ \<Rightarrow> encode_value v = Inr (tag, body))"
proof -
  from assms obtain sv d s1 c s2 n s3 co s4 f s5 tag body s6 fr resp cn where x:
    "\<not> closed s" "map_of SEVERITY_MAP (lower r sev) = Some sv"
    "intern DOMAIN domain s = (Inr d, s1)" "intern CATEGORY cat s1 = (Inr c, s2)" "intern EVENT_NAME name s2 = (Inr n, s3)"
    "(case corr of Some (x # xs) \<Rightarrow> intern STRING (x # xs) | _ \<Rightarrow> liftS (Inr 0)) s3 = (Inr co, s4)"
    "intern STRING field_name s4 = (Inr f, s5)"
    "(case v of SVal (JStr str) \<Rightarrow> bindS (intern STRING str) (\<lambda>i. liftS (Inr (0x0B, nat_le 4 i))) | _ \<Rightarrow> liftS (encode_value v)) s5 =
      (Inr (tag, body), s6)"
    "encode_append_event now d c n co sv f tag body = Inr fr" "exchange fr (sk s6) = (Inr resp, cn)" "s' = s6\<lparr>sk := cn\<rparr>"
    by (rule emit_steps)
  have i6: "interning 1 s5 s6" using value_step_interning [OF x(8)] .
  have i56: "interning 2 s4 s6" using interning_trans [OF intern_interning [OF x(7)] i6] by (simp add: eval_nat_numeral)
  have i46: "interning 3 s3 s6" using interning_trans [OF corr_step_interning [OF x(6)] i56] by (simp add: eval_nat_numeral)
  have i36: "interning 4 s2 s6" using interning_trans [OF intern_interning [OF x(5)] i46] by (simp add: eval_nat_numeral)
  have i26: "interning 5 s1 s6" using interning_trans [OF intern_interning [OF x(4)] i36] by (simp add: eval_nat_numeral)
  have i16: "interning 6 s s6" using interning_trans [OF intern_interning [OF x(3)] i26] by (simp add: eval_nat_numeral)
  from i16 obtain frs where frs: "sent (sk s6) = sent (sk s) @ frs" "length frs \<le> 6"
    "\<forall>x \<in> set frs. \<exists>k nm. encode_intern k nm = Inr x" by (auto simp: interning_def)
  have sent: "sent (sk s') = sent (sk s) @ frs @ [fr]" using exchange_sent [OF x(10)] x(11) frs(1) by auto
  have k: "cache_of DOMAIN s' = domain_cache s'" "cache_of CATEGORY s' = category_cache s'"
    "cache_of EVENT_NAME s' = event_name_cache s'" "cache_of STRING s' = string_cache s'" by (simp_all add: cache_of_def)
  have c6: "cache_of kk s' = cache_of kk s6" for kk by (simp add: x(11))
  have names: "map_of (domain_cache s') domain = Some d" "map_of (category_cache s') cat = Some c"
    "map_of (event_name_cache s') name = Some n" "map_of (string_cache s') field_name = Some f"
    unfolding k [symmetric] c6
    by (rule interning_keeps [OF i26 intern_ok(2) [OF x(3)]], rule interning_keeps [OF i36 intern_ok(2) [OF x(4)]],
        rule interning_keeps [OF i46 intern_ok(2) [OF x(5)]], rule interning_keeps [OF i6 intern_ok(2) [OF x(7)]])
  have corr: "case corr of Some (x # xs) \<Rightarrow> map_of (string_cache s') (x # xs) = Some co | _ \<Rightarrow> co = 0"
    using x(6) interning_keeps [OF i56 intern_ok(2), of STRING _ s3 co]
    unfolding k(4) [symmetric] c6 by (auto split: option.splits list.splits)
  have val: "case v of SVal (JStr str) \<Rightarrow> tag = 0x0B \<and> (\<exists>i. map_of (string_cache s') str = Some i \<and> body = nat_le 4 i)
     | _ \<Rightarrow> encode_value v = Inr (tag, body)"
    using x(8) unfolding k(4) [symmetric] c6
    by (auto simp: bindS_Inr_iff split: sdk_value.splits json.splits dest: intern_ok)
  from sent frs(2,3) x(2,9) names corr val show ?thesis by blast
qed

text \<open>A session that has interned the names of an event, with the agent's answer to it waiting.\<close>

definition warm_session :: session where
  "warm_session = (new_session
     \<lparr>incoming = [[9, 0, 0, 0, 0x83], [5, 0, 0, 0, 0, 0, 0, 0]], at_end = None, sent = [], send_fault = (\<lambda>n. None), sock_closed = False\<rparr> True)
     \<lparr>domain_cache := [(u ''ai'', 7)], category_cache := [(u ''llm'', 7)], event_name_cache := [(u ''ask'', 7)],
      string_cache := [(u ''n'', 7)]\<rparr>"

lemma warm_emit:
  "\<exists>s'. emit sample_runtime 5 (u ''ai'') (u ''llm'') (u ''ask'') (u ''info'') (u ''n'') (SVal (JInt 3)) None warm_session = (Inr 5, s')"
proof -
  have a: "encode_frame 0x83 [5, 0, 0, 0, 0, 0, 0, 0] = Inr [9, 0, 0, 0, 0x83, 5, 0, 0, 0, 0, 0, 0, 0]"
    by (simp add: encode_frame_def nat_le_numeral)
  have l: "live (sk warm_session)" "stream (sk warm_session) = [9, 0, 0, 0, 0x83, 5, 0, 0, 0, 0, 0, 0, 0] @ []"
    "send_fault (sk warm_session) = (\<lambda>n. None)"
    by (simp_all add: live_def stream_def warm_session_def new_session_def)
  obtain body where v: "encode_value (SVal (JInt 3)) = Inr (3, body)" "length body = 8"
    by (simp add: encode_value_def pack_qE_def pack_i64_def)
  have "length (nat_le 8 5 @ nat_le 4 7 @ nat_le 4 7 @ nat_le 4 7 @ nat_le 4 0 @ [mk_byte 2] @ nat_le 2 1 @ nat_le 4 7 @
      [mk_byte 3] @ [0, 0, 0] @ body) < 1048576" using v(2) by simp
  then obtain fr where fr: "encode_append_event 5 7 7 7 0 2 7 3 body = Inr fr"
    by (simp add: encode_append_event_def packE_def pack_u_def encode_frame_def)
  obtain c' where "exchange fr (sk warm_session) = (Inr (0x83, [5, 0, 0, 0, 0, 0, 0, 0]), c')"
    using exchange_answer [OF l(1,2) a _ l(3), of fr] by auto
  moreover have "cache_of DOMAIN warm_session = [(u ''ai'', 7)]" "cache_of CATEGORY warm_session = [(u ''llm'', 7)]"
    "cache_of EVENT_NAME warm_session = [(u ''ask'', 7)]" "cache_of STRING warm_session = [(u ''n'', 7)]"
    "\<not> closed warm_session" by (simp_all add: warm_session_def new_session_def cache_of_def)
  moreover have "map_of SEVERITY_MAP (lower sample_runtime (u ''info'')) = Some 2"
    by (simp add: sample_runtime_def SEVERITY_MAP_def u_Cons)
  moreover have "decode_append_event_ok [5, 0, 0, 0, 0, 0, 0, 0] = Inr 5"
    by (simp add: decode_append_event_ok_def u64_at_def slice_def)
  ultimately show ?thesis
    by (simp add: emit_def bindS_def liftS_def intern_cached v fr on_socket_def expect_def)
qed

theorem emit_sends_event_witness:
  "\<exists>s'. emit sample_runtime 5 (u ''ai'') (u ''llm'') (u ''ask'') (u ''info'') (u ''n'') (SVal (JInt 3)) None warm_session = (Inr 5, s') \<and>
     (\<exists>frs fr. sent (sk s') = frs @ [fr])"
proof -
  obtain s' where s': "emit sample_runtime 5 (u ''ai'') (u ''llm'') (u ''ask'') (u ''info'') (u ''n'') (SVal (JInt 3)) None warm_session = (Inr 5, s')"
    using warm_emit by blast
  from emit_sends_event [OF s'] obtain frs fr where "sent (sk s') = sent (sk warm_session) @ frs @ [fr]" by blast
  with s' show ?thesis by (metis append.assoc)
qed

section \<open>Closing\<close>

lemma on_socket_keeps: "on_socket m s = (r, s') \<Longrightarrow> cache_of k s' = cache_of k s \<and> closed s' = closed s"
  by (auto simp: on_socket_simps)

text \<open>Closing always releases everything. Whatever the agent and the socket do, afterwards the
  session is closed, its socket is closed and the agent is stopped; closing again changes nothing,
  and every later emit raises the session error without sending a byte.\<close>

theorem close_releases:
  "closed s \<longrightarrow> sock_closed (sk s) \<and> \<not> agent_running s \<Longrightarrow>
   closed (close_session s) \<and> sock_closed (sk (close_session s)) \<and> \<not> agent_running (close_session s) \<and>
   close_session (close_session s) = close_session s \<and>
   emit r now domain cat name sev field_name v corr (close_session s) =
     (Inl (DTJSessionError (u ''Session already closed'')), close_session s)"
proof -
  assume a: "closed s \<longrightarrow> sock_closed (sk s) \<and> \<not> agent_running s"
  have c: "closed (close_session s) \<and> sock_closed (sk (close_session s)) \<and> \<not> agent_running (close_session s)"
  proof (cases "closed s")
    case True
    with a show ?thesis by (simp add: close_session_def)
  next
    case False
    obtain x s2 where x: "bindS (liftS encode_finish_session) (\<lambda>frame. on_socket (exchange frame)) (s\<lparr>closed := True\<rparr>) = (x, s2)"
      by (cases "bindS (liftS encode_finish_session) (\<lambda>frame. on_socket (exchange frame)) (s\<lparr>closed := True\<rparr>)")
    then have "closed s2" by (auto simp: bindS_def liftS_def split: sum.splits prod.splits dest!: on_socket_keeps)
    with False x show ?thesis by (simp add: close_session_def Let_def)
  qed
  then have "close_session (close_session s) = close_session s"
    by (simp add: close_session_def [of "close_session s"])
  with c show ?thesis by (simp add: emit_def)
qed

theorem close_releases_witness:
  "closed (close_session (sample_session [])) \<and> \<not> agent_running (close_session (sample_session []))"
  using close_releases [of "sample_session []"] by (simp add: sample_session_def new_session_def)

section \<open>Opening\<close>

lemma start_agent_Inl: "start_agent d w p = (Inl x, p') \<Longrightarrow> running p' = running p"
  by (auto simp: start_agent_def Let_def split: if_splits sum.splits option.splits)

lemma start_agent_Inr:
  "start_agent d w p = (Inr path, p') \<Longrightarrow>
     (if non_empty (socket_path d) then path = the (socket_path d) \<and> p' = p
      else path = new_socket d \<and> p' = p\<lparr>temp_dir := True, running := True\<rparr>)"
  by (auto simp: start_agent_def Let_def split: if_splits sum.splits option.splits)

lemma find_agent_executable: "find_agent d = Inr (Some a) \<Longrightarrow> executable d a"
  by (auto simp: find_agent_def find_Some_iff non_empty_def split: if_splits)

text \<open>What opening a trace leaves behind. A disabled or unavailable trace starts nothing; an
  active session has completed the handshake on its connection, has empty caches and owns the agent
  exactly when it runs; and after an exception an agent is left running only when connecting to it
  failed.\<close>

theorem open_trace_resources:
  assumes "open_trace e p = (r, p')" "\<not> running p"
  shows "case r of
      Inr NoOp \<Rightarrow> \<not> running p'
    | Inr (Active s) \<Rightarrow> (\<exists>c. connect e (if non_empty (socket_path (disc e)) then the (socket_path (disc e)) else new_socket (disc e)) = Inr c \<and>
        handshake (meta e) c = (Inr (), sk s) \<and>
        s = new_session (sk s) (running p') \<and> (running p' = (\<not> non_empty (socket_path (disc e)))))
    | Inl x \<Rightarrow> \<not> running p' \<or> connect e (new_socket (disc e)) = Inl x"
  using assms
  by (auto simp: open_trace_def Let_def stop_agent_def new_session_def
      split: if_splits sum.splits option.splits prod.splits sdk_error.splits opened.splits
      dest!: start_agent_Inl start_agent_Inr)

definition sample_open :: "(pystr \<Rightarrow> sdk_error + conn) \<Rightarrow> open_env" where
  "sample_open cn = \<lparr>disc = \<lparr>agent_path = None, socket_path = None, executable = (\<lambda>p. True), env_agent_path = None,
     which_agent = None, cargo_agent = u ''/a'', socket_dir_fault = None, data_dir_fault = None, popen_fault = None,
     new_socket = u ''/s''\<rparr>, enabled = True, config_path = None, data_dir = Some (u ''d''), is_config_file = (\<lambda>p. False), resolve_config = id,
     env_config = None, config_candidates = [], connect = cn,
     meta = \<lparr>md_file_name = [], md_session_id = [], md_start_utc_unix_ms = 0, md_mono_origin_ns = 0,
       md_producer_name = [], md_producer_version = []\<rparr>\<rparr>"

text \<open>The one leak: the agent was started, connecting to its socket fails, and nobody stops it.\<close>

lemma connect_failure_leaks_agent:
  "open_trace (sample_open (\<lambda>p. Inl (DTJConnectionError []))) \<lparr>running = False, temp_dir = False\<rparr> =
     (Inl (DTJConnectionError []), \<lparr>running = True, temp_dir = True\<rparr>)"
  by (simp add: open_trace_def sample_open_def find_agent_def candidates_def non_empty_def start_agent_def u_Cons)

theorem open_trace_resources_witness:
  "connect (sample_open (\<lambda>p. Inl (DTJConnectionError []))) (u ''/s'') = Inl (DTJConnectionError [])"
  using open_trace_resources [OF connect_failure_leaks_agent] by (simp add: sample_open_def)

section \<open>The no-op session\<close>

lemma noop_emit_warned: "warning_emitted s \<Longrightarrow> (noop_emit ^^ n) s = s"
  by (induction n) (simp_all add: noop_emit_def)

lemma noop_emit_once:
  "(noop_emit ^^ n) \<lparr>warning_emitted = False, warnings = 0\<rparr> = \<lparr>warning_emitted = 0 < n, warnings = min n 1\<rparr>"
proof (cases n)
  case (Suc m)
  have "noop_emit \<lparr>warning_emitted = False, warnings = 0\<rparr> = \<lparr>warning_emitted = True, warnings = 1\<rparr>"
    by (simp add: noop_emit_def)
  with Suc noop_emit_warned [of "\<lparr>warning_emitted = True, warnings = 1\<rparr>" m] show ?thesis
    by (simp add: funpow_swap1 del: funpow.simps(2)) (simp add: funpow_swap1)
qed simp

end
