(* ===== verification/Sdk_Request_Props.thy ===== *)
theory Sdk_Request_Props imports Sdk_Props begin

text \<open>
  The layout of the event request as the agent reads it, and the value encoding of the SDK against
  the value decoder of the session reader.
\<close>

section \<open>Layout of the event request\<close>

lemma encode_append_event_Inr:
  assumes "encode_append_event ts d c n co sv f tag body = Inr fr"
  obtains b where "0 \<le> ts" "ts < 2 ^ 64" "d < 2 ^ 32" "c < 2 ^ 32" "n < 2 ^ 32" "co < 2 ^ 32" "f < 2 ^ 32"
    "b = nat_le 8 (nat ts) @ nat_le 4 d @ nat_le 4 c @ nat_le 4 n @ nat_le 4 co @ [mk_byte sv] @ nat_le 2 1 @
       nat_le 4 f @ [mk_byte tag] @ [0, 0, 0] @ body" "encode_frame 3 b = Inr fr"
  using assms by (auto simp: encode_append_event_def bindE_Inr_iff packE_Inr)

text \<open>The event request has the layout of the protocol: behind the frame header come the time,
  the four identifiers, the severity, one field with its name, its type tag, three zero bytes and
  the value, each at its documented offset, and each read back as what was passed in.\<close>

theorem append_event_layout:
  assumes "encode_append_event ts d c n co sv f tag body = Inr fr" "sv < 256" "tag < 256"
  shows "\<exists>b. decode_frame fr = Inr (3, b) \<and> length b = 35 + length body \<and>
    int (u64_at b 0) = ts \<and> u32_at b 8 = d \<and> u32_at b 12 = c \<and> u32_at b 16 = n \<and> u32_at b 20 = co \<and>
    byte_at b 24 = sv \<and> u16_at b 25 = 1 \<and> u32_at b 27 = f \<and> byte_at b 31 = tag \<and>
    slice b 32 35 = [0, 0, 0] \<and> drop 35 b = body"
proof -
  from assms(1) obtain b where r: "0 \<le> ts" "ts < 2 ^ 64" "d < 2 ^ 32" "c < 2 ^ 32" "n < 2 ^ 32" "co < 2 ^ 32" "f < 2 ^ 32"
    and b: "b = nat_le 8 (nat ts) @ nat_le 4 d @ nat_le 4 c @ nat_le 4 n @ nat_le 4 co @ [mk_byte sv] @ nat_le 2 1 @
       nat_le 4 f @ [mk_byte tag] @ [0, 0, 0] @ body" and fr: "encode_frame 3 b = Inr fr"
    by (rule encode_append_event_Inr)
  have "decode_frame fr = Inr (3, b)" using decode_encode_frame [OF fr, of "[]"] by simp
  moreover have "int (u64_at b 0) = ts" using r by (simp add: b codec nat_less_iff)
  moreover have "u32_at b 8 = d \<and> u32_at b 12 = c \<and> u32_at b 16 = n \<and> u32_at b 20 = co"
    using r by (simp add: b codec)
  moreover have "byte_at b 24 = sv \<and> u16_at b 25 = 1 \<and> u32_at b 27 = f \<and> byte_at b 31 = tag"
    using r assms by (simp add: b codec)
  moreover have "slice b 32 35 = [0, 0, 0] \<and> drop 35 b = body" by (simp add: b slice_def)
  ultimately show ?thesis by (auto simp: b)
qed

theorem append_event_layout_witness:
  "\<exists>fr b. encode_append_event 5 1 2 3 0 2 4 1 [1] = Inr fr \<and> decode_frame fr = Inr (3, b) \<and> drop 35 b = [1]"
proof -
  have "length (nat_le 8 5 @ nat_le 4 1 @ nat_le 4 2 @ nat_le 4 3 @ nat_le 4 0 @ [mk_byte 2] @ nat_le 2 1 @ nat_le 4 4 @
      [mk_byte 1] @ [0, 0, 0, 1]) < 1048576" by simp
  then obtain fr where fr: "encode_append_event 5 1 2 3 0 2 4 1 [1] = Inr fr"
    by (simp add: encode_append_event_def packE_def pack_u_def encode_frame_def)
  show ?thesis using append_event_layout [OF fr] fr by auto
qed

section \<open>Values\<close>

text \<open>C28: a Boolean, an integer or a float encoded by the SDK is decoded by the session reader to the
  same value, from exactly the bytes of its encoding, whatever follows; integers in the range of a
  signed 64-bit integer are sent as such, larger ones unsigned.\<close>

theorem sdk_value_read_back:
  assumes "encode_value (SVal j) = Inr (tag, body)"
  shows "decode_value tag (body @ rest) =
    Inr (case j of JBool b \<Rightarrow> VBool b | JInt i \<Rightarrow> if i < 2 ^ 63 then VI64 i else VU64 (nat i) | JFloat w \<Rightarrow> VF64 (unat w),
      length body)"
proof (cases j)
  case (JBool b)
  with assms show ?thesis by (cases b) (auto simp: encode_value_def decode_value_def byte_at_def)
next
  case (JInt i)
  show ?thesis
  proof (cases "- (2 ^ 63) \<le> i \<and> i < 2 ^ 63")
    case True
    then have s: "to_signed 64 (of_signed 64 i) = i" "of_signed 64 i < 2 ^ 64"
      using to_signed_of_signed [of 64 i] by simp_all
    have "tag = 3" "body = nat_le 8 (of_signed 64 i)"
      using assms JInt True by (auto simp: encode_value_def bindE_Inr_iff pack_qE_Inr)
    with True s JInt show ?thesis by (simp add: decode_value_def i64_at_def codec)
  next
    case False
    then have "0 \<le> i \<and> i < 2 ^ 64" "2 ^ 63 \<le> i" "tag = 5" "body = nat_le 8 (nat i)"
      using assms JInt by (auto simp: encode_value_def bindE_Inr_iff packE_Inr split: if_splits)
    with JInt show ?thesis by (simp add: decode_value_def codec nat_less_iff)
  qed
next
  case (JFloat w)
  have "unat w < 2 ^ 64" using unsigned_less [of w, where 'a = nat] by simp
  with assms JFloat show ?thesis by (auto simp: encode_value_def decode_value_def float_le_def codec)
qed (use assms in \<open>simp_all add: encode_value_def\<close>)

theorem sdk_value_read_back_witness: "decode_value 1 ([1] @ [9]) = Inr (VBool True, 1)"
proof -
  have "encode_value (SVal (JBool True)) = Inr (1, [1])" by (simp add: encode_value_def)
  from sdk_value_read_back [OF this, of "[9]"] show ?thesis by simp
qed

text \<open>Byte strings do not survive: the SDK writes a 32-bit length where the reader takes a 16-bit
  one, so a non-empty string of at most 4096 bytes is read as two zero bytes and its front, and two
  of its bytes are left to be parsed as the next field.\<close>

theorem sdk_bytes_misread:
  assumes "encode_value (SBytes bs) = Inr (tag, body)" "bs \<noteq> []" "length bs \<le> 4096"
  shows "decode_value tag (body @ rest) = Inr (VBytes (take (length bs) (0 # 0 # bs)), length body - 2)"
proof -
  from assms have b: "tag = 12" "body = nat_le 4 (length bs) @ bs"
    by (auto simp: encode_value_def bindE_Inr_iff packE_Inr split: if_splits)
  have "nat_le 4 (length bs) = nat_le 2 (length bs) @ [0, 0]"
    using assms(3) by (simp add: nat_le_numeral numeral_2_eq_2 div_mult2_eq [symmetric])
  moreover have "take (length bs) (0 # 0 # bs @ rest) = take (length bs) (0 # 0 # bs)"
    using take_append [of "length bs" "0 # 0 # bs" rest] by simp
  ultimately show ?thesis using b assms(3) by (simp add: decode_value_def codec slice_def Let_def)
qed

theorem sdk_bytes_misread_witness: "decode_value 12 ([3, 0, 0, 0] @ [7, 8, 9] @ []) = Inr (VBytes [0, 0, 7], 5)"
proof -
  have "encode_value (SBytes [7, 8, 9]) = Inr (12, [3, 0, 0, 0, 7, 8, 9])"
    by (simp add: encode_value_def packE_def pack_u_def nat_le_numeral)
  from sdk_bytes_misread [OF this, of "[]"] show ?thesis by simp
qed

end
