(* ===== verification/Trace_Config.thy ===== *)
theory Trace_Config imports Dtj_Index "HOL-Library.List_Lexorder" begin

text \<open>
  Trace configuration (\<open>protocol.py\<close>): validation of configurations and events, and the gate that
  decides whether a producer emits an event under a configuration.
\<close>

section \<open>Python's equality and membership\<close>

definition f64_nan :: "64 word \<Rightarrow> bool" where
  "f64_nan w = (f64_exp w = 2047 \<and> f64_mant w \<noteq> 0)"

text \<open>\<open>a == b\<close>: numbers compare by value, dictionaries without regard to order.\<close>

function py_eq :: "json \<Rightarrow> json \<Rightarrow> bool" where
  "py_eq JNull b = (b = JNull)"
| "py_eq (JBool x) b = num_eq b (if x then 1 else 0)"
| "py_eq (JInt i) b = num_eq b i"
| "py_eq (JFloat f) b = (case b of JFloat g \<Rightarrow> \<not> f64_nan f \<and> (f = g \<or> \<not> truthy (JFloat f) \<and> \<not> truthy (JFloat g))
     | JInt i \<Rightarrow> f64_eq_int f i | JBool x \<Rightarrow> f64_eq_int f (if x then 1 else 0) | _ \<Rightarrow> False)"
| "py_eq (JStr s) b = (b = JStr s)"
| "py_eq (JList xs) b = (case b of
     JList ys \<Rightarrow> length xs = length ys \<and> (\<forall>(x, y) \<in> set (zip xs ys). py_eq x y) | _ \<Rightarrow> False)"
| "py_eq (JObj xs) b = (case b of
     JObj ys \<Rightarrow> length xs = length ys \<and>
       (\<forall>(k, x) \<in> set xs. case map_of ys k of None \<Rightarrow> False | Some y \<Rightarrow> py_eq x y) | _ \<Rightarrow> False)"
  by pat_completeness auto
termination
  by (relation "measure (\<lambda>(a, b). size a)")
     (auto dest!: set_zip_leftD simp: less_Suc_eq_le intro: size_list_estimation' dest: size_list_estimation')

declare py_eq.simps [simp del]

lemma py_eq_str [simp]: "py_eq (JStr s) b = (b = JStr s)"
  by (simp add: py_eq.simps)

text \<open>\<open>hash(v)\<close> exists for everything but lists and dictionaries.\<close>

definition hashable :: "json \<Rightarrow> bool" where
  "hashable j = (\<not> is_list j \<and> \<not> is_dict j)"

definition unhashable_type :: "json \<Rightarrow> py_exn" where
  "unhashable_type j = TypeError (u ''unhashable type: '' @ [39] @ type_name j @ [39])"

text \<open>\<open>x in container\<close>, with the exceptions of each kind of container.\<close>

definition py_in :: "json \<Rightarrow> json \<Rightarrow> py_exn + bool" where
  "py_in x container =
     (case container of
        JList xs \<Rightarrow> Inr (list_ex (\<lambda>y. py_eq x y) xs)
      | JObj d \<Rightarrow> if hashable x then Inr (list_ex (\<lambda>(k, v). py_eq x (JStr k)) d) else Inl (unhashable_type x)
      | JStr s \<Rightarrow> (case x of JStr t \<Rightarrow> Inr (is_infix t s)
          | _ \<Rightarrow> Inl (TypeError ([39] @ u ''in <string>'' @ [39] @ u '' requires string as left operand, not '' @ type_name x)))
      | c \<Rightarrow> Inl (TypeError (u ''argument of type '' @ [39] @ type_name c @ [39] @ u '' is not iterable'')))"

text \<open>\<open>x in frozenset\<close> for a set of strings.\<close>

definition in_str_set :: "json \<Rightarrow> pystr list \<Rightarrow> py_exn + bool" where
  "in_str_set x names = (if hashable x then Inr (list_ex (\<lambda>n. py_eq x (JStr n)) names) else Inl (unhashable_type x))"

section \<open>Constants\<close>

definition PROFILES :: "pystr list" where
  "PROFILES = [u ''Off'', u ''ErrorsOnly'', u ''GestureSummary'', u ''Verbose'', u ''ParityStress'']"

definition SEVERITIES :: "pystr list" where
  "SEVERITIES = [u ''trace'', u ''debug'', u ''info'', u ''warn'', u ''error'', u ''fatal'']"

definition ERROR_SEVERITIES :: "pystr list" where
  "ERROR_SEVERITIES = [u ''error'', u ''fatal'']"

definition GESTURE_SUMMARY_CATEGORIES :: "pystr list" where
  "GESTURE_SUMMARY_CATEGORIES = [u ''gesture'', u ''gesture_summary'', u ''summary'']"

definition default_config :: jdict where
  "default_config =
     [(u ''version'', JInt 1), (u ''enabled'', JBool False), (u ''profile'', JStr (u ''Off'')),
      (u ''enabledDomains'', JList []), (u ''enabledCategoriesByDomain'', JObj []), (u ''sampleEveryN'', JInt 1),
      (u ''maxEventsPerSession'', JInt 50000), (u ''captureUntilFirstAnomaly'', JBool False)]"

section \<open>Validation\<close>

text \<open>\<open>isinstance(d, str) and d\<close> for every element of a list.\<close>

definition str_array :: "json \<Rightarrow> bool" where
  "str_array j = (is_list j \<and> list_all (\<lambda>d. is_str d \<and> truthy d) (list_val j))"

text \<open>The loop over \<open>enabledCategoriesByDomain\<close>; an empty key ends it.\<close>

fun category_errors :: "runtime \<Rightarrow> jdict \<Rightarrow> pystr list" where
  "category_errors r [] = []"
| "category_errors r ((key, v) # d) =
     (if key = [] then [u ''enabledCategoriesByDomain keys must be non-empty strings'']
      else (if str_array v then []
            else [u ''enabledCategoriesByDomain['' @ str_repr r key @ u ''] must be an array of non-empty strings'']) @
           category_errors r d)"

definition positive_int :: "json \<Rightarrow> bool" where
  "positive_int j = (is_strict_int j \<and> 1 \<le> int_val j)"

definition CONFIG_FIELDS :: "pystr list" where
  "CONFIG_FIELDS = [u ''version'', u ''enabled'', u ''profile'', u ''enabledDomains'', u ''enabledCategoriesByDomain'',
     u ''sampleEveryN'', u ''maxEventsPerSession'', u ''captureUntilFirstAnomaly'', u ''pendingEventCapacity'']"

definition names_text :: "runtime \<Rightarrow> pystr list \<Rightarrow> pystr" where
  "names_text r names = py_repr r (JList (map JStr names))"

definition validate_config :: "runtime \<Rightarrow> json \<Rightarrow> pystr list" where
  "validate_config r j =
     (if \<not> is_dict j then [u ''config must be a JSON object'']
      else let obj = dict_val j; cats = getj obj (u ''enabledCategoriesByDomain'');
               unknown = filter (\<lambda>k. k \<notin> set CONFIG_FIELDS) (map fst obj) in
        (if num_eq (getj obj (u ''version'')) 1 then [] else [u ''version must be 1'']) @
        (if is_bool (getj obj (u ''enabled'')) then [] else [u ''enabled must be a boolean'']) @
        (if list_ex (\<lambda>p. py_eq (getj obj (u ''profile'')) (JStr p)) PROFILES then []
         else [u ''profile must be one of '' @ names_text r PROFILES]) @
        (if str_array (getj obj (u ''enabledDomains'')) then []
         else [u ''enabledDomains must be an array of non-empty strings'']) @
        (if is_dict cats then category_errors r (dict_val cats)
         else [u ''enabledCategoriesByDomain must be an object'']) @
        (if positive_int (getj obj (u ''sampleEveryN'')) then [] else [u ''sampleEveryN must be an integer >= 1'']) @
        (if positive_int (getj obj (u ''maxEventsPerSession'')) then []
         else [u ''maxEventsPerSession must be an integer >= 1'']) @
        (if is_bool (getj obj (u ''captureUntilFirstAnomaly'')) then []
         else [u ''captureUntilFirstAnomaly must be a boolean'']) @
        (case map_of obj (u ''pendingEventCapacity'') of None \<Rightarrow> []
         | Some capacity \<Rightarrow> if positive_int capacity then [] else [u ''pendingEventCapacity must be an integer >= 1'']) @
        (if unknown = [] then [] else [u ''unknown config fields: '' @ names_text r (sort unknown)]))"

definition EVENT_STRINGS :: "pystr list" where
  "EVENT_STRINGS = [u ''sessionId'', u ''domain'', u ''category'', u ''eventName'', u ''correlationId'']"

definition validate_event :: "runtime \<Rightarrow> json \<Rightarrow> pystr list" where
  "validate_event r j =
     (if \<not> is_dict j then [u ''event must be a JSON object'']
      else let obj = dict_val j; seq = getj obj (u ''sequence'');
               has_utc = is_str (getj obj (u ''timestampUtc'')) \<and> truthy (getj obj (u ''timestampUtc''));
               has_mono = (is_int (getj obj (u ''monotonicMs'')) \<or> is_float (getj obj (u ''monotonicMs''))) \<and>
                 \<not> is_bool (getj obj (u ''monotonicMs'')) in
        (if num_eq (getj obj (u ''version'')) 1 then [] else [u ''version must be 1'']) @
        map (\<lambda>f. f @ u '' must be a non-empty string'')
          (filter (\<lambda>f. \<not> (is_str (getj obj f) \<and> truthy (getj obj f))) EVENT_STRINGS) @
        (if is_strict_int seq \<and> 0 \<le> int_val seq then [] else [u ''sequence must be an integer >= 0'']) @
        (if list_ex (\<lambda>s. py_eq (getj obj (u ''severity'')) (JStr s)) SEVERITIES then []
         else [u ''severity must be one of '' @ names_text r SEVERITIES]) @
        (if has_utc \<or> has_mono then [] else [u ''timestampUtc or monotonicMs is required'']) @
        (if getj obj (u ''payload'') = JNull \<or> is_dict (getj obj (u ''payload'')) then []
         else [u ''payload must be an object when present'']))"

section \<open>The gate\<close>

definition category_enabled :: "jdict \<Rightarrow> json \<Rightarrow> json \<Rightarrow> py_exn + bool" where
  "category_enabled config domain category =
     bindE (py_in domain (or_else (getj config (u ''enabledDomains'')) (JList []))) (\<lambda>listed.
       if \<not> listed then Inr False
       else let by_domain = or_else (getj config (u ''enabledCategoriesByDomain'')) (JObj []) in
         if \<not> is_dict by_domain then Inl AttributeError
         else if \<not> hashable domain then Inl (unhashable_type domain)
         else let allowed = (case domain of JStr d \<Rightarrow> getj (dict_val by_domain) d | _ \<Rightarrow> JNull) in
           if allowed = JNull then Inr False
           else bindE (py_in (JStr (u ''*'')) allowed) (\<lambda>all. if all then Inr True else py_in category allowed))"

definition event_matches_config :: "runtime \<Rightarrow> jdict \<Rightarrow> jdict \<Rightarrow> py_exn + bool" where
  "event_matches_config r event config =
     (if \<not> truthy (getj config (u ''enabled'')) then Inr False
      else let profile = getj config (u ''profile'') in
        if profile = JStr (u ''Off'') then Inr False
        else let domain = getd event (u ''domain'') (JStr []); category = getd event (u ''category'') (JStr []);
                 sev = getd event (u ''severity'') (JStr []) in
          bindE (category_enabled config domain category) (\<lambda>listed.
            if \<not> listed then Inr False
            else if profile = JStr (u ''ErrorsOnly'') then in_str_set sev ERROR_SEVERITIES
            else if profile = JStr (u ''GestureSummary'') then
              bindE (in_str_set sev ERROR_SEVERITIES) (\<lambda>err.
                if err then Inr True
                else (case category of JStr c \<Rightarrow> Inr (lower r c \<in> set GESTURE_SUMMARY_CATEGORIES)
                      | _ \<Rightarrow> Inl AttributeError))
            else Inr (profile = JStr (u ''Verbose'') \<or> profile = JStr (u ''ParityStress''))))"

end
