(* ===== verification/Trace_Config_Props.thy ===== *)
theory Trace_Config_Props imports Trace_Config Dtj_Index_Props begin

text \<open>
  What the configuration gate promises: on validated input it is total and computes the decision
  of a specification on typed data.
\<close>

section \<open>The specification\<close>

datatype profile = Off | ErrorsOnly | GestureSummary | Verbose | ParityStress

record trace_config =
  tc_enabled :: bool
  tc_profile :: profile
  tc_domains :: "pystr set"
  tc_categories :: "pystr \<Rightarrow> pystr set option"

definition profile_of :: "pystr \<Rightarrow> profile" where
  "profile_of s = (if s = u ''Off'' then Off else if s = u ''ErrorsOnly'' then ErrorsOnly
     else if s = u ''GestureSummary'' then GestureSummary else if s = u ''Verbose'' then Verbose else ParityStress)"

definition strings_of :: "json \<Rightarrow> pystr set" where
  "strings_of j = {s. JStr s \<in> set (list_val j)}"

definition abs_config :: "jdict \<Rightarrow> trace_config" where
  "abs_config c =
     \<lparr>tc_enabled = truthy (getj c (u ''enabled'')), tc_profile = profile_of (str_val (getj c (u ''profile''))),
      tc_domains = strings_of (getj c (u ''enabledDomains'')),
      tc_categories = (\<lambda>d. map_option strings_of (map_of (dict_val (getj c (u ''enabledCategoriesByDomain''))) d))\<rparr>"

text \<open>An event passes when tracing is on, its domain is listed, its category is listed for the domain
  (or all are), and the profile lets its severity or category through.\<close>

definition allows :: "runtime \<Rightarrow> trace_config \<Rightarrow> pystr \<Rightarrow> pystr \<Rightarrow> pystr \<Rightarrow> bool" where
  "allows r tc d c sev =
     (tc_enabled tc \<and> tc_profile tc \<noteq> Off \<and> d \<in> tc_domains tc \<and>
      (\<exists>cats. tc_categories tc d = Some cats \<and> (u ''*'' \<in> cats \<or> c \<in> cats)) \<and>
      (tc_profile tc = ErrorsOnly \<longrightarrow> sev \<in> {u ''error'', u ''fatal''}) \<and>
      (tc_profile tc = GestureSummary \<longrightarrow> sev \<in> {u ''error'', u ''fatal''} \<or>
         lower r c \<in> {u ''gesture'', u ''gesture_summary'', u ''summary''}))"

text \<open>Narrower profiles let through less.\<close>

lemma allows_profiles:
  "allows r (tc\<lparr>tc_profile := ErrorsOnly\<rparr>) d c sev \<Longrightarrow> allows r (tc\<lparr>tc_profile := GestureSummary\<rparr>) d c sev"
  "allows r (tc\<lparr>tc_profile := GestureSummary\<rparr>) d c sev \<Longrightarrow> allows r (tc\<lparr>tc_profile := Verbose\<rparr>) d c sev"
  by (auto simp: allows_def)

section \<open>What validation establishes\<close>

lemma str_array_list: "str_array j \<Longrightarrow> \<exists>xs. j = JList (map JStr xs)"
proof -
  assume a: "str_array j"
  then obtain ys where ys: "j = JList ys" "list_all (\<lambda>d. is_str d \<and> truthy d) ys" by (cases j) (auto simp: str_array_def)
  from ys(2) have "map (JStr \<circ> str_val) ys = ys"
  proof (induction ys)
    case (Cons y ys)
    then show ?case by (cases y) auto
  qed simp
  then have "ys = map JStr (map str_val ys)" by simp
  with ys show ?thesis by blast
qed

lemma category_errors_none: "category_errors r d = [] \<Longrightarrow> map_of d k = Some v \<Longrightarrow> \<exists>xs. v = JList (map JStr xs)"
  by (induction r d rule: category_errors.induct) (auto split: if_splits dest: str_array_list)

lemma valid_config:
  assumes "validate_config r (JObj c) = []"
  obtains b p ds cs where "getj c (u ''enabled'') = JBool b" "getj c (u ''profile'') = JStr p" "p \<in> set PROFILES"
    "getj c (u ''enabledDomains'') = JList (map JStr ds)" "getj c (u ''enabledCategoriesByDomain'') = JObj cs"
    "category_errors r cs = []"
proof -
  from assms have v: "is_bool (getj c (u ''enabled''))" "list_ex (\<lambda>p. py_eq (getj c (u ''profile'')) (JStr p)) PROFILES"
    "str_array (getj c (u ''enabledDomains''))" "is_dict (getj c (u ''enabledCategoriesByDomain''))"
    "category_errors r (dict_val (getj c (u ''enabledCategoriesByDomain''))) = []"
    by (auto simp: validate_config_def Let_def split: if_splits)
  from v(1) obtain b where "getj c (u ''enabled'') = JBool b" by (cases "getj c (u ''enabled'')") auto
  moreover from v(2) obtain p where "getj c (u ''profile'') = JStr p" "p \<in> set PROFILES"
    by (cases "getj c (u ''profile'')") (auto simp: list_ex_iff py_eq.simps)
  moreover from str_array_list [OF v(3)] obtain ds where "getj c (u ''enabledDomains'') = JList (map JStr ds)" by blast
  moreover from v(4) obtain cs where "getj c (u ''enabledCategoriesByDomain'') = JObj cs"
    by (cases "getj c (u ''enabledCategoriesByDomain'')") auto
  ultimately show ?thesis using v(5) that by simp
qed

lemma nonempty_str: "is_str j \<and> truthy j \<Longrightarrow> \<exists>s. j = JStr s \<and> s \<noteq> []"
  by (cases j) auto

lemma getd_present: "getj d k = JStr s \<Longrightarrow> getd d k v = JStr s"
  by (auto simp: getj_def getd_def split: option.splits)

lemma valid_event:
  assumes "validate_event r (JObj e) = []"
  obtains d c sev where "getj e (u ''domain'') = JStr d" "getj e (u ''category'') = JStr c" "getj e (u ''severity'') = JStr sev"
    "sev \<in> set SEVERITIES"
proof -
  from assms have v: "is_str (getj e (u ''domain'')) \<and> truthy (getj e (u ''domain''))"
    "is_str (getj e (u ''category'')) \<and> truthy (getj e (u ''category''))"
    "list_ex (\<lambda>s. py_eq (getj e (u ''severity'')) (JStr s)) SEVERITIES"
    by (auto simp: validate_event_def Let_def EVENT_STRINGS_def filter_empty_conv split: if_splits)
  from v(3) obtain sev where "getj e (u ''severity'') = JStr sev" "sev \<in> set SEVERITIES"
    by (cases "getj e (u ''severity'')") (auto simp: list_ex_iff py_eq.simps)
  with nonempty_str [OF v(1)] nonempty_str [OF v(2)] that show ?thesis by blast
qed

section \<open>The gate computes the specification\<close>

lemma py_in_strings: "py_in (JStr s) (JList (map JStr xs)) = Inr (s \<in> set xs)"
  by (auto simp: py_in_def list_ex_iff)

lemma or_else_list: "or_else (JList xs) (JList []) = JList xs" "or_else (JObj d) (JObj []) = JObj d"
  by (simp_all add: or_else_def)

lemma strings_of_list: "strings_of (JList (map JStr xs)) = set xs"
  by (auto simp: strings_of_def)

lemma category_enabled_valid:
  assumes "getj c (u ''enabledDomains'') = JList (map JStr ds)" "getj c (u ''enabledCategoriesByDomain'') = JObj cs"
    "category_errors r cs = []"
  shows "category_enabled c (JStr d) (JStr cat) =
    Inr (d \<in> set ds \<and> (\<exists>ns. map_option strings_of (map_of cs d) = Some ns \<and> (u ''*'' \<in> ns \<or> cat \<in> ns)))"
proof (cases "map_of cs d")
  case None
  then show ?thesis by (simp add: category_enabled_def assms or_else_list py_in_strings hashable_def getj_def [of cs])
next
  case (Some v)
  with category_errors_none [OF assms(3)] obtain xs where "v = JList (map JStr xs)" by blast
  with Some show ?thesis
    by (simp add: category_enabled_def assms or_else_list py_in_strings hashable_def getj_def [of cs] strings_of_list)
qed

text \<open>C8: on a configuration and an event that validate, the gate never raises and decides exactly
  what the specification says: tracing enabled, domain and category listed, and the profile lets
  the event through.\<close>

theorem config_gate_refines:
  assumes "validate_config r (JObj c) = []" "validate_event r (JObj e) = []"
  shows "event_matches_config r e c =
    Inr (allows r (abs_config c) (str_val (getj e (u ''domain''))) (str_val (getj e (u ''category''))) (str_val (getj e (u ''severity''))))"
proof -
  from assms(1) obtain b p ds cs where c: "getj c (u ''enabled'') = JBool b" "getj c (u ''profile'') = JStr p" "p \<in> set PROFILES"
    "getj c (u ''enabledDomains'') = JList (map JStr ds)" "getj c (u ''enabledCategoriesByDomain'') = JObj cs"
    "category_errors r cs = []" by (rule valid_config)
  from assms(2) obtain d cat sev where e: "getj e (u ''domain'') = JStr d" "getj e (u ''category'') = JStr cat"
    "getj e (u ''severity'') = JStr sev" by (rule valid_event)
  note g = category_enabled_valid [OF c(4-6)]
  have ex: "abs_config c = \<lparr>tc_enabled = b, tc_profile = profile_of p, tc_domains = set ds,
      tc_categories = (\<lambda>d. map_option strings_of (map_of cs d))\<rparr>"
    by (simp add: abs_config_def c strings_of_list)
  show ?thesis
    using c(3) unfolding ex
    by (auto simp: event_matches_config_def c e getd_present [OF e(1)] getd_present [OF e(2)] getd_present [OF e(3)] g
        allows_def PROFILES_def profile_of_def in_str_set_def hashable_def ERROR_SEVERITIES_def GESTURE_SUMMARY_CATEGORIES_def Let_def)
qed

definition sample_config :: jdict where
  "sample_config =
     [(u ''version'', JInt 1), (u ''enabled'', JBool True), (u ''profile'', JStr (u ''Verbose'')),
      (u ''enabledDomains'', JList [JStr (u ''wire'')]),
      (u ''enabledCategoriesByDomain'', JObj [(u ''wire'', JList [JStr (u ''*'')])]), (u ''sampleEveryN'', JInt 1),
      (u ''maxEventsPerSession'', JInt 50000), (u ''captureUntilFirstAnomaly'', JBool False)]"

definition sample_trace_event :: jdict where
  "sample_trace_event =
     [(u ''version'', JInt 1), (u ''sessionId'', JStr (u ''s'')), (u ''domain'', JStr (u ''wire'')),
      (u ''category'', JStr (u ''gesture'')), (u ''eventName'', JStr (u ''KnotHit'')), (u ''correlationId'', JStr (u ''g'')),
      (u ''sequence'', JInt 4), (u ''severity'', JStr (u ''info'')), (u ''monotonicMs'', JInt 7)]"

lemma sample_config_valid: "validate_config r (JObj sample_config) = []"
  by (simp add: validate_config_def sample_config_def Let_def PROFILES_def CONFIG_FIELDS_def str_array_def positive_int_def)

lemma sample_event_valid: "validate_event r (JObj sample_trace_event) = []"
  by (simp add: validate_event_def sample_trace_event_def Let_def SEVERITIES_def EVENT_STRINGS_def)

theorem config_gate_refines_witness: "event_matches_config sample_runtime sample_trace_event sample_config = Inr True"
  using config_gate_refines [OF sample_config_valid [of sample_runtime] sample_event_valid]
  by (simp add: allows_def abs_config_def sample_config_def sample_trace_event_def strings_of_def profile_of_def)

text \<open>The default configuration is valid and lets nothing through.\<close>

lemma default_config_silent:
  "validate_config r (JObj default_config) = [] \<and> event_matches_config r e default_config = Inr False"
  by (simp add: validate_config_def default_config_def Let_def PROFILES_def CONFIG_FIELDS_def str_array_def positive_int_def
      event_matches_config_def)

end
