(* ===== verification/Dtj_Store.thy ===== *)
theory Dtj_Store imports Dtj_Index "HOL-Library.List_Lexorder" begin

text \<open>
  The session store (\<open>dtj_store.py\<close>): paths the way \<open>pathlib\<close> treats them, enumerating and
  resolving sessions, session metadata, and building the index of a session under the store.
\<close>

section \<open>Paths\<close>

text \<open>\<open>str(Path(s))\<close>: empty and \<open>.\<close> components disappear, two leading slashes stay.\<close>

fun split_slash :: "pystr \<Rightarrow> pystr list" where
  "split_slash [] = [[]]"
| "split_slash (c # cs) =
     (if c = 47 then [] # split_slash cs
      else case split_slash cs of [] \<Rightarrow> [[c]] | p # ps \<Rightarrow> (c # p) # ps)"

definition path_root :: "pystr \<Rightarrow> pystr" where
  "path_root s =
     (case s of a # b # c # _ \<Rightarrow> if a = 47 \<and> b = 47 \<and> c \<noteq> 47 then [47, 47] else if a = 47 then [47] else []
      | [a, b] \<Rightarrow> if a = 47 \<and> b = 47 then [47, 47] else if a = 47 then [47] else []
      | [a] \<Rightarrow> if a = 47 then [47] else [] | [] \<Rightarrow> [])"

definition path_parts :: "pystr \<Rightarrow> pystr list" where
  "path_parts s = filter (\<lambda>c. c \<noteq> [] \<and> c \<noteq> u ''.'') (split_slash s)"

definition path_str :: "pystr \<Rightarrow> pystr" where
  "path_str s =
     (let t = path_root s @ join [47] (path_parts s) in if t = [] then u ''.'' else t)"

text \<open>\<open>a / b\<close>\<close>

definition path_join :: "pystr \<Rightarrow> pystr \<Rightarrow> pystr" where
  "path_join a b = (if path_root b \<noteq> [] then path_str b else path_str (a @ [47] @ b))"

definition path_name :: "pystr \<Rightarrow> pystr" where
  "path_name p = (if path_parts p = [] then [] else last (path_parts p))"

text \<open>The index of the last dot of a name, when it is neither its first nor its last character.\<close>

definition suffix_dot :: "pystr \<Rightarrow> nat option" where
  "suffix_dot n =
     (let ix = filter (\<lambda>i. n ! i = 46) [0..<length n] in
      if ix = [] \<or> last ix = 0 \<or> last ix = length n - 1 then None else Some (last ix))"

definition path_suffix :: "pystr \<Rightarrow> pystr" where
  "path_suffix p = (case suffix_dot (path_name p) of None \<Rightarrow> [] | Some i \<Rightarrow> drop i (path_name p))"

definition path_stem :: "pystr \<Rightarrow> pystr" where
  "path_stem p = (case suffix_dot (path_name p) of None \<Rightarrow> path_name p | Some i \<Rightarrow> take i (path_name p))"

definition dtj_suffix :: pystr where "dtj_suffix = u ''.dtj''"

text \<open>What \<open>glob("*.dtj")\<close> matches.\<close>

definition glob_dtj :: "pystr \<Rightarrow> bool" where
  "glob_dtj n = (4 \<le> length n \<and> drop (length n - 4) n = dtj_suffix)"

section \<open>The store\<close>

text \<open>
  What the store uses of the system beside the host: the names in a directory, in the order the
  system lists them (none where there is no directory), and how \<open>sorted\<close> orders a set that holds
  something else than strings.
\<close>

record store_env =
  listdir :: "pystr \<Rightarrow> pystr list"
  sort_others :: "json list \<Rightarrow> py_exn + json list"

record store =
  root :: pystr
  indexes_dir :: pystr

definition open_store :: "host \<Rightarrow> pystr \<Rightarrow> store" where
  "open_store h store_dir = (let r = expanduser h store_dir in \<lparr>root = r, indexes_dir = path_join r (u ''indexes'')\<rparr>)"

definition path_exists :: "host \<Rightarrow> pystr \<Rightarrow> bool" where
  "path_exists h p = (fs h p \<noteq> Missing)"

text \<open>\<open>ensure\<close>\<close>

definition ensure_store :: "io_env \<Rightarrow> host \<Rightarrow> store \<Rightarrow> (py_exn + unit) \<times> files" where
  "ensure_store env h st =
     (case make_dirs env (ancestors h (root st) @ [root st]) (fs h) of
        (Inl e, f) \<Rightarrow> (Inl e, f)
      | (Inr _, f) \<Rightarrow> make_dirs env (ancestors h (indexes_dir st) @ [indexes_dir st]) f)"

definition is_dtj_file :: "host \<Rightarrow> pystr \<Rightarrow> bool" where
  "is_dtj_file h p = (is_file h p \<and> path_suffix p = dtj_suffix)"

definition resolve_session_path :: "host \<Rightarrow> store \<Rightarrow> pystr \<Rightarrow> pystr option" where
  "resolve_session_path h st s =
     (let candidate = expanduser h s in
      if is_dtj_file h candidate then Some candidate
      else find (is_dtj_file h)
        [path_join (root st) (s @ dtj_suffix),
         path_join (path_join (root st) (u ''sessions'')) (s @ dtj_suffix),
         path_join (root st) s])"

definition index_path_for :: "store \<Rightarrow> pystr \<Rightarrow> pystr" where
  "index_path_for st session = path_join (indexes_dir st) (path_stem session @ u ''.idx.json'')"

text \<open>The loop that skips a path whose resolved form was seen.\<close>

fun unseen :: "(pystr \<Rightarrow> pystr) \<Rightarrow> pystr set \<Rightarrow> pystr list \<Rightarrow> pystr list" where
  "unseen rs seen [] = []"
| "unseen rs seen (p # ps) =
     (if rs p \<in> seen then unseen rs seen ps else p # unseen rs (insert (rs p) seen) ps)"

definition globbed :: "store_env \<Rightarrow> pystr \<Rightarrow> pystr list" where
  "globbed se d = map (path_join d) (filter glob_dtj (listdir se d))"

definition iter_session_paths :: "store_env \<Rightarrow> host \<Rightarrow> store \<Rightarrow> pystr list" where
  "iter_session_paths se h st =
     (if \<not> is_dir (fs h (root st)) then []
      else unseen (resolve h) {} (globbed se (root st) @ globbed se (path_join (root st) (u ''sessions''))))"

section \<open>Metadata\<close>

text \<open>\<open>sorted({e[k] for e in events if isinstance(e, dict) and keep(e.get(k))})\<close>\<close>

definition names_of :: "store_env \<Rightarrow> (json \<Rightarrow> bool) \<Rightarrow> string \<Rightarrow> json list \<Rightarrow> py_exn + json list" where
  "names_of se keep key events =
     (let vs = filter keep (map (\<lambda>e. getj (dict_val e) (u key)) (filter is_dict events)) in
      if list_ex (\<lambda>v. is_list v \<or> is_dict v) vs then Inl (TypeError (u ''unhashable type''))
      else if list_all is_str vs then Inr (map JStr (sort (remdups (map str_val vs))))
      else sort_others se vs)"

definition store_error :: "pystr \<Rightarrow> string \<Rightarrow> pystr \<Rightarrow> jdict" where
  "store_error path kind message =
     [(u ''ok'', JBool False), (u ''adapter'', core_adapter), (u ''session_path'', JStr path),
      (u ''error'', JObj [(u ''kind'', JStr (u kind)), (u ''message'', JStr message)])]"

definition session_meta :: "store_env \<Rightarrow> host \<Rightarrow> pystr \<Rightarrow> jdict \<Rightarrow> py_exn + jdict" where
  "session_meta se h path decoded =
     (let header = or_else (getj decoded (u ''header'')) (JObj []) in
      bindE (iter_events decoded) (\<lambda>events.
      bindE (names_of se truthy ''domain'' events) (\<lambda>domains.
      bindE (names_of se truthy ''category'' events) (\<lambda>categories.
      bindE (names_of se truthy ''event_name'' events) (\<lambda>event_names.
      bindE (names_of se is_str ''correlation'' events) (\<lambda>correlations.
      bindE (py_int (rt h) (or_else (getj decoded (u ''event_count'')) (JInt 0))) (\<lambda>count.
      bindE (py_int (rt h) (or_else (getj decoded (u ''chunks_committed'')) (JInt 0))) (\<lambda>chunks.
      if \<not> is_dict header then Inl AttributeError
      else
        let hd = dict_val header; torn_tail = JBool (truthy (getj decoded (u ''torn_tail''))) in
        Inr [(u ''ok'', JBool True), (u ''adapter'', adapter_of decoded), (u ''session_path'', JStr path),
          (u ''torn_tail'', torn_tail),
          (u ''session'', JObj [(u ''session_id'', JStr (path_stem path)), (u ''session_path'', JStr path),
             (u ''event_count'', JInt count), (u ''chunks_committed'', JInt chunks), (u ''torn_tail'', torn_tail),
             (u ''producer_name'', getj hd (u ''producer_name'')),
             (u ''producer_version'', getj hd (u ''producer_version'')),
             (u ''session_id_hex'', getj hd (u ''session_id_hex'')),
             (u ''start_utc_unix_ms'', getj hd (u ''start_utc_unix_ms'')),
             (u ''domains'', JList domains), (u ''categories'', JList categories),
             (u ''event_names'', JList event_names), (u ''correlations'', JList correlations),
             (u ''size_bytes'', jnat (size_of_node (fs h path)))]),
          (u ''header'', header)]))))))))"

definition open_session_meta :: "store_env \<Rightarrow> host \<Rightarrow> pystr \<Rightarrow> py_exn + jdict" where
  "open_session_meta se h session_path =
     (let path = expanduser h session_path in
      if \<not> is_file h path then Inr (store_error path ''MissingSession'' (u ''session not found: '' @ path))
      else if path_suffix path \<noteq> dtj_suffix
      then Inr (store_error path ''InvalidPath'' (u ''session path must end with .dtj: '' @ path))
      else bindE (read_session_dtj h path) (\<lambda>decoded.
        if \<not> is_ok decoded then Inr decoded else session_meta se h path decoded))"

section \<open>Listing\<close>

definition store_dir_error :: "store \<Rightarrow> pystr \<Rightarrow> jdict" where
  "store_dir_error st message =
     [(u ''ok'', JBool False), (u ''adapter'', core_adapter), (u ''store_dir'', JStr (root st)),
      (u ''error'', JObj [(u ''kind'', JStr (u ''InvalidPath'')), (u ''message'', JStr message)])]"

text \<open>The loop: the sessions and the decode errors, in order; an exception ends it.\<close>

fun collect_sessions :: "store_env \<Rightarrow> host \<Rightarrow> pystr list \<Rightarrow> py_exn + (json list \<times> json list)" where
  "collect_sessions se h [] = Inr ([], [])"
| "collect_sessions se h (p # ps) =
     bindE (open_session_meta se h p) (\<lambda>meta.
     bindE (collect_sessions se h ps) (\<lambda>(ss, es).
       if is_ok meta then Inr (getj meta (u ''session'') # ss, es)
       else Inr (ss, JObj [(u ''session_path'', JStr p), (u ''error'', getj meta (u ''error''))] # es)))"

definition list_sessions :: "store_env \<Rightarrow> host \<Rightarrow> store \<Rightarrow> py_exn + jdict" where
  "list_sessions se h st =
     (if \<not> path_exists h (root st) then Inr (store_dir_error st (u ''store_dir does not exist: '' @ root st))
      else if \<not> is_dir (fs h (root st)) then Inr (store_dir_error st (u ''store_dir is not a directory: '' @ root st))
      else bindE (collect_sessions se h (sort_key path_name (iter_session_paths se h st))) (\<lambda>(sessions, errors).
        Inr [(u ''ok'', JBool True), (u ''adapter'', core_adapter), (u ''store_dir'', JStr (root st)),
          (u ''count'', jnat (length sessions)), (u ''sessions'', JList sessions), (u ''decode_errors'', JList errors)]))"

section \<open>The index of a session\<close>

definition ensure_index ::
  "io_env \<Rightarrow> host \<Rightarrow> files \<Rightarrow> store \<Rightarrow> pystr \<Rightarrow> bool \<Rightarrow> (py_exn + jdict) \<times> files" where
  "ensure_index env h later st session_path rebuild =
     (let path = expanduser h session_path in
      case ensure_store env h st of
        (Inl e, f) \<Rightarrow> (Inl e, f)
      | (Inr _, f) \<Rightarrow> index_session_dtj env (h\<lparr>fs := f\<rparr>) later path (index_path_for st path) rebuild None)"

end
