(* ===== verification/Config_Io.thy ===== *)
theory Config_Io imports Trace_Config Atomic_Publish Dtj_Store begin

text \<open>
  Reading and writing the trace configuration (\<open>config_io.py\<close>). Writing validates, writes a
  temporary file and renames it; it is the second interpretation of \<open>atomic_publish\<close>.
\<close>

section \<open>Reading\<close>

definition invalid_config :: "pystr list \<Rightarrow> py_exn" where
  "invalid_config errors = ValueError (u ''invalid DebugTraceConfig: '' @ join (u ''; '') errors)"

definition read_config :: "host \<Rightarrow> pystr \<Rightarrow> py_exn + json" where
  "read_config h path =
     (if \<not> is_file h path then Inl (FileNotFoundError (u ''config not found: '' @ path))
      else case fs h path of
        File b m \<Rightarrow>
          (case json_loads (rt h) b of
             DecodeError m \<Rightarrow> Inl (ValueError m)
           | Raises e \<Rightarrow> Inl e
           | Parsed j \<Rightarrow> (let errors = validate_config (rt h) j in if errors \<noteq> [] then Inl (invalid_config errors) else Inr j))
      | _ \<Rightarrow> Inl OsError)"

definition get_or_default :: "host \<Rightarrow> pystr \<Rightarrow> py_exn + json" where
  "get_or_default h path = (if \<not> is_file h path then Inr (JObj default_config) else read_config h path)"

section \<open>Writing\<close>

text \<open>\<open>dumps_indent\<close> is \<open>json.dumps(config, indent=2, ensure_ascii=False)\<close>; the text is encoded
  when the temporary file is written.\<close>

record config_env = io_env +
  dumps_indent :: "json \<Rightarrow> pystr"

definition config_payload :: "config_env \<Rightarrow> json \<Rightarrow> bytes option" where
  "config_payload env config = utf8_encode (dumps_indent env config @ [10])"

definition config_cleanup :: "config_env \<Rightarrow> files \<Rightarrow> files" where
  "config_cleanup env f = (if fault env Cleanup = None then f(tmp_name env := Missing) else f)"

text \<open>From \<open>mkstemp\<close> to \<open>os.replace\<close>. \<open>mkstemp\<close> fails or creates a new empty file.\<close>

definition replace_config :: "config_env \<Rightarrow> pystr \<Rightarrow> json \<Rightarrow> files \<Rightarrow> (py_exn + unit) \<times> files" where
  "replace_config env path config f =
     (if fault env OpenTmp \<noteq> None \<or> f (tmp_name env) \<noteq> Missing then (Inl OsError, f)
      else let f = f(tmp_name env := File [] (now_ns env)) in
      case config_payload env config of
        None \<Rightarrow> (Inl (ValueError (u ''surrogates not allowed'')), config_cleanup env f)
      | Some body \<Rightarrow>
          (if fault env WriteTmp \<noteq> None
           then (Inl OsError, config_cleanup env (f(tmp_name env := File (partial_write env) (now_ns env))))
           else let f = f(tmp_name env := File body (now_ns env)) in
             if fault env ReplaceIndex \<noteq> None \<or> is_dir (f path) then (Inl OsError, config_cleanup env f)
             else (Inr (), f(path := f (tmp_name env), tmp_name env := Missing))))"

definition write_config_atomic :: "config_env \<Rightarrow> host \<Rightarrow> pystr \<Rightarrow> json \<Rightarrow> (py_exn + pystr) \<times> files" where
  "write_config_atomic env h path config =
     (let errors = validate_config (rt h) config in
      if errors \<noteq> [] then (Inl (invalid_config errors), fs h)
      else case make_dirs (io_env.truncate env) (ancestors h path) (fs h) of
        (Inl e, f) \<Rightarrow> (Inl e, f)
      | (Inr _, f) \<Rightarrow>
          (case replace_config env path config f of
             (Inl e, f1) \<Rightarrow> (Inl e, f1)
           | (Inr _, f1) \<Rightarrow> (Inr (path_str path), f1)))"

section \<open>The publication contract\<close>

type_synonym config_op = "config_env \<times> pystr \<times> json"

definition run_config_op :: "config_op \<Rightarrow> files \<Rightarrow> (py_exn + unit) \<times> files" where
  "run_config_op x f = (case x of (env, path, config) \<Rightarrow> replace_config env path config f)"

definition config_target :: "config_op \<Rightarrow> pystr" where
  "config_target x = (case x of (env, path, config) \<Rightarrow> path)"

definition config_scratch :: "config_op \<Rightarrow> pystr" where
  "config_scratch x = (case x of (env, path, config) \<Rightarrow> tmp_name env)"

definition config_content :: "config_op \<Rightarrow> bytes \<Rightarrow> bool" where
  "config_content x b = (case x of (env, path, config) \<Rightarrow> config_payload env config = Some b)"

lemma config_cleanup_frame: "p \<noteq> tmp_name env \<Longrightarrow> config_cleanup env f p = f p"
  by (simp add: config_cleanup_def)

lemma replace_config_done:
  "replace_config env path config f = (Inr x, f') \<Longrightarrow>
     \<exists>b. config_payload env config = Some b \<and> f' = f(path := File b (now_ns env), tmp_name env := Missing)"
  by (cases "config_payload env config") (auto simp: replace_config_def Let_def split: if_splits)

lemma replace_config_failed:
  "replace_config env path config f = (Inl e, f') \<Longrightarrow> p \<noteq> tmp_name env \<Longrightarrow> f' p = f p"
  by (auto simp: replace_config_def Let_def config_cleanup_frame split: if_splits option.splits)

interpretation config_publish: atomic_publish run_config_op config_target config_scratch "\<lambda>r. r = Inr ()" config_content
proof unfold_locales
  fix x :: config_op and f :: files and r :: "py_exn + unit" and f' :: files
  assume "run_config_op x f = (r, f')" and "config_scratch x \<noteq> config_target x"
  then show "if r = Inr () then \<exists>b m. f' (config_target x) = File b m \<and> config_content x b
      else f' (config_target x) = f (config_target x)"
    by (cases r; cases x)
       (auto simp: run_config_op_def config_target_def config_scratch_def config_content_def
         dest: replace_config_done replace_config_failed [OF _ not_sym])
next
  fix x :: config_op and f :: files and r :: "py_exn + unit" and f' :: files and p :: pystr
  assume "run_config_op x f = (r, f')" and "p \<noteq> config_target x" and "p \<noteq> config_scratch x"
  then show "f' p = f p"
    by (cases r; cases x)
       (auto simp: run_config_op_def config_target_def config_scratch_def dest: replace_config_done replace_config_failed)
qed

section \<open>Safety of writing\<close>

lemma make_dirs_keeps:
  "make_dirs env ps f = (r, f') \<Longrightarrow> f p \<noteq> Missing \<Longrightarrow> f' p = f p"
  by (induction env ps f arbitrary: r f' rule: make_dirs.induct) (auto split: node.splits if_splits)

lemma make_dirs_file:
  "make_dirs env ps f = (r, f') \<Longrightarrow> f' p = f p \<or> f p = Missing \<and> f' p = Directory (dir_size env) (now_ns env)"
proof (induction env ps f arbitrary: r f' rule: make_dirs.induct)
  case (2 env q ps f)
  then show ?case by (cases "f q") (fastforce split: if_splits)+
qed simp

lemma make_dirs_not_parent: "make_dirs env ps f = (r, f') \<Longrightarrow> p \<notin> set ps \<Longrightarrow> f' p = f p"
  by (induction env ps f arbitrary: r f' rule: make_dirs.induct) (auto split: node.splits if_splits)

lemma write_config_result:
  assumes "write_config_atomic env h path config = (r, f')" "tmp_name env \<noteq> path" "path \<notin> set (ancestors h path)"
  shows "case r of
      Inr p \<Rightarrow> p = path_str path \<and> validate_config (rt h) config = [] \<and>
        (\<exists>b. config_payload env config = Some b \<and> f' path = File b (now_ns env))
    | Inl e \<Rightarrow> f' path = fs h path \<and> (validate_config (rt h) config \<noteq> [] \<longrightarrow> f' = fs h)"
proof (cases "validate_config (rt h) config = []")
  case False
  with assms(1) show ?thesis by (auto simp: write_config_atomic_def Let_def)
next
  case True
  obtain x f where d: "make_dirs (io_env.truncate env) (ancestors h path) (fs h) = (x, f)"
    by (cases "make_dirs (io_env.truncate env) (ancestors h path) (fs h)")
  have fp: "f path = fs h path" using make_dirs_not_parent [OF d assms(3)] .
  obtain y f1 where p: "replace_config env path config f = (y, f1)" by (cases "replace_config env path config f")
  note io = config_publish.all_or_nothing [of "(env, path, config)" f y f1]
  have io: "if y = Inr () then \<exists>b. f1 path = File b (now_ns env) \<and> config_payload env config = Some b else f1 path = f path"
    using p assms(2) io replace_config_done [of env path config f "()" f1]
    by (auto simp: run_config_op_def config_target_def config_scratch_def split: if_splits)
  show ?thesis
    using assms(1) True d p fp io by (cases x; cases y) (auto simp: write_config_atomic_def Let_def)
qed

text \<open>Writing a configuration is all or nothing. Whatever fails, either the call returns the path
  and the file holds the complete encoded configuration, which validates, or it raises and the file
  is what it was; an invalid configuration touches nothing at all.\<close>

theorem config_write_atomic:
  assumes "write_config_atomic env h path config = (r, f')" "tmp_name env \<noteq> path" "path \<notin> set (ancestors h path)"
  shows "case r of
      Inr p \<Rightarrow> p = path_str path \<and> validate_config (rt h) config = [] \<and>
        (\<exists>b. config_payload env config = Some b \<and> f' path = File b (now_ns env))
    | Inl e \<Rightarrow> f' path = fs h path \<and> (validate_config (rt h) config \<noteq> [] \<longrightarrow> f' = fs h)"
  using assms by (rule write_config_result)

text \<open>A written configuration is read back: when the JSON codec gives back what was written, the
  configuration that \<open>write_config_atomic\<close> stored is exactly what \<open>read_config\<close> and
  \<open>get_or_default\<close> then return.\<close>

theorem config_roundtrip:
  assumes "write_config_atomic env h path config = (Inr p, f')" "tmp_name env \<noteq> path" "path \<notin> set (ancestors h path)"
    "\<forall>b. config_payload env config = Some b \<longrightarrow> json_loads (rt h) b = Parsed config"
  shows "read_config (h\<lparr>fs := f'\<rparr>) path = Inr config \<and> get_or_default (h\<lparr>fs := f'\<rparr>) path = Inr config"
proof -
  from write_config_result [OF assms(1-3)] obtain b where
    "validate_config (rt h) config = []" "config_payload env config = Some b" "f' path = File b (now_ns env)" by auto
  with assms(4) show ?thesis by (simp add: get_or_default_def read_config_def is_file_def)
qed

definition config_host :: host where
  "config_host = sample_host\<lparr>rt := sample_runtime\<lparr>json_loads := (\<lambda>b. Parsed (JObj default_config))\<rparr>,
     fs := (\<lambda>p. Missing)\<rparr>"

definition sample_config_env :: config_env where
  "sample_config_env = \<lparr>fault = (\<lambda>s. None), partial_write = [], tmp_name = u ''t'', now_ns = 5, dir_size = 0,
     dumps_indent = (\<lambda>j. u ''{}'')\<rparr>"

lemma default_config_valid: "validate_config r (JObj default_config) = []"
  by (simp add: validate_config_def default_config_def Let_def PROFILES_def CONFIG_FIELDS_def str_array_def positive_int_def)

lemma config_host_simps: "rt config_host = sample_runtime\<lparr>json_loads := (\<lambda>b. Parsed (JObj default_config))\<rparr>"
  "fs config_host = (\<lambda>p. Missing)" "ancestors config_host p = []"
  by (simp_all add: config_host_def sample_host_def)

lemma path_str_c: "path_str (u ''c'') = u ''c''"
  by code_simp

lemma sample_write:
  "\<exists>f'. write_config_atomic sample_config_env config_host (u ''c'') (JObj default_config) = (Inr (u ''c''), f')"
proof -
  have "config_payload sample_config_env (JObj default_config) \<noteq> None"
    by (simp add: config_payload_def sample_config_env_def u_Cons is_scalar_def)
  then show ?thesis
    by (auto simp: write_config_atomic_def config_host_simps default_config_valid replace_config_def sample_config_env_def
        Let_def is_dir_def path_str_c)
qed

theorem config_write_atomic_witness:
  "\<exists>f' b. write_config_atomic sample_config_env config_host (u ''c'') (JObj default_config) = (Inr (u ''c''), f') \<and>
     f' (u ''c'') = File b 5"
proof -
  obtain f' where f': "write_config_atomic sample_config_env config_host (u ''c'') (JObj default_config) = (Inr (u ''c''), f')"
    using sample_write by blast
  from config_write_atomic [OF f'] have "\<exists>b. f' (u ''c'') = File b (now_ns sample_config_env)"
    by (auto simp: sample_config_env_def config_host_simps)
  with f' show ?thesis by (auto simp: sample_config_env_def)
qed

theorem config_roundtrip_witness:
  "\<exists>f'. read_config (config_host\<lparr>fs := f'\<rparr>) (u ''c'') = Inr (JObj default_config)"
proof -
  obtain f' where f': "write_config_atomic sample_config_env config_host (u ''c'') (JObj default_config) = (Inr (u ''c''), f')"
    using sample_write by blast
  from config_roundtrip [OF f'] show ?thesis by (auto simp: sample_config_env_def config_host_simps)
qed

end
