(* ===== verification/Dtj_Store_Props.thy ===== *)
theory Dtj_Store_Props imports Dtj_Store Dtj_Query_Props begin

text \<open>
  What the session store promises: metadata that names exactly what the session holds, and a
  listing that visits every session file once and never raises on the native reader.
\<close>

section \<open>Names\<close>

definition field_strings :: "string \<Rightarrow> json list \<Rightarrow> pystr set" where
  "field_strings key events = {s. JStr s \<in> (\<lambda>e. getj (dict_val e) (u key)) ` set events}"

lemma str_not_container: "is_str v \<Longrightarrow> \<not> is_list v \<and> \<not> is_dict v"
  by (cases v) auto

lemma names_of_strings:
  assumes "\<forall>e \<in> set events. is_dict e" "\<forall>e \<in> set events. keep (getj (dict_val e) (u key)) \<longrightarrow> is_str (getj (dict_val e) (u key))"
  shows "\<exists>ds. names_of se keep key events = Inr (map JStr ds) \<and> sorted ds \<and> distinct ds \<and>
    set ds = {s \<in> field_strings key events. keep (JStr s)}"
proof -
  define vs where "vs = filter keep (map (\<lambda>e. getj (dict_val e) (u key)) (filter is_dict events))"
  have "filter is_dict events = events" using assms(1) by simp
  then have vs: "set vs = {v \<in> (\<lambda>e. getj (dict_val e) (u key)) ` set events. keep v}" by (auto simp: vs_def)
  then have s: "\<forall>v \<in> set vs. is_str v" using assms(2) by auto
  from s have n: "\<not> list_ex (\<lambda>v. is_list v \<or> is_dict v) vs" using str_not_container unfolding list_ex_iff by blast
  have val: "s \<in> str_val ` set vs \<longleftrightarrow> s \<in> field_strings key events \<and> keep (JStr s)" for s
  proof
    assume "s \<in> str_val ` set vs"
    then obtain v where v: "v \<in> set vs" "s = str_val v" by blast
    with s have "v = JStr s" by (cases v) auto
    with v(1) vs show "s \<in> field_strings key events \<and> keep (JStr s)" by (auto simp: field_strings_def)
  next
    assume "s \<in> field_strings key events \<and> keep (JStr s)"
    then have "JStr s \<in> set vs" by (simp add: vs field_strings_def)
    then show "s \<in> str_val ` set vs" by (metis image_eqI str_val.simps(1))
  qed
  have "names_of se keep key events = Inr (map JStr (sort (remdups (map str_val vs))))"
    using s n unfolding names_of_def vs_def [symmetric] Let_def by (simp add: list_all_iff)
  moreover have "set (sort (remdups (map str_val vs))) = {s \<in> field_strings key events. keep (JStr s)}"
    using val by auto
  ultimately show ?thesis by (intro exI [of _ "sort (remdups (map str_val vs))"]) simp
qed

section \<open>Metadata of a loaded session\<close>

lemma wf_event_at: "wf_events evs \<Longrightarrow> e \<in> set evs \<Longrightarrow> \<exists>n. event_obj n e"
  by (auto simp: wf_events_def in_set_conv_nth)

lemma event_obj_fields:
  "event_obj n e \<Longrightarrow> is_dict e \<and> is_str (getj (dict_val e) (u ''domain'')) \<and> is_str (getj (dict_val e) (u ''category'')) \<and>
     is_str (getj (dict_val e) (u ''event_name''))"
  by (auto simp: event_obj_def)

definition meta_session :: "host \<Rightarrow> pystr \<Rightarrow> jdict \<Rightarrow> json list \<Rightarrow> jdict \<Rightarrow> bool" where
  "meta_session h path d evs s =
     (getj s (u ''session_id'') = JStr (path_stem path) \<and> getj s (u ''session_path'') = JStr path \<and>
      getj s (u ''event_count'') = jnat (length evs) \<and>
      getj s (u ''torn_tail'') = JBool (truthy (getj d (u ''torn_tail''))) \<and>
      getj s (u ''size_bytes'') = jnat (size_of_node (fs h path)) \<and>
      (\<forall>(field, key) \<in> {(''domains'', ''domain''), (''categories'', ''category''), (''event_names'', ''event_name'')}.
         \<exists>ds. getj s (u field) = JList (map JStr ds) \<and> sorted ds \<and> distinct ds \<and> set ds = field_strings key evs - {[]}) \<and>
      (\<exists>ds. getj s (u ''correlations'') = JList (map JStr ds) \<and> sorted ds \<and> distinct ds \<and>
         set ds = field_strings ''correlation'' evs))"

lemma session_meta_wf:
  assumes "wf_projection d" "getj d (u ''events'') = JList evs"
  shows "\<exists>m s. session_meta se h path d = Inr m \<and> is_ok m \<and> getj m (u ''session'') = JObj s \<and> meta_session h path d evs s"
proof -
  from assms have w: "wf_events evs" "getj d (u ''event_count'') = jnat (length evs)"
    "is_strict_int (getj d (u ''chunks_committed''))" "is_dict (getj d (u ''header''))" by (auto simp: wf_projection_def)
  have f: "\<forall>e \<in> set evs. is_dict e" "\<forall>e \<in> set evs. is_str (getj (dict_val e) (u ''domain''))"
    "\<forall>e \<in> set evs. is_str (getj (dict_val e) (u ''category''))" "\<forall>e \<in> set evs. is_str (getj (dict_val e) (u ''event_name''))"
    using wf_event_at [OF w(1)] event_obj_fields by blast+
  have ne: "{s \<in> field_strings key evs. truthy (JStr s)} = field_strings key evs - {[]}" for key by auto
  obtain ds1 where 1: "names_of se truthy ''domain'' evs = Inr (map JStr ds1)" "sorted ds1" "distinct ds1"
    "set ds1 = field_strings ''domain'' evs - {[]}"
    using names_of_strings [of evs truthy "''domain''" se] f unfolding ne by blast
  obtain ds2 where 2: "names_of se truthy ''category'' evs = Inr (map JStr ds2)" "sorted ds2" "distinct ds2"
    "set ds2 = field_strings ''category'' evs - {[]}"
    using names_of_strings [of evs truthy "''category''" se] f unfolding ne by blast
  obtain ds3 where 3: "names_of se truthy ''event_name'' evs = Inr (map JStr ds3)" "sorted ds3" "distinct ds3"
    "set ds3 = field_strings ''event_name'' evs - {[]}"
    using names_of_strings [of evs truthy "''event_name''" se] f unfolding ne by blast
  obtain ds4 where 4: "names_of se is_str ''correlation'' evs = Inr (map JStr ds4)" "sorted ds4" "distinct ds4"
    "set ds4 = field_strings ''correlation'' evs"
    using names_of_strings [of evs is_str "''correlation''" se] f by auto
  have it: "iter_events d = Inr evs" by (simp add: iter_events_def assms(2) or_else_def)
  have n: "py_int (rt h) (or_else (jnat (length evs)) (JInt 0)) = Inr (int (length evs))" by (simp add: or_else_def)
  from is_strict_intE [OF w(3)] obtain c where "getj d (u ''chunks_committed'') = JInt c" by blast
  then have c: "py_int (rt h) (or_else (getj d (u ''chunks_committed'')) (JInt 0)) = Inr c" by (simp add: or_else_def)
  have hd: "is_dict (or_else (getj d (u ''header'')) (JObj []))" using w(4) by (auto simp: or_else_def)
  show ?thesis
    using 1 2 3 4 hd
    by (simp add: session_meta_def it w(2) n c is_ok_def meta_session_def Let_def) blast
qed

text \<open>The metadata of a session name exactly what it holds. For every session the native reader
  loads, the listed domains, categories, event names and correlations are the names its events
  carry, each once and in order, and the counts, the tail flag and the size are those of the file.\<close>

theorem session_meta_exact:
  assumes "open_session_meta se (native h) p = Inr m" "is_ok m"
  shows "\<exists>d evs s. read_session_dtj (native h) (expanduser h p) = Inr d \<and> getj d (u ''events'') = JList evs \<and>
    getj m (u ''session'') = JObj s \<and> meta_session h (expanduser h p) d evs s"
proof -
  let ?path = "expanduser h p"
  have no: "\<not> is_ok (store_error q k t)" for q k t by (simp add: is_ok_def store_error_def)
  from assms obtain d where d: "read_session_dtj (native h) ?path = Inr d" "is_ok d" "session_meta se (native h) ?path d = Inr m"
    by (auto simp: open_session_meta_def Let_def no bindE_Inr_iff split: if_splits)
  from native_source.load_wf [OF d(1,2)] have wf: "wf_projection d" .
  then obtain evs where evs: "getj d (u ''events'') = JList evs" by (auto simp: wf_projection_def)
  from session_meta_wf [OF wf evs, of se "native h" ?path] d(3) show ?thesis
    using d(1) evs by (auto simp: meta_session_def)
qed

section \<open>Listing\<close>

text \<open>A path loads, is refused with a structured error, but never raises.\<close>

lemma read_file_total: "is_file h (expanduser h p) \<Longrightarrow> \<exists>d. read_session_dtj (native h) p = Inr d"
  by (auto simp: read_session_dtj_def read_session_def Let_def split: sum.splits)

lemma open_session_meta_total:
  assumes "\<forall>p. expanduser h (expanduser h p) = expanduser h p"
  shows "\<exists>m. open_session_meta se (native h) p = Inr m \<and> (is_ok m \<longrightarrow> is_dtj_file h (expanduser h p))"
proof (cases "is_dtj_file h (expanduser h p)")
  case True
  then have f: "is_file h (expanduser h (expanduser h p))" "path_suffix (expanduser h p) = dtj_suffix"
    using assms by (simp_all add: is_dtj_file_def)
  then obtain d where d: "read_session_dtj (native h) (expanduser h p) = Inr d" using read_file_total by blast
  show ?thesis
  proof (cases "is_ok d")
    case ok: True
    from native_source.load_wf [OF d ok] have wf: "wf_projection d" .
    then obtain evs where evs: "getj d (u ''events'') = JList evs" by (auto simp: wf_projection_def)
    from session_meta_wf [OF wf evs, of se "native h" "expanduser h p"] show ?thesis
      using True f d ok assms by (auto simp: open_session_meta_def Let_def)
  next
    case False
    with True f d assms show ?thesis by (auto simp: open_session_meta_def Let_def)
  qed
next
  case False
  then show ?thesis
    by (auto simp: open_session_meta_def Let_def is_dtj_file_def is_ok_def store_error_def)
qed

lemma collect_sessions_total:
  assumes "\<forall>p. expanduser h (expanduser h p) = expanduser h p"
  shows "\<exists>ss es. collect_sessions se (native h) ps = Inr (ss, es) \<and> length ss + length es = length ps"
proof (induction ps)
  case (Cons p ps)
  then show ?case using open_session_meta_total [OF assms, of se p] by (auto split: if_splits)
qed simp

lemma unseen_resolve:
  "rs ` set (unseen rs seen ps) = rs ` set ps - seen \<and> distinct (map rs (unseen rs seen ps)) \<and> set (unseen rs seen ps) \<subseteq> set ps"
  by (induction rs seen ps rule: unseen.induct) auto

text \<open>The listing visits every session file once and never raises. With the native reader, listing
  a store directory that exists returns one entry, a session or a decode error, for each distinct
  file behind the \<open>.dtj\<close> names of the directory and of its \<open>sessions\<close> subdirectory: no file is
  listed twice and none is left out.\<close>

theorem list_sessions_accounts:
  assumes "\<forall>p. expanduser h (expanduser h p) = expanduser h p" "is_dir (fs h (root st))"
  shows "\<exists>r ss es. list_sessions se (native h) st = Inr r \<and> is_ok r \<and> getj r (u ''sessions'') = JList ss \<and>
    getj r (u ''decode_errors'') = JList es \<and> getj r (u ''count'') = jnat (length ss) \<and>
    length ss + length es =
      card (resolve h ` set (globbed se (root st) @ globbed se (path_join (root st) (u ''sessions''))))"
proof -
  let ?all = "globbed se (root st) @ globbed se (path_join (root st) (u ''sessions''))"
  let ?ps = "iter_session_paths se (native h) st"
  have ps: "?ps = unseen (resolve h) {} ?all" using assms(2) by (simp add: iter_session_paths_def)
  have "length ?ps = card (set (map (resolve h) ?ps))"
    using unseen_resolve [of "resolve h" "{}" ?all] unfolding ps by (simp only: distinct_card length_map)
  also have "\<dots> = card (resolve h ` set ?all)"
    using unseen_resolve [of "resolve h" "{}" ?all] unfolding ps by simp
  finally have len: "length ?ps = card (resolve h ` set ?all)" .
  obtain ss es where c: "collect_sessions se (native h) (sort_key path_name ?ps) = Inr (ss, es)" "length ss + length es = length ?ps"
    using collect_sessions_total [OF assms(1), of se "sort_key path_name ?ps"] by auto
  have "path_exists (native h) (root st)" using assms(2) by (auto simp: path_exists_def is_dir_def split: node.splits)
  with assms(2) c len show ?thesis by (simp add: list_sessions_def is_ok_def)
qed

section \<open>A sample store\<close>

definition sample_store :: store where
  "sample_store = \<lparr>root = u ''r'', indexes_dir = u ''r/indexes''\<rparr>"

definition sample_store_env :: store_env where
  "sample_store_env = \<lparr>listdir = (\<lambda>d. []), sort_others = (\<lambda>vs. Inr vs)\<rparr>"

definition store_host :: host where
  "store_host = sample_host\<lparr>fs := (\<lambda>p. if p = sample_path then File sample_bytes 7 else Directory 0 0)\<rparr>"

theorem list_sessions_accounts_witness:
  "\<exists>r. list_sessions sample_store_env (native store_host) sample_store = Inr r \<and> getj r (u ''count'') = JInt 0"
proof -
  have "\<forall>p. expanduser store_host (expanduser store_host p) = expanduser store_host p" "is_dir (fs store_host (root sample_store))"
    by (simp_all add: store_host_def sample_host_def sample_store_def is_dir_def sample_path_def)
  from list_sessions_accounts [OF this, of sample_store_env] show ?thesis by (auto simp: globbed_def sample_store_env_def)
qed

lemma sample_suffix: "path_suffix sample_path = dtj_suffix"
  by (simp add: path_suffix_def path_name_def path_parts_def sample_path_def dtj_suffix_def u_Cons suffix_dot_def
      upt_rec numeral_eq_Suc Let_def)

theorem session_meta_exact_witness:
  "\<exists>m s. open_session_meta sample_store_env (native sample_host) sample_path = Inr m \<and> getj m (u ''session'') = JObj s"
proof -
  have e: "expanduser sample_host = id" by (simp add: sample_host_def)
  have f: "is_file sample_host sample_path" by (simp add: is_file_def sample_host_def)
  have wf: "wf_projection sample_projection" using native_source.load_wf [OF sample_load sample_ok] .
  then obtain evs where evs: "getj sample_projection (u ''events'') = JList evs" by (auto simp: wf_projection_def)
  from session_meta_wf [OF wf evs, of sample_store_env "native sample_host" sample_path] obtain m where
    m: "session_meta sample_store_env (native sample_host) sample_path sample_projection = Inr m" "is_ok m" by blast
  then have o: "open_session_meta sample_store_env (native sample_host) sample_path = Inr m"
    using e f sample_suffix sample_load sample_ok by (simp add: open_session_meta_def Let_def)
  from session_meta_exact [OF o m(2)] o show ?thesis by blast
qed

end
