(* ===== verification/Dtg_Schema.thy ===== *)
theory Dtg_Schema imports Dtj_Read Dtj_Search "HOL-Library.List_Lexorder" begin

text \<open>
  The event schema registry (\<open>dtg_schema.py\<close>): loading a registry from a local file against a pinned
  digest, parsing its declarations, and validating event candidates. \<open>hashlib\<close>'s digest is a
  parameter.
\<close>

section \<open>Errors\<close>

text \<open>A \<open>DtgSchemaError\<close> with its code and message, or another exception that escapes.\<close>

datatype dtg_error = DtgSchemaError pystr pystr | Escaped py_exn

abbreviation (input) dtg_fail :: "string \<Rightarrow> string \<Rightarrow> dtg_error + 'a" where
  "dtg_fail code message \<equiv> Inl (DtgSchemaError (u code) (u message))"

abbreviation (input) bad_declaration :: "string \<Rightarrow> dtg_error + 'a" where
  "bad_declaration message \<equiv> dtg_fail ''InvalidSchemaDeclaration'' message"

section \<open>Declarations\<close>

record field_decl =
  fd_name :: pystr
  fd_value_type :: pystr
  fd_required :: bool
  fd_sensitivity :: pystr
  fd_unit :: "pystr option"
  fd_dimension :: "pystr option"
  fd_semantic_role :: "pystr option"
  fd_metric_eligible :: bool
  fd_graph_role :: pystr
  fd_redaction_action :: pystr

record event_schema =
  sc_schema_id :: pystr
  sc_schema_version :: int
  sc_producer_profile_id :: pystr
  sc_compatibility_policy :: pystr
  sc_domain :: pystr
  sc_category :: pystr
  sc_event_name :: pystr
  sc_fields :: "field_decl list"

record registry =
  rg_path :: pystr
  rg_digest :: pystr
  rg_version :: int
  rg_schemas :: "event_schema list"

definition DTJ_VALUE_TYPES :: "pystr list" where
  "DTJ_VALUE_TYPES = [u ''Bool'', u ''I32'', u ''I64'', u ''U32'', u ''U64'', u ''F32'', u ''F64'', u ''Enum'',
     u ''Vec2F32'', u ''Vec3F32'', u ''InternedString'', u ''Bytes'']"

definition SENSITIVITIES :: "pystr list" where
  "SENSITIVITIES = [u ''public'', u ''internal'', u ''sensitive'', u ''secret_forbidden'']"

definition REDACTION_ACTIONS :: "pystr list" where
  "REDACTION_ACTIONS = [u ''allow'', u ''drop_field'', u ''reject'']"

definition GRAPH_ROLES :: "pystr list" where
  "GRAPH_ROLES = [u ''none'', u ''event_reference'', u ''span_reference'']"

definition POLICIES :: "pystr list" where
  "POLICIES = [u ''strict'', u ''relaxed'']"

definition REFERENCE_ROLES :: "pystr list" where
  "REFERENCE_ROLES = [u ''event_reference'', u ''span_reference'']"

definition default_redaction_action :: "pystr \<Rightarrow> pystr" where
  "default_redaction_action s =
     (if s = u ''secret_forbidden'' then u ''reject'' else if s = u ''sensitive'' then u ''drop_field'' else u ''allow'')"

section \<open>Parsing\<close>

text \<open>\<open>entry[key]\<close> inside a \<open>try\<close> that turns \<open>KeyError\<close>, \<open>TypeError\<close> and \<open>ValueError\<close> into a
  \<open>DtgSchemaError\<close>; \<open>int\<close> of an infinite float raises \<open>OverflowError\<close>, which it does not catch.\<close>

definition required_key :: "string \<Rightarrow> jdict \<Rightarrow> string \<Rightarrow> dtg_error + json" where
  "required_key message d key = (case map_of d (u key) of None \<Rightarrow> bad_declaration message | Some v \<Rightarrow> Inr v)"

definition required_int :: "runtime \<Rightarrow> string \<Rightarrow> json \<Rightarrow> dtg_error + int" where
  "required_int r message v =
     (case py_int r v of
        Inr i \<Rightarrow> Inr i
      | Inl OverflowError \<Rightarrow> Inl (Escaped OverflowError)
      | Inl e \<Rightarrow> bad_declaration message)"

definition optional_str :: "runtime \<Rightarrow> jdict \<Rightarrow> string \<Rightarrow> pystr option" where
  "optional_str r d key = (if getj d (u key) = JNull then None else Some (py_str r (getj d (u key))))"

definition parse_field :: "runtime \<Rightarrow> json \<Rightarrow> dtg_error + field_decl" where
  "parse_field r raw =
     (if \<not> is_dict raw then bad_declaration ''field must be an object''
      else let d = dict_val raw; missing = ''field missing required keys'' in
      bindE (required_key missing d ''name'') (\<lambda>name.
      bindE (required_key missing d ''value_type'') (\<lambda>value_type.
      bindE (required_key missing d ''required'') (\<lambda>required.
      bindE (required_key missing d ''sensitivity'') (\<lambda>sensitivity.
      let value_type = py_str r value_type; required = truthy required; sensitivity = py_str r sensitivity in
      if value_type \<notin> set DTJ_VALUE_TYPES then bad_declaration ''unknown DTJ value_type''
      else if sensitivity \<notin> set SENSITIVITIES then bad_declaration ''invalid sensitivity''
      else
        let metric_eligible = truthy (getj d (u ''metric_eligible''));
            semantic_role = optional_str r d ''semantic_role'';
            graph_role = py_str r (getd d (u ''graph_role'') (JStr (u ''none''))) in
        if graph_role \<notin> set GRAPH_ROLES then bad_declaration ''invalid graph_role''
        else if metric_eligible \<and> semantic_role \<noteq> Some (u ''metric'')
        then bad_declaration ''metric_eligible requires semantic_role=metric''
        else if graph_role \<in> set REFERENCE_ROLES \<and> semantic_role \<noteq> None \<and> semantic_role \<noteq> Some graph_role
        then bad_declaration ''graph_role reference requires matching semantic_role''
        else
          let semantic_role = (if graph_role \<in> set REFERENCE_ROLES then Some graph_role else semantic_role);
              action = (case optional_str r d ''redaction_action'' of None \<Rightarrow> default_redaction_action sensitivity | Some a \<Rightarrow> a) in
          if action \<notin> set REDACTION_ACTIONS then bad_declaration ''invalid redaction_action''
          else if action = u ''drop_field'' \<and> required
          then bad_declaration ''required field cannot use redaction_action=drop_field''
          else if sensitivity = u ''secret_forbidden'' \<and> action \<noteq> u ''reject''
          then bad_declaration ''secret_forbidden requires redaction_action=reject''
          else Inr \<lparr>fd_name = py_str r name, fd_value_type = value_type, fd_required = required,
                 fd_sensitivity = sensitivity, fd_unit = optional_str r d ''unit'', fd_dimension = optional_str r d ''dimension'',
                 fd_semantic_role = semantic_role, fd_metric_eligible = metric_eligible, fd_graph_role = graph_role,
                 fd_redaction_action = action\<rparr>)))))"

text \<open>A loop that parses each element and rejects a second one with the same key.\<close>

fun parse_distinct :: "('a \<Rightarrow> dtg_error + 'b) \<Rightarrow> ('b \<Rightarrow> 'k) \<Rightarrow> string \<Rightarrow> 'k set \<Rightarrow> 'a list \<Rightarrow> dtg_error + 'b list" where
  "parse_distinct parse key message seen [] = Inr []"
| "parse_distinct parse key message seen (x # xs) =
     bindE (parse x) (\<lambda>y.
       if key y \<in> seen then bad_declaration message
       else bindE (parse_distinct parse key message (insert (key y) seen) xs) (\<lambda>ys. Inr (y # ys)))"

definition parse_event_schema :: "runtime \<Rightarrow> json \<Rightarrow> dtg_error + event_schema" where
  "parse_event_schema r entry =
     (if \<not> is_dict entry then bad_declaration ''schema entry must be an object''
      else let d = dict_val entry; missing = ''schema entry missing required keys'' in
      bindE (required_key missing d ''schema_id'') (\<lambda>schema_id.
      bindE (required_key missing d ''schema_version'') (\<lambda>v.
      bindE (required_int r missing v) (\<lambda>schema_version.
      bindE (required_key missing d ''producer_profile_id'') (\<lambda>producer.
      bindE (required_key missing d ''compatibility_policy'') (\<lambda>policy.
      bindE (required_key missing d ''domain'') (\<lambda>domain.
      bindE (required_key missing d ''category'') (\<lambda>category.
      bindE (required_key missing d ''event_name'') (\<lambda>event_name.
      bindE (required_key missing d ''fields'') (\<lambda>fields_raw.
      if py_str r policy \<notin> set POLICIES then bad_declaration ''compatibility_policy must be strict or relaxed''
      else if schema_version < 1 then bad_declaration ''schema_version must be >= 1''
      else if \<not> is_list fields_raw then bad_declaration ''fields must be an array''
      else bindE (parse_distinct (parse_field r) fd_name ''duplicate field name in schema'' {} (list_val fields_raw)) (\<lambda>fields.
        Inr \<lparr>sc_schema_id = py_str r schema_id, sc_schema_version = schema_version,
          sc_producer_profile_id = py_str r producer, sc_compatibility_policy = py_str r policy,
          sc_domain = py_str r domain, sc_category = py_str r category, sc_event_name = py_str r event_name,
          sc_fields = fields\<rparr>)))))))))))"

definition schema_key :: "event_schema \<Rightarrow> pystr \<times> pystr \<times> pystr \<times> pystr \<times> int" where
  "schema_key s = (sc_producer_profile_id s, sc_domain s, sc_category s, sc_event_name s, sc_schema_version s)"

definition parse_registry_document :: "runtime \<Rightarrow> json \<Rightarrow> dtg_error + event_schema list" where
  "parse_registry_document r data =
     (if \<not> is_dict data then dtg_fail ''InvalidRegistry'' ''registry root must be an object''
      else if \<not> num_eq (getj (dict_val data) (u ''registry_version'')) 1
      then dtg_fail ''UnsupportedRegistryVersion'' ''registry_version must be 1''
      else let raw = getj (dict_val data) (u ''schemas'') in
        if \<not> is_list raw \<or> list_val raw = [] then dtg_fail ''InvalidRegistry'' ''schemas must be a non-empty array''
        else parse_distinct (parse_event_schema r) schema_key ''duplicate schema identity in registry'' {} (list_val raw))"

section \<open>Loading\<close>

abbreviation (input) "DEFAULT_MAX_REGISTRY_BYTES \<equiv> 1048576 :: int"

text \<open>
  The file is read twice: once for the digest, in the file system \<open>fs h\<close>, and again to be parsed;
  \<open>later\<close> is the node of the path at the second reading, which others may have replaced meanwhile.
\<close>

definition load_registry ::
  "(bytes \<Rightarrow> pystr) \<Rightarrow> host \<Rightarrow> node \<Rightarrow> pystr \<Rightarrow> pystr option \<Rightarrow> int \<Rightarrow> dtg_error + registry" where
  "load_registry sha256_hex h later path expected_digest max_bytes =
     (if \<not> is_file h path then dtg_fail ''RegistryMissing'' ''registry artifact not found''
      else if max_bytes < int (size_of_node (fs h path))
      then Inl (DtgSchemaError (u ''RegistryTooLarge'') (u ''registry exceeds max_bytes cap ('' @ str_int max_bytes @ u '')''))
      else case read_bytes h path of
        Inl e \<Rightarrow> Inl (Escaped OsError)
      | Inr content \<Rightarrow>
          (let digest = sha256_hex content in
           if (case expected_digest of None \<Rightarrow> False | Some e \<Rightarrow> digest \<noteq> lower (rt h) (strip e))
           then dtg_fail ''DigestMismatch'' ''registry digest mismatch''
           else case later of
             File raw m \<Rightarrow>
               (case json_loads (rt h) raw of
                  DecodeError m \<Rightarrow> dtg_fail ''CorruptRegistry'' ''registry is not valid JSON''
                | Raises e \<Rightarrow> Inl (Escaped e)
                | Parsed data \<Rightarrow> bindE (parse_registry_document (rt h) data) (\<lambda>schemas.
                    Inr \<lparr>rg_path = resolve h path, rg_digest = digest, rg_version = 1, rg_schemas = schemas\<rparr>))
           | _ \<Rightarrow> dtg_fail ''CorruptRegistry'' ''registry is not valid JSON''))"

definition resolve_schema :: "registry \<Rightarrow> pystr \<Rightarrow> pystr \<Rightarrow> pystr \<Rightarrow> pystr \<Rightarrow> int \<Rightarrow> event_schema option" where
  "resolve_schema reg producer domain category event_name version =
     find (\<lambda>s. schema_key s = (producer, domain, category, event_name, version)) (rg_schemas reg)"

section \<open>Candidates\<close>

text \<open>A value of a normalised payload: what JSON can hold (a tuple counts as a list), or \<open>bytes\<close>.\<close>

datatype cand_value = CVal json | CBytes bytes

fun number_list :: "nat \<Rightarrow> json \<Rightarrow> bool" where
  "number_list n (JList xs) = (length xs = n \<and> list_all (\<lambda>x. (is_int x \<or> is_float x) \<and> \<not> is_bool x) xs)"
| "number_list n _ = False"

definition value_matches_type :: "pystr \<Rightarrow> cand_value \<Rightarrow> bool" where
  "value_matches_type t v =
     (let j = (case v of CVal j \<Rightarrow> j | CBytes b \<Rightarrow> JNull) in
      if t = u ''Bool'' then is_bool j
      else if t = u ''I32'' \<or> t = u ''I64'' then is_strict_int j
      else if t = u ''U32'' \<or> t = u ''U64'' \<or> t = u ''Enum'' then is_strict_int j \<and> 0 \<le> int_val j
      else if t = u ''F32'' \<or> t = u ''F64'' then (is_int j \<or> is_float j) \<and> \<not> is_bool j
      else if t = u ''InternedString'' then is_str j \<or> is_strict_int j \<and> 1 \<le> int_val j
      else if t = u ''Bytes'' then (case v of CBytes b \<Rightarrow> True | _ \<Rightarrow> False) \<or> is_str j \<and> is_prefix (u ''0x'') (str_val j)
      else if t = u ''Vec2F32'' then number_list 2 j
      else if t = u ''Vec3F32'' then number_list 3 j
      else False)"

record validation =
  vr_accepted :: bool
  vr_error_code :: "pystr option"
  vr_error_message :: "pystr option"
  vr_schema_id :: "pystr option"
  vr_schema_version :: "int option"
  vr_producer_profile_id :: "pystr option"
  vr_compatibility_policy :: "pystr option"
  vr_registry_digest :: "pystr option"
  vr_metric_fields :: "pystr list"
  vr_graph_fields :: "pystr list"
  vr_opaque_fields :: "pystr list"
  vr_dropped_fields :: "pystr list"

text \<open>\<open>field_map\<close>: a dict comprehension, in which a later field of the same name replaces an earlier one.\<close>

definition field_map :: "event_schema \<Rightarrow> (pystr \<times> field_decl) list" where
  "field_map s = foldl (\<lambda>m f. AList.update (fd_name f) f m) [] (sc_fields s)"

definition rejected :: "registry \<Rightarrow> event_schema \<Rightarrow> string \<Rightarrow> pystr \<Rightarrow> validation" where
  "rejected reg s code message =
     \<lparr>vr_accepted = False, vr_error_code = Some (u code), vr_error_message = Some message,
      vr_schema_id = Some (sc_schema_id s), vr_schema_version = Some (sc_schema_version s),
      vr_producer_profile_id = Some (sc_producer_profile_id s),
      vr_compatibility_policy = Some (sc_compatibility_policy s), vr_registry_digest = Some (rg_digest reg),
      vr_metric_fields = [], vr_graph_fields = [], vr_opaque_fields = [], vr_dropped_fields = []\<rparr>"

definition unknown_event :: "registry \<Rightarrow> validation" where
  "unknown_event reg =
     \<lparr>vr_accepted = False, vr_error_code = Some (u ''UnknownEvent''),
      vr_error_message = Some (u ''no schema for producer_profile_id/domain/category/event_name/schema_version''),
      vr_schema_id = None, vr_schema_version = None, vr_producer_profile_id = None, vr_compatibility_policy = None,
      vr_registry_digest = Some (rg_digest reg),
      vr_metric_fields = [], vr_graph_fields = [], vr_opaque_fields = [], vr_dropped_fields = []\<rparr>"

type_synonym payload_map = "(pystr \<times> cand_value) list"

text \<open>The loop over the payload: \<open>Inl\<close> is the code and the message of a refusal, \<open>Inr\<close> the opaque, dropped
  and kept names.\<close>

fun sort_fields ::
  "runtime \<Rightarrow> pystr \<Rightarrow> (pystr \<times> field_decl) list \<Rightarrow> payload_map \<Rightarrow> (string \<times> pystr) + (pystr list \<times> pystr list \<times> pystr list)" where
  "sort_fields r policy decls [] = Inr ([], [], [])"
| "sort_fields r policy decls ((name, v) # p) =
     (case map_of decls name of
        None \<Rightarrow>
          (if policy = u ''strict''
           then Inl (''UnknownField'', u ''unknown field '' @ str_repr r name @ u '' under strict policy'')
           else bindE (sort_fields r policy decls p) (\<lambda>(opaque, dropped, kept). Inr (name # opaque, dropped, name # kept)))
      | Some decl \<Rightarrow>
          (if \<not> value_matches_type (fd_value_type decl) v
           then Inl (''TypeMismatch'', u ''field '' @ str_repr r name @ u '' type mismatch for '' @ fd_value_type decl)
           else bindE (sort_fields r policy decls p) (\<lambda>(opaque, dropped, kept).
             if fd_redaction_action decl = u ''drop_field'' then Inr (opaque, name # dropped, kept)
             else Inr (opaque, dropped, name # kept))))"

definition validate_candidate ::
  "runtime \<Rightarrow> registry \<Rightarrow> pystr \<Rightarrow> pystr \<Rightarrow> pystr \<Rightarrow> pystr \<Rightarrow> int \<Rightarrow> payload_map option \<Rightarrow> validation" where
  "validate_candidate r reg producer domain category event_name version p =
     (case resolve_schema reg producer domain category event_name version of
        None \<Rightarrow> unknown_event reg
      | Some s \<Rightarrow>
          let decls = field_map s; present = (case p of None \<Rightarrow> [] | Some q \<Rightarrow> q); names = map fst present in
          case find (\<lambda>(name, d). fd_sensitivity d = u ''secret_forbidden'' \<and> name \<in> set names) decls of
            Some (name, d) \<Rightarrow> rejected reg s ''SecretForbidden'' (u ''field '' @ str_repr r name @ u '' is secret_forbidden'')
          | None \<Rightarrow>
          (case find (\<lambda>(name, d). fd_redaction_action d = u ''reject'' \<and> name \<in> set names) decls of
            Some (name, d) \<Rightarrow> rejected reg s ''FieldRejected'' (u ''field '' @ str_repr r name @ u '' rejected by redaction_action'')
          | None \<Rightarrow>
          (case find (\<lambda>(name, d). fd_required d \<and> name \<notin> set names) decls of
            Some (name, d) \<Rightarrow> rejected reg s ''RequiredFieldMissing'' (u ''required field '' @ str_repr r name @ u '' is missing'')
          | None \<Rightarrow>
          (case sort_fields r (sc_compatibility_policy s) decls present of
            Inl (code, message) \<Rightarrow> rejected reg s code message
          | Inr (opaque, dropped, kept) \<Rightarrow>
              \<lparr>vr_accepted = True, vr_error_code = None, vr_error_message = None,
               vr_schema_id = Some (sc_schema_id s), vr_schema_version = Some (sc_schema_version s),
               vr_producer_profile_id = Some (sc_producer_profile_id s),
               vr_compatibility_policy = Some (sc_compatibility_policy s), vr_registry_digest = Some (rg_digest reg),
               vr_metric_fields = sort (map fd_name (filter (\<lambda>f. fd_metric_eligible f \<and>
                  fd_semantic_role f = Some (u ''metric'') \<and> fd_name f \<in> set kept) (sc_fields s))),
               vr_graph_fields = sort (map fd_name (filter (\<lambda>f. fd_graph_role f \<in> set REFERENCE_ROLES \<and>
                  fd_name f \<in> set kept) (sc_fields s))),
               vr_opaque_fields = sort opaque, vr_dropped_fields = sort dropped\<rparr>))))"

end
