(* ===== verification/Dtg_Schema_Props.thy ===== *)
theory Dtg_Schema_Props imports Dtg_Schema begin

text \<open>
  What the schema registry promises: a loaded registry is well formed, a candidate is accepted
  exactly when it satisfies its schema, and no forbidden, rejected or dropped field ever reaches the
  approved lists.
\<close>

section \<open>Well-formed registries\<close>

definition wf_field :: "field_decl \<Rightarrow> bool" where
  "wf_field f =
     (fd_value_type f \<in> set DTJ_VALUE_TYPES \<and> fd_sensitivity f \<in> set SENSITIVITIES \<and>
      fd_graph_role f \<in> set GRAPH_ROLES \<and> fd_redaction_action f \<in> set REDACTION_ACTIONS \<and>
      (fd_sensitivity f = u ''secret_forbidden'' \<longrightarrow> fd_redaction_action f = u ''reject'') \<and>
      (fd_required f \<longrightarrow> fd_redaction_action f \<noteq> u ''drop_field'') \<and>
      (fd_metric_eligible f \<longrightarrow> fd_semantic_role f = Some (u ''metric'')) \<and>
      (fd_graph_role f \<in> set REFERENCE_ROLES \<longrightarrow> fd_semantic_role f = Some (fd_graph_role f)))"

definition wf_schema :: "event_schema \<Rightarrow> bool" where
  "wf_schema s = (1 \<le> sc_schema_version s \<and> sc_compatibility_policy s \<in> set POLICIES \<and>
     distinct (map fd_name (sc_fields s)) \<and> (\<forall>f \<in> set (sc_fields s). wf_field f))"

definition wf_registry :: "registry \<Rightarrow> bool" where
  "wf_registry reg = (rg_schemas reg \<noteq> [] \<and> distinct (map schema_key (rg_schemas reg)) \<and>
     (\<forall>s \<in> set (rg_schemas reg). wf_schema s))"

lemma guard_Inr: "(if c then Inl e else m) = Inr y \<longleftrightarrow> \<not> c \<and> m = Inr y"
  by simp

lemma parse_field_wf: "parse_field r raw = Inr f \<Longrightarrow> wf_field f"
  unfolding parse_field_def wf_field_def
  by (simp only: guard_Inr bindE_Inr_iff Let_def sum.inject) (elim exE conjE, hypsubst, auto)

lemma parse_distinct_Inr:
  "parse_distinct parse key message seen xs = Inr ys \<Longrightarrow>
     distinct (map key ys) \<and> key ` set ys \<inter> seen = {} \<and> list_all2 (\<lambda>x y. parse x = Inr y) xs ys"
proof (induction parse key message seen xs arbitrary: ys rule: parse_distinct.induct)
  case (2 parse key message seen x xs)
  then obtain y zs where y: "parse x = Inr y" "key y \<notin> seen" "ys = y # zs"
    "parse_distinct parse key message (insert (key y) seen) xs = Inr zs"
    by (auto simp: bindE_Inr_iff split: if_splits)
  from "2.IH" [OF y(1,2,4)] y show ?case by auto
qed simp

lemma parse_distinct_all:
  "parse_distinct parse key message seen xs = Inr ys \<Longrightarrow> (\<And>x y. parse x = Inr y \<Longrightarrow> P y) \<Longrightarrow> \<forall>y \<in> set ys. P y"
  using parse_distinct_Inr [of parse key message seen xs ys] by (fastforce simp: list_all2_conv_all_nth in_set_conv_nth)

lemma parse_event_schema_wf: "parse_event_schema r entry = Inr s \<Longrightarrow> wf_schema s"
  unfolding parse_event_schema_def wf_schema_def
  by (simp only: guard_Inr bindE_Inr_iff Let_def sum.inject)
     (elim exE conjE, hypsubst, auto dest: parse_distinct_Inr parse_distinct_all [where P = wf_field, OF _ parse_field_wf])

lemma parse_registry_wf:
  assumes "parse_registry_document r data = Inr schemas"
  shows "schemas \<noteq> [] \<and> distinct (map schema_key schemas) \<and> (\<forall>s \<in> set schemas. wf_schema s)"
proof -
  from assms have l: "list_val (getj (dict_val data) (u ''schemas'')) \<noteq> []" and
    p: "parse_distinct (parse_event_schema r) schema_key ''duplicate schema identity in registry'' {}
      (list_val (getj (dict_val data) (u ''schemas''))) = Inr schemas"
    by (auto simp: parse_registry_document_def guard_Inr Let_def)
  from parse_distinct_Inr [OF p] l parse_distinct_all [OF p, of wf_schema, OF parse_event_schema_wf] show ?thesis
    by (auto simp: list_all2_Nil2)
qed

lemma load_registry_Inr:
  assumes "load_registry sha h later path expected max_bytes = Inr reg"
  obtains content raw m data where "is_file h path" "read_bytes h path = Inr content" "rg_digest reg = sha content"
    "int (size_of_node (fs h path)) \<le> max_bytes" "\<forall>e. expected = Some e \<longrightarrow> sha content = lower (rt h) (strip e)"
    "later = File raw m" "json_loads (rt h) raw = Parsed data" "parse_registry_document (rt h) data = Inr (rg_schemas reg)"
  using assms by (auto simp: load_registry_def Let_def guard_Inr bindE_Inr_iff split: sum.splits node.splits option.splits if_splits loaded.splits)

lemma load_registry_wf: "load_registry sha h later path expected max_bytes = Inr reg \<Longrightarrow> wf_registry reg"
  by (auto simp: wf_registry_def elim!: load_registry_Inr dest!: parse_registry_wf)

section \<open>Resolving and sorting\<close>

lemma field_map_foldl:
  "distinct (map fd_name decls) \<Longrightarrow> fd_name ` set decls \<inter> fst ` set m = {} \<Longrightarrow>
     foldl (\<lambda>m f. AList.update (fd_name f) f m) m decls = m @ map (\<lambda>f. (fd_name f, f)) decls"
proof (induction decls arbitrary: m)
  case (Cons f decls)
  have "AList.update (fd_name f) f m = m @ [(fd_name f, f)]"
    using Cons.prems(2) by (intro update_new) (auto simp: map_of_eq_None_iff)
  moreover have "foldl (\<lambda>m f. AList.update (fd_name f) f m) (m @ [(fd_name f, f)]) decls =
      (m @ [(fd_name f, f)]) @ map (\<lambda>f. (fd_name f, f)) decls"
    using Cons.prems by (intro Cons.IH) auto
  ultimately show ?case by simp
qed simp

lemma field_map_wf: "wf_schema s \<Longrightarrow> field_map s = map (\<lambda>f. (fd_name f, f)) (sc_fields s)"
  using field_map_foldl [of "sc_fields s" "[]"] by (simp add: field_map_def wf_schema_def)

lemma map_of_fields: "map_of (map (\<lambda>f. (fd_name f, f)) decls) n = find (\<lambda>f. fd_name f = n) decls"
  by (induction decls) auto

lemma map_of_field:
  "wf_schema s \<Longrightarrow> map_of (field_map s) n = Some f \<longleftrightarrow> f \<in> set (sc_fields s) \<and> fd_name f = n"
  using map_of_eq_Some_iff [of "map (\<lambda>f. (fd_name f, f)) (sc_fields s)" n f]
  by (auto simp: field_map_wf wf_schema_def comp_def)

lemma map_of_no_field: "wf_schema s \<Longrightarrow> map_of (field_map s) n = None \<longleftrightarrow> n \<notin> fd_name ` set (sc_fields s)"
  by (simp add: field_map_wf map_of_eq_None_iff image_image)

text \<open>What the loop over the payload checks and how it sorts.\<close>

definition admissible :: "event_schema \<Rightarrow> pystr \<times> cand_value \<Rightarrow> bool" where
  "admissible s x = (case map_of (field_map s) (fst x) of None \<Rightarrow> sc_compatibility_policy s \<noteq> u ''strict''
     | Some d \<Rightarrow> value_matches_type (fd_value_type d) (snd x))"

definition dropped_name :: "event_schema \<Rightarrow> pystr \<Rightarrow> bool" where
  "dropped_name s n = (\<exists>d. map_of (field_map s) n = Some d \<and> fd_redaction_action d = u ''drop_field'')"

lemma sort_fields_spec:
  "(if \<forall>x \<in> set p. admissible s x
    then sort_fields r (sc_compatibility_policy s) (field_map s) p =
      Inr (filter (\<lambda>n. map_of (field_map s) n = None) (map fst p), filter (dropped_name s) (map fst p),
           filter (\<lambda>n. \<not> dropped_name s n) (map fst p))
    else \<exists>e. sort_fields r (sc_compatibility_policy s) (field_map s) p = Inl e)"
proof (induction p)
  case (Cons x p)
  obtain n v where x: "x = (n, v)" by (cases x)
  have a: "admissible s (n, v) = (case map_of (field_map s) n of None \<Rightarrow> sc_compatibility_policy s \<noteq> u ''strict''
     | Some d \<Rightarrow> value_matches_type (fd_value_type d) v)" by (simp add: admissible_def split: option.split)
  have dn: "dropped_name s n = (case map_of (field_map s) n of None \<Rightarrow> False | Some d \<Rightarrow> fd_redaction_action d = u ''drop_field'')"
    by (simp add: dropped_name_def split: option.split)
  show ?case
  proof (cases "\<forall>x \<in> set p. admissible s x")
    case True
    with Cons a dn show ?thesis by (cases "map_of (field_map s) n") (auto simp: x)
  next
    case False
    with Cons obtain e where "sort_fields r (sc_compatibility_policy s) (field_map s) p = Inl e" by auto
    with False show ?thesis by (cases e; cases "map_of (field_map s) n") (auto simp: x)
  qed
qed simp

section \<open>Acceptance\<close>

text \<open>The specification: no forbidden or rejected field is present, every required one is, an undeclared
  one only under the relaxed policy, and every declared one has its type.\<close>

definition conforms :: "event_schema \<Rightarrow> payload_map \<Rightarrow> bool" where
  "conforms s p =
     ((\<forall>f \<in> set (sc_fields s).
        (fd_name f \<in> fst ` set p \<longrightarrow> fd_sensitivity f \<noteq> u ''secret_forbidden'' \<and> fd_redaction_action f \<noteq> u ''reject'' \<and>
           (\<forall>v. (fd_name f, v) \<in> set p \<longrightarrow> value_matches_type (fd_value_type f) v)) \<and>
        (fd_required f \<longrightarrow> fd_name f \<in> fst ` set p)) \<and>
     (sc_compatibility_policy s = u ''strict'' \<longrightarrow> fst ` set p \<subseteq> fd_name ` set (sc_fields s)))"

lemma find_fields_None:
  "wf_schema s \<Longrightarrow> find (\<lambda>(n, d). P n d) (field_map s) = None \<longleftrightarrow> (\<forall>f \<in> set (sc_fields s). \<not> P (fd_name f) f)"
  by (auto simp: find_None_iff field_map_wf)

lemma pairs_by_name:
  "(\<forall>x \<in> P. (\<forall>f \<in> F. nm f = fst x \<longrightarrow> ok f (snd x)) \<and> (st \<longrightarrow> fst x \<in> N)) \<longleftrightarrow>
     (\<forall>f \<in> F. \<forall>v. (nm f, v) \<in> P \<longrightarrow> ok f v) \<and> (st \<longrightarrow> fst ` P \<subseteq> N)"
  by fastforce

lemma admissible_all:
  assumes "wf_schema s"
  shows "(\<forall>x \<in> set p. admissible s x) \<longleftrightarrow>
    (\<forall>f \<in> set (sc_fields s). \<forall>v. (fd_name f, v) \<in> set p \<longrightarrow> value_matches_type (fd_value_type f) v) \<and>
    (sc_compatibility_policy s = u ''strict'' \<longrightarrow> fst ` set p \<subseteq> fd_name ` set (sc_fields s))"
proof -
  have a: "admissible s (n, v) \<longleftrightarrow> (\<forall>f \<in> set (sc_fields s). fd_name f = n \<longrightarrow> value_matches_type (fd_value_type f) v) \<and>
      (sc_compatibility_policy s = u ''strict'' \<longrightarrow> n \<in> fd_name ` set (sc_fields s))" for n v
  proof (cases "map_of (field_map s) n")
    case None
    with map_of_no_field [OF assms, of n] show ?thesis by (auto simp: admissible_def)
  next
    case (Some d)
    then have d: "d \<in> set (sc_fields s)" "fd_name d = n" using map_of_field [OF assms] by auto
    have "f = d" if "f \<in> set (sc_fields s)" "fd_name f = n" for f
      using map_of_field [OF assms, of n f] that Some by simp
    then have "(\<forall>f \<in> set (sc_fields s). fd_name f = n \<longrightarrow> value_matches_type (fd_value_type f) v) =
      value_matches_type (fd_value_type d) v" using d by blast
    moreover have "n \<in> fd_name ` set (sc_fields s)" using d by blast
    ultimately show ?thesis using Some by (simp add: admissible_def)
  qed
  have "admissible s x \<longleftrightarrow> (\<forall>f \<in> set (sc_fields s). fd_name f = fst x \<longrightarrow> value_matches_type (fd_value_type f) (snd x)) \<and>
      (sc_compatibility_policy s = u ''strict'' \<longrightarrow> fst x \<in> fd_name ` set (sc_fields s))" for x
    using a [of "fst x" "snd x"] by simp
  then show ?thesis
    using pairs_by_name [of "set p" "set (sc_fields s)" fd_name "\<lambda>f. value_matches_type (fd_value_type f)"
      "sc_compatibility_policy s = u ''strict''" "fd_name ` set (sc_fields s)"] by simp
qed

definition clear :: "event_schema \<Rightarrow> payload_map \<Rightarrow> bool" where
  "clear s p = (\<forall>f \<in> set (sc_fields s).
     (fd_name f \<in> fst ` set p \<longrightarrow> fd_sensitivity f \<noteq> u ''secret_forbidden'' \<and> fd_redaction_action f \<noteq> u ''reject'') \<and>
     (fd_required f \<longrightarrow> fd_name f \<in> fst ` set p))"

lemma conforms_alt: "wf_schema s \<Longrightarrow> conforms s p \<longleftrightarrow> clear s p \<and> (\<forall>x \<in> set p. admissible s x)"
  unfolding admissible_all conforms_def clear_def by force

definition accepted_result :: "registry \<Rightarrow> event_schema \<Rightarrow> pystr list \<Rightarrow> pystr list \<Rightarrow> pystr list \<Rightarrow> validation" where
  "accepted_result reg s opaque dropped kept =
     \<lparr>vr_accepted = True, vr_error_code = None, vr_error_message = None,
      vr_schema_id = Some (sc_schema_id s), vr_schema_version = Some (sc_schema_version s),
      vr_producer_profile_id = Some (sc_producer_profile_id s),
      vr_compatibility_policy = Some (sc_compatibility_policy s), vr_registry_digest = Some (rg_digest reg),
      vr_metric_fields = sort (map fd_name (filter (\<lambda>f. fd_metric_eligible f \<and>
         fd_semantic_role f = Some (u ''metric'') \<and> fd_name f \<in> set kept) (sc_fields s))),
      vr_graph_fields = sort (map fd_name (filter (\<lambda>f. fd_graph_role f \<in> set REFERENCE_ROLES \<and>
         fd_name f \<in> set kept) (sc_fields s))),
      vr_opaque_fields = sort opaque, vr_dropped_fields = sort dropped\<rparr>"

lemma validate_resolved:
  assumes "wf_schema s" "resolve_schema reg pr d c n v = Some s"
  shows "if conforms s p
    then validate_candidate r reg pr d c n v (Some p) = accepted_result reg s
      (filter (\<lambda>n. n \<notin> fd_name ` set (sc_fields s)) (map fst p)) (filter (dropped_name s) (map fst p))
      (filter (\<lambda>n. \<not> dropped_name s n) (map fst p))
    else \<not> vr_accepted (validate_candidate r reg pr d c n v (Some p))"
proof (cases "clear s p")
  case True
  then have n: "find (\<lambda>(name, d). fd_sensitivity d = u ''secret_forbidden'' \<and> name \<in> set (map fst p)) (field_map s) = None"
    "find (\<lambda>(name, d). fd_redaction_action d = u ''reject'' \<and> name \<in> set (map fst p)) (field_map s) = None"
    "find (\<lambda>(name, d). fd_required d \<and> name \<notin> set (map fst p)) (field_map s) = None"
    unfolding find_fields_None [OF assms(1)] by (auto simp: clear_def)
  show ?thesis
    using sort_fields_spec [of p s r] n True
    by (auto simp: validate_candidate_def assms(2) conforms_alt [OF assms(1)] Let_def accepted_result_def rejected_def
        map_of_no_field [OF assms(1)] split: if_splits)
next
  case False
  then have "find (\<lambda>(name, d). fd_sensitivity d = u ''secret_forbidden'' \<and> name \<in> set (map fst p)) (field_map s) \<noteq> None \<or>
    find (\<lambda>(name, d). fd_redaction_action d = u ''reject'' \<and> name \<in> set (map fst p)) (field_map s) \<noteq> None \<or>
    find (\<lambda>(name, d). fd_required d \<and> name \<notin> set (map fst p)) (field_map s) \<noteq> None"
    unfolding find_fields_None [OF assms(1)] by (auto simp: clear_def)
  with False show ?thesis
    by (auto simp: validate_candidate_def assms(2) conforms_alt [OF assms(1)] Let_def rejected_def split: option.splits)
qed

lemma resolve_schema_Some:
  assumes "wf_registry reg"
  shows "resolve_schema reg pr d c n v = Some s \<longleftrightarrow> s \<in> set (rg_schemas reg) \<and> schema_key s = (pr, d, c, n, v)"
proof
  assume "resolve_schema reg pr d c n v = Some s"
  then show "s \<in> set (rg_schemas reg) \<and> schema_key s = (pr, d, c, n, v)"
    by (auto simp: resolve_schema_def find_Some_iff)
next
  assume s: "s \<in> set (rg_schemas reg) \<and> schema_key s = (pr, d, c, n, v)"
  then obtain t where t: "resolve_schema reg pr d c n v = Some t"
    by (cases "resolve_schema reg pr d c n v") (auto simp: resolve_schema_def find_None_iff)
  then have "t \<in> set (rg_schemas reg)" "schema_key t = schema_key s"
    using s by (auto simp: resolve_schema_def find_Some_iff)
  moreover have "inj_on schema_key (set (rg_schemas reg))" using assms by (simp add: wf_registry_def distinct_map)
  ultimately have "t = s" using s by (blast dest: inj_onD)
  with t show "resolve_schema reg pr d c n v = Some s" by simp
qed

lemma unresolved:
  "resolve_schema reg pr d c n v = None \<Longrightarrow> \<not> vr_accepted (validate_candidate r reg pr d c n v p)"
  by (simp add: validate_candidate_def unknown_event_def)

lemma resolve_wf: "wf_registry reg \<Longrightarrow> resolve_schema reg pr d c n v = Some s \<Longrightarrow> wf_schema s"
  using resolve_schema_Some [of reg pr d c n v s] by (auto simp: wf_registry_def)

text \<open>C12: a registry that loads is well formed and comes from a file of the permitted size whose digest
  is the expected one: its schemas are identified uniquely, their fields have distinct names and
  known types, a forbidden field is always rejected, a required one never dropped, and metric and
  reference roles agree with the declared role. When nobody replaces the file between the two
  readings, the schemas are those of the bytes the digest was computed of.\<close>

theorem registry_pinned:
  assumes "load_registry sha h later path expected max_bytes = Inr reg"
  shows "wf_registry reg \<and>
    (\<exists>content. read_bytes h path = Inr content \<and> rg_digest reg = sha content \<and> int (length content) \<le> max_bytes \<and>
      (\<forall>e. expected = Some e \<longrightarrow> sha content = lower (rt h) (strip e)) \<and>
      (later = fs h path \<longrightarrow> (\<exists>data. json_loads (rt h) content = Parsed data \<and>
         parse_registry_document (rt h) data = Inr (rg_schemas reg))))"
proof -
  from assms obtain content raw m data where x: "is_file h path" "read_bytes h path = Inr content" "rg_digest reg = sha content"
    "int (size_of_node (fs h path)) \<le> max_bytes" "\<forall>e. expected = Some e \<longrightarrow> sha content = lower (rt h) (strip e)"
    "later = File raw m" "json_loads (rt h) raw = Parsed data" "parse_registry_document (rt h) data = Inr (rg_schemas reg)"
    by (rule load_registry_Inr)
  then obtain k where "fs h path = File content k" by (auto simp: read_bytes_def split: node.splits)
  with x load_registry_wf [OF assms] show ?thesis by (auto simp: size_of_node_def)
qed

text \<open>C11: a candidate is accepted exactly when the registry has a schema for it that it conforms to.\<close>

theorem candidate_accepted_iff:
  assumes "load_registry sha h later path expected max_bytes = Inr reg"
  shows "vr_accepted (validate_candidate r reg pr d c n v (Some p)) =
    (\<exists>s \<in> set (rg_schemas reg). schema_key s = (pr, d, c, n, v) \<and> conforms s p)"
proof -
  from assms have wf: "wf_registry reg" by (rule load_registry_wf)
  show ?thesis
  proof (cases "resolve_schema reg pr d c n v")
    case None
    then have "\<not> (\<exists>s \<in> set (rg_schemas reg). schema_key s = (pr, d, c, n, v))"
      by (auto simp: resolve_schema_def find_None_iff)
    with unresolved [OF None, of r "Some p"] show ?thesis by blast
  next
    case (Some s)
    have "vr_accepted (validate_candidate r reg pr d c n v (Some p)) = conforms s p"
      using validate_resolved [OF resolve_wf [OF wf Some] Some, of p r] by (auto simp: accepted_result_def split: if_splits)
    moreover have "t = s" if "t \<in> set (rg_schemas reg)" "schema_key t = (pr, d, c, n, v)" for t
      using resolve_schema_Some [OF wf, of pr d c n v t] that Some by simp
    moreover have "s \<in> set (rg_schemas reg)" "schema_key s = (pr, d, c, n, v)"
      using resolve_schema_Some [OF wf] Some by auto
    ultimately show ?thesis by blast
  qed
qed

text \<open>Redaction is airtight. In an accepted candidate the approved metric and graph fields are
  declared fields that are present, eligible, and neither forbidden, rejected nor dropped; the
  dropped fields are exactly the present ones declared to be dropped, the opaque ones exactly the
  undeclared ones, which the strict policy does not allow; and the four lists are in order.\<close>

theorem candidate_redaction:
  assumes "load_registry sha h later path expected max_bytes = Inr reg"
    "vr = validate_candidate r reg pr d c n v (Some p)" "vr_accepted vr"
  shows "\<exists>s \<in> set (rg_schemas reg). schema_key s = (pr, d, c, n, v) \<and>
    set (vr_metric_fields vr) = fd_name ` {f \<in> set (sc_fields s). fd_name f \<in> fst ` set p \<and>
      fd_metric_eligible f \<and> fd_redaction_action f = u ''allow'' \<and> fd_sensitivity f \<noteq> u ''secret_forbidden''} \<and>
    set (vr_graph_fields vr) = fd_name ` {f \<in> set (sc_fields s). fd_name f \<in> fst ` set p \<and>
      fd_graph_role f \<in> set REFERENCE_ROLES \<and> fd_redaction_action f = u ''allow'' \<and> fd_sensitivity f \<noteq> u ''secret_forbidden''} \<and>
    set (vr_dropped_fields vr) = fd_name ` {f \<in> set (sc_fields s). fd_name f \<in> fst ` set p \<and>
      fd_redaction_action f = u ''drop_field''} \<and>
    set (vr_opaque_fields vr) = fst ` set p - fd_name ` set (sc_fields s) \<and>
    (sc_compatibility_policy s = u ''strict'' \<longrightarrow> vr_opaque_fields vr = []) \<and>
    sorted (vr_metric_fields vr) \<and> sorted (vr_graph_fields vr) \<and> sorted (vr_dropped_fields vr) \<and> sorted (vr_opaque_fields vr)"
proof -
  from assms(1) have wf: "wf_registry reg" by (rule load_registry_wf)
  obtain s where s: "resolve_schema reg pr d c n v = Some s"
    using unresolved [of reg pr d c n v r "Some p"] assms(2,3) by blast
  have ws: "wf_schema s" using resolve_wf [OF wf s] .
  from validate_resolved [OF ws s, of p r] assms(2,3) have cf: "conforms s p" and vr: "vr = accepted_result reg s
      (filter (\<lambda>n. n \<notin> fd_name ` set (sc_fields s)) (map fst p)) (filter (dropped_name s) (map fst p))
      (filter (\<lambda>n. \<not> dropped_name s n) (map fst p))"
    by (auto split: if_splits)
  have dn: "dropped_name s (fd_name f) \<longleftrightarrow> fd_redaction_action f = u ''drop_field''" if "f \<in> set (sc_fields s)" for f
    using map_of_field [OF ws, of "fd_name f" f] that by (simp add: dropped_name_def)
  have act: "fd_redaction_action f = u ''allow'' \<and> fd_sensitivity f \<noteq> u ''secret_forbidden''"
    if "f \<in> set (sc_fields s)" "fd_name f \<in> fst ` set p" "fd_redaction_action f \<noteq> u ''drop_field''" for f
    using that cf ws by (auto simp: conforms_def wf_schema_def wf_field_def REDACTION_ACTIONS_def)
  have dx: "\<exists>f \<in> set (sc_fields s). fd_name f = m \<and> fd_redaction_action f = u ''drop_field''" if "dropped_name s m" for m
    using that map_of_field [OF ws, of m] by (auto simp: dropped_name_def)
  note lists = vr accepted_result_def
  have role: "fd_semantic_role f = Some (u ''metric'')" if "f \<in> set (sc_fields s)" "fd_metric_eligible f" for f
    using that ws by (simp add: wf_schema_def wf_field_def)
  have kept: "fd_name f \<in> fst ` set p \<and> \<not> dropped_name s (fd_name f) \<longleftrightarrow> fd_name f \<in> fst ` set p \<and>
      fd_redaction_action f = u ''allow'' \<and> fd_sensitivity f \<noteq> u ''secret_forbidden''" if "f \<in> set (sc_fields s)" for f
    using act [OF that] dn [OF that] by auto
  have metric: "set (vr_metric_fields vr) = fd_name ` {f \<in> set (sc_fields s). fd_name f \<in> fst ` set p \<and>
      fd_metric_eligible f \<and> fd_redaction_action f = u ''allow'' \<and> fd_sensitivity f \<noteq> u ''secret_forbidden''}"
    unfolding lists by (simp add: kept role cong: conj_cong) (rule arg_cong [where f = "image fd_name"], use kept role in auto)
  have graph: "set (vr_graph_fields vr) = fd_name ` {f \<in> set (sc_fields s). fd_name f \<in> fst ` set p \<and>
      fd_graph_role f \<in> set REFERENCE_ROLES \<and> fd_redaction_action f = u ''allow'' \<and> fd_sensitivity f \<noteq> u ''secret_forbidden''}"
    unfolding lists by simp (rule arg_cong [where f = "image fd_name"], use kept in auto)
  have dropped: "set (vr_dropped_fields vr) = fd_name ` {f \<in> set (sc_fields s). fd_name f \<in> fst ` set p \<and>
      fd_redaction_action f = u ''drop_field''}"
  proof -
    have "set (vr_dropped_fields vr) = {m \<in> fst ` set p. dropped_name s m}" by (simp add: lists)
    also have "\<dots> = fd_name ` {f \<in> set (sc_fields s). fd_name f \<in> fst ` set p \<and> fd_redaction_action f = u ''drop_field''}"
    proof (intro set_eqI iffI)
      fix m
      assume m: "m \<in> {m \<in> fst ` set p. dropped_name s m}"
      with dx [of m] obtain f where "f \<in> set (sc_fields s)" "m = fd_name f" "fd_redaction_action f = u ''drop_field''" by blast
      with m show "m \<in> fd_name ` {f \<in> set (sc_fields s). fd_name f \<in> fst ` set p \<and> fd_redaction_action f = u ''drop_field''}"
        by (intro image_eqI [of _ _ f]) simp_all
    next
      fix m
      assume "m \<in> fd_name ` {f \<in> set (sc_fields s). fd_name f \<in> fst ` set p \<and> fd_redaction_action f = u ''drop_field''}"
      then obtain f where "f \<in> set (sc_fields s)" "m = fd_name f" "fd_name f \<in> fst ` set p" "fd_redaction_action f = u ''drop_field''"
        by blast
      with dn [of f] show "m \<in> {m \<in> fst ` set p. dropped_name s m}" by simp
    qed
    finally show ?thesis .
  qed
  have opaque: "set (vr_opaque_fields vr) = fst ` set p - fd_name ` set (sc_fields s)" unfolding lists by auto
  then have strict: "sc_compatibility_policy s = u ''strict'' \<longrightarrow> vr_opaque_fields vr = []"
    using cf by (auto simp: conforms_def simp flip: set_empty)
  show ?thesis
    using metric graph dropped opaque strict resolve_schema_Some [OF wf, of pr d c n v s] s
    by (intro bexI [of _ s]) (simp_all add: lists)
qed

section \<open>A sample registry\<close>

definition sample_field :: json where
  "sample_field = JObj [(u ''name'', JStr (u ''ms'')), (u ''value_type'', JStr (u ''F64'')), (u ''required'', JBool True),
     (u ''sensitivity'', JStr (u ''public'')), (u ''metric_eligible'', JBool True), (u ''semantic_role'', JStr (u ''metric''))]"

definition sample_registry_doc :: "json \<Rightarrow> json" where
  "sample_registry_doc v = JObj [(u ''registry_version'', JInt 1), (u ''schemas'', JList [JObj
     [(u ''schema_id'', JStr (u ''s'')), (u ''schema_version'', v), (u ''producer_profile_id'', JStr (u ''p'')),
      (u ''compatibility_policy'', JStr (u ''strict'')), (u ''domain'', JStr (u ''d'')), (u ''category'', JStr (u ''c'')),
      (u ''event_name'', JStr (u ''e'')), (u ''fields'', JList [sample_field])]])]"

definition sample_decl :: field_decl where
  "sample_decl = \<lparr>fd_name = u ''ms'', fd_value_type = u ''F64'', fd_required = True, fd_sensitivity = u ''public'',
     fd_unit = None, fd_dimension = None, fd_semantic_role = Some (u ''metric''), fd_metric_eligible = True,
     fd_graph_role = u ''none'', fd_redaction_action = u ''allow''\<rparr>"

definition sample_schema :: event_schema where
  "sample_schema = \<lparr>sc_schema_id = u ''s'', sc_schema_version = 1, sc_producer_profile_id = u ''p'',
     sc_compatibility_policy = u ''strict'', sc_domain = u ''d'', sc_category = u ''c'', sc_event_name = u ''e'',
     sc_fields = [sample_decl]\<rparr>"

lemma sample_field_parse: "parse_field r sample_field = Inr sample_decl"
  by (simp add: parse_field_def sample_field_def Let_def required_key_def py_str_def optional_str_def DTJ_VALUE_TYPES_def
      SENSITIVITIES_def GRAPH_ROLES_def REFERENCE_ROLES_def REDACTION_ACTIONS_def default_redaction_action_def sample_decl_def getd_def)

lemma sample_schemas: "parse_registry_document r (sample_registry_doc (JInt 1)) = Inr [sample_schema]"
  by (simp add: parse_registry_document_def sample_registry_doc_def parse_event_schema_def Let_def required_key_def
      required_int_def py_str_def POLICIES_def sample_field_parse sample_schema_def)

definition registry_host :: "json \<Rightarrow> host" where
  "registry_host v = sample_host\<lparr>rt := sample_runtime\<lparr>json_loads := (\<lambda>b. Parsed (sample_registry_doc v))\<rparr>,
     fs := (\<lambda>p. File [1, 2] 0)\<rparr>"

definition sample_registry :: registry where
  "sample_registry = \<lparr>rg_path = u ''r'', rg_digest = u ''ab'', rg_version = 1, rg_schemas = [sample_schema]\<rparr>"

lemma sample_registry_loads:
  "load_registry (\<lambda>b. u ''ab'') (registry_host (JInt 1)) (File [1, 2] 0) (u ''r'') (Some (u ''ab'')) 100 = Inr sample_registry"
proof -
  have "strip (u ''ab'') = u ''ab''" by (simp add: strip_def rstrip_def u_Cons is_space_def)
  then show ?thesis
    by (simp add: load_registry_def registry_host_def is_file_def read_bytes_def size_of_node_def sample_host_def
        sample_runtime_def sample_schemas sample_registry_def)
qed

theorem registry_pinned_witness: "wf_registry sample_registry \<and> rg_digest sample_registry = u ''ab''"
  using registry_pinned [OF sample_registry_loads] by auto

lemma sample_conforms: "conforms sample_schema [(u ''ms'', CVal (JInt 3))]"
  by (simp add: conforms_def sample_schema_def sample_decl_def value_matches_type_def)

lemma sample_accepted:
  "vr_accepted (validate_candidate sample_runtime sample_registry (u ''p'') (u ''d'') (u ''c'') (u ''e'') 1
     (Some [(u ''ms'', CVal (JInt 3))]))"
proof -
  have w: "wf_registry sample_registry" using load_registry_wf [OF sample_registry_loads] .
  have "resolve_schema sample_registry (u ''p'') (u ''d'') (u ''c'') (u ''e'') 1 = Some sample_schema"
    by (simp add: resolve_schema_def sample_registry_def schema_key_def sample_schema_def)
  from validate_resolved [OF resolve_wf [OF w this] this] sample_conforms show ?thesis by (simp add: accepted_result_def)
qed

theorem candidate_accepted_iff_witness:
  "\<exists>s \<in> set (rg_schemas sample_registry). conforms s [(u ''ms'', CVal (JInt 3))]"
  using candidate_accepted_iff [OF sample_registry_loads, of sample_runtime "u ''p''" "u ''d''" "u ''c''" "u ''e''" 1] sample_accepted
  by blast

theorem candidate_redaction_witness:
  "vr_opaque_fields (validate_candidate sample_runtime sample_registry (u ''p'') (u ''d'') (u ''c'') (u ''e'') 1
     (Some [(u ''ms'', CVal (JInt 3))])) = []"
proof -
  from candidate_redaction [OF sample_registry_loads refl sample_accepted] obtain s where
    s: "s \<in> set (rg_schemas sample_registry)" "sc_compatibility_policy s = u ''strict'' \<longrightarrow>
      vr_opaque_fields (validate_candidate sample_runtime sample_registry (u ''p'') (u ''d'') (u ''c'') (u ''e'') 1
        (Some [(u ''ms'', CVal (JInt 3))])) = []" by (elim bexE conjE) (rule that)
  from s(1) have "s = sample_schema" by (simp add: sample_registry_def)
  with s(2) show ?thesis by (simp add: sample_schema_def)
qed

section \<open>Two defects\<close>

text \<open>The digest is checked on one reading and the schemas are parsed from another: whoever replaces
  the file in between gets an unpinned registry accepted under the pinned digest.\<close>

lemma replaced_registry_accepted:
  assumes "fs h path = File content k" "int (length content) \<le> max_bytes" "lower (rt h) (strip e) = sha content"
    "json_loads (rt h) raw = Parsed data" "parse_registry_document (rt h) data = Inr schemas"
  shows "load_registry sha h (File raw m) path (Some e) max_bytes =
    Inr \<lparr>rg_path = resolve h path, rg_digest = sha content, rg_version = 1, rg_schemas = schemas\<rparr>"
  using assms by (simp add: load_registry_def is_file_def read_bytes_def size_of_node_def)

text \<open>A schema version that reads as an infinite float (\<open>1e999\<close>) makes the loader raise
  \<open>OverflowError\<close> instead of the structured error.\<close>

lemma infinite_version_escapes:
  "load_registry sha (registry_host (JFloat 0x7FF0000000000000)) (File [1, 2] 0) path None 100 = Inl (Escaped OverflowError)"
proof -
  have "py_int r (JFloat 0x7FF0000000000000) = Inl OverflowError" for r
    by (simp add: f64_finite_def f64_exp_def f64_mant_def)
  then have "parse_registry_document r (sample_registry_doc (JFloat 0x7FF0000000000000)) = Inl (Escaped OverflowError)" for r
    by (simp add: parse_registry_document_def sample_registry_doc_def parse_event_schema_def Let_def required_key_def
        required_int_def del: py_int.simps)
  then show ?thesis
    by (simp add: load_registry_def registry_host_def is_file_def read_bytes_def size_of_node_def)
qed

end
