(* ===== verification/Dtj_Catalog.thy ===== *)
theory Dtj_Catalog imports Dtg_Schema_Props begin

text \<open>
  The event catalog (\<open>dtj_catalog.py\<close>): the projection of a loaded registry and its Markdown rendering,
  with the exceptions the rendering raises on catalogs of another shape.
\<close>

section \<open>Projection\<close>

definition CATALOG_FORMAT :: pystr where "CATALOG_FORMAT = u ''dtj-event-catalog-v1''"

abbreviation (input) "MAX_SCHEMAS_IN_CATALOG \<equiv> 500 :: nat"

definition json_str_opt :: "pystr option \<Rightarrow> json" where
  "json_str_opt s = (case s of None \<Rightarrow> JNull | Some t \<Rightarrow> JStr t)"

definition project_field :: "field_decl \<Rightarrow> json" where
  "project_field f = JObj
     [(u ''name'', JStr (fd_name f)), (u ''value_type'', JStr (fd_value_type f)), (u ''required'', JBool (fd_required f)),
      (u ''unit'', json_str_opt (fd_unit f)), (u ''dimension'', json_str_opt (fd_dimension f)),
      (u ''semantic_role'', json_str_opt (fd_semantic_role f)), (u ''sensitivity'', JStr (fd_sensitivity f)),
      (u ''metric_eligible'', JBool (fd_metric_eligible f)), (u ''graph_role'', JStr (fd_graph_role f)),
      (u ''redaction_action'', JStr (fd_redaction_action f))]"

text \<open>The accumulation of \<open>correlation_fields\<close>: a reference role appends the name in any case, an
  identifier role only when it is not there yet.\<close>

definition add_correlation :: "pystr list \<Rightarrow> field_decl \<Rightarrow> pystr list" where
  "add_correlation acc f =
     (let acc = (if fd_graph_role f \<in> set REFERENCE_ROLES then acc @ [fd_name f] else acc) in
      if fd_semantic_role f \<in> Some ` set (u ''identifier'' # REFERENCE_ROLES) \<and> fd_name f \<notin> set acc
      then acc @ [fd_name f] else acc)"

definition correlation_fields :: "event_schema \<Rightarrow> pystr list" where
  "correlation_fields s = foldl add_correlation [] (sc_fields s)"

definition project_schema :: "event_schema \<Rightarrow> json" where
  "project_schema s = (let cf = correlation_fields s in JObj
     [(u ''schema_id'', JStr (sc_schema_id s)), (u ''schema_version'', JInt (sc_schema_version s)),
      (u ''producer_profile_id'', JStr (sc_producer_profile_id s)),
      (u ''compatibility_policy'', JStr (sc_compatibility_policy s)), (u ''domain'', JStr (sc_domain s)),
      (u ''category'', JStr (sc_category s)), (u ''event_name'', JStr (sc_event_name s)),
      (u ''fields'', JList (map project_field (sc_fields s))),
      (u ''correlation'', JObj [(u ''dtj_record_field'', JStr (u ''correlation'')),
         (u ''expectation'', JStr (if cf = [] then u ''optional'' else u ''recommended_when_entity_or_span_refs_present'')),
         (u ''reference_fields'', JList (map JStr cf))]),
      (u ''severity'', JObj [(u ''record_field'', JStr (u ''severity'')),
         (u ''note'', JStr (u ''DTJ event severity is producer-assigned on the record'')),
         (u ''field_sensitivities'', JList (map JStr (sort (remdups (map fd_sensitivity (sc_fields s))))))])])"

section \<open>Rendering\<close>

definition as_dict :: "json \<Rightarrow> py_exn + jdict" where
  "as_dict j = (if is_dict j then Inr (dict_val j) else Inl AttributeError)"

text \<open>The elements of an iterable whose elements are then used as dictionaries.\<close>

definition as_items :: "json \<Rightarrow> py_exn + json list" where
  "as_items j =
     (case j of JList xs \<Rightarrow> Inr xs | JStr s \<Rightarrow> Inr (map (\<lambda>c. JStr [c]) s) | JObj d \<Rightarrow> Inr (map (\<lambda>(k, v). JStr k) d)
      | v \<Rightarrow> Inl (TypeError ([39] @ type_name v @ [39] @ u '' object is not iterable'')))"

text \<open>\<open>', '.join(xs)\<close>\<close>

definition join_items :: "json \<Rightarrow> py_exn + pystr" where
  "join_items j =
     bindE (as_items j) (\<lambda>xs.
       if list_all is_str xs then Inr (join (u '', '') (map str_val xs))
       else Inl (TypeError (u ''sequence item: expected str instance'')))"

definition field_markdown :: "runtime \<Rightarrow> json \<Rightarrow> py_exn + pystr" where
  "field_markdown r field =
     bindE (as_dict field) (\<lambda>d.
       let g = (\<lambda>k. py_str r (getj d (u k)));
           req = (if truthy (getj d (u ''required'')) then u ''required'' else u ''optional'');
           unit = (if truthy (getj d (u ''unit'')) then u '', unit='' @ g ''unit'' else [])
       in Inr (u ''    - `'' @ g ''name'' @ u ''`: '' @ g ''value_type'' @ u '' ('' @ req @ u '', sensitivity='' @ g ''sensitivity'' @
            u '', graph_role='' @ g ''graph_role'' @ unit @ u '')''))"

definition schema_markdown :: "runtime \<Rightarrow> jdict \<Rightarrow> py_exn + pystr list" where
  "schema_markdown r schema =
     (let g = (\<lambda>k. py_str r (getj schema (u k))) in
      bindE (as_dict (or_else (getj schema (u ''correlation'')) (JObj []))) (\<lambda>corr.
      let refs = or_else (getj corr (u ''reference_fields'')) (JList []) in
      bindE (if truthy refs then bindE (join_items refs) (\<lambda>t. Inr (u ''; refs: '' @ t)) else Inr []) (\<lambda>ref_text.
      bindE (as_dict (or_else (getj schema (u ''severity'')) (JObj []))) (\<lambda>sev.
      bindE (join_items (or_else (getj sev (u ''field_sensitivities'')) (JList []))) (\<lambda>sens.
      bindE (as_items (or_else (getj schema (u ''fields'')) (JList []))) (\<lambda>fields.
      bindE (mapE (field_markdown r) fields) (\<lambda>rows.
      Inr ([u ''- **'' @ g ''event_name'' @ u ''** (`'' @ g ''schema_id'' @ u ''` v'' @ g ''schema_version'' @ u '')'',
            u ''  - producer_profile: `'' @ g ''producer_profile_id'' @ u ''`'',
            u ''  - compatibility_policy: `'' @ g ''compatibility_policy'' @ u ''`'',
            u ''  - correlation: '' @ py_str r (getj corr (u ''expectation'')) @ u '' (record field `'' @
              py_str r (getj corr (u ''dtj_record_field'')) @ u ''`'' @ ref_text @ u '')'',
            u ''  - severity: record `'' @ py_str r (getj sev (u ''record_field'')) @ u ''`; field sensitivities: '' @ sens,
            u ''  - fields:''] @ rows))))))))"

text \<open>\<open>by_domain.setdefault(domain, {}).setdefault(category, []).append(schema)\<close>\<close>

type_synonym catalog_groups = "(pystr \<times> (pystr \<times> jdict list) list) list"

definition group_schema :: "runtime \<Rightarrow> catalog_groups \<Rightarrow> json \<Rightarrow> catalog_groups" where
  "group_schema r groups s =
     (if \<not> is_dict s then groups
      else let name = (\<lambda>k. py_str r (or_else (getj (dict_val s) (u k)) (JStr (u ''<none>''))));
               cats = (case map_of groups (name ''domain'') of None \<Rightarrow> [] | Some c \<Rightarrow> c);
               listed = (case map_of cats (name ''category'') of None \<Rightarrow> [] | Some l \<Rightarrow> l)
           in AList.update (name ''domain'') (AList.update (name ''category'') (listed @ [dict_val s]) cats) groups)"

definition by_key :: "(pystr \<times> 'a) list \<Rightarrow> (pystr \<times> 'a) list" where
  "by_key d = sort_key fst d"

definition category_markdown :: "runtime \<Rightarrow> pystr \<times> jdict list \<Rightarrow> py_exn + pystr list" where
  "category_markdown r c =
     bindE (mapE (schema_markdown r) (snd c)) (\<lambda>blocks.
       Inr ([u ''### Category `'' @ fst c @ u ''`'', []] @ concat (map (\<lambda>b. b @ [[]]) blocks)))"

definition domain_markdown :: "runtime \<Rightarrow> pystr \<times> (pystr \<times> jdict list) list \<Rightarrow> py_exn + pystr list" where
  "domain_markdown r d =
     bindE (mapE (category_markdown r) (by_key (snd d))) (\<lambda>cs.
       Inr ([u ''## Domain `'' @ fst d @ u ''`'', []] @ concat cs))"

definition render_event_catalog_markdown :: "runtime \<Rightarrow> jdict \<Rightarrow> py_exn + pystr" where
  "render_event_catalog_markdown r catalog =
     (if \<not> truthy (getj catalog (u ''ok'')) then
        bindE (as_dict (or_else (getj catalog (u ''error'')) (JObj []))) (\<lambda>err.
          Inr (u ''# Debug Trace event catalog'' @ [10, 10] @ u ''Error: '' @ py_str r (getj err (u ''kind'')) @ u '': '' @
            py_str r (getj err (u ''message'')) @ [10]))
      else
        let or_none = (\<lambda>k. py_str r (or_else (getj catalog (u k)) (JStr (u ''(none)''))));
            head = [u ''# Debug Trace event catalog'', [], u ''format: '' @ py_str r (getj catalog (u ''format'')),
              u ''registry_path: '' @ or_none ''registry_path'', u ''registry_digest: '' @ or_none ''registry_digest'',
              u ''schema_count: '' @ py_str r (getd catalog (u ''schema_count'') (JInt 0)), [],
              u ''Addressing: DTJ `event_sequence` / `correlation` (not log lineno).'',
              u ''Catalog SoT: pinned Event Schema Registry '' @ [8212] @ u '' not UI filter chips.'', []];
            schemas = or_else (getj catalog (u ''schemas'')) (JList []) in
        if \<not> truthy schemas then
          Inr (join [10] (head @ [u ''*(empty '' @ [8212] @ u '' pass registry_path to load registered schemas)*'', [],
            u ''Recommended tools: `session_since_last_repro_dtj`,'', u ''`session_search_dtj`, domain presets via'',
            u ''`session_preset_report_dtj`.'']))
        else
          bindE (as_items schemas) (\<lambda>ss.
          bindE (mapE (domain_markdown r) (by_key (foldl (group_schema r) [] ss))) (\<lambda>ds.
          Inr (join [10] (head @ concat ds @ [u ''Recommended tools: `session_analyze_dtj` first,'',
            u ''then `session_preset_report_dtj` / search / context.''])))))"

section \<open>The tool\<close>

definition with_text :: "runtime \<Rightarrow> jdict \<Rightarrow> py_exn + jdict" where
  "with_text r d = bindE (render_event_catalog_markdown r d) (\<lambda>t. Inr (d @ [(u ''text'', JStr t)]))"

definition empty_catalog :: "runtime \<Rightarrow> py_exn + jdict" where
  "empty_catalog r =
     bindE (render_event_catalog_markdown r
        [(u ''ok'', JBool True), (u ''format'', JStr CATALOG_FORMAT), (u ''registry_path'', JNull),
         (u ''registry_digest'', JNull), (u ''schema_count'', JInt 0), (u ''schemas'', JList [])]) (\<lambda>t.
      Inr [(u ''ok'', JBool True), (u ''adapter'', core_adapter), (u ''format'', JStr CATALOG_FORMAT),
        (u ''registry_path'', JNull), (u ''registry_digest'', JNull), (u ''schema_count'', JInt 0),
        (u ''schemas'', JList []), (u ''text'', JStr t)])"

definition catalog_from_registry :: "runtime \<Rightarrow> registry \<Rightarrow> py_exn + jdict" where
  "catalog_from_registry r reg =
     (let projected = map project_schema (take MAX_SCHEMAS_IN_CATALOG (rg_schemas reg)) in
      with_text r
        [(u ''ok'', JBool True), (u ''adapter'', core_adapter), (u ''format'', JStr CATALOG_FORMAT),
         (u ''registry_path'', JStr (rg_path reg)), (u ''registry_digest'', JStr (rg_digest reg)),
         (u ''registry_version'', JInt (rg_version reg)), (u ''schema_count'', jnat (length projected)),
         (u ''truncated'', JBool (MAX_SCHEMAS_IN_CATALOG < length (rg_schemas reg))), (u ''schemas'', JList projected)])"

definition event_catalog_dtj :: "(bytes \<Rightarrow> pystr) \<Rightarrow> host \<Rightarrow> (pystr \<Rightarrow> node) \<Rightarrow> pystr option \<Rightarrow> py_exn + jdict" where
  "event_catalog_dtj sha256_hex h later registry_path =
     (case registry_path of
        None \<Rightarrow> empty_catalog (rt h)
      | Some p \<Rightarrow>
          if strip p = [] then empty_catalog (rt h)
          else let path = expanduser h p in
            case load_registry sha256_hex h (later path) path None DEFAULT_MAX_REGISTRY_BYTES of
              Inl (Escaped e) \<Rightarrow> Inl e
            | Inl (DtgSchemaError code message) \<Rightarrow>
                Inr [(u ''ok'', JBool False), (u ''adapter'', core_adapter), (u ''registry_path'', JStr path),
                  (u ''error'', JObj [(u ''kind'', JStr code), (u ''message'', JStr message)])]
            | Inr reg \<Rightarrow> catalog_from_registry (rt h) reg)"

section \<open>The catalog of a registry\<close>

lemma mapE_ok: "\<forall>x \<in> set xs. \<exists>y. f x = Inr y \<Longrightarrow> \<exists>ys. mapE f xs = Inr ys"
  by (induction xs) auto

lemma join_items_strs: "join_items (JList (map JStr xs)) = Inr (join (u '', '') xs)"
proof -
  have "map (str_val \<circ> JStr) xs = xs" by (induction xs) auto
  then show ?thesis by (simp add: join_items_def as_items_def list_all_iff)
qed

lemma or_else_strs: "or_else (JList (map f xs)) (JList []) = JList (map f xs)"
  by (simp add: or_else_def)

lemma project_schema_dict: "is_dict (project_schema s)"
  by (simp add: project_schema_def Let_def)

lemma schema_markdown_projected: "\<exists>t. schema_markdown r (dict_val (project_schema s)) = Inr t"
proof -
  have "\<forall>x \<in> set (map project_field (sc_fields s)). \<exists>y. field_markdown r x = Inr y"
    by (simp add: field_markdown_def as_dict_def project_field_def Let_def)
  then obtain rows where rows: "mapE (field_markdown r) (map project_field (sc_fields s)) = Inr rows" using mapE_ok by blast
  have parts: "as_dict (or_else (getj (dict_val (project_schema s)) (u ''correlation'')) (JObj [])) =
      Inr (dict_val (getj (dict_val (project_schema s)) (u ''correlation'')))"
    "as_dict (or_else (getj (dict_val (project_schema s)) (u ''severity'')) (JObj [])) =
      Inr (dict_val (getj (dict_val (project_schema s)) (u ''severity'')))"
    "getj (dict_val (getj (dict_val (project_schema s)) (u ''correlation''))) (u ''reference_fields'') = JList (map JStr (correlation_fields s))"
    "getj (dict_val (getj (dict_val (project_schema s)) (u ''severity''))) (u ''field_sensitivities'') =
      JList (map JStr (sort (remdups (map fd_sensitivity (sc_fields s)))))"
    "getj (dict_val (project_schema s)) (u ''fields'') = JList (map project_field (sc_fields s))"
    by (simp_all add: project_schema_def Let_def as_dict_def or_else_def)
  have items: "as_items (JList xs) = Inr xs" for xs by (simp add: as_items_def)
  show ?thesis
    unfolding schema_markdown_def Let_def
    by (simp add: parts or_else_strs join_items_strs items rows)
qed

text \<open>Grouping only regroups: every schema in a group is one of the list.\<close>

definition grouped_from :: "jdict set \<Rightarrow> catalog_groups \<Rightarrow> bool" where
  "grouped_from S groups = (\<forall>d cats c l x. (d, cats) \<in> set groups \<longrightarrow> (c, l) \<in> set cats \<longrightarrow> x \<in> set l \<longrightarrow> x \<in> S)"

lemma set_update_subset: "set (AList.update k v al) \<subseteq> insert (k, v) (set al)"
  by (induction al) auto

lemma group_schema_from:
  assumes "grouped_from S groups" "is_dict s \<longrightarrow> dict_val s \<in> S"
  shows "grouped_from S (group_schema r groups s)"
proof (cases "is_dict s")
  case True
  define dn where "dn = py_str r (or_else (getj (dict_val s) (u ''domain'')) (JStr (u ''<none>'')))"
  define cn where "cn = py_str r (or_else (getj (dict_val s) (u ''category'')) (JStr (u ''<none>'')))"
  define cats where "cats = (case map_of groups dn of None \<Rightarrow> [] | Some c \<Rightarrow> c)"
  define listed where "listed = (case map_of cats cn of None \<Rightarrow> [] | Some l \<Rightarrow> l)"
  have g: "group_schema r groups s = AList.update dn (AList.update cn (listed @ [dict_val s]) cats) groups"
    using True by (simp add: group_schema_def Let_def dn_def cn_def cats_def listed_def)
  have cats: "x \<in> S" if "(c, l) \<in> set cats" "x \<in> set l" for c l x
  proof (cases "map_of groups dn")
    case (Some q)
    then have "(dn, cats) \<in> set groups" by (simp add: cats_def map_of_SomeD)
    with that assms(1) show ?thesis unfolding grouped_from_def by blast
  qed (use that in \<open>simp add: cats_def\<close>)
  have listed: "x \<in> S" if "x \<in> set listed" for x
  proof (cases "map_of cats cn")
    case (Some q)
    then have "(cn, listed) \<in> set cats" by (simp add: listed_def map_of_SomeD)
    with that cats show ?thesis by blast
  qed (use that in \<open>simp add: listed_def\<close>)
  have new: "x \<in> S" if "(c, l) \<in> set (AList.update cn (listed @ [dict_val s]) cats)" "x \<in> set l" for c l x
  proof -
    from that(1) consider "(c, l) \<in> set cats" | "l = listed @ [dict_val s]"
      using set_update_subset [of cn "listed @ [dict_val s]" cats] by blast
    then show ?thesis
    proof cases
      case 1
      with that(2) cats show ?thesis by blast
    next
      case 2
      with that(2) listed assms(2) True show ?thesis by auto
    qed
  qed
  show ?thesis
    unfolding g grouped_from_def
  proof (intro allI impI)
    fix d cs c l x
    assume a: "(d, cs) \<in> set (AList.update dn (AList.update cn (listed @ [dict_val s]) cats) groups)" "(c, l) \<in> set cs" "x \<in> set l"
    then consider "(d, cs) \<in> set groups" | "cs = AList.update cn (listed @ [dict_val s]) cats"
      using set_update_subset [of dn "AList.update cn (listed @ [dict_val s]) cats" groups] by auto
    then show "x \<in> S"
    proof cases
      case 1
      with a assms(1) show ?thesis unfolding grouped_from_def by blast
    next
      case 2
      with a new show ?thesis by blast
    qed
  qed
qed (use assms in \<open>simp add: group_schema_def\<close>)

lemma group_schemas_from: "grouped_from S groups \<Longrightarrow> \<forall>s \<in> set ss. dict_val s \<in> S \<Longrightarrow> grouped_from S (foldl (group_schema r) groups ss)"
  by (induction ss arbitrary: groups) (auto intro: group_schema_from)

lemma domain_markdown_ok:
  assumes "\<forall>d \<in> S. \<exists>t. schema_markdown r d = Inr t" "grouped_from S groups" "x \<in> set groups"
  shows "\<exists>t. domain_markdown r x = Inr t"
proof -
  obtain d cats where x: "x = (d, cats)" by (cases x)
  have "\<exists>t. category_markdown r c = Inr t" if "c \<in> set (by_key (snd x))" for c
  proof -
    obtain n l where c: "c = (n, l)" by (cases c)
    with that x have "(n, l) \<in> set cats" by (simp add: by_key_def)
    then have "set (snd c) \<subseteq> S" using assms(2,3) unfolding x c grouped_from_def by auto
    then obtain bs where "mapE (schema_markdown r) (snd c) = Inr bs" using assms(1) mapE_ok [of "snd c" "schema_markdown r"] by blast
    then show ?thesis by (simp add: category_markdown_def)
  qed
  then obtain cs where "mapE (category_markdown r) (by_key (snd x)) = Inr cs"
    using mapE_ok [of "by_key (snd x)" "category_markdown r"] by auto
  then show ?thesis by (simp add: domain_markdown_def)
qed

lemma render_projected:
  assumes "getj c (u ''ok'') = JBool True" "getj c (u ''schemas'') = JList (map project_schema ss)"
  shows "\<exists>t. render_event_catalog_markdown r c = Inr t"
proof (cases "ss = []")
  case True
  with assms show ?thesis by (simp add: render_event_catalog_markdown_def Let_def or_else_def)
next
  case False
  let ?S = "(dict_val \<circ> project_schema) ` set ss"
  have "grouped_from ?S (foldl (group_schema r) [] (map project_schema ss))"
    by (rule group_schemas_from) (auto simp: grouped_from_def)
  moreover have "\<forall>d \<in> ?S. \<exists>t. schema_markdown r d = Inr t" using schema_markdown_projected by auto
  ultimately have "\<forall>x \<in> set (by_key (foldl (group_schema r) [] (map project_schema ss))). \<exists>t. domain_markdown r x = Inr t"
    using domain_markdown_ok [of ?S r "foldl (group_schema r) [] (map project_schema ss)"] by (simp add: by_key_def)
  then obtain ds where "mapE (domain_markdown r) (by_key (foldl (group_schema r) [] (map project_schema ss))) = Inr ds"
    using mapE_ok by blast
  with assms False show ?thesis by (simp add: render_event_catalog_markdown_def Let_def or_else_def as_items_def)
qed

section \<open>The correlation fields\<close>

lemma correlation_fold:
  "distinct (map fd_name fl) \<Longrightarrow> set acc \<inter> fd_name ` set fl = {} \<Longrightarrow>
     foldl add_correlation acc fl = acc @ map fd_name (filter (\<lambda>f. fd_graph_role f \<in> set REFERENCE_ROLES \<or>
       fd_semantic_role f \<in> Some ` set (u ''identifier'' # REFERENCE_ROLES)) fl)"
proof (induction fl arbitrary: acc)
  case (Cons f fl)
  let ?P = "\<lambda>f. fd_graph_role f \<in> set REFERENCE_ROLES \<or> fd_semantic_role f \<in> Some ` set (u ''identifier'' # REFERENCE_ROLES)"
  have a: "add_correlation acc f = (if ?P f then acc @ [fd_name f] else acc)"
    using Cons.prems(2) by (auto simp: add_correlation_def Let_def)
  have "foldl add_correlation (if ?P f then acc @ [fd_name f] else acc) fl =
      (if ?P f then acc @ [fd_name f] else acc) @ map fd_name (filter ?P fl)"
    using Cons.prems by (intro Cons.IH) auto
  then show ?case by (simp only: foldl_Cons a filter.simps) simp
qed simp

text \<open>The catalog of a registry that loads is complete: the tool does not raise, its text renders, it
  lists the first 500 schemas in order under the digest of the file, says whether there are more,
  and names as correlation fields of each schema exactly the fields that refer to an event, a span
  or an identifier.\<close>

theorem catalog_of_registry:
  assumes "load_registry sha h (later (expanduser h p)) (expanduser h p) None DEFAULT_MAX_REGISTRY_BYTES = Inr reg" "strip p \<noteq> []"
  shows "\<exists>c. event_catalog_dtj sha h later (Some p) = Inr c \<and> is_ok c \<and> is_str (getj c (u ''text'')) \<and>
    getj c (u ''registry_digest'') = JStr (rg_digest reg) \<and>
    getj c (u ''schemas'') = JList (map project_schema (take 500 (rg_schemas reg))) \<and>
    getj c (u ''truncated'') = JBool (500 < length (rg_schemas reg)) \<and>
    (\<forall>s \<in> set (rg_schemas reg). correlation_fields s = map fd_name (filter (\<lambda>f. fd_graph_role f \<in> set REFERENCE_ROLES \<or>
       fd_semantic_role f \<in> Some ` set (u ''identifier'' # REFERENCE_ROLES)) (sc_fields s)))"
proof -
  let ?d = "[(u ''ok'', JBool True), (u ''adapter'', core_adapter), (u ''format'', JStr CATALOG_FORMAT),
     (u ''registry_path'', JStr (rg_path reg)), (u ''registry_digest'', JStr (rg_digest reg)),
     (u ''registry_version'', JInt (rg_version reg)), (u ''schema_count'', jnat (length (map project_schema (take 500 (rg_schemas reg))))),
     (u ''truncated'', JBool (500 < length (rg_schemas reg))), (u ''schemas'', JList (map project_schema (take 500 (rg_schemas reg))))]"
  obtain t where t: "render_event_catalog_markdown (rt h) ?d = Inr t"
    using render_projected [of ?d "take 500 (rg_schemas reg)" "rt h"] by auto
  then have e: "event_catalog_dtj sha h later (Some p) = Inr (?d @ [(u ''text'', JStr t)])"
    using assms by (simp add: event_catalog_dtj_def Let_def catalog_from_registry_def with_text_def)
  have cf: "\<forall>s \<in> set (rg_schemas reg). correlation_fields s = map fd_name (filter (\<lambda>f. fd_graph_role f \<in> set REFERENCE_ROLES \<or>
       fd_semantic_role f \<in> Some ` set (u ''identifier'' # REFERENCE_ROLES)) (sc_fields s))"
  proof
    fix s assume "s \<in> set (rg_schemas reg)"
    with load_registry_wf [OF assms(1)] have "distinct (map fd_name (sc_fields s))" by (simp add: wf_registry_def wf_schema_def)
    then show "correlation_fields s = map fd_name (filter (\<lambda>f. fd_graph_role f \<in> set REFERENCE_ROLES \<or>
       fd_semantic_role f \<in> Some ` set (u ''identifier'' # REFERENCE_ROLES)) (sc_fields s))"
      using correlation_fold [of "sc_fields s" "[]"] by (simp add: correlation_fields_def)
  qed
  show ?thesis
    by (rule exI [of _ "?d @ [(u ''text'', JStr t)]"], intro conjI e cf) (simp_all add: is_ok_def)
qed

lemma sample_catalog_loads:
  "load_registry (\<lambda>b. u ''ab'') (registry_host (JInt 1)) (File [1, 2] 0) (expanduser (registry_host (JInt 1)) (u ''r'')) None
     DEFAULT_MAX_REGISTRY_BYTES = Inr sample_registry"
  by (simp add: load_registry_def registry_host_def is_file_def read_bytes_def size_of_node_def sample_host_def
      sample_runtime_def sample_schemas sample_registry_def)

theorem catalog_of_registry_witness:
  "\<exists>c. event_catalog_dtj (\<lambda>b. u ''ab'') (registry_host (JInt 1)) (\<lambda>p. File [1, 2] 0) (Some (u ''r'')) = Inr c \<and> is_ok c"
proof -
  have "strip (u ''r'') \<noteq> []" by (simp add: strip_def rstrip_def u_Cons is_space_def)
  from catalog_of_registry [OF sample_catalog_loads this] show ?thesis by (elim exE conjE) (intro exI conjI)
qed

end
