(* ===== verification/Sdk_Machine.thy ===== *)
theory Sdk_Machine imports Sdk_Session_Props begin

text \<open>
  The life of a trace session as a state machine: any sequence of emits, successful or failing, and
  closes. What one computation may do to a session is a preorder; the locale says that sequencing
  keeps it, so each operation is checked once.
\<close>

section \<open>Computations that respect a preorder\<close>

locale state_order =
  fixes R :: "'s \<Rightarrow> 's \<Rightarrow> bool"
  assumes refl: "R s s" and trans: "R s t \<Longrightarrow> R t v \<Longrightarrow> R s v"
begin

definition keeps :: "('s, 'a) sm \<Rightarrow> bool" where
  "keeps m = (\<forall>s r t. m s = (r, t) \<longrightarrow> R s t)"

lemma keepsD: "keeps m \<Longrightarrow> m s = (r, t) \<Longrightarrow> R s t"
  by (simp add: keeps_def)

lemma keeps_lift: "keeps (liftS r)"
  by (simp add: keeps_def refl)

lemma keeps_bind: "keeps m \<Longrightarrow> (\<And>x. keeps (f x)) \<Longrightarrow> keeps (bindS m f)"
proof -
  assume m: "keeps m" and f: "\<And>x. keeps (f x)"
  show "keeps (bindS m f)"
    unfolding keeps_def
  proof (intro allI impI)
    fix s r t assume b: "bindS m f s = (r, t)"
    obtain x u where x: "m s = (x, u)" by (cases "m s")
    show "R s t"
    proof (cases x)
      case (Inl e)
      with b x keepsD [OF m x] show ?thesis by (simp add: bindS_def)
    next
      case (Inr y)
      with b x have "f y u = (r, t)" by (simp add: bindS_def)
      from trans [OF keepsD [OF m x] keepsD [OF f this]] show ?thesis .
    qed
  qed
qed

lemma keeps_if: "keeps m \<Longrightarrow> keeps n \<Longrightarrow> keeps (if b then m else n)"
  by simp

end

section \<open>What happens to a session that is open\<close>

text \<open>Its flags and its agent stay, frames are only added, names stay bound, and a new binding is a
  32-bit identifier.\<close>

definition evolves :: "session \<Rightarrow> session \<Rightarrow> bool" where
  "evolves s t =
     (closed t = closed s \<and> agent_running t = agent_running s \<and> sock_closed (sk t) = sock_closed (sk s) \<and>
      (\<exists>frs. sent (sk t) = sent (sk s) @ frs) \<and>
      (\<forall>k n. case map_of (cache_of k s) n of Some i \<Rightarrow> map_of (cache_of k t) n = Some i
         | None \<Rightarrow> (case map_of (cache_of k t) n of None \<Rightarrow> True | Some i \<Rightarrow> i < 2 ^ 32)))"

lemma evolves_cache: "evolves s t \<Longrightarrow> map_of (cache_of k s) n = Some i \<Longrightarrow> map_of (cache_of k t) n = Some i"
  by (auto simp: evolves_def split: option.splits)

lemma evolves_new: "evolves s t \<Longrightarrow> map_of (cache_of k t) n = Some i \<Longrightarrow> map_of (cache_of k s) n = Some i \<or> i < 2 ^ 32"
proof -
  assume "evolves s t" and t: "map_of (cache_of k t) n = Some i"
  then have "case map_of (cache_of k s) n of Some i \<Rightarrow> map_of (cache_of k t) n = Some i
    | None \<Rightarrow> (case map_of (cache_of k t) n of None \<Rightarrow> True | Some i \<Rightarrow> i < 2 ^ 32)"
    unfolding evolves_def by blast
  with t show ?thesis by (cases "map_of (cache_of k s) n") simp_all
qed

lemma evolvesI:
  assumes "closed t = closed s" "agent_running t = agent_running s" "sock_closed (sk t) = sock_closed (sk s)"
    "sent (sk t) = sent (sk s) @ frs"
    "\<And>k n i. map_of (cache_of k s) n = Some i \<Longrightarrow> map_of (cache_of k t) n = Some i"
    "\<And>k n i. map_of (cache_of k t) n = Some i \<Longrightarrow> map_of (cache_of k s) n = Some i \<or> i < 2 ^ 32"
  shows "evolves s t"
  unfolding evolves_def using assms by (fastforce split: option.splits)

interpretation session_order: state_order evolves
proof unfold_locales
  fix s show "evolves s s" by (rule evolvesI [where frs = "[]"]) auto
next
  fix s t v assume st: "evolves s t" and tv: "evolves t v"
  from st obtain xs where xs: "sent (sk t) = sent (sk s) @ xs" by (auto simp: evolves_def)
  from tv obtain ys where ys: "sent (sk v) = sent (sk t) @ ys" by (auto simp: evolves_def)
  show "evolves s v"
  proof (rule evolvesI [where frs = "xs @ ys"])
    fix k n i assume "map_of (cache_of k v) n = Some i"
    then show "map_of (cache_of k s) n = Some i \<or> i < 2 ^ 32" using evolves_new [OF tv] evolves_new [OF st] by blast
  next
    fix k n i assume "map_of (cache_of k s) n = Some i"
    then show "map_of (cache_of k v) n = Some i" using evolves_cache [OF tv] evolves_cache [OF st] by blast
  qed (use st tv xs ys in \<open>simp_all add: evolves_def\<close>)
qed

section \<open>The socket\<close>

lemma recv_open: "recv n c = (r, c') \<Longrightarrow> sock_closed c' = sock_closed c"
  by (auto simp: recv_def split: if_splits list.splits)

lemma recv_loop_open: "recv_loop need buf c = (r, c') \<Longrightarrow> sock_closed c' = sock_closed c"
proof (induction need buf c rule: recv_loop.induct)
  case (1 need buf c)
  show ?case
  proof (cases "need \<le> length buf")
    case True
    with "1.prems" show ?thesis by (simp add: recv_loop.simps)
  next
    case False
    obtain x c1 where r: "recv (need - length buf) c = (x, c1)" by (cases "recv (need - length buf) c")
    show ?thesis
      using "1.prems" False r recv_open [OF r] "1.IH" [OF False, of x c1]
      by (subst (asm) recv_loop.simps) (auto split: sum.splits if_splits)
  qed
qed

lemma exchange_open: "exchange fr c = (r, c') \<Longrightarrow> sock_closed c' = sock_closed c"
  by (auto simp: exchange_def read_frame_def bindS_def sendall_def liftS_def Let_def
      split: prod.splits sum.splits if_splits option.splits dest!: recv_loop_open)

lemma exchange_keeps: "session_order.keeps (on_socket (exchange fr))"
  unfolding session_order.keeps_def
proof (intro allI impI)
  fix s r t assume "on_socket (exchange fr) s = (r, t)"
  then obtain c where c: "exchange fr (sk s) = (r, c)" "t = s\<lparr>sk := c\<rparr>" by (auto simp: on_socket_simps)
  from exchange_sent [OF c(1)] obtain frs where "sent c = sent (sk s) @ frs" by auto
  then show "evolves s t"
    using exchange_open [OF c(1)] by (intro evolvesI [where frs = frs]) (simp_all add: c(2))
qed

lemma intern_socket: "intern k n s = (r, t) \<Longrightarrow> sock_closed (sk t) = sock_closed (sk s)"
  by (auto simp: intern_def bindS_def liftS_def on_socket_def split: option.splits prod.splits sum.splits dest!: exchange_open)

lemma intern_keeps: "session_order.keeps (intern k n)"
  unfolding session_order.keeps_def
proof (intro allI impI)
  fix s r t assume i: "intern k n s = (r, t)"
  show "evolves s t"
  proof (cases r)
    case (Inl e)
    from intern_fails [OF i [unfolded Inl]] obtain frs where "sent (sk t) = sent (sk s) @ frs" "closed t = closed s"
      "agent_running t = agent_running s" "\<forall>k. cache_of k t = cache_of k s" by (auto simp: interning_def)
    then show ?thesis using intern_socket [OF i] by (intro evolvesI [where frs = frs]) simp_all
  next
    case (Inr j)
    show ?thesis
    proof (cases "map_of (cache_of k s) n")
      case (Some j')
      with i show ?thesis by (simp add: intern_cached session_order.refl)
    next
      case None
      from intern_Inr [OF i [unfolded Inr] None] obtain fr c where
        c: "sent c = sent (sk s) @ [fr]" "j < 2 ^ 32" "t = set_cache k (AList.update n j (cache_of k s)) (s\<lparr>sk := c\<rparr>)" by blast
      then show ?thesis
        using intern_socket [OF i] None
        by (intro evolvesI [where frs = "[fr]"]) (auto simp: update_conv' split: if_splits)
    qed
  qed
qed

lemma emit_keeps: "session_order.keeps (emit r now domain cat name sev field_name v corr)"
proof -
  have val: "session_order.keeps (case v of SVal (JStr str) \<Rightarrow> bindS (intern STRING str) (\<lambda>i. liftS (Inr (0x0B, nat_le 4 i)))
      | _ \<Rightarrow> liftS (encode_value v))"
    by (auto split: sdk_value.split json.split intro!: session_order.keeps_bind session_order.keeps_lift intern_keeps)
  have corr: "session_order.keeps (case corr of Some (c # cs) \<Rightarrow> intern STRING (c # cs) | _ \<Rightarrow> liftS (Inr 0))"
    by (auto split: option.split list.split intro!: session_order.keeps_lift intern_keeps)
  show ?thesis
    unfolding session_order.keeps_def
  proof (intro allI impI)
    fix s x t assume e: "emit r now domain cat name sev field_name v corr s = (x, t)"
    show "evolves s t"
    proof (cases "closed s \<or> map_of SEVERITY_MAP (lower r sev) = None")
      case True
      with e show ?thesis by (auto simp: emit_def session_order.refl split: option.splits if_splits)
    next
      case False
      then obtain sv where sv: "\<not> closed s" "map_of SEVERITY_MAP (lower r sev) = Some sv" by auto
      have "session_order.keeps (bindS (intern DOMAIN domain) (\<lambda>dom_id.
          bindS (intern CATEGORY cat) (\<lambda>cat_id.
          bindS (intern EVENT_NAME name) (\<lambda>name_id.
          bindS (case corr of Some (c # cs) \<Rightarrow> intern STRING (c # cs) | _ \<Rightarrow> liftS (Inr 0)) (\<lambda>corr_id.
          bindS (intern STRING field_name) (\<lambda>field_id.
          bindS (case v of
              SVal (JStr str) \<Rightarrow> bindS (intern STRING str) (\<lambda>i. liftS (Inr (0x0B, nat_le 4 i)))
            | _ \<Rightarrow> liftS (encode_value v)) (\<lambda>(tag, value_body).
          bindS (liftS (encode_append_event now dom_id cat_id name_id corr_id sv field_id tag value_body)) (\<lambda>frame.
          bindS (on_socket (exchange frame)) (\<lambda>response.
          bindS (liftS (expect ''AppendEvent'' ''AppendEventOk'' RESP_APPEND_EVENT_OK response)) (\<lambda>body.
          liftS (decode_append_event_ok body)))))))))))"
        by (intro session_order.keeps_bind intern_keeps corr val session_order.keeps_lift exchange_keeps)
          (auto intro!: session_order.keeps_bind session_order.keeps_lift exchange_keeps)
      from session_order.keepsD [OF this] e sv show ?thesis by (simp add: emit_def)
    qed
  qed
qed

section \<open>The machine\<close>

text \<open>One step of a session's user: an emit with any arguments, whatever it returns, or a close.\<close>

inductive session_step :: "session \<Rightarrow> session \<Rightarrow> bool" where
  emits: "emit r now domain cat name sev field_name v corr s = (x, t) \<Longrightarrow> session_step s t"
| closes: "session_step s (close_session s)"

inductive reachable :: "conn \<Rightarrow> bool \<Rightarrow> session \<Rightarrow> bool" for c run where
  opened: "reachable c run (new_session c run)"
| stepped: "reachable c run s \<Longrightarrow> session_step s t \<Longrightarrow> reachable c run t"

inductive_cases session_stepE: "session_step s t"

text \<open>The invariant: an open session still has its socket and its agent, a closed one neither, and every
  cached identifier fits in 32 bits.\<close>

definition session_inv :: "conn \<Rightarrow> bool \<Rightarrow> session \<Rightarrow> bool" where
  "session_inv c run s =
     ((if closed s then sock_closed (sk s) \<and> \<not> agent_running s
       else sock_closed (sk s) = sock_closed c \<and> agent_running s = run) \<and>
      (\<forall>k n i. map_of (cache_of k s) n = Some i \<longrightarrow> i < 2 ^ 32))"

lemma evolves_inv:
  assumes e: "evolves s t" and s: "session_inv c run s"
  shows "session_inv c run t"
proof -
  from e have flags: "closed t = closed s" "agent_running t = agent_running s" "sock_closed (sk t) = sock_closed (sk s)"
    by (simp_all add: evolves_def)
  from s have small: "map_of (cache_of k s) n = Some i \<Longrightarrow> i < 2 ^ 32" for k n i
    unfolding session_inv_def by blast
  have "map_of (cache_of k t) n = Some i \<Longrightarrow> i < 2 ^ 32" for k n i
    using evolves_new [OF e] small by blast
  with s flags show ?thesis unfolding session_inv_def by (simp del: power_numeral numeral_power_eq_of_nat_cancel_iff)
qed

text \<open>A close sends at most the finish frame; afterwards both flags are down and the bindings are as they were.\<close>

lemma close_facts:
  "\<not> closed s \<Longrightarrow> closed (close_session s) \<and> sock_closed (sk (close_session s)) \<and> \<not> agent_running (close_session s) \<and>
     (\<exists>frs. sent (sk (close_session s)) = sent (sk s) @ frs) \<and> (\<forall>k. cache_of k (close_session s) = cache_of k s)"
proof -
  assume s: "\<not> closed s"
  define s1 where "s1 = s\<lparr>closed := True\<rparr>"
  obtain r s2 where b: "bindS (liftS encode_finish_session) (\<lambda>frame. on_socket (exchange frame)) s1 = (r, s2)"
    by (cases "bindS (liftS encode_finish_session) (\<lambda>frame. on_socket (exchange frame)) s1")
  have cl: "close_session s = s2\<lparr>sk := (sk s2)\<lparr>sock_closed := True\<rparr>, agent_running := False\<rparr>"
    using s b by (simp add: close_session_def s1_def Let_def)
  have "session_order.keeps (bindS (liftS encode_finish_session) (\<lambda>frame. on_socket (exchange frame)))"
    by (intro session_order.keeps_bind session_order.keeps_lift exchange_keeps)
  from session_order.keepsD [OF this b] have e: "evolves s1 s2" .
  have c: "cache_of k s2 = cache_of k s1" for k
    using b by (cases k) (auto simp: bindS_def liftS_def on_socket_simps split: sum.splits prod.splits)
  have k1: "cache_of k s1 = cache_of k s" for k
    by (cases k) (simp_all add: s1_def cache_of_def)
  have k2: "cache_of k (close_session s) = cache_of k s2" for k
    unfolding cl by (cases k) (simp_all add: cache_of_def)
  from e have "closed s2" "\<exists>frs. sent (sk s2) = sent (sk s) @ frs" by (simp_all add: evolves_def s1_def)
  then show ?thesis using c k1 k2 by (simp add: cl)
qed

lemma close_inv:
  assumes i: "session_inv c run s"
  shows "session_inv c run (close_session s)"
proof (cases "closed s")
  case True
  with i show ?thesis by (simp add: close_session_def)
next
  case False
  from close_facts [OF False] have f: "closed (close_session s)" "sock_closed (sk (close_session s))"
    "\<not> agent_running (close_session s)" and k: "\<And>k. cache_of k (close_session s) = cache_of k s" by blast+
  from i have "\<forall>k n i. map_of (cache_of k s) n = Some i \<longrightarrow> i < 2 ^ 32" unfolding session_inv_def by blast
  then show ?thesis unfolding session_inv_def k using f by simp
qed

lemma emit_evolves: "emit r now domain cat name sev field_name v corr s = (x, t) \<Longrightarrow> evolves s t"
  by (rule session_order.keepsD [OF emit_keeps])

lemma step_inv: "session_step s t \<Longrightarrow> session_inv c run s \<Longrightarrow> session_inv c run t"
  by (erule session_stepE) (auto intro: evolves_inv emit_evolves close_inv)

lemma new_inv: "session_inv c run (new_session c run)"
proof -
  have "cache_of k (new_session c run) = []" for k by (cases k) (simp_all add: cache_of_def new_session_def)
  then show ?thesis unfolding session_inv_def by (simp add: new_session_def)
qed

lemma reachable_inv: "reachable c run s \<Longrightarrow> session_inv c run s"
  by (induction rule: reachable.induct) (auto intro: new_inv step_inv)

lemma closed_final: "session_step s t \<Longrightarrow> closed s \<Longrightarrow> t = s"
  by (erule session_stepE) (auto simp: emit_def close_session_def)

lemma step_sent: "session_step s t \<Longrightarrow> \<exists>frs. sent (sk t) = sent (sk s) @ frs"
proof (erule session_stepE)
  fix r now domain cat name sev field_name v corr x
  assume "emit r now domain cat name sev field_name v corr s = (x, t)"
  from emit_evolves [OF this] show ?thesis by (simp add: evolves_def)
next
  assume t: "t = close_session s"
  show ?thesis
    by (cases "closed s") (use close_facts [of s] in \<open>auto simp: t close_session_def\<close>)
qed

lemma step_cache:
  assumes "session_step s t" "map_of (cache_of k s) n = Some i"
  shows "map_of (cache_of k t) n = Some i"
  using assms(1)
proof (rule session_stepE)
  fix r now domain cat name sev field_name v corr x
  assume "emit r now domain cat name sev field_name v corr s = (x, t)"
  from evolves_cache [OF emit_evolves [OF this] assms(2)] show ?thesis .
next
  assume t: "t = close_session s"
  show ?thesis
    by (cases "closed s") (use close_facts [of s] assms(2) in \<open>auto simp: t close_session_def\<close>)
qed

lemma step_star_sent: "session_step\<^sup>*\<^sup>* s t \<Longrightarrow> \<exists>frs. sent (sk t) = sent (sk s) @ frs"
  by (induction rule: rtranclp_induct) (auto dest!: step_sent)

lemma step_star_cache: "session_step\<^sup>*\<^sup>* s t \<Longrightarrow> map_of (cache_of k s) n = Some i \<Longrightarrow> map_of (cache_of k t) n = Some i"
  by (induction rule: rtranclp_induct) (auto intro: step_cache)

lemma step_star_closed: "session_step\<^sup>*\<^sup>* s t \<Longrightarrow> closed s \<Longrightarrow> t = s"
  by (induction rule: rtranclp_induct) (auto dest: closed_final)

lemma step_star_reachable: "session_step\<^sup>*\<^sup>* s t \<Longrightarrow> reachable c run s \<Longrightarrow> reachable c run t"
  by (induction rule: rtranclp_induct) (auto intro: stepped)

text \<open>C13: The life of a session. Whatever emits and closes a client makes of a session that was opened on a
  socket, and whatever the agent answers: at every moment the session still holds its open socket and its agent
  or has given up both, every cached identifier is a 32-bit number; and from any moment on, what was sent is
  only added to, a name once bound keeps its identifier, and a closed session never changes again.\<close>

theorem session_life:
  assumes "reachable c run s" "session_step\<^sup>*\<^sup>* s t"
  shows "session_inv c run t \<and> (\<exists>frs. sent (sk t) = sent (sk s) @ frs) \<and>
    (\<forall>k n i. map_of (cache_of k s) n = Some i \<longrightarrow> map_of (cache_of k t) n = Some i) \<and>
    (closed s \<longrightarrow> t = s)"
proof -
  have "session_inv c run t" by (rule reachable_inv [OF step_star_reachable [OF assms(2,1)]])
  moreover have "\<exists>frs. sent (sk t) = sent (sk s) @ frs" by (rule step_star_sent [OF assms(2)])
  moreover have "\<forall>k n i. map_of (cache_of k s) n = Some i \<longrightarrow> map_of (cache_of k t) n = Some i"
    using step_star_cache [OF assms(2)] by blast
  moreover have "closed s \<longrightarrow> t = s" using step_star_closed [OF assms(2)] by blast
  ultimately show ?thesis by blast
qed

definition silent_conn :: conn where
  "silent_conn = \<lparr>incoming = [], at_end = None, sent = [], send_fault = (\<lambda>n. None), sock_closed = False\<rparr>"

theorem session_life_witness:
  "session_inv silent_conn True (close_session (new_session silent_conn True)) \<and>
   closed (close_session (new_session silent_conn True))"
proof -
  have o: "reachable silent_conn True (new_session silent_conn True)" by (rule opened)
  have st: "session_step\<^sup>*\<^sup>* (new_session silent_conn True) (close_session (new_session silent_conn True))"
    by (rule r_into_rtranclp [of session_step, OF closes])
  have "closed (close_session (new_session silent_conn True))"
    using close_facts [of "new_session silent_conn True"] by (simp add: new_session_def)
  with session_life [OF o st] show ?thesis by blast
qed

end
