(* ===== verification/Dtj_Analyze.thy ===== *)
theory Dtj_Analyze imports Dtj_Query "HOL-Library.List_Lexorder" "HOL-Library.Product_Lexorder" begin

text \<open>
  The diagnostic analyses of \<open>dtj_analyze.py\<close>: session boundaries, scoping, the one-pass scan with its
  counters, event balance, repetition, red flags, unmatched entities, the causal walk, and the reports
  composed from them. An event is a dictionary; the functions on one event are stated for the shape both
  readers produce (strings, or null, for names; a string for a field's type), on which no lookup raises.
\<close>

section \<open>Tables\<close>

abbreviation (input) "MAX_TOP \<equiv> 100 :: int"
abbreviation (input) "MAX_HOPS \<equiv> 50 :: int"
abbreviation (input) "MAX_LIMIT \<equiv> 500 :: int"

definition ENTITY_FIELD_KEYS :: "string list" where
  "ENTITY_FIELD_KEYS = [''id'', ''wire'', ''networkId'', ''sourceId'', ''route'']"

definition EVENT_PAIRS :: "(string \<times> string list \<times> string list) list" where
  "EVENT_PAIRS =
     [(''Dangling'', [''Created''], [''Destroyed'', ''Consumed'']),
      (''Begin'', [''Begin''], [''Success'', ''Commit'', ''Dispose'', ''End'']),
      (''Arm'', [''Arm'', ''Arming''], [''Release'']),
      (''Candidate'', [''CandidateBegin''], [''Commit'', ''Cancel''])]"

definition RED_FLAGS :: "(string \<times> string \<times> bool) list" where
  "RED_FLAGS =
     [(''null-angle'', ''<null>'', True), (''null-paren'', ''(null)'', True), (''skip'', ''skip'', True),
      (''clamped'', ''clamped=True'', False),
      (''cached-polyline'', ''usedCachedPolylineSnapshot=true'', False),
      (''canBranch-false'', ''canBranch=false'', False), (''failed'', ''result=Failed'', False),
      (''mismatch'', ''mismatch'', True)]"

definition PRESET_REPORTS :: "string list" where
  "PRESET_REPORTS = [''branch'', ''dangling'', ''graph_undo'', ''tip_hold'', ''commit_boundary'', ''gesture_route'']"

section \<open>Arguments\<close>

definition bad_between :: "int \<Rightarrow> json \<Rightarrow> bool" where
  "bad_between max_value v = (is_bool v \<or> \<not> is_int v \<or> int_val v < 1 \<or> max_value < int_val v)"

definition between_error :: "string \<Rightarrow> int \<Rightarrow> jdict" where
  "between_error name max_value =
     [(u ''kind'', JStr (u ''InvalidLimit'')),
      (u ''message'', JStr (u name @ u '' must be an integer in 1..'' @ str_int max_value)),
      (u ''max'', JInt max_value)]"

definition validate_top :: "json \<Rightarrow> jdict option" where
  "validate_top v = (if bad_between MAX_TOP v then Some (between_error ''top'' MAX_TOP) else None)"

definition validate_limit :: "json \<Rightarrow> jdict option" where
  "validate_limit v = (if bad_between MAX_LIMIT v then Some (between_error ''limit'' MAX_LIMIT) else None)"

definition validate_hops :: "json \<Rightarrow> jdict option" where
  "validate_hops v = (if bad_between MAX_HOPS v then Some (between_error ''hops'' MAX_HOPS) else None)"

section \<open>One event\<close>

definition event_dicts :: "jdict \<Rightarrow> py_exn + jdict list" where
  "event_dicts decoded = bindE (dict_events decoded) (\<lambda>es. Inr (map dict_val es))"

definition event_tag :: "runtime \<Rightarrow> jdict \<Rightarrow> pystr" where
  "event_tag r ev =
     (let cat = or_else (getj ev (u ''category'')) (JStr []); name = or_else (getj ev (u ''event_name'')) (JStr [])
      in if truthy cat \<or> truthy name then py_str r cat @ u ''.'' @ py_str r name else u ''<none>'')"

definition type_in :: "jdict \<Rightarrow> string list \<Rightarrow> bool" where
  "type_in item types = (getj item (u ''type'') \<in> (\<lambda>t. JStr (u t)) ` set types)"

definition payload_items :: "jdict \<Rightarrow> jdict list" where
  "payload_items ev =
     (if is_list (getj ev (u ''payload'')) then map dict_val (filter is_dict (list_val (getj ev (u ''payload'')))) else [])"

definition item_parts :: "runtime \<Rightarrow> jdict \<Rightarrow> pystr list" where
  "item_parts r item =
     (let val = getj item (u ''value'') in
      (if is_str (getj item (u ''name'')) then [str_val (getj item (u ''name''))] else []) @
      (if type_in item [''interned_string''] \<and> is_str val then [str_val val]
       else if type_in item scalar_types then [py_str r val]
       else if type_in item [''bytes''] \<and> is_str (getj item (u ''hex'')) then [str_val (getj item (u ''hex''))]
       else []))"

definition string_parts :: "runtime \<Rightarrow> jdict \<Rightarrow> pystr list" where
  "string_parts r ev =
     concat (map (\<lambda>k. str_part (getj ev k))
       [u ''domain'', u ''category'', u ''event_name'', u ''correlation'', u ''severity'']) @
     concat (map (item_parts r) (payload_items ev))"

text \<open>The named payload values that \<open>_haystack\<close>, \<open>_compact\<close> and \<open>_payload_kv\<close> read.\<close>

definition item_pair :: "runtime \<Rightarrow> jdict \<Rightarrow> (pystr \<times> pystr) list" where
  "item_pair r item =
     (let name = getj item (u ''name''); val = getj item (u ''value'') in
      if \<not> is_str name then []
      else if type_in item [''interned_string''] \<and> is_str val then [(str_val name, str_val val)]
      else if type_in item scalar_types then [(str_val name, py_str r val)]
      else [])"

definition payload_pairs :: "runtime \<Rightarrow> jdict \<Rightarrow> (pystr \<times> pystr) list" where
  "payload_pairs r ev = concat (map (item_pair r) (payload_items ev))"

definition assignments :: "runtime \<Rightarrow> jdict \<Rightarrow> pystr list" where
  "assignments r ev = map (\<lambda>(name, val). name @ u ''='' @ val) (payload_pairs r ev)"

definition event_haystack :: "runtime \<Rightarrow> jdict \<Rightarrow> pystr" where
  "event_haystack r ev = join (u '' '') (string_parts r ev @ assignments r ev)"

definition compact :: "runtime \<Rightarrow> jdict \<Rightarrow> pystr" where
  "compact r ev =
     (let corr = or_else (getj ev (u ''correlation'')) (JStr (u ''-''));
          msg0 = join (u '' '') (assignments r ev);
          msg = (if 120 < length msg0 then take 117 msg0 @ u ''...'' else msg0)
      in rstrip (py_str r (getj ev (u ''event_sequence'')) @ tab @ event_tag r ev @ tab @ u ''corr='' @ py_str r corr @ tab @ msg))"

definition payload_kv :: "runtime \<Rightarrow> jdict \<Rightarrow> jdict" where
  "payload_kv r ev = foldl (\<lambda>out (name, val). AList.update name (JStr val) out) [] (payload_pairs r ev)"

section \<open>Entities\<close>

text \<open>What a payload field says about an entity: its key and the reference.\<close>

definition entity_item :: "runtime \<Rightarrow> jdict \<Rightarrow> (pystr \<times> pystr) list" where
  "entity_item r item =
     (let name = getj item (u ''name''); val = getj item (u ''value'') in
      if name \<notin> (\<lambda>k. JStr (u k)) ` set ENTITY_FIELD_KEYS then []
      else if type_in item [''interned_string''] \<and> is_str val then [(str_val name, str_val val)]
      else if type_in item [''i32'', ''i64'', ''u32'', ''u64''] \<and> val \<noteq> JNull then [(str_val name, py_str r val)]
      else [])"

definition entity_items :: "runtime \<Rightarrow> jdict \<Rightarrow> (pystr \<times> pystr) list" where
  "entity_items r ev = concat (map (entity_item r) (payload_items ev))"

text \<open>The set \<open>_entity_refs\<close> returns, as the list of what is added to it.\<close>

definition entity_refs :: "runtime \<Rightarrow> jdict \<Rightarrow> pystr list" where
  "entity_refs r ev = str_part (getj ev (u ''correlation'')) @ map snd (entity_items r ev)"

definition or_str :: "pystr option \<Rightarrow> pystr option \<Rightarrow> pystr option" where
  "or_str a b = (if a \<noteq> None \<and> a \<noteq> Some [] then a else b)"

definition entity_id_from_event :: "runtime \<Rightarrow> jdict \<Rightarrow> pystr option" where
  "entity_id_from_event r ev =
     (let by_name = map_of (foldl (\<lambda>d (name, val). AList.update name val d) [] (entity_items r ev))
      in or_str (by_name (u ''id'')) (or_str (by_name (u ''networkId'')) (or_str (by_name (u ''sourceId'')) (by_name (u ''wire'')))))"

section \<open>Scope\<close>

definition event_matches :: "pystr \<Rightarrow> string list \<Rightarrow> bool" where
  "event_matches event_name substrings = list_ex (\<lambda>s. is_infix (u s) event_name) substrings"

definition is_session_boundary :: "runtime \<Rightarrow> jdict \<Rightarrow> bool" where
  "is_session_boundary r ev =
     (let cat = or_else (getj ev (u ''category'')) (JStr []); name = or_else (getj ev (u ''event_name'')) (JStr []) in
      if cat = JStr (u ''Session'') \<and> is_infix (u ''Begin'') (str_val name) then True
      else if event_tag r ev = u ''Session.Begin'' then True
      else if cat = JStr (u ''Lifecycle'') \<and> name = JStr (u ''trace'')
      then is_infix (u ''cleared'') (lower r (event_haystack r ev))
      else False)"

definition seq_of :: "jdict \<Rightarrow> json" where
  "seq_of ev = getj ev (u ''event_sequence'')"

definition last_boundary_seq :: "runtime \<Rightarrow> jdict list \<Rightarrow> int option" where
  "last_boundary_seq r events =
     (let boundaries = map (\<lambda>e. int_val (seq_of e)) (filter (\<lambda>e. is_session_boundary r e \<and> is_int (seq_of e)) events)
      in if boundaries = [] then None else Some (last boundaries))"

definition count_sessions :: "runtime \<Rightarrow> jdict list \<Rightarrow> nat" where
  "count_sessions r events =
     (let n = length (filter (is_session_boundary r) events)
      in if 0 < n then n else if events \<noteq> [] then 1 else 0)"

record scope =
  since_last_clear :: bool
  in_category :: "pystr option"
  mono_from :: "int option"
  mono_to :: "int option"

definition in_scope :: "int option \<Rightarrow> scope \<Rightarrow> jdict \<Rightarrow> bool" where
  "in_scope since_seq sc ev =
     (let mono = getj ev (u ''monotonic_ns'') in
      if since_seq \<noteq> None \<and> is_int (seq_of ev) \<and> int_val (seq_of ev) < the since_seq then False
      else if \<not> eq_filter (in_category sc) (getj ev (u ''category'')) then False
      else if mono_from sc \<noteq> None \<and> is_int mono \<and> int_val mono < the (mono_from sc) then False
      else if mono_to sc \<noteq> None \<and> is_int mono \<and> the (mono_to sc) < int_val mono then False
      else True)"

definition scope_events :: "runtime \<Rightarrow> scope \<Rightarrow> jdict list \<Rightarrow> jdict list" where
  "scope_events r sc events =
     filter (in_scope (if since_last_clear sc then last_boundary_seq r events else None) sc) events"

definition whole :: scope where
  "whole = \<lparr>since_last_clear = False, in_category = None, mono_from = None, mono_to = None\<rparr>"

section \<open>Counters\<close>

text \<open>A \<open>Counter\<close>: its items in the order in which the keys first appeared.\<close>

type_synonym 'a counter = "('a \<times> nat) list"

definition count_of :: "'a counter \<Rightarrow> 'a \<Rightarrow> nat" where
  "count_of c k = (case map_of c k of None \<Rightarrow> 0 | Some n \<Rightarrow> n)"

definition bump :: "'a \<Rightarrow> 'a counter \<Rightarrow> 'a counter" where
  "bump k c = AList.update k (count_of c k + 1) c"

definition most_common :: "nat \<Rightarrow> 'a counter \<Rightarrow> 'a counter" where
  "most_common n c = take n (sort_key (\<lambda>(k, m). - int m) c)"

section \<open>The scan\<close>

record scan_state =
  scanned :: "jdict list"
  categories :: "json counter"
  opens :: "string counter"
  closes :: "string counter"
  freq :: "(pystr \<times> pystr) counter"
  red_counts :: "string counter"
  red_samples :: "(string \<times> jdict list) list"
  first_mono :: json
  last_mono :: json

definition empty_scan :: "jdict list \<Rightarrow> scan_state" where
  "empty_scan events = \<lparr>scanned = events, categories = [], opens = [], closes = [], freq = [], red_counts = [],
     red_samples = [], first_mono = JNull, last_mono = JNull\<rparr>"

definition samples_of :: "scan_state \<Rightarrow> string \<Rightarrow> jdict list" where
  "samples_of sr label = (case map_of (red_samples sr) label of None \<Rightarrow> [] | Some l \<Rightarrow> l)"

definition name_of :: "runtime \<Rightarrow> jdict \<Rightarrow> pystr" where
  "name_of r ev = py_str r (or_else (getj ev (u ''event_name'')) (JStr []))"

definition scan_pair :: "pystr \<Rightarrow> scan_state \<Rightarrow> string \<times> string list \<times> string list \<Rightarrow> scan_state" where
  "scan_pair ev_name sr p =
     (case p of (pair_name, os, cs) \<Rightarrow>
        if event_matches ev_name os then sr\<lparr>opens := bump pair_name (opens sr)\<rparr>
        else if event_matches ev_name cs then sr\<lparr>closes := bump pair_name (closes sr)\<rparr>
        else sr)"

definition red_hit :: "runtime \<Rightarrow> pystr \<Rightarrow> string \<times> string \<times> bool \<Rightarrow> bool" where
  "red_hit r text f = (case f of (label, substr, ci) \<Rightarrow>
     is_infix (if ci then lower r (u substr) else u substr) (if ci then lower r text else text))"

definition scan_flag :: "runtime \<Rightarrow> nat \<Rightarrow> jdict \<Rightarrow> scan_state \<Rightarrow> string \<times> string \<times> bool \<Rightarrow> scan_state" where
  "scan_flag r sample_limit ev sr f =
     (if red_hit r (event_haystack r ev) f then
        let sr = sr\<lparr>red_counts := bump (fst f) (red_counts sr)\<rparr>;
            samples = samples_of sr (fst f)
        in sr\<lparr>red_samples := AList.update (fst f) (if length samples < sample_limit then samples @ [ev] else samples)
             (red_samples sr)\<rparr>
      else sr)"

definition scan_event :: "runtime \<Rightarrow> nat \<Rightarrow> scan_state \<Rightarrow> jdict \<Rightarrow> scan_state" where
  "scan_event r sample_limit sr ev =
     (let sr = sr\<lparr>categories := bump (or_else (getj ev (u ''category'')) (JStr (u ''<none>''))) (categories sr)\<rparr>;
          mono = getj ev (u ''monotonic_ns'');
          sr = (if is_int mono
            then sr\<lparr>first_mono := (if first_mono sr = JNull then mono else first_mono sr), last_mono := mono\<rparr> else sr);
          sr = foldl (scan_pair (name_of r ev)) sr EVENT_PAIRS;
          sr = sr\<lparr>freq := bump (event_tag r ev, event_haystack r ev) (freq sr)\<rparr>
      in foldl (scan_flag r sample_limit ev) sr RED_FLAGS)"

definition scan_events :: "runtime \<Rightarrow> nat \<Rightarrow> jdict list \<Rightarrow> scan_state" where
  "scan_events r sample_limit events = foldl (scan_event r sample_limit) (empty_scan events) events"

section \<open>Event balance\<close>

definition balance_row :: "scan_state \<Rightarrow> string \<Rightarrow> jdict" where
  "balance_row sr pair_name =
     (let created = count_of (opens sr) pair_name; closed = count_of (closes sr) pair_name;
          diff = \<bar>int created - int closed\<bar>;
          head = u pair_name @ u '': created='' @ nstr created @ u '' closed='' @ nstr closed @ u '' -> ''
      in [(u ''pair'', JStr (u pair_name)), (u ''created'', jnat created), (u ''closed'', jnat closed),
          (u ''unmatched'', JInt diff), (u ''balanced'', JBool (diff = 0)),
          (u ''text'', JStr (if diff = 0 then head @ u ''balanced'' else head @ str_int diff @ u '' unmatched '' @ [9888]))])"

definition balance_rows :: "scan_state \<Rightarrow> bool \<Rightarrow> jdict list" where
  "balance_rows sr only_unbalanced =
     sort_key (\<lambda>row. (- int_val (getj row (u ''unmatched'')), str_val (getj row (u ''pair''))))
       (filter (\<lambda>row. \<not> (only_unbalanced \<and> int_val (getj row (u ''unmatched'')) = 0))
         (map (\<lambda>p. balance_row sr (fst p)) EVENT_PAIRS))"

definition row_text :: "jdict \<Rightarrow> pystr" where
  "row_text row = str_val (getj row (u ''text''))"

section \<open>Repetition\<close>

text \<open>The state of the loop of \<open>_repetition\<close>: its runs, the key, start and length of the current one.\<close>

record run_state =
  runs :: "jdict list"
  prev_key :: "(pystr \<times> pystr) option"
  run_start :: "jdict option"
  run_len :: nat

definition event_key :: "runtime \<Rightarrow> jdict \<Rightarrow> pystr \<times> pystr" where
  "event_key r ev = (event_tag r ev, event_haystack r ev)"

definition run_row :: "runtime \<Rightarrow> nat \<Rightarrow> jdict \<Rightarrow> jdict" where
  "run_row r n ev =
     [(u ''run'', jnat n), (u ''event_sequence'', seq_of ev), (u ''tag'', JStr (event_tag r ev)),
      (u ''text'', JStr (u ''run='' @ nstr n @ u ''  seq='' @ py_str r (seq_of ev) @ u ''  '' @ event_tag r ev))]"

definition flush :: "runtime \<Rightarrow> nat \<Rightarrow> run_state \<Rightarrow> run_state" where
  "flush r min_run st =
     (let st = (case run_start st of
          Some ev \<Rightarrow> if min_run \<le> run_len st then st\<lparr>runs := runs st @ [run_row r (run_len st) ev]\<rparr> else st
        | None \<Rightarrow> st)
      in st\<lparr>run_start := None, run_len := 0\<rparr>)"

definition run_step :: "runtime \<Rightarrow> nat \<Rightarrow> run_state \<Rightarrow> jdict \<Rightarrow> run_state" where
  "run_step r min_run st ev =
     (if prev_key st = Some (event_key r ev) then st\<lparr>run_len := run_len st + 1\<rparr>
      else (flush r min_run st)\<lparr>prev_key := Some (event_key r ev), run_start := Some ev, run_len := 1\<rparr>)"

definition repeated_runs :: "runtime \<Rightarrow> nat \<Rightarrow> jdict list \<Rightarrow> jdict list" where
  "repeated_runs r min_run events =
     runs (flush r min_run (foldl (run_step r min_run) \<lparr>runs = [], prev_key = None, run_start = None, run_len = 0\<rparr> events))"

text \<open>\<open>f"{n:>5}"\<close>\<close>

definition pad5 :: "nat \<Rightarrow> pystr" where
  "pad5 n = replicate (5 - length (nstr n)) 32 @ nstr n"

definition repetition :: "runtime \<Rightarrow> nat \<Rightarrow> nat \<Rightarrow> scan_state \<Rightarrow> jdict list \<times> jdict list" where
  "repetition r min_run n_top sr =
     (take n_top (repeated_runs r min_run (scanned sr)),
      map (\<lambda>((t, msg), n). [(u ''count'', jnat n), (u ''tag'', JStr t), (u ''text'', JStr (pad5 n @ u ''  '' @ t))])
        (most_common n_top (freq sr)))"

section \<open>Last session\<close>

definition last_session_result :: "runtime \<Rightarrow> pystr \<Rightarrow> jdict \<Rightarrow> py_exn + jdict" where
  "last_session_result r path decoded =
     bindE (event_dicts decoded) (\<lambda>events.
       let answer = (\<lambda>txt session. Inr (base_result path decoded @ [(u ''text'', JStr txt), (u ''session'', JObj session)])) in
       if events = [] then
         answer (u ''No events.'') [(u ''boundary_event_sequence'', JNull), (u ''events_in_session'', JInt 0)]
       else
         let boundaries = filter (is_session_boundary r) events in
         if boundaries = [] then
           answer (u ''session start: event_sequence 1 (no explicit boundary)'' @ newline @
               u ''events in session: '' @ nstr (length events))
             [(u ''boundary_event_sequence'', JInt 1), (u ''explicit_boundary'', JBool False),
              (u ''events_in_session'', jnat (length events))]
         else
           let lst = last boundaries in
           bindE (case map_of lst (u ''event_sequence'') of None \<Rightarrow> Inl (KeyError (u ''event_sequence''))
             | Some v \<Rightarrow> py_int r v) (\<lambda>seq.
           let count = length (filter (\<lambda>e. is_int (seq_of e) \<and> seq \<le> int_val (seq_of e)) events) in
           answer (u ''session start: event_sequence '' @ str_int seq @ u ''  tag '' @ event_tag r lst @ newline @
               u ''message: '' @ take 80 (compact r lst) @ newline @ u ''events since boundary: '' @ nstr count)
             [(u ''boundary_event_sequence'', JInt seq), (u ''explicit_boundary'', JBool True),
              (u ''tag'', JStr (event_tag r lst)), (u ''events_in_session'', jnat count)]))"

definition last_session_dtj :: "host \<Rightarrow> pystr \<Rightarrow> py_exn + jdict" where
  "last_session_dtj h p = with_loadedE (read_session_dtj h p) (last_session_result (rt h) (expanduser h p))"

section \<open>Balance of the event pairs\<close>

definition scope_category :: "scope \<Rightarrow> json" where
  "scope_category sc = (case in_category sc of None \<Rightarrow> JNull | Some c \<Rightarrow> JStr c)"

definition balance_result :: "runtime \<Rightarrow> pystr \<Rightarrow> bool \<Rightarrow> scope \<Rightarrow> jdict \<Rightarrow> py_exn + jdict" where
  "balance_result r path only_unbalanced sc decoded =
     bindE (event_dicts decoded) (\<lambda>events.
       let rows = balance_rows (scan_events r 1 (scope_events r sc events)) only_unbalanced;
           txt = (if rows \<noteq> [] then join newline (map row_text rows) else u ''All event pairs balanced.'')
       in Inr (base_result path decoded @
            [(u ''only_unbalanced'', JBool only_unbalanced), (u ''since_last_clear'', JBool (since_last_clear sc)),
             (u ''category'', scope_category sc), (u ''rows'', JList (map JObj rows)), (u ''text'', JStr txt)]))"

definition event_balance_dtj :: "host \<Rightarrow> pystr \<Rightarrow> bool \<Rightarrow> scope \<Rightarrow> py_exn + jdict" where
  "event_balance_dtj h p only_unbalanced sc =
     with_loadedE (read_session_dtj h p) (balance_result (rt h) (expanduser h p) only_unbalanced sc)"

section \<open>Unmatched entities\<close>

record entities =
  opened :: "(pystr \<times> jdict) list"
  closed_ids :: "pystr list"
  last_seen :: "(pystr \<times> jdict) list"

definition entity_step :: "runtime \<Rightarrow> string list \<Rightarrow> string list \<Rightarrow> entities \<Rightarrow> jdict \<Rightarrow> entities" where
  "entity_step r os cs st ev =
     (case entity_id_from_event r ev of
        None \<Rightarrow> st
      | Some [] \<Rightarrow> st
      | Some eid \<Rightarrow>
          let st = st\<lparr>last_seen := AList.update eid ev (last_seen st)\<rparr> in
          if event_matches (name_of r ev) os then st\<lparr>opened := AList.update eid ev (opened st)\<rparr>
          else if event_matches (name_of r ev) cs then st\<lparr>closed_ids := eid # closed_ids st\<rparr>
          else st)"

definition track_entities :: "runtime \<Rightarrow> string list \<Rightarrow> string list \<Rightarrow> jdict list \<Rightarrow> entities" where
  "track_entities r os cs events =
     foldl (entity_step r os cs) \<lparr>opened = [], closed_ids = [], last_seen = []\<rparr> events"

definition unmatched_ids :: "entities \<Rightarrow> pystr list" where
  "unmatched_ids st = filter (\<lambda>eid. eid \<notin> set (closed_ids st)) (map fst (opened st))"

definition entity_row :: "runtime \<Rightarrow> entities \<Rightarrow> pystr \<Rightarrow> jdict" where
  "entity_row r st eid =
     (let create = the (map_of (opened st) eid);
          lst = (case map_of (last_seen st) eid of None \<Rightarrow> create | Some e \<Rightarrow> e)
      in [(u ''id'', JStr eid), (u ''created_event_sequence'', seq_of create), (u ''last_event_sequence'', seq_of lst),
          (u ''last_tag'', JStr (event_tag r lst)),
          (u ''text'', JStr (u ''  id='' @ eid @ u ''  created@seq='' @ py_str r (seq_of create) @ u ''  last@seq='' @
             py_str r (seq_of lst) @ u ''  tag='' @ event_tag r lst))])"

definition unmatched_result ::
  "runtime \<Rightarrow> pystr \<Rightarrow> pystr \<Rightarrow> json \<Rightarrow> scope \<Rightarrow> string list \<times> string list \<Rightarrow> jdict \<Rightarrow> py_exn + jdict" where
  "unmatched_result r path kind limit sc pair decoded =
     bindE (event_dicts decoded) (\<lambda>events.
       let st = track_entities r (fst pair) (snd pair) (scope_events r sc events);
           unmatched = unmatched_ids st;
           k = nat (int_val limit);
           rows = map (entity_row r st) (take k unmatched);
           txt = (if unmatched \<noteq> [] then
               join newline ([kind @ u '': '' @ nstr (length unmatched) @ u '' unmatched of '' @ nstr (length (opened st)) @
                   u '' opened''] @ map row_text rows @
                 (if k < length unmatched then [u ''  ... '' @ nstr (length unmatched - k) @ u '' more''] else []))
             else kind @ u '': all '' @ nstr (length (opened st)) @ u '' opened entities were closed'')
       in Inr (base_result path decoded @
            [(u ''kind'', JStr kind), (u ''limit'', limit), (u ''unmatched_count'', jnat (length unmatched)),
             (u ''opened_count'', jnat (length (opened st))), (u ''entities'', JList (map JObj rows)), (u ''text'', JStr txt)]))"

definition unmatched_entities_dtj :: "host \<Rightarrow> pystr \<Rightarrow> pystr \<Rightarrow> json \<Rightarrow> bool \<Rightarrow> py_exn + jdict" where
  "unmatched_entities_dtj h p kind limit since =
     (let path = expanduser h p in
      case validate_limit limit of
        Some e \<Rightarrow> Inr (fail_at path e)
      | None \<Rightarrow>
          (case map_of (map (\<lambda>(n, os, cs). (u n, (os, cs))) EVENT_PAIRS) kind of
             None \<Rightarrow> Inr (fail_at path [(u ''kind'', JStr (u ''InvalidQuery'')),
               (u ''message'', JStr (u ''Unknown kind '' @ str_repr (rt h) kind @ u ''. Choose from: '' @
                  join (u '', '') (map (\<lambda>p. u (fst p)) EVENT_PAIRS)))])
           | Some pair \<Rightarrow> with_loadedE (read_session_dtj h p)
               (unmatched_result (rt h) path kind limit (whole\<lparr>since_last_clear := since\<rparr>) pair)))"

section \<open>Red flags\<close>

text \<open>For each flag that was hit, in the order of the table: its name, its count and its samples.\<close>

definition hit_flags :: "scan_state \<Rightarrow> (string \<times> nat \<times> jdict list) list" where
  "hit_flags sr =
     map (\<lambda>(label, substr, ci). (label, count_of (red_counts sr) label, samples_of sr label))
       (filter (\<lambda>(label, substr, ci). count_of (red_counts sr) label \<noteq> 0) RED_FLAGS)"

definition flag_lines :: "runtime \<Rightarrow> scan_state \<Rightarrow> pystr list" where
  "flag_lines r sr =
     concat (map (\<lambda>(label, n, samples).
       (u label @ u '': '' @ nstr n) # map (\<lambda>e. u ''  '' @ compact r e) samples) (hit_flags sr))"

definition red_flags_result :: "runtime \<Rightarrow> pystr \<Rightarrow> json \<Rightarrow> scope \<Rightarrow> jdict \<Rightarrow> py_exn + jdict" where
  "red_flags_result r path n_top sc decoded =
     bindE (event_dicts decoded) (\<lambda>events.
       let sr = scan_events r (nat (int_val n_top)) (scope_events r sc events);
           sample = (\<lambda>e. JObj [(u ''event_sequence'', seq_of e), (u ''tag'', JStr (event_tag r e)),
             (u ''compact'', JStr (compact r e))]);
           flags = map (\<lambda>(label, n, samples). JObj [(u ''label'', JStr (u label)), (u ''count'', jnat n),
             (u ''samples'', JList (map sample samples))]) (hit_flags sr);
           rows = flag_lines r sr
       in Inr (base_result path decoded @
            [(u ''top'', n_top), (u ''since_last_clear'', JBool (since_last_clear sc)), (u ''category'', scope_category sc),
             (u ''flags'', JList flags),
             (u ''text'', JStr (if rows \<noteq> [] then join newline rows else u ''No red flags found.''))]))"

definition red_flags_dtj :: "host \<Rightarrow> pystr \<Rightarrow> json \<Rightarrow> scope \<Rightarrow> py_exn + jdict" where
  "red_flags_dtj h p n_top sc =
     (let path = expanduser h p in
      case validate_top n_top of
        Some e \<Rightarrow> Inr (fail_at path e)
      | None \<Rightarrow> with_loadedE (read_session_dtj h p) (red_flags_result (rt h) path n_top sc))"

section \<open>The causal walk\<close>

text \<open>\<open>{e["event_sequence"]: i for i, e in enumerate(events) if isinstance(..., int)}\<close>\<close>

definition index_by_seq :: "jdict list \<Rightarrow> (int \<times> nat) list" where
  "index_by_seq events =
     foldl (\<lambda>d i. if is_int (seq_of (events ! i)) then AList.update (int_val (seq_of (events ! i))) i d else d)
       [] [0..<length events]"

text \<open>
  The \<open>while\<close> loop: the fourth argument is \<open>search + 1\<close>, then \<open>steps\<close>, the chain (latest event first)
  and the references gathered so far.
\<close>

fun walk :: "runtime \<Rightarrow> jdict list \<Rightarrow> nat \<Rightarrow> nat \<Rightarrow> nat \<Rightarrow> jdict list \<Rightarrow> pystr list \<Rightarrow> jdict list" where
  "walk r events hops 0 steps chain refs = chain"
| "walk r events hops (Suc search) steps chain refs =
     (if length chain < hops + 1 \<and> steps < length events then
        let ln = events ! search; ln_refs = entity_refs r ln in
        if list_ex (\<lambda>x. x \<in> set refs) ln_refs
        then walk r events hops search (steps + 1) (chain @ [ln]) (refs @ ln_refs)
        else walk r events hops search (steps + 1) chain refs
      else chain)"

definition causal_chain :: "runtime \<Rightarrow> jdict list \<Rightarrow> nat \<Rightarrow> nat \<Rightarrow> jdict list" where
  "causal_chain r events hops target =
     rev (walk r events hops target 0 [events ! target] (entity_refs r (events ! target)))"

definition hop_row :: "runtime \<Rightarrow> int \<Rightarrow> nat \<Rightarrow> jdict \<Rightarrow> json" where
  "hop_row r seqno i ev = JObj
     [(u ''hop'', jnat i), (u ''event_sequence'', seq_of ev), (u ''tag'', JStr (event_tag r ev)),
      (u ''refs'', JList (map JStr (sort (remdups (entity_refs r ev))))), (u ''compact'', JStr (compact r ev)),
      (u ''is_target'', JBool (num_eq (seq_of ev) seqno))]"

definition hop_line :: "runtime \<Rightarrow> int \<Rightarrow> nat \<Rightarrow> jdict \<Rightarrow> pystr" where
  "hop_line r seqno i ev =
     u ''hop '' @ nstr i @ u '': '' @ compact r ev @ (if num_eq (seq_of ev) seqno then u ''  <<'' else [])"

definition chain_result :: "runtime \<Rightarrow> pystr \<Rightarrow> json \<Rightarrow> json \<Rightarrow> jdict \<Rightarrow> py_exn + jdict" where
  "chain_result r path seqno hops decoded =
     bindE (event_dicts decoded) (\<lambda>events.
       case map_of (index_by_seq events) (int_val seqno) of
         None \<Rightarrow> Inr (fail_at path [(u ''kind'', JStr (u ''MissingEvent'')),
           (u ''message'', JStr (u ''event_sequence '' @ str_int (int_val seqno) @ u '' not found'')),
           (u ''event_sequence'', seqno)])
       | Some i \<Rightarrow>
           let chain = causal_chain r events (nat (int_val hops)) i;
               numbered = zip [0..<length chain] chain
           in Inr (base_result path decoded @
                [(u ''event_sequence'', seqno), (u ''hops'', hops),
                 (u ''chain'', JList (map (\<lambda>(i, e). hop_row r (int_val seqno) i e) numbered)),
                 (u ''text'', JStr (join newline (map (\<lambda>(i, e). hop_line r (int_val seqno) i e) numbered)))]))"

definition causal_chain_dtj :: "host \<Rightarrow> pystr \<Rightarrow> json \<Rightarrow> json \<Rightarrow> py_exn + jdict" where
  "causal_chain_dtj h p seqno hops =
     (let path = expanduser h p in
      case validate_hops hops of
        Some e \<Rightarrow> Inr (fail_at path e)
      | None \<Rightarrow>
          if is_bool seqno \<or> \<not> is_int seqno
          then Inr (fail_at path [(u ''kind'', JStr (u ''InvalidRange'')),
            (u ''message'', JStr (u ''event_sequence must be an integer''))])
          else with_loadedE (read_session_dtj h p) (chain_result (rt h) path seqno hops))"

end
