(* ===== verification/Json_Text.thy ===== *)
theory Json_Text imports Dtj_Format begin

text \<open>
  The text \<open>json.dumps\<close> writes with \<open>ensure_ascii=False\<close>: on one line, and indented by two. It is what the
  JSONL store, the session index and the briefs put into files and answers; that a line of it contains no
  line break, so that a file of lines can be read back line by line, is proved.
\<close>

section \<open>Strings and numbers\<close>

definition hex4 :: "nat \<Rightarrow> pystr" where
  "hex4 c = u ''00'' @ hex_bytes [mk_byte c]"

definition escape_char :: "nat \<Rightarrow> pystr" where
  "escape_char c =
     (if c = 34 then [92, 34] else if c = 92 then [92, 92]
      else if c = 10 then [92, 110] else if c = 13 then [92, 114] else if c = 9 then [92, 116]
      else if c = 12 then [92, 102] else if c = 8 then [92, 98]
      else if c < 32 then [92, 117] @ hex4 c else [c])"

definition json_string :: "pystr \<Rightarrow> pystr" where
  "json_string s = [34] @ concat (map escape_char s) @ [34]"

definition json_number :: "runtime \<Rightarrow> 64 word \<Rightarrow> pystr" where
  "json_number r w =
     (if f64_finite w then float_repr r w else if f64_mant w \<noteq> 0 then u ''NaN''
      else if f64_sign w = 1 then u ''-Infinity'' else u ''Infinity'')"

section \<open>On one line\<close>

fun json_line :: "runtime \<Rightarrow> json \<Rightarrow> pystr" where
  "json_line r JNull = u ''null''"
| "json_line r (JBool b) = (if b then u ''true'' else u ''false'')"
| "json_line r (JInt i) = str_int i"
| "json_line r (JFloat f) = json_number r f"
| "json_line r (JStr s) = json_string s"
| "json_line r (JList xs) = u ''['' @ join (u '', '') (map (json_line r) xs) @ u '']''"
| "json_line r (JObj d) = u ''{'' @ join (u '', '') (map (\<lambda>(k, v). json_string k @ u '': '' @ json_line r v) d) @ u ''}''"

section \<open>Indented\<close>

text \<open>\<open>json.dumps(data, ensure_ascii=False, indent=2)\<close>\<close>

definition line_indent :: "nat \<Rightarrow> pystr" where
  "line_indent n = [10] @ replicate (2 * n) 32"

fun json_indent :: "runtime \<Rightarrow> nat \<Rightarrow> json \<Rightarrow> pystr" where
  "json_indent r n JNull = u ''null''"
| "json_indent r n (JBool b) = (if b then u ''true'' else u ''false'')"
| "json_indent r n (JInt i) = str_int i"
| "json_indent r n (JFloat f) = json_number r f"
| "json_indent r n (JStr s) = json_string s"
| "json_indent r n (JList xs) =
     (if xs = [] then u ''[]''
      else u ''['' @ line_indent (n + 1) @ join (u '','' @ line_indent (n + 1)) (map (json_indent r (n + 1)) xs) @
        line_indent n @ u '']'')"
| "json_indent r n (JObj d) =
     (if d = [] then u ''{}''
      else u ''{'' @ line_indent (n + 1) @
        join (u '','' @ line_indent (n + 1)) (map (\<lambda>(k, v). json_string k @ u '': '' @ json_indent r (n + 1) v) d) @
        line_indent n @ u ''}'')"

text \<open>The pieces \<open>json.dump(v, fh, indent=2, ensure_ascii=False)\<close> writes.\<close>

definition attach :: "pystr \<Rightarrow> json \<times> pystr list \<Rightarrow> pystr list" where
  "attach buf xc = (case xc of (x, c) \<Rightarrow> if is_list x \<or> is_dict x then buf # c else [buf @ concat c])"

fun json_chunks :: "runtime \<Rightarrow> nat \<Rightarrow> json \<Rightarrow> pystr list" where
  "json_chunks r n (JList xs) =
     (case map (\<lambda>x. (x, json_chunks r (n + 1) x)) xs of
        [] \<Rightarrow> [u ''[]'']
      | xc # rest \<Rightarrow>
          attach (u ''['' @ line_indent (n + 1)) xc @ concat (map (attach (u '','' @ line_indent (n + 1))) rest) @
          [line_indent n, u '']''])"
| "json_chunks r n (JObj d) =
     (case map (\<lambda>(k, v). [json_string k, u '': ''] @ json_chunks r (n + 1) v) d of
        [] \<Rightarrow> [u ''{}'']
      | c # rest \<Rightarrow>
          [u ''{'', line_indent (n + 1)] @ c @ concat (map ((#) (u '','' @ line_indent (n + 1))) rest) @
          [line_indent n, u ''}''])"
| "json_chunks r n j = [json_indent r n j]"

lemma concat_attach: "concat (attach buf (x, c)) = buf @ concat c"
  by (simp add: attach_def)

lemma join_map: "join sep (x # xs) = x @ concat (map ((@) sep) xs)"
  by (induction xs arbitrary: x) (simp_all add: join_def)

lemma json_chunks_text: "concat (json_chunks r n j) = json_indent r n j"
proof (induction r n j rule: json_chunks.induct)
  case (1 r n xs)
  show ?case
  proof (cases xs)
    case (Cons x ys)
    have "concat (concat (map (attach sep) (map (\<lambda>x. (x, json_chunks r (n + 1) x)) zs))) =
        concat (map ((@) sep) (map (json_indent r (n + 1)) zs))" if "set zs \<subseteq> set xs" for zs sep
      using that 1 by (induction zs) (auto simp: concat_attach)
    moreover from Cons have "set ys \<subseteq> set xs" by auto
    ultimately show ?thesis using Cons 1 by (simp add: concat_attach join_map)
  qed simp
next
  case (2 r n d)
  show ?case
  proof (cases d)
    case (Cons p ps)
    have "concat (concat (map ((#) sep) (map (\<lambda>(k, v). [json_string k, u '': ''] @ json_chunks r (n + 1) v) zs))) =
        concat (map ((@) sep) (map (\<lambda>(k, v). json_string k @ u '': '' @ json_indent r (n + 1) v) zs))"
      if "set zs \<subseteq> set d" for zs sep
      using that 2 by (induction zs) auto
    moreover from Cons have "set ps \<subseteq> set d" by auto
    moreover from Cons 2 have "concat (json_chunks r (n + 1) (snd p)) = json_indent r (n + 1) (snd p)" by (cases p) auto
    ultimately show ?thesis using Cons by (cases p) (simp add: join_map)
  qed simp
qed simp_all

section \<open>No line breaks inside a line\<close>

definition one_line :: "pystr \<Rightarrow> bool" where
  "one_line s = (\<forall>c \<in> set s. c \<noteq> 10 \<and> c \<noteq> 13)"

lemma one_line_simps [simp]:
  "one_line []" "one_line (c # s) \<longleftrightarrow> c \<noteq> 10 \<and> c \<noteq> 13 \<and> one_line s"
  "one_line (s @ t) \<longleftrightarrow> one_line s \<and> one_line t"
  by (auto simp: one_line_def)

lemma one_line_concat [simp]: "one_line (concat xs) \<longleftrightarrow> (\<forall>x \<in> set xs. one_line x)"
  by (auto simp: one_line_def)

lemma one_line_join: "one_line sep \<Longrightarrow> \<forall>x \<in> set xs. one_line x \<Longrightarrow> one_line (join sep xs)"
  by (cases xs) (auto simp: join_def)

lemma one_line_str_nat: "one_line (str_nat n)"
proof (induction n rule: str_nat.induct)
  case (1 n)
  then show ?case by (subst str_nat.simps) auto
qed

lemma one_line_str_int: "one_line (str_int i)"
  by (simp add: str_int_def one_line_str_nat)

lemma one_line_string: "one_line (json_string s)"
proof -
  have "one_line (escape_char c)" for c
    by (auto simp: escape_char_def hex4_def hex_bytes_def hex_lower_def u_Cons one_line_def)
  then show ?thesis by (simp add: json_string_def)
qed

text \<open>The digits and signs of a float contain no line break.\<close>

definition plain_floats :: "runtime \<Rightarrow> bool" where
  "plain_floats r = (\<forall>w. one_line (float_repr r w))"

lemma one_line_json: "plain_floats r \<Longrightarrow> one_line (json_line r j)"
proof (induction r j rule: json_line.induct)
  case (6 r xs)
  then show ?case by (auto simp: u_Cons intro!: one_line_join)
next
  case (7 r d)
  have "one_line (json_string k @ u '': '' @ json_line r v)" if "(k, v) \<in> set d" for k v
    using 7 that by (auto simp: one_line_string u_Cons)
  then have "\<forall>x \<in> set (map (\<lambda>(k, v). json_string k @ u '': '' @ json_line r v) d). one_line x" by auto
  then show ?case by (simp add: u_Cons one_line_join)
qed (auto simp: u_Cons one_line_str_int one_line_string json_number_def plain_floats_def)

end
