(* ===== verification/Dtj_Brief.thy ===== *)
theory Dtj_Brief imports Dtj_Analyze Json_Text begin

text \<open>
  The reports that \<open>dtj_analyze.py\<close> composes from the analyses: the full analysis, the machine-readable
  brief, the preset reports and the two bundles.
\<close>

section \<open>The analysis of a scope\<close>

definition category_counts :: "nat \<Rightarrow> scan_state \<Rightarrow> json" where
  "category_counts n sr =
     JList (map (\<lambda>(c, k). JObj [(u ''category'', c), (u ''count'', jnat k)]) (most_common n (categories sr)))"

definition empty_analysis :: pystr where
  "empty_analysis = join [10, 10]
     (map (\<lambda>t. u ''=== '' @ u t @ u '' ==='' @ newline @ u ''(none)'') [''Overview'', ''Event balance'', ''Repetition'', ''Red flags''])"

definition or_none :: "pystr list \<Rightarrow> pystr list" where
  "or_none rows = (if rows \<noteq> [] then rows else [u ''(none)''])"

definition repetition_lines :: "jdict list \<times> jdict list \<Rightarrow> pystr list" where
  "repetition_lines p =
     (let indent = map (\<lambda>row. u ''  '' @ row_text row) in
      (if fst p \<noteq> [] then u ''consecutive runs:'' # indent (fst p) else [u ''consecutive runs: (none)'']) @
      (if snd p \<noteq> [] then u ''top payloads:'' # indent (snd p) else [u ''top payloads: (none)'']))"

definition analysis_text :: "runtime \<Rightarrow> nat \<Rightarrow> pystr \<Rightarrow> scan_state \<Rightarrow> pystr" where
  "analysis_text r n_top scope_note sr =
     (let cat_rows = join (u '', '') (map (\<lambda>(c, n). py_str r c @ u ''='' @ nstr n) (most_common n_top (categories sr)));
          overview = u ''mono span: '' @ py_str r (first_mono sr) @ u '' .. '' @ py_str r (last_mono sr) @ newline @
            u ''events: '' @ nstr (length (scanned sr)) @ newline @
            u ''sessions: '' @ nstr (count_sessions r (scanned sr)) @ newline @ u ''top categories: '' @ cat_rows
      in join [10, 10]
        [u ''=== Overview'' @ scope_note @ u '' ==='' @ newline @ overview,
         u ''=== Event balance ==='' @ newline @ join newline (or_none (map row_text (balance_rows sr True))),
         u ''=== Repetition ==='' @ newline @ join newline (repetition_lines (repetition r 3 n_top sr)),
         u ''=== Red flags ==='' @ newline @ join newline (or_none (flag_lines r sr))])"

definition analyze_result :: "runtime \<Rightarrow> pystr \<Rightarrow> json \<Rightarrow> scope \<Rightarrow> jdict \<Rightarrow> py_exn + jdict" where
  "analyze_result r path n_top sc decoded =
     bindE (event_dicts decoded) (\<lambda>all_events.
       let scoped = scope_events r sc all_events;
           head = base_result path decoded @
             [(u ''top'', n_top), (u ''since_last_clear'', JBool (since_last_clear sc)), (u ''category'', scope_category sc)]
       in if scoped = [] then
            Inr (head @ [(u ''text'', JStr empty_analysis),
              (u ''overview'', JObj [(u ''event_count'', JInt 0), (u ''sessions'', JInt 0), (u ''top_categories'', JList [])]),
              (u ''balance'', JList []),
              (u ''repetition'', JObj [(u ''runs'', JList []), (u ''top_payloads'', JList [])]), (u ''red_flags'', JList [])])
          else
            let k = nat (int_val n_top);
                sr = scan_events r k scoped;
                boundary = (case last_boundary_seq r all_events of None \<Rightarrow> u ''None'' | Some s \<Rightarrow> str_int s);
                scope_note = (if since_last_clear sc then u '' (since event_sequence '' @ boundary @ u '')'' else []);
                rep = repetition r 3 k sr
            in Inr (head @ [(u ''text'', JStr (analysis_text r k scope_note sr)),
              (u ''overview'', JObj [(u ''first_monotonic_ns'', first_mono sr), (u ''last_monotonic_ns'', last_mono sr),
                 (u ''event_count'', jnat (length (scanned sr))), (u ''sessions'', jnat (count_sessions r (scanned sr))),
                 (u ''top_categories'', category_counts k sr)]),
              (u ''balance'', JList (map JObj (balance_rows sr True))),
              (u ''repetition'', JObj [(u ''runs'', JList (map JObj (fst rep))), (u ''top_payloads'', JList (map JObj (snd rep)))]),
              (u ''red_flags'', JList (map (\<lambda>(label, n, samples). JObj [(u ''label'', JStr (u label)), (u ''count'', jnat n),
                 (u ''samples'', JList (map (\<lambda>e. JStr (compact r e)) samples))]) (hit_flags sr)))]))"

definition analyze_dtj :: "host \<Rightarrow> pystr \<Rightarrow> json \<Rightarrow> scope \<Rightarrow> py_exn + jdict" where
  "analyze_dtj h p n_top sc =
     (let path = expanduser h p in
      case validate_top n_top of
        Some e \<Rightarrow> Inr (fail_at path e)
      | None \<Rightarrow> with_loadedE (read_session_dtj h p) (analyze_result (rt h) path n_top sc))"

definition since_last_repro_dtj :: "host \<Rightarrow> pystr \<Rightarrow> json \<Rightarrow> py_exn + jdict" where
  "since_last_repro_dtj h p n_top = analyze_dtj h p n_top (whole\<lparr>since_last_clear := True\<rparr>)"

section \<open>The brief\<close>

definition next_call :: "string \<Rightarrow> jdict \<Rightarrow> string \<Rightarrow> json" where
  "next_call tool args reason =
     JObj [(u ''tool'', JStr (u tool)), (u ''args'', JObj args), (u ''reason'', JStr (u reason))]"

definition brief_sample :: "runtime \<Rightarrow> jdict \<Rightarrow> json" where
  "brief_sample r e = JObj
     [(u ''event_sequence'', seq_of e), (u ''tag'', JStr (event_tag r e)), (u ''category'', getj e (u ''category'')),
      (u ''event_name'', getj e (u ''event_name'')), (u ''fields'', JObj (payload_kv r e)),
      (u ''compact'', JStr (take 160 (compact r e)))]"

definition finding :: "string \<Rightarrow> string \<Rightarrow> pystr \<Rightarrow> json list \<Rightarrow> json" where
  "finding sev type_of summary refs = JObj
     [(u ''severity'', JStr (u sev)), (u ''type'', JStr (u type_of)), (u ''summary'', JStr summary),
      (u ''event_refs'', JList refs)]"

definition balance_findings :: "scan_state \<Rightarrow> json list" where
  "balance_findings sr = concat (map (\<lambda>p.
     let created = count_of (opens sr) (fst p); closed = count_of (closes sr) (fst p) in
     if created = closed then []
     else [finding ''high'' ''event_balance''
       (u (fst p) @ u '': created='' @ nstr created @ u '' closed='' @ nstr closed @ u '' -> '' @
          str_int \<bar>int created - int closed\<bar> @ u '' unmatched'') []]) EVENT_PAIRS)"

definition flag_finding :: "string \<times> nat \<times> jdict list \<Rightarrow> json" where
  "flag_finding f = (case f of (label, n, samples) \<Rightarrow>
     finding ''medium'' ''red_flag'' (u label @ u '': '' @ nstr n @ u '' hit(s)'') (map seq_of samples))"

definition recommended_calls :: "scope \<Rightarrow> scan_state \<Rightarrow> json list" where
  "recommended_calls sc sr =
     (case filter (\<lambda>(label, n, samples). samples \<noteq> []) (hit_flags sr) of
        (label, n, samples) # others \<Rightarrow>
          [next_call ''session_context_dtj'' [(u ''event_sequence'', seq_of (hd samples)), (u ''before'', JInt 15), (u ''after'', JInt 15)]
             ''Inspect first red-flag sample in local context.'']
      | [] \<Rightarrow>
          if balance_findings sr \<noteq> [] then
            [next_call ''session_event_balance_dtj'' [(u ''since_last_clear'', JBool (since_last_clear sc))]
               ''Event pair imbalance detected; review open/close counts.'']
          else if hit_flags sr = [] then
            [next_call ''session_stats_dtj'' [] ''No high-priority findings; inspect tag distribution.'']
          else [])"

definition brief_of :: "runtime \<Rightarrow> nat \<Rightarrow> scope \<Rightarrow> jdict list \<Rightarrow> json" where
  "brief_of r k sc all_events =
     (let since_seq = (if since_last_clear sc then last_boundary_seq r all_events else None);
          scoped = scope_events r sc all_events;
          start_seq = (if scoped \<noteq> [] \<and> is_int (seq_of (hd scoped)) then seq_of (hd scoped)
            else (case since_seq of None \<Rightarrow> JInt 1 | Some s \<Rightarrow> or_else (JInt s) (JInt 1)));
          scope_block = JObj [(u ''since_last_clear'', JBool (since_last_clear sc)), (u ''category'', scope_category sc),
            (u ''start_event_sequence'', start_seq), (u ''event_count'', jnat (length scoped))];
          brief = (\<lambda>overview findings flags calls. JObj [(u ''version'', JInt 1), (u ''scope'', scope_block),
            (u ''overview'', JObj overview), (u ''findings'', JList findings), (u ''red_flags'', JList flags),
            (u ''recommended_next_calls'', JList calls)])
      in if scoped = [] then
           brief [(u ''first_monotonic_ns'', JNull), (u ''last_monotonic_ns'', JNull), (u ''sessions'', JInt 0),
             (u ''top_categories'', JList []), (u ''top_tags'', JList [])] [] []
             [next_call ''session_stats_dtj'' [] ''No events in scope; confirm session path and repro.'']
         else
           let sr = scan_events r k scoped;
               tags = foldl (\<lambda>c e. bump (event_tag r e) c) [] scoped
           in brief [(u ''first_monotonic_ns'', first_mono sr), (u ''last_monotonic_ns'', last_mono sr),
                (u ''sessions'', jnat (count_sessions r scoped)), (u ''top_categories'', category_counts k sr),
                (u ''top_tags'', JList (map (\<lambda>(t, n). JObj [(u ''tag'', JStr t), (u ''count'', jnat n)]) (most_common k tags)))]
                (balance_findings sr @ map flag_finding (hit_flags sr))
                (map (\<lambda>(label, n, samples). JObj [(u ''label'', JStr (u label)), (u ''count'', jnat n),
                   (u ''samples'', JList (map (brief_sample r) samples))]) (hit_flags sr))
                (recommended_calls sc sr))"

definition trace_brief_dtj :: "host \<Rightarrow> pystr \<Rightarrow> json \<Rightarrow> scope \<Rightarrow> py_exn + jdict" where
  "trace_brief_dtj h p n_top sc =
     (let path = expanduser h p in
      case validate_top n_top of
        Some e \<Rightarrow> Inr (fail_at path e)
      | None \<Rightarrow> with_loadedE (read_session_dtj h p) (\<lambda>decoded.
          bindE (event_dicts decoded) (\<lambda>events.
            let brief = brief_of (rt h) (nat (int_val n_top)) sc events
            in Inr (base_result path decoded @ [(u ''brief'', brief), (u ''text'', JStr (json_indent (rt h) 0 brief))]))))"

section \<open>Preset reports\<close>

definition filter_category :: "runtime \<Rightarrow> jdict list \<Rightarrow> string \<Rightarrow> nat \<Rightarrow> pystr list" where
  "filter_category r events cat k =
     or_none (take k (map (compact r) (filter (\<lambda>e. getj e (u ''category'') = JStr (u cat)) events)))"

text \<open>The events of some categories whose text has a property, as rows.\<close>

definition rows_where :: "runtime \<Rightarrow> jdict list \<Rightarrow> string list \<Rightarrow> (pystr \<Rightarrow> bool) \<Rightarrow> nat \<Rightarrow> pystr list" where
  "rows_where r events cats P k =
     or_none (take k (map (compact r)
       (filter (\<lambda>e. getj e (u ''category'') \<in> (\<lambda>c. JStr (u c)) ` set cats \<and> P (event_haystack r e)) events)))"

definition section_head :: "string \<Rightarrow> pystr" where
  "section_head t = newline @ u ''=== '' @ u t @ u '' ===''"

definition text_of :: "jdict \<Rightarrow> pystr" where
  "text_of d = str_val (getd d (u ''text'') (JStr []))"

definition preset_parts :: "host \<Rightarrow> pystr \<Rightarrow> pystr \<Rightarrow> json \<Rightarrow> jdict list \<Rightarrow> py_exn + pystr list" where
  "preset_parts h p report n_top events =
     (let r = rt h; k = nat (int_val n_top); listed = (\<lambda>c. filter_category r events c k) in
      if report = u ''dangling'' then
        bindE (unmatched_entities_dtj h p (u ''Dangling'') n_top False) (\<lambda>um.
          Inr ([u ''=== Unmatched danglings ==='', text_of um, section_head ''signal=<null> on Lifecycle/Visual''] @
            rows_where r events [''Lifecycle'', ''Visual''] (\<lambda>t. is_infix (u ''<null>'') (lower r t)) k))
      else if report = u ''branch'' then
        bindE (event_balance_dtj h p True whole) (\<lambda>bal.
          Inr ([u ''=== Event balance ==='', text_of bal, section_head ''BranchRelease''] @ listed ''BranchRelease'' @
            [section_head ''BranchSplit''] @ listed ''BranchSplit''))
      else if report = u ''graph_undo'' then
        Inr ([u ''=== GraphUndo (all) ===''] @ listed ''GraphUndo'' @ [section_head ''Failures''] @
          rows_where r events [''GraphUndo''] (\<lambda>t. is_infix (u ''Failed'') t \<or> is_infix (u ''fail'') (lower r t)) k)
      else if report = u ''gesture_route'' then
        (let gr = filter (\<lambda>e. getj e (u ''category'') = JStr (u ''GestureRoute'')) events;
             found = fst (repetition r 3 k (scan_events r k gr))
         in Inr ([u ''=== GestureRoute events ===''] @ listed ''GestureRoute'' @
              [section_head ''Repetition (GestureRoute)''] @ or_none (map row_text found)))
      else if report = u ''tip_hold'' then
        Inr ([u ''=== TipHold events ===''] @ listed ''TipHold'' @ [section_head ''Cancels''] @
          rows_where r events [''TipHold''] (\<lambda>t. is_infix (u ''cancel'') (lower r t)) k)
      else
        bindE (event_balance_dtj h p True whole) (\<lambda>bal.
          Inr ([u ''=== Event balance ==='', text_of bal] @
            concat (map (\<lambda>c. section_head c # listed c) [''CommitBoundary'', ''CleanupBoundary'', ''DropCommit'', ''GraphUndo'']))))"

definition preset_report_dtj :: "host \<Rightarrow> pystr \<Rightarrow> pystr \<Rightarrow> json \<Rightarrow> py_exn + jdict" where
  "preset_report_dtj h p report n_top =
     (let path = expanduser h p in
      case validate_top n_top of
        Some e \<Rightarrow> Inr (fail_at path e)
      | None \<Rightarrow>
          if report \<notin> u ` set PRESET_REPORTS
          then Inr (fail_at path [(u ''kind'', JStr (u ''InvalidQuery'')),
            (u ''message'', JStr (u ''Unknown wire trace report: '' @ report @ u ''. Use branch, dangling, '' @
               u ''graph_undo, tip_hold, commit_boundary, gesture_route.''))])
          else with_loadedE (read_session_dtj h p) (\<lambda>decoded.
            bindE (event_dicts decoded) (\<lambda>events.
            bindE (preset_parts h p report n_top events) (\<lambda>parts.
            Inr (base_result path decoded @
              [(u ''report'', JStr report), (u ''top'', n_top), (u ''text'', JStr (join newline parts))])))))"

section \<open>Bundles\<close>

definition analyze_bundle_dtj :: "host \<Rightarrow> pystr \<Rightarrow> json \<Rightarrow> bool \<Rightarrow> py_exn + jdict" where
  "analyze_bundle_dtj h p n_top since =
     (let path = expanduser h p; sc = whole\<lparr>since_last_clear := since\<rparr> in
      case validate_top n_top of
        Some e \<Rightarrow> Inr (fail_at path e)
      | None \<Rightarrow>
          with_loadedE (last_session_dtj h p) (\<lambda>session.
          with_loadedE (since_last_repro_dtj h p n_top) (\<lambda>analyze.
          with_loadedE (trace_brief_dtj h p n_top sc) (\<lambda>brief.
          with_loadedE (event_balance_dtj h p True sc) (\<lambda>balance.
          with_loadedE (red_flags_dtj h p n_top whole) (\<lambda>flags.
          let part = (\<lambda>d. getd d (u ''text'') (JStr [])) in
          Inr (base_result path session @
            [(u ''top'', n_top), (u ''since_last_clear'', JBool since),
             (u ''bundle'', JObj [(u ''session'', part session), (u ''analyze'', part analyze), (u ''brief'', part brief),
                (u ''balance'', part balance), (u ''flags'', part flags)])])))))))"

definition context_line :: "runtime \<Rightarrow> int \<Rightarrow> jdict \<Rightarrow> pystr" where
  "context_line r seqno e = (if num_eq (seq_of e) seqno then u ''>> '' else u ''   '') @ compact r e"

definition line_bundle_dtj :: "host \<Rightarrow> pystr \<Rightarrow> json \<Rightarrow> json \<Rightarrow> json \<Rightarrow> json \<Rightarrow> py_exn + jdict" where
  "line_bundle_dtj h p seqno before after hops =
     (let path = expanduser h p in
      with_loadedE (context_around_event_dtj h p seqno before after) (\<lambda>ctx.
      with_loadedE (causal_chain_dtj h p seqno hops) (\<lambda>chain.
      bindE (event_dicts ctx) (\<lambda>events.
        let txt = join newline (map (context_line (rt h) (int_val seqno)) events)
        in Inr (base_result path ctx @
             [(u ''event_sequence'', seqno), (u ''before'', before), (u ''after'', after), (u ''hops'', hops),
              (u ''bundle'', JObj [(u ''context'', JStr (if txt \<noteq> [] then txt else u ''No context.'')),
                 (u ''chain'', getd chain (u ''text'') (JStr []))])])))))"

end
