(* ===== verification/Dtj_Scan_Props.thy ===== *)
theory Dtj_Scan_Props imports Dtj_Brief begin

text \<open>
  What the one-pass scan of \<open>dtj_analyze.py\<close> computes, against counting the events of the scope.
\<close>

section \<open>Counters\<close>

lemma count_of_Nil [simp]: "count_of [] k = 0"
  by (simp add: count_of_def)

lemma count_of_bump [simp]: "count_of (bump k c) k' = count_of c k' + (if k' = k then 1 else 0)"
  by (simp add: count_of_def bump_def update_conv' split: option.splits)

lemma most_common_spec:
  "distinct (map fst c) \<Longrightarrow> (k, m) \<in> set (most_common n c) \<Longrightarrow> count_of c k = m"
  unfolding most_common_def by (auto dest!: in_set_takeD simp: count_of_def map_of_eq_Some_iff)

section \<open>The scan\<close>

lemma scan_pair_frame [simp]:
  "scanned (scan_pair n sr p) = scanned sr" "categories (scan_pair n sr p) = categories sr"
  "freq (scan_pair n sr p) = freq sr" "red_counts (scan_pair n sr p) = red_counts sr"
  "red_samples (scan_pair n sr p) = red_samples sr" "first_mono (scan_pair n sr p) = first_mono sr"
  "last_mono (scan_pair n sr p) = last_mono sr"
  by (simp_all add: scan_pair_def split: prod.split)

lemma samples_frame [simp]:
  "samples_of (sr\<lparr>categories := c\<rparr>) nm = samples_of sr nm" "samples_of (sr\<lparr>freq := q\<rparr>) nm = samples_of sr nm"
  "samples_of (sr\<lparr>first_mono := v, last_mono := w\<rparr>) nm = samples_of sr nm"
  "samples_of (scan_pair n sr p) nm = samples_of sr nm"
  by (simp_all add: samples_of_def)

lemma scan_flag_frame [simp]:
  "scanned (scan_flag r k e sr f) = scanned sr" "categories (scan_flag r k e sr f) = categories sr"
  "freq (scan_flag r k e sr f) = freq sr" "opens (scan_flag r k e sr f) = opens sr"
  "closes (scan_flag r k e sr f) = closes sr" "first_mono (scan_flag r k e sr f) = first_mono sr"
  "last_mono (scan_flag r k e sr f) = last_mono sr"
  by (simp_all add: scan_flag_def Let_def)

lemma foldl_frame: "(\<And>s x. g (f s x) = g s) \<Longrightarrow> g (foldl f s xs) = g s"
  by (induction xs arbitrary: s) auto

lemmas scan_folds =
  foldl_frame [of "\<lambda>s. samples_of s nm" "scan_pair n" for n nm]
  foldl_frame [of scanned "scan_pair n" for n] foldl_frame [of categories "scan_pair n" for n]
  foldl_frame [of freq "scan_pair n" for n] foldl_frame [of red_counts "scan_pair n" for n]
  foldl_frame [of red_samples "scan_pair n" for n] foldl_frame [of first_mono "scan_pair n" for n]
  foldl_frame [of last_mono "scan_pair n" for n]
  foldl_frame [of scanned "scan_flag r k e" for r k e] foldl_frame [of categories "scan_flag r k e" for r k e]
  foldl_frame [of freq "scan_flag r k e" for r k e] foldl_frame [of opens "scan_flag r k e" for r k e]
  foldl_frame [of closes "scan_flag r k e" for r k e] foldl_frame [of first_mono "scan_flag r k e" for r k e]
  foldl_frame [of last_mono "scan_flag r k e" for r k e]

lemma scan_pairs_opens:
  "count_of (opens (foldl (scan_pair n) sr ps)) nm =
     count_of (opens sr) nm + length (filter (\<lambda>(p, os, cs). p = nm \<and> event_matches n os) ps)"
  by (induction ps arbitrary: sr) (auto simp: scan_pair_def split: prod.splits)

lemma scan_pairs_closes:
  "count_of (closes (foldl (scan_pair n) sr ps)) nm =
     count_of (closes sr) nm + length (filter (\<lambda>(p, os, cs). p = nm \<and> \<not> event_matches n os \<and> event_matches n cs) ps)"
  by (induction ps arbitrary: sr) (auto simp: scan_pair_def split: prod.splits)

lemma scan_flags_counts:
  "count_of (red_counts (foldl (scan_flag r k e) sr ts)) nm =
     count_of (red_counts sr) nm + length (filter (\<lambda>f. fst f = nm \<and> red_hit r (event_haystack r e) f) ts)"
  by (induction ts arbitrary: sr) (auto simp: scan_flag_def Let_def)

definition add_sample :: "nat \<Rightarrow> 'a \<Rightarrow> 'a list \<Rightarrow> 'a list" where
  "add_sample k e l = (if length l < k then l @ [e] else l)"

lemma scan_flag_samples:
  "samples_of (scan_flag r k e sr f) nm =
     (if fst f = nm \<and> red_hit r (event_haystack r e) f then add_sample k e (samples_of sr nm) else samples_of sr nm)"
  by (auto simp: scan_flag_def Let_def samples_of_def update_conv' add_sample_def)

lemma scan_flags_samples:
  "samples_of (foldl (scan_flag r k e) sr ts) nm =
     (add_sample k e ^^ length (filter (\<lambda>f. fst f = nm \<and> red_hit r (event_haystack r e) f) ts)) (samples_of sr nm)"
proof (induction ts arbitrary: sr)
  case (Cons f ts)
  show ?case unfolding foldl_Cons Cons.IH by (simp add: scan_flag_samples funpow_swap1)
qed simp

lemma pair_filter:
  assumes "(p, os, cs) \<in> set EVENT_PAIRS"
  shows "length (filter (\<lambda>(q, os, cs). q = p \<and> P os cs) EVENT_PAIRS) = (if P os cs then 1 else 0)"
  using assms by (simp add: EVENT_PAIRS_def) (elim disjE; simp)

lemma flag_filter:
  assumes "f \<in> set RED_FLAGS"
  shows "length (filter (\<lambda>g. fst g = fst f \<and> P g) RED_FLAGS) = (if P f then 1 else 0)"
  using assms by (simp add: RED_FLAGS_def) (elim disjE; simp)

definition category_key :: "jdict \<Rightarrow> json" where
  "category_key ev = or_else (getj ev (u ''category'')) (JStr (u ''<none>''))"

lemma scan_event_parts:
  "count_of (categories (scan_event r k sr e)) c = count_of (categories sr) c + (if category_key e = c then 1 else 0)"
  "count_of (freq (scan_event r k sr e)) key = count_of (freq sr) key + (if event_key r e = key then 1 else 0)"
  "scanned (scan_event r k sr e) = scanned sr"
  by (auto simp: scan_event_def Let_def scan_folds category_key_def event_key_def)

lemma scan_event_pairs:
  assumes "(p, os, cs) \<in> set EVENT_PAIRS"
  shows "count_of (opens (scan_event r k sr e)) p = count_of (opens sr) p + (if event_matches (name_of r e) os then 1 else 0)"
    "count_of (closes (scan_event r k sr e)) p = count_of (closes sr) p +
       (if \<not> event_matches (name_of r e) os \<and> event_matches (name_of r e) cs then 1 else 0)"
  using pair_filter [OF assms, of "\<lambda>os cs. event_matches (name_of r e) os"]
    pair_filter [OF assms, of "\<lambda>os cs. \<not> event_matches (name_of r e) os \<and> event_matches (name_of r e) cs"]
  by (simp_all add: scan_event_def Let_def scan_folds scan_pairs_opens scan_pairs_closes)

lemma scan_event_flags:
  assumes "f \<in> set RED_FLAGS"
  shows "count_of (red_counts (scan_event r k sr e)) (fst f) =
      count_of (red_counts sr) (fst f) + (if red_hit r (event_haystack r e) f then 1 else 0)"
    "samples_of (scan_event r k sr e) (fst f) =
      (if red_hit r (event_haystack r e) f then add_sample k e (samples_of sr (fst f)) else samples_of sr (fst f))"
proof -
  show "count_of (red_counts (scan_event r k sr e)) (fst f) =
      count_of (red_counts sr) (fst f) + (if red_hit r (event_haystack r e) f then 1 else 0)"
    using flag_filter [OF assms, of "red_hit r (event_haystack r e)"]
    by (simp add: scan_event_def Let_def scan_folds scan_flags_counts)
  show "samples_of (scan_event r k sr e) (fst f) =
      (if red_hit r (event_haystack r e) f then add_sample k e (samples_of sr (fst f)) else samples_of sr (fst f))"
    using flag_filter [OF assms, of "red_hit r (event_haystack r e)"]
    by (simp add: scan_event_def Let_def scan_flags_samples scan_folds)
qed

lemma count_fold:
  assumes "\<And>s e. count_of (g (f s e)) c = count_of (g s) c + (if P e then 1 else 0)"
  shows "count_of (g (foldl f s es)) c = count_of (g s) c + length (filter P es)"
  using assms by (induction es arbitrary: s) auto

lemma sample_fold:
  assumes "\<And>s e. g (f s e) = (if P e then add_sample k e (g s) else g s)"
  shows "g (foldl f s es) = take (max k (length (g s))) (g s @ filter P es)"
proof (induction es arbitrary: s)
  case (Cons e es)
  show ?case
    unfolding foldl_Cons Cons.IH by (auto simp: assms add_sample_def max_def not_less Suc_le_eq take_Cons')
qed simp

lemma empty_scan_simps [simp]:
  "categories (empty_scan es) = []" "opens (empty_scan es) = []" "closes (empty_scan es) = []"
  "freq (empty_scan es) = []" "red_counts (empty_scan es) = []" "scanned (empty_scan es) = es"
  "samples_of (empty_scan es) nm = []"
  by (simp_all add: empty_scan_def samples_of_def)

text \<open>C20: The one-pass scan is exact. Every counter it returns is the number of events in the scope with that
  category, that repeated payload, that open or close name, or that red flag; and the samples it keeps of a flag
  are the first events that raise it, as many as the sample limit allows.\<close>

theorem scan_exact:
  "count_of (categories (scan_events r k es)) c = length (filter (\<lambda>e. category_key e = c) es) \<and>
   count_of (freq (scan_events r k es)) key = length (filter (\<lambda>e. event_key r e = key) es) \<and>
   (\<forall>(p, os, cs) \<in> set EVENT_PAIRS.
      count_of (opens (scan_events r k es)) p = length (filter (\<lambda>e. event_matches (name_of r e) os) es) \<and>
      count_of (closes (scan_events r k es)) p =
        length (filter (\<lambda>e. \<not> event_matches (name_of r e) os \<and> event_matches (name_of r e) cs) es)) \<and>
   (\<forall>f \<in> set RED_FLAGS.
      count_of (red_counts (scan_events r k es)) (fst f) = length (filter (\<lambda>e. red_hit r (event_haystack r e) f) es) \<and>
      samples_of (scan_events r k es) (fst f) = take k (filter (\<lambda>e. red_hit r (event_haystack r e) f) es))"
proof -
  have "count_of (categories (scan_events r k es)) c = length (filter (\<lambda>e. category_key e = c) es)"
    unfolding scan_events_def
    using count_fold [where g = categories and f = "scan_event r k" and P = "\<lambda>e. category_key e = c", OF scan_event_parts(1)]
    by simp
  moreover have "count_of (freq (scan_events r k es)) key = length (filter (\<lambda>e. event_key r e = key) es)"
    unfolding scan_events_def
    using count_fold [where g = freq and f = "scan_event r k" and P = "\<lambda>e. event_key r e = key", OF scan_event_parts(2)]
    by simp
  moreover have "count_of (opens (scan_events r k es)) p = length (filter (\<lambda>e. event_matches (name_of r e) os) es) \<and>
      count_of (closes (scan_events r k es)) p =
        length (filter (\<lambda>e. \<not> event_matches (name_of r e) os \<and> event_matches (name_of r e) cs) es)"
    if "(p, os, cs) \<in> set EVENT_PAIRS" for p os cs
    unfolding scan_events_def
    using count_fold [where g = opens and f = "scan_event r k" and P = "\<lambda>e. event_matches (name_of r e) os",
        OF scan_event_pairs(1) [OF that]]
      count_fold [where g = closes and f = "scan_event r k" and
        P = "\<lambda>e. \<not> event_matches (name_of r e) os \<and> event_matches (name_of r e) cs", OF scan_event_pairs(2) [OF that]]
    by simp
  moreover have "count_of (red_counts (scan_events r k es)) (fst f) = length (filter (\<lambda>e. red_hit r (event_haystack r e) f) es) \<and>
      samples_of (scan_events r k es) (fst f) = take k (filter (\<lambda>e. red_hit r (event_haystack r e) f) es)"
    if "f \<in> set RED_FLAGS" for f
    unfolding scan_events_def
    using count_fold [where g = red_counts and f = "scan_event r k" and P = "\<lambda>e. red_hit r (event_haystack r e) f",
        OF scan_event_flags(1) [OF that]]
      sample_fold [where g = "\<lambda>s. samples_of s (fst f)" and f = "scan_event r k" and
        P = "\<lambda>e. red_hit r (event_haystack r e) f", OF scan_event_flags(2) [OF that]]
    by simp
  ultimately show ?thesis by blast
qed

theorem scan_exact_witness:
  "samples_of (scan_events sample_runtime 1 [[(u ''category'', JStr (u ''c'')), (u ''event_name'', JStr (u ''skip''))]]) ''skip'' =
     [[(u ''category'', JStr (u ''c'')), (u ''event_name'', JStr (u ''skip''))]]"
proof -
  have f: "(''skip'', ''skip'', True) \<in> set RED_FLAGS" by (simp add: RED_FLAGS_def)
  let ?e = "[(u ''category'', JStr (u ''c'')), (u ''event_name'', JStr (u ''skip''))]"
  have h: "red_hit sample_runtime (event_haystack sample_runtime ?e) (''skip'', ''skip'', True)"
    by (simp add: red_hit_def event_haystack_def string_parts_def str_part_def payload_items_def assignments_def
        payload_pairs_def sample_runtime_def join_def u_Cons)
  from scan_exact [of sample_runtime 1 "[?e]" JNull "([], [])"] f
  have "samples_of (scan_events sample_runtime 1 [?e]) (fst (''skip'', ''skip'', True)) =
      take 1 (filter (\<lambda>e. red_hit sample_runtime (event_haystack sample_runtime e) (''skip'', ''skip'', True)) [?e])" by blast
  with h show ?thesis by simp
qed

end
