(* ===== verification/Dtj_Analyze_Props.thy ===== *)
theory Dtj_Analyze_Props imports Dtj_Scan_Props begin

text \<open>
  What the analyses of \<open>dtj_analyze.py\<close> compute on a loaded session: the scope after the last boundary, the
  causal walk against reachability through shared references, the unmatched entities, and the runs against
  maximal groups.
\<close>

section \<open>Events of a loaded session\<close>

definition numbered :: "jdict list \<Rightarrow> bool" where
  "numbered es = (\<forall>i < length es. seq_of (es ! i) = JInt (int i + 1))"

lemma numberedD: "numbered es \<Longrightarrow> i < length es \<Longrightarrow> seq_of (es ! i) = JInt (int i + 1)"
  by (simp add: numbered_def)

lemma loaded_dicts:
  assumes "wf_projection d"
  obtains es where "event_dicts d = Inr es" "numbered es" "getj d (u ''events'') = JList (map JObj es)"
proof -
  from assms obtain evs where evs: "getj d (u ''events'') = JList evs" "wf_events evs"
    unfolding wf_projection_def by blast
  have obj: "\<exists>e. evs ! i = JObj e \<and> seq_of e = JInt (int i + 1)" if "i < length evs" for i
    using evs(2) that unfolding wf_events_def event_obj_def seq_of_def by fastforce
  then have dicts: "is_dict e" if "e \<in> set evs" for e using that by (metis in_set_conv_nth is_dict.simps(1))
  have obs: "map JObj (map dict_val evs) = evs"
  proof (rule nth_equalityI)
    fix i assume "i < length (map JObj (map dict_val evs))"
    then have i: "i < length evs" by simp
    from obj [OF this] obtain e where "evs ! i = JObj e" by blast
    with i show "map JObj (map dict_val evs) ! i = evs ! i" by simp
  qed simp
  have "event_dicts d = Inr (map dict_val evs)"
    using evs(1) dicts by (cases evs) (auto simp: event_dicts_def dict_events_def iter_events_def or_else_def)
  moreover have "numbered (map dict_val evs)"
    unfolding numbered_def using obj by fastforce
  ultimately show thesis using that evs(1) obs by metis
qed

section \<open>The scope after the last boundary\<close>

lemma numbered_prefix: "numbered (xs @ ys) \<Longrightarrow> e \<in> set xs \<Longrightarrow> \<exists>i. seq_of e = JInt i \<and> i \<le> int (length xs)"
proof -
  assume n: "numbered (xs @ ys)" and "e \<in> set xs"
  then obtain i where "i < length xs" "e = xs ! i" by (auto simp: in_set_conv_nth)
  with numberedD [OF n, of i] show ?thesis by (simp add: nth_append)
qed

lemma numbered_suffix: "numbered (xs @ ys) \<Longrightarrow> e \<in> set ys \<Longrightarrow> \<exists>i. seq_of e = JInt i \<and> int (length xs) < i"
proof -
  assume n: "numbered (xs @ ys)" and "e \<in> set ys"
  then obtain i where "i < length ys" "e = ys ! i" by (auto simp: in_set_conv_nth)
  with numberedD [OF n, of "length xs + i"] show ?thesis by (simp add: nth_append)
qed

lemma numbered_ints: "numbered es \<Longrightarrow> e \<in> set es \<Longrightarrow> is_int (seq_of e)"
  using numbered_suffix [of "[]" es e] by auto

definition since :: scope where
  "since = whole\<lparr>since_last_clear := True\<rparr>"

lemma in_scope_since: "in_scope s since e = (\<not> (s \<noteq> None \<and> is_int (seq_of e) \<and> int_val (seq_of e) < the s))"
  by (simp add: in_scope_def since_def whole_def eq_filter_def)

lemma boundaries_ints:
  "numbered es \<Longrightarrow> filter (\<lambda>e. is_session_boundary r e \<and> is_int (seq_of e)) es = filter (is_session_boundary r) es"
  by (rule filter_cong) (auto intro: numbered_ints)

lemma scope_without_boundary:
  assumes "numbered es" "\<forall>e \<in> set es. \<not> is_session_boundary r e"
  shows "last_boundary_seq r es = None" "scope_events r since es = es"
proof -
  show n: "last_boundary_seq r es = None"
    using assms(2) by (simp add: last_boundary_seq_def boundaries_ints [OF assms(1)])
  have "since_last_clear since" by (simp add: since_def)
  with n show "scope_events r since es = es"
    by (simp add: scope_events_def in_scope_since)
qed

lemma scope_at_boundary:
  assumes n: "numbered (xs @ b # ys)" and b: "is_session_boundary r b" and ys: "\<forall>e \<in> set ys. \<not> is_session_boundary r e"
  shows "last_boundary_seq r (xs @ b # ys) = Some (int (length xs) + 1)" "scope_events r since (xs @ b # ys) = b # ys"
proof -
  have seq: "seq_of b = JInt (int (length xs) + 1)" using numberedD [OF n, of "length xs"] by simp
  have "filter (\<lambda>e. is_session_boundary r e \<and> is_int (seq_of e)) ys = []" using ys by simp
  with b seq show s: "last_boundary_seq r (xs @ b # ys) = Some (int (length xs) + 1)"
    by (simp add: last_boundary_seq_def Let_def)
  have "filter (in_scope (Some (int (length xs) + 1)) since) xs = []"
    using numbered_prefix [OF n] by (fastforce simp: filter_empty_conv in_scope_since)
  moreover have "filter (in_scope (Some (int (length xs) + 1)) since) (b # ys) = b # ys"
    using numbered_suffix [of xs "b # ys"] n by (fastforce simp: filter_id_conv in_scope_since)
  moreover have "since_last_clear since" by (simp add: since_def)
  ultimately show "scope_events r since (xs @ b # ys) = b # ys"
    by (simp add: scope_events_def s)
qed

lemma scope_split:
  assumes "numbered es"
  obtains (none) "\<forall>e \<in> set es. \<not> is_session_boundary r e" "scope_events r since es = es"
  | (some) xs b ys where "es = xs @ b # ys" "is_session_boundary r b" "\<forall>e \<in> set ys. \<not> is_session_boundary r e"
      "scope_events r since es = b # ys"
proof (cases "\<exists>e \<in> set es. is_session_boundary r e")
  case False
  with scope_without_boundary(2) [OF assms] that(1) show thesis by blast
next
  case True
  then obtain xs b ys where "es = xs @ b # ys" "is_session_boundary r b" "\<forall>e \<in> set ys. \<not> is_session_boundary r e"
    using split_list_last_prop by metis
  with scope_at_boundary(2) assms that(2) show thesis by blast
qed

lemma last_session_count:
  assumes n: "numbered es" and d: "event_dicts d = Inr es"
  shows "\<exists>res. last_session_result r path d = Inr res \<and>
    getj (dict_val (getj res (u ''session''))) (u ''events_in_session'') = jnat (length (scope_events r since es))"
  using n
proof (cases rule: scope_split [where r = r])
  case none
  then have "filter (is_session_boundary r) es = []" by simp
  with none(2) show ?thesis
    by (simp add: last_session_result_def d Let_def base_result_def)
next
  case (some xs b ys)
  then have bs: "filter (is_session_boundary r) es = filter (is_session_boundary r) xs @ [b]" by simp
  have seq: "seq_of b = JInt (int (length xs) + 1)" using numberedD [OF n, of "length xs"] some(1) by simp
  then have m: "map_of b (u ''event_sequence'') = Some (JInt (int (length xs) + 1))"
    by (auto simp: seq_of_def getj_def split: option.splits)
  have "filter (\<lambda>e. is_int (seq_of e) \<and> int (length xs) + 1 \<le> int_val (seq_of e)) xs = []"
    using numbered_prefix [of xs "b # ys"] n some(1) by (fastforce simp: filter_empty_conv)
  moreover have "filter (\<lambda>e. is_int (seq_of e) \<and> int (length xs) + 1 \<le> int_val (seq_of e)) ys = ys"
    using numbered_suffix [of xs "b # ys"] n some(1) by (fastforce simp: filter_id_conv)
  ultimately have c: "length (filter (\<lambda>e. is_int (seq_of e) \<and> int (length xs) + 1 \<le> int_val (seq_of e)) es) = length (b # ys)"
    using seq by (simp add: some(1))
  have "es \<noteq> []" by (simp add: some(1))
  with bs m c some(4) show ?thesis
    by (simp add: last_session_result_def d Let_def base_result_def)
qed

lemma analyze_count:
  assumes d: "event_dicts d = Inr es"
  shows "\<exists>res. analyze_result r path n_top sc d = Inr res \<and>
    getj (dict_val (getj res (u ''overview''))) (u ''event_count'') = jnat (length (scope_events r sc es))"
proof (cases "scope_events r sc es = []")
  case True
  then show ?thesis by (simp add: analyze_result_def d Let_def base_result_def)
next
  case False
  have "scanned (scan_events r k xs) = xs" for k xs
    unfolding scan_events_def by (subst foldl_frame [where g = scanned]) (simp_all add: scan_event_parts)
  with False show ?thesis by (simp add: analyze_result_def d Let_def base_result_def)
qed

lemma since_is_scope: "whole\<lparr>since_last_clear := True\<rparr> = since"
  by (simp add: since_def)

text \<open>"Since the last repro" means the same thing everywhere. For a loaded session, the scoped events are the
  session's events from its last boundary on, and all of them when it has none: they end the session, no later
  event is a boundary, and if anything was cut off they begin with one; and the number of events that the
  last-session tool reports is the number that the analysis since the last repro counts.\<close>

theorem since_last_boundary:
  assumes "read_session_dtj (native h) p = Inr d" "is_ok d" "\<not> bad_between MAX_TOP n"
  shows "\<exists>es before res res'. event_dicts d = Inr es \<and> es = before @ scope_events (rt h) since es \<and>
    (\<forall>e \<in> set (tl (scope_events (rt h) since es)). \<not> is_session_boundary (rt h) e) \<and>
    (before \<noteq> [] \<longrightarrow> is_session_boundary (rt h) (hd (scope_events (rt h) since es))) \<and>
    last_session_dtj (native h) p = Inr res \<and>
    getj (dict_val (getj res (u ''session''))) (u ''events_in_session'') = jnat (length (scope_events (rt h) since es)) \<and>
    since_last_repro_dtj (native h) p n = Inr res' \<and>
    getj (dict_val (getj res' (u ''overview''))) (u ''event_count'') = jnat (length (scope_events (rt h) since es))"
proof -
  from loaded_dicts [OF native_source.load_wf [OF assms(1,2)]]
  obtain es where es: "event_dicts d = Inr es" "numbered es" by blast
  obtain res where res: "last_session_result (rt h) (expanduser h p) d = Inr res"
    "getj (dict_val (getj res (u ''session''))) (u ''events_in_session'') = jnat (length (scope_events (rt h) since es))"
    using last_session_count [OF es(2,1)] by blast
  obtain res' where res': "analyze_result (rt h) (expanduser h p) n since d = Inr res'"
    "getj (dict_val (getj res' (u ''overview''))) (u ''event_count'') = jnat (length (scope_events (rt h) since es))"
    using analyze_count [OF es(1)] by blast
  have l: "last_session_dtj (native h) p = Inr res"
    using assms(1,2) res(1) by (simp add: last_session_dtj_def with_loadedE_def)
  have a: "since_last_repro_dtj (native h) p n = Inr res'"
    using assms res'(1)
    by (simp add: since_last_repro_dtj_def since_is_scope analyze_dtj_def validate_top_def with_loadedE_def Let_def)
  obtain before where "es = before @ scope_events (rt h) since es"
    "\<forall>e \<in> set (tl (scope_events (rt h) since es)). \<not> is_session_boundary (rt h) e"
    "before \<noteq> [] \<longrightarrow> is_session_boundary (rt h) (hd (scope_events (rt h) since es))"
    using es(2)
  proof (cases rule: scope_split [where r = "rt h"])
    case none
    then have "\<forall>e \<in> set (tl es). \<not> is_session_boundary (rt h) e" by (cases es) auto
    with none(2) that [of "[]"] show thesis by simp
  next
    case (some xs b ys)
    then show thesis using that [of xs] by simp
  qed
  with es(1) res(2) res'(2) l a show ?thesis by blast
qed

theorem since_last_boundary_witness:
  "\<exists>es. event_dicts sample_projection = Inr es \<and> scope_events (rt sample_host) since es \<noteq> [] \<and>
     last_session_dtj (native sample_host) sample_path \<noteq> Inl OsError"
proof -
  have "\<not> bad_between MAX_TOP (JInt 5)" by (simp add: bad_between_def)
  from since_last_boundary [OF sample_load sample_ok this]
  obtain es before res where es: "event_dicts sample_projection = Inr es" "es = before @ scope_events (rt sample_host) since es"
    "before \<noteq> [] \<longrightarrow> is_session_boundary (rt sample_host) (hd (scope_events (rt sample_host) since es))"
    "last_session_dtj (native sample_host) sample_path = Inr res" by blast
  obtain xs where xs: "event_dicts sample_projection = Inr xs"
    "getj sample_projection (u ''events'') = JList (map JObj xs)" "numbered xs"
    using loaded_dicts [OF native_source.load_wf [OF sample_load sample_ok]] by metis
  have "length xs = 2"
    using arg_cong [OF xs(2), of "\<lambda>j. length (list_val j)"]
    by (simp add: sample_projection_def session_to_projection_def read_trace_def sample_trace_def)
  then have "scope_events (rt sample_host) since xs \<noteq> []"
    by (cases rule: scope_split [OF xs(3), where r = "rt sample_host"]) auto
  with es xs(1) show ?thesis by simp
qed

section \<open>The causal walk\<close>

text \<open>The reference: an event before the target belongs to its causal history when it shares an entity
  reference with the target or with a later event that belongs to it.\<close>

inductive causal :: "runtime \<Rightarrow> jdict list \<Rightarrow> nat \<Rightarrow> nat \<Rightarrow> bool" for r es target where
  target: "causal r es target target"
| linked: "causal r es target k \<Longrightarrow> j < k \<Longrightarrow> x \<in> set (entity_refs r (es ! j)) \<Longrightarrow> x \<in> set (entity_refs r (es ! k)) \<Longrightarrow>
    causal r es target j"

lemma causal_le: "causal r es t j \<Longrightarrow> j \<le> t"
  by (induction rule: causal.induct) auto

lemma causal_iff:
  "j < t \<Longrightarrow> causal r es t j \<longleftrightarrow>
     (\<exists>k. j < k \<and> causal r es t k \<and> set (entity_refs r (es ! j)) \<inter> set (entity_refs r (es ! k)) \<noteq> {})"
proof
  assume "j < t" and c: "causal r es t j"
  from c \<open>j < t\<close> show "\<exists>k. j < k \<and> causal r es t k \<and> set (entity_refs r (es ! j)) \<inter> set (entity_refs r (es ! k)) \<noteq> {}"
    by (cases rule: causal.cases) auto
next
  assume "\<exists>k. j < k \<and> causal r es t k \<and> set (entity_refs r (es ! j)) \<inter> set (entity_refs r (es ! k)) \<noteq> {}"
  then show "causal r es t j" by (auto intro: causal.linked)
qed

text \<open>The causal positions from \<open>n\<close> up to the target, latest first.\<close>

definition walk_order :: "runtime \<Rightarrow> jdict list \<Rightarrow> nat \<Rightarrow> nat \<Rightarrow> nat list" where
  "walk_order r es t n = rev (filter (causal r es t) [n..<Suc t])"

lemma walk_history:
  assumes "n \<le> t" "t < length es" "n + steps \<le> length es" "length (walk_order r es t n) \<le> hops + 1"
    "set refs = (\<Union>j \<in> set (walk_order r es t n). set (entity_refs r (es ! j)))"
  shows "walk r es hops n steps (map ((!) es) (walk_order r es t n)) refs = map ((!) es) (take (hops + 1) (walk_order r es t 0))"
  using assms
proof (induction n arbitrary: steps refs)
  case 0
  then show ?case by simp
next
  case (Suc n)
  have nt: "n < t" using Suc.prems(1) by simp
  let ?H = "walk_order r es t (Suc n)"
  have step: "walk_order r es t n = ?H @ (if causal r es t n then [n] else [])"
    using nt by (simp add: walk_order_def upt_conv_Cons)
  have pre: "\<exists>zs. walk_order r es t 0 = ?H @ zs"
  proof -
    have "[0..<Suc t] = [0..<Suc n] @ [Suc n..<Suc t]" using nt upt_add_eq_append [of 0 "Suc n" "t - n"] by simp
    then show ?thesis by (simp add: walk_order_def del: upt_Suc)
  qed
  have shares: "list_ex (\<lambda>x. x \<in> set refs) (entity_refs r (es ! n)) \<longleftrightarrow> causal r es t n"
  proof -
    have mem: "set ?H = {k. n < k \<and> causal r es t k}" 
      by (auto simp: walk_order_def less_Suc_eq_le Suc_le_eq simp del: upt_Suc intro: causal_le)
    have "list_ex (\<lambda>x. x \<in> set refs) (entity_refs r (es ! n)) \<longleftrightarrow>
        (\<exists>k. n < k \<and> causal r es t k \<and> set (entity_refs r (es ! n)) \<inter> set (entity_refs r (es ! k)) \<noteq> {})"
      unfolding list_ex_iff Suc.prems(5) mem by auto
    then show ?thesis using causal_iff [OF nt] by simp
  qed
  show ?case
  proof (cases "length ?H < hops + 1")
    case False
    with Suc.prems(4) have full: "length ?H = hops + 1" by simp
    from pre obtain zs where "walk_order r es t 0 = ?H @ zs" by blast
    with full show ?thesis by simp
  next
    case True
    have st: "steps < length es" using Suc.prems(3) by simp
    show ?thesis
    proof (cases "causal r es t n")
      case False
      have "walk r es hops n (steps + 1) (map ((!) es) (walk_order r es t n)) refs =
          map ((!) es) (take (hops + 1) (walk_order r es t 0))"
        using Suc.prems step False by (intro Suc.IH) auto
      with True st False shares step show ?thesis by (simp add: Let_def)
    next
      case c: True
      have "walk r es hops n (steps + 1) (map ((!) es) (walk_order r es t n)) (refs @ entity_refs r (es ! n)) =
          map ((!) es) (take (hops + 1) (walk_order r es t 0))"
        using Suc.prems step c True by (intro Suc.IH) auto
      with True st c shares step show ?thesis by (simp add: Let_def)
    qed
  qed
qed

lemma causal_chain_history:
  assumes "t < length es"
  shows "causal_chain r es hops t = map ((!) es) (rev (take (hops + 1) (walk_order r es t 0)))"
proof -
  have h: "walk_order r es t t = [t]" by (simp add: walk_order_def causal.target)
  have "walk r es hops t 0 (map ((!) es) (walk_order r es t t)) (entity_refs r (es ! t)) =
      map ((!) es) (take (hops + 1) (walk_order r es t 0))"
    using assms by (intro walk_history) (simp_all add: h)
  then show ?thesis by (simp add: causal_chain_def h rev_map)
qed

lemma index_by_seq_numbered:
  assumes "numbered es"
  shows "map_of (index_by_seq es) k = (if 1 \<le> k \<and> k \<le> int (length es) then Some (nat (k - 1)) else None)"
proof -
  have "map_of (foldl (\<lambda>d i. if is_int (seq_of (es ! i)) then AList.update (int_val (seq_of (es ! i))) i d else d) [] [0..<m]) k =
      (if 1 \<le> k \<and> k \<le> int m then Some (nat (k - 1)) else None)" if "m \<le> length es" for m
    using that
  proof (induction m)
    case (Suc m)
    then show ?case using numberedD [OF assms, of m] by (auto simp: update_conv')
  qed simp
  then show ?thesis by (simp add: index_by_seq_def)
qed

lemma chain_result_numbered:
  assumes "event_dicts d = Inr es" "numbered es"
  shows "chain_result r path (JInt n) (JInt hops) d =
    (if 1 \<le> n \<and> n \<le> int (length es) then
       (let chain = causal_chain r es (nat hops) (nat (n - 1)); ranked = zip [0..<length chain] chain
        in Inr (base_result path d @
          [(u ''event_sequence'', JInt n), (u ''hops'', JInt hops),
           (u ''chain'', JList (map (\<lambda>(i, e). hop_row r n i e) ranked)),
           (u ''text'', JStr (join newline (map (\<lambda>(i, e). hop_line r n i e) ranked)))]))
     else Inr (fail_at path [(u ''kind'', JStr (u ''MissingEvent'')),
       (u ''message'', JStr (u ''event_sequence '' @ str_int n @ u '' not found'')), (u ''event_sequence'', JInt n)]))"
  using assms(1) by (simp add: chain_result_def index_by_seq_numbered [OF assms(2)] Let_def)

text \<open>C10: The causal chain of an event. On a loaded session and for a permitted number of hops, the walk returns,
  oldest first and ending with the target, the events of the target's causal history (the target, and every event
  before it that shares an entity reference with a later event of the history); when there are more than the hops
  allow it returns the latest of them. A sequence number the session does not have is reported as missing.\<close>

theorem causal_chain_exact:
  assumes "read_session_dtj (native h) p = Inr d" "is_ok d" "1 \<le> hops" "hops \<le> MAX_HOPS"
  shows "\<exists>es. event_dicts d = Inr es \<and>
    (if 1 \<le> n \<and> n \<le> int (length es) then
       \<exists>res. causal_chain_dtj (native h) p (JInt n) (JInt hops) = Inr res \<and> is_ok res \<and>
         (let members = filter (causal (rt h) es (nat (n - 1))) [0..<nat n];
              chain = map ((!) es) (drop (length members - (nat hops + 1)) members)
          in getj res (u ''chain'') = JList (map (\<lambda>(i, e). hop_row (rt h) n i e) (zip [0..<length chain] chain)))
     else \<exists>res err. causal_chain_dtj (native h) p (JInt n) (JInt hops) = Inr res \<and> \<not> is_ok res \<and>
       getj res (u ''error'') = JObj err \<and> getj err (u ''kind'') = JStr (u ''MissingEvent''))"
proof -
  from loaded_dicts [OF native_source.load_wf [OF assms(1,2)]]
  obtain es where es: "event_dicts d = Inr es" "numbered es" by blast
  have c: "causal_chain_dtj (native h) p (JInt n) (JInt hops) = chain_result (rt h) (expanduser h p) (JInt n) (JInt hops) d"
    using assms by (simp add: causal_chain_dtj_def validate_hops_def bad_between_def with_loadedE_def Let_def)
  show ?thesis
  proof (cases "1 \<le> n \<and> n \<le> int (length es)")
    case True
    then have t: "nat (n - 1) < length es" "Suc (nat (n - 1)) = nat n" by auto
    have h: "rev (take (nat hops + 1) (walk_order (rt h) es (nat (n - 1)) 0)) =
        drop (length (filter (causal (rt h) es (nat (n - 1))) [0..<nat n]) - (nat hops + 1))
          (filter (causal (rt h) es (nat (n - 1))) [0..<nat n])"
      by (simp only: walk_order_def t(2) rev_take length_rev rev_rev_ident)
    show ?thesis
      using True es(1)
      by (simp only: c chain_result_numbered [OF es] causal_chain_history [OF t(1)] h)
        (simp add: Let_def is_ok_def base_result_def)
  next
    case False
    then show ?thesis
      using es(1) by (simp only: c chain_result_numbered [OF es]) (simp add: is_ok_def fail_at_def fail_with_def)
  qed
qed

theorem causal_chain_exact_witness:
  "\<exists>res. causal_chain_dtj (native sample_host) sample_path (JInt 1) (JInt 5) = Inr res"
  using causal_chain_exact [OF sample_load sample_ok, of 5 1] by (auto split: if_splits)

end
