(* ===== verification/Dtj_Entity_Props.thy ===== *)
theory Dtj_Entity_Props imports Dtj_Analyze_Props begin

text \<open>
  The entities that were opened and never closed, and the runs of repeated events, against their references.
\<close>

section \<open>Unmatched entities\<close>

definition entity_key :: "runtime \<Rightarrow> jdict \<Rightarrow> pystr option" where
  "entity_key r e = (if entity_id_from_event r e = Some [] then None else entity_id_from_event r e)"

definition opens_entity :: "runtime \<Rightarrow> string list \<Rightarrow> pystr \<Rightarrow> jdict \<Rightarrow> bool" where
  "opens_entity r os i e = (entity_key r e = Some i \<and> event_matches (name_of r e) os)"

definition closes_entity :: "runtime \<Rightarrow> string list \<Rightarrow> string list \<Rightarrow> pystr \<Rightarrow> jdict \<Rightarrow> bool" where
  "closes_entity r os cs i e =
     (entity_key r e = Some i \<and> \<not> event_matches (name_of r e) os \<and> event_matches (name_of r e) cs)"

definition last_such :: "('a \<Rightarrow> bool) \<Rightarrow> 'a list \<Rightarrow> 'a option" where
  "last_such P xs = (if filter P xs = [] then None else Some (last (filter P xs)))"

lemma last_such_Nil [simp]: "last_such P [] = None"
  by (simp add: last_such_def)

lemma last_such_snoc: "last_such P (xs @ [x]) = (if P x then Some x else last_such P xs)"
  by (simp add: last_such_def)

lemma last_such_None: "last_such P xs = None \<longleftrightarrow> (\<forall>x \<in> set xs. \<not> P x)"
  by (simp add: last_such_def filter_empty_conv)

lemma entity_step_key:
  "entity_step r os cs st e =
     (case entity_key r e of None \<Rightarrow> st
      | Some eid \<Rightarrow>
          let st = st\<lparr>last_seen := AList.update eid e (last_seen st)\<rparr> in
          if event_matches (name_of r e) os then st\<lparr>opened := AList.update eid e (opened st)\<rparr>
          else if event_matches (name_of r e) cs then st\<lparr>closed_ids := eid # closed_ids st\<rparr>
          else st)"
  by (auto simp: entity_step_def entity_key_def split: option.split list.split)

lemma track_snoc: "track_entities r os cs (es @ [e]) = entity_step r os cs (track_entities r os cs es) e"
  by (simp add: track_entities_def)

lemma track_opened: "map_of (opened (track_entities r os cs es)) i = last_such (opens_entity r os i) es"
proof (induction es rule: rev_induct)
  case Nil
  show ?case by (simp add: track_entities_def)
next
  case (snoc e es)
  then show ?case
    by (auto simp: track_snoc entity_step_key last_such_snoc opens_entity_def Let_def update_conv' split: option.split)
qed

lemma track_distinct: "distinct (map fst (opened (track_entities r os cs es)))"
proof (induction es rule: rev_induct)
  case Nil
  show ?case by (simp add: track_entities_def)
next
  case (snoc e es)
  then show ?case
    by (auto simp: track_snoc entity_step_key Let_def intro: distinct_update split: option.split)
qed

lemma track_closed: "set (closed_ids (track_entities r os cs es)) = {i. \<exists>e \<in> set es. closes_entity r os cs i e}"
proof (induction es rule: rev_induct)
  case Nil
  show ?case by (simp add: track_entities_def)
next
  case (snoc e es)
  then show ?case
    by (auto simp: track_snoc entity_step_key closes_entity_def Let_def split: option.split)
qed

lemma track_last: "map_of (last_seen (track_entities r os cs es)) i = last_such (\<lambda>e. entity_key r e = Some i) es"
proof (induction es rule: rev_induct)
  case Nil
  show ?case by (simp add: track_entities_def)
next
  case (snoc e es)
  then show ?case
    by (auto simp: track_snoc entity_step_key last_such_snoc Let_def update_conv' split: option.split)
qed

definition dangling :: "runtime \<Rightarrow> string list \<Rightarrow> string list \<Rightarrow> jdict list \<Rightarrow> pystr set" where
  "dangling r os cs es =
     {i. (\<exists>e \<in> set es. opens_entity r os i e) \<and> \<not> (\<exists>e \<in> set es. closes_entity r os cs i e)}"

lemma opened_ids: "set (map fst (opened (track_entities r os cs es))) = {i. \<exists>e \<in> set es. opens_entity r os i e}"
  unfolding set_map dom_map_of_conv_image_fst [symmetric] dom_def track_opened by (simp only: last_such_None) auto

lemma unmatched_set: "set (unmatched_ids (track_entities r os cs es)) = dangling r os cs es"
  using opened_ids [of r os cs es] by (auto simp: unmatched_ids_def track_closed dangling_def)

lemma unmatched_distinct: "distinct (unmatched_ids (track_entities r os cs es))"
  unfolding unmatched_ids_def by (intro distinct_filter track_distinct)

lemma unmatched_row:
  assumes "i \<in> dangling r os cs es"
  shows "getj (entity_row r (track_entities r os cs es) i) (u ''created_event_sequence'') =
      seq_of (the (last_such (opens_entity r os i) es))"
    "getj (entity_row r (track_entities r os cs es) i) (u ''last_event_sequence'') =
      seq_of (the (last_such (\<lambda>e. entity_key r e = Some i) es))"
proof -
  from assms obtain e where "e \<in> set es" "opens_entity r os i e" by (auto simp: dangling_def)
  then have "last_such (\<lambda>e. entity_key r e = Some i) es \<noteq> None"
    by (auto simp: last_such_None opens_entity_def)
  then show "getj (entity_row r (track_entities r os cs es) i) (u ''created_event_sequence'') =
      seq_of (the (last_such (opens_entity r os i) es))"
    "getj (entity_row r (track_entities r os cs es) i) (u ''last_event_sequence'') =
      seq_of (the (last_such (\<lambda>e. entity_key r e = Some i) es))"
    by (auto simp: entity_row_def Let_def track_opened track_last)
qed

text \<open>C15: The unmatched entities of a loaded session. For each kind of pair, the tool counts exactly the entities
  that some event of the scope opens and no event of the scope closes, lists each of them once up to the limit,
  and gives for each the sequence number of the last event that opened it and of the last event that names it.\<close>

theorem unmatched_entities_exact:
  assumes "read_session_dtj (native h) p = Inr d" "is_ok d" "1 \<le> limit" "limit \<le> MAX_LIMIT"
    "(kind, os, cs) \<in> set EVENT_PAIRS"
  shows "\<exists>es ids res. event_dicts d = Inr es \<and>
    set ids = dangling (rt h) os cs (scope_events (rt h) (whole\<lparr>since_last_clear := s\<rparr>) es) \<and> distinct ids \<and>
    unmatched_entities_dtj (native h) p (u kind) (JInt limit) s = Inr res \<and> is_ok res \<and>
    getj res (u ''unmatched_count'') = jnat (length ids) \<and>
    (\<exists>rows. getj res (u ''entities'') = JList (map JObj rows) \<and>
       map (\<lambda>row. getj row (u ''id'')) rows = map JStr (take (nat limit) ids) \<and>
       map (\<lambda>row. getj row (u ''created_event_sequence'')) rows =
         map (\<lambda>i. seq_of (the (last_such (opens_entity (rt h) os i) (scope_events (rt h) (whole\<lparr>since_last_clear := s\<rparr>) es))))
           (take (nat limit) ids) \<and>
       map (\<lambda>row. getj row (u ''last_event_sequence'')) rows =
         map (\<lambda>i. seq_of (the (last_such (\<lambda>e. entity_key (rt h) e = Some i) (scope_events (rt h) (whole\<lparr>since_last_clear := s\<rparr>) es))))
           (take (nat limit) ids))"
proof -
  from loaded_dicts [OF native_source.load_wf [OF assms(1,2)]] obtain es where es: "event_dicts d = Inr es" by blast
  define sc where "sc = scope_events (rt h) (whole\<lparr>since_last_clear := s\<rparr>) es"
  define st where "st = track_entities (rt h) os cs sc"
  define ids where "ids = unmatched_ids st"
  have pair: "map_of (map (\<lambda>(n, os, cs). (u n, (os, cs))) EVENT_PAIRS) (u kind) = Some (os, cs)"
    using assms(5) by (simp add: EVENT_PAIRS_def) (elim disjE; simp)
  have ids: "set ids = dangling (rt h) os cs sc" "distinct ids"
    by (simp_all add: ids_def st_def unmatched_set unmatched_distinct)
  have sub: "i \<in> dangling (rt h) os cs sc" if "i \<in> set (take (nat limit) ids)" for i
    using in_set_takeD [OF that] ids(1) by simp
  obtain res where res: "unmatched_result (rt h) (expanduser h p) (u kind) (JInt limit) (whole\<lparr>since_last_clear := s\<rparr>) (os, cs) d = Inr res"
    "is_ok res" "getj res (u ''unmatched_count'') = jnat (length ids)"
    "getj res (u ''entities'') = JList (map JObj (map (entity_row (rt h) st) (take (nat limit) ids)))"
    by (simp add: unmatched_result_def es Let_def base_result_def is_ok_def sc_def st_def ids_def)
  have call: "unmatched_entities_dtj (native h) p (u kind) (JInt limit) s = Inr res"
    using assms(1-4) pair res(1)
    by (simp add: unmatched_entities_dtj_def validate_limit_def bad_between_def with_loadedE_def Let_def)
  have rows: "map (\<lambda>row. getj row (u ''id'')) (map (entity_row (rt h) st) (take (nat limit) ids)) = map JStr (take (nat limit) ids)"
    "map (\<lambda>row. getj row (u ''created_event_sequence'')) (map (entity_row (rt h) st) (take (nat limit) ids)) =
       map (\<lambda>i. seq_of (the (last_such (opens_entity (rt h) os i) sc))) (take (nat limit) ids)"
    "map (\<lambda>row. getj row (u ''last_event_sequence'')) (map (entity_row (rt h) st) (take (nat limit) ids)) =
       map (\<lambda>i. seq_of (the (last_such (\<lambda>e. entity_key (rt h) e = Some i) sc))) (take (nat limit) ids)"
    using unmatched_row [OF sub] by (simp_all add: st_def, simp add: entity_row_def Let_def)
  from es ids call res rows show ?thesis unfolding sc_def by blast
qed

theorem unmatched_entities_exact_witness:
  "\<exists>res. unmatched_entities_dtj (native sample_host) sample_path (u ''Arm'') (JInt 50) False = Inr res"
proof -
  have "(''Arm'', [''Arm'', ''Arming''], [''Release'']) \<in> set EVENT_PAIRS" by (simp add: EVENT_PAIRS_def)
  from unmatched_entities_exact [OF sample_load sample_ok _ _ this, of 50 False] show ?thesis by auto
qed

text \<open>Order does not count: an entity that is opened, closed and opened again is not reported.\<close>

definition entity_event :: "string \<Rightarrow> jdict" where
  "entity_event name = [(u ''event_name'', JStr (u name)),
     (u ''payload'', JList [JObj [(u ''name'', JStr (u ''id'')), (u ''type'', JStr (u ''u32'')), (u ''value'', JInt 7)]])]"

lemma reopened_not_reported:
  "dangling r [''Created''] [''Destroyed'', ''Consumed'']
     [entity_event ''WireCreated'', entity_event ''WireDestroyed'', entity_event ''WireCreated''] = {}"
proof -
  have k: "entity_key r (entity_event n) = Some (str_int 7)" for n
    by (simp add: entity_key_def entity_id_from_event_def entity_items_def payload_items_def entity_event_def
        entity_item_def ENTITY_FIELD_KEYS_def type_in_def or_str_def py_str_def str_int_nonempty)
  have "closes_entity r [''Created''] [''Destroyed'', ''Consumed''] (str_int 7) (entity_event ''WireDestroyed'')"
    unfolding closes_entity_def k
    by (simp add: name_of_def entity_event_def or_else_def py_str_def event_matches_def u_Cons)
  moreover have "opens_entity r os i (entity_event n) \<Longrightarrow> i = str_int 7" for os i n
    by (simp add: opens_entity_def k)
  ultimately show ?thesis unfolding dangling_def by auto
qed

section \<open>Runs\<close>

text \<open>The reference: the maximal groups of consecutive elements with the same key.\<close>

fun run_groups :: "('a \<Rightarrow> 'k) \<Rightarrow> 'a list \<Rightarrow> 'a list list" where
  "run_groups key [] = []"
| "run_groups key (x # xs) =
     (case run_groups key xs of [] \<Rightarrow> [[x]]
      | g # gs \<Rightarrow> if key (hd g) = key x then (x # g) # gs else [x] # g # gs)"

lemma groups_concat: "concat (run_groups key xs) = xs"
  by (induction xs) (auto split: list.splits)

lemma groups_nonempty: "g \<in> set (run_groups key xs) \<Longrightarrow> g \<noteq> []"
  by (induction xs arbitrary: g) (auto split: list.splits if_splits)

lemma groups_uniform: "g \<in> set (run_groups key xs) \<Longrightarrow> x \<in> set g \<Longrightarrow> key x = key (hd g)"
proof (induction xs arbitrary: g x)
  case (Cons y ys)
  then show ?case by (cases "run_groups key ys") (fastforce split: if_splits)+
qed simp

lemma groups_maximal:
  "Suc i < length (run_groups key xs) \<Longrightarrow> key (hd (run_groups key xs ! i)) \<noteq> key (hd (run_groups key xs ! Suc i))"
proof (induction xs arbitrary: i)
  case (Cons y ys)
  show ?case
  proof (cases "run_groups key ys")
    case (Cons g gs)
    then show ?thesis
      using Cons.prems Cons.IH [of i] Cons.IH [of "i - 1"] by (cases i) (auto split: if_splits)
  qed (use Cons.prems in simp)
qed simp

text \<open>A current run of length \<open>n\<close> from \<open>s\<close> takes up the first group of the rest when the key is the same.\<close>

fun absorb :: "('a \<Rightarrow> 'k) \<Rightarrow> nat \<Rightarrow> 'a \<Rightarrow> 'a list list \<Rightarrow> (nat \<times> 'a) list" where
  "absorb key n s [] = [(n, s)]"
| "absorb key n s (g # gs) =
     (if key (hd g) = key s then (n + length g, s) # map (\<lambda>g. (length g, hd g)) gs
      else (n, s) # map (\<lambda>g. (length g, hd g)) (g # gs))"

lemma absorb_Cons:
  "absorb key n s (run_groups key (x # xs)) =
     (if key x = key s then absorb key (n + 1) s (run_groups key xs) else (n, s) # absorb key 1 x (run_groups key xs))"
  by (cases "run_groups key xs") auto

lemma absorb_groups: "absorb key 1 x (run_groups key xs) = map (\<lambda>g. (length g, hd g)) (run_groups key (x # xs))"
  by (cases "run_groups key xs") auto

definition long_rows :: "runtime \<Rightarrow> nat \<Rightarrow> (nat \<times> jdict) list \<Rightarrow> jdict list" where
  "long_rows r m ps = map (\<lambda>(n, e). run_row r n e) (filter (\<lambda>(n, e). m \<le> n) ps)"

lemma run_fold:
  "prev_key st = Some (event_key r s) \<Longrightarrow> run_start st = Some s \<Longrightarrow>
   runs (flush r m (foldl (run_step r m) st es)) =
     runs st @ long_rows r m (absorb (event_key r) (run_len st) s (run_groups (event_key r) es))"
proof (induction es arbitrary: st s)
  case Nil
  then show ?case by (simp add: flush_def long_rows_def Let_def)
next
  case (Cons e es)
  show ?case
  proof (cases "event_key r e = event_key r s")
    case True
    with Cons.prems Cons.IH [of "st\<lparr>run_len := run_len st + 1\<rparr>" s] show ?thesis
      unfolding absorb_Cons by (simp add: run_step_def)
  next
    case False
    have "run_step r m st e = (flush r m st)\<lparr>prev_key := Some (event_key r e), run_start := Some e, run_len := 1\<rparr>"
      using False Cons.prems by (simp add: run_step_def)
    moreover have "runs (flush r m st) = runs st @ long_rows r m [(run_len st, s)]"
      using Cons.prems by (simp add: flush_def long_rows_def Let_def)
    ultimately show ?thesis
      using False Cons.IH [of "run_step r m st e" e] unfolding absorb_Cons by (simp add: long_rows_def)
  qed
qed

text \<open>The repetition report is exact: the runs it lists are the maximal groups of consecutive events with the
  same tag and the same text that are at least as long as the threshold, in order, each with its length and its
  first event.\<close>

theorem repeated_runs_groups:
  "repeated_runs r m es =
     map (\<lambda>g. run_row r (length g) (hd g)) (filter (\<lambda>g. m \<le> length g) (run_groups (event_key r) es))"
proof (cases es)
  case Nil
  then show ?thesis by (simp add: repeated_runs_def flush_def)
next
  case (Cons e xs)
  have "repeated_runs r m es =
      runs (flush r m (foldl (run_step r m) \<lparr>runs = [], prev_key = Some (event_key r e), run_start = Some e, run_len = 1\<rparr> xs))"
    by (simp add: Cons repeated_runs_def run_step_def flush_def)
  also have "\<dots> = long_rows r m (absorb (event_key r) 1 e (run_groups (event_key r) xs))"
    using run_fold [of "\<lparr>runs = [], prev_key = Some (event_key r e), run_start = Some e, run_len = 1\<rparr>" r e m xs] by simp
  also have "\<dots> = map (\<lambda>g. run_row r (length g) (hd g)) (filter (\<lambda>g. m \<le> length g) (run_groups (event_key r) es))"
    unfolding absorb_groups Cons long_rows_def by (simp add: filter_map comp_def del: run_groups.simps)
  finally show ?thesis .
qed

end
