(* ===== verification/Py_Float.thy ===== *)
theory Py_Float imports Dtj_Projection Complex_Main begin

text \<open>
  Python's float arithmetic on binary64 patterns: rounding to nearest with ties to even, from an exact
  fraction, and the operations the reports and analytics use. That rounding is within half a unit in the last
  place, and never passes an integer the exact value does not pass, is proved.
\<close>

section \<open>Rounding\<close>

text \<open>\<open>a / b\<close> rounded to an integer, ties to even.\<close>

definition half_even :: "nat \<Rightarrow> nat \<Rightarrow> nat" where
  "half_even a b =
     (let q = a div b; r = a mod b in if b < 2 * r \<or> 2 * r = b \<and> odd q then q + 1 else q)"

text \<open>The exponent \<open>e\<close> with \<open>2 ^ e \<le> n / d < 2 ^ (e + 1)\<close>.\<close>

definition ratio_exp :: "nat \<Rightarrow> nat \<Rightarrow> int" where
  "ratio_exp n d =
     (let e = int (msb n) - int (msb d) in
      if (if 0 \<le> e then d * 2 ^ nat e \<le> n else d \<le> n * 2 ^ nat (- e)) then e else e - 1)"

definition ulp_exp :: "nat \<Rightarrow> nat \<Rightarrow> int" where
  "ulp_exp n d = max (ratio_exp n d - 52) (- 1074)"

definition round_sig :: "nat \<Rightarrow> nat \<Rightarrow> nat" where
  "round_sig n d =
     (let q = ulp_exp n d in if 0 \<le> q then half_even n (d * 2 ^ nat q) else half_even (n * 2 ^ nat (- q)) d)"

text \<open>The pattern of the fraction \<open>n / d\<close> with a sign; infinity when it is too large.\<close>

definition round_f64 :: "bool \<Rightarrow> nat \<Rightarrow> nat \<Rightarrow> 64 word" where
  "round_f64 neg n d =
     (let s = (if neg then 1 else 0) in
      if n = 0 then pack_f64 s 0 0
      else let m = round_sig n d;
               k = (if m < 2 ^ 52 then m else nat (ulp_exp n d + 1075) * 2 ^ 52 + (m - 2 ^ 52))
           in if 2047 * 2 ^ 52 \<le> k then pack_f64 s 2047 0 else pack_f64 s (k div 2 ^ 52) (k mod 2 ^ 52))"

section \<open>Rounding is exact to half a unit\<close>

lemma half_even_le: "0 < b \<Longrightarrow> a \<le> c * b \<Longrightarrow> half_even a b \<le> c"
proof -
  assume b: "0 < b" and a: "a \<le> c * b"
  from a b have "a div b \<le> c" by (metis div_le_mono nonzero_mult_div_cancel_right not_gr_zero)
  moreover have "a mod b = 0" if "a div b = c"
  proof -
    have "c * b + a mod b = a" using that by (metis div_mult_mod_eq)
    with a show ?thesis by simp
  qed
  ultimately show ?thesis unfolding half_even_def Let_def by (cases "a div b = c") (use b in auto)
qed

lemma half_even_ge: "0 < b \<Longrightarrow> c * b \<le> a \<Longrightarrow> c \<le> half_even a b"
proof -
  assume b: "0 < b" and a: "c * b \<le> a"
  then have "c \<le> a div b" by (metis div_le_mono nonzero_mult_div_cancel_right not_gr_zero)
  then show ?thesis unfolding half_even_def Let_def by auto
qed

lemma half_even_near: "0 < b \<Longrightarrow> 2 * (half_even a b * b) \<le> 2 * a + b \<and> 2 * a \<le> 2 * (half_even a b * b) + b"
proof -
  assume b: "0 < b"
  define q r where "q = a div b" and "r = a mod b"
  have a: "a = q * b + r" "r < b" using b by (simp_all add: q_def r_def)
  show ?thesis
    unfolding half_even_def Let_def q_def [symmetric] r_def [symmetric]
    using a by (auto simp: algebra_simps)
qed

lemma scaled_le:
  "(if 0 \<le> e then d * 2 ^ nat e \<le> n else d \<le> n * 2 ^ nat (- e)) \<longleftrightarrow> real d * 2 powi e \<le> real n"
proof (cases "0 \<le> e")
  case True
  have "d * 2 ^ nat e \<le> n \<longleftrightarrow> real (d * 2 ^ nat e) \<le> real n" by (simp only: of_nat_le_iff)
  with True show ?thesis by (simp add: power_int_def)
next
  case False
  have "d \<le> n * 2 ^ nat (- e) \<longleftrightarrow> real d \<le> real (n * 2 ^ nat (- e))" by (simp only: of_nat_le_iff)
  with False show ?thesis by (simp add: power_int_def field_simps)
qed

lemma powi_diff: "(2::real) powi (a - b) = 2 powi a / 2 powi b"
  by (simp add: power_int_diff)

lemma powi_Suc: "(2::real) powi (a + 1) = 2 * 2 powi a"
  by (simp add: power_int_add)

lemma msb_real:
  assumes "0 < n"
  shows "2 ^ msb n \<le> real n \<and> real n < 2 * 2 ^ msb n"
proof -
  have "real (2 ^ msb n) \<le> real n" "real n < real (2 * 2 ^ msb n)"
    using msb_bounds [OF assms] by (simp_all only: of_nat_le_iff of_nat_less_iff power_Suc)
  then show ?thesis by simp
qed

lemma ratio_exp_bounds:
  assumes "0 < n" "0 < d"
  shows "real d * 2 powi ratio_exp n d \<le> real n" "real n < real d * 2 powi (ratio_exp n d + 1)"
proof -
  let ?e = "int (msb n) - int (msb d)"
  have n: "2 ^ msb n \<le> real n" "real n < 2 * 2 ^ msb n" and d: "2 ^ msb d \<le> real d" "real d < 2 * 2 ^ msb d"
    using msb_real [OF assms(1)] msb_real [OF assms(2)] by blast+
  have p: "(2::real) powi ?e = 2 ^ msb n / 2 ^ msb d" by (simp add: powi_diff)
  have hi: "real n < real d * 2 powi (?e + 1)"
  proof -
    have "real n < 2 * 2 ^ msb n" by (rule n(2))
    also have "\<dots> = 2 ^ msb d * (2 * (2 ^ msb n / 2 ^ msb d))" by simp
    also have "\<dots> \<le> real d * (2 * (2 ^ msb n / 2 ^ msb d))" by (rule mult_right_mono [OF d(1)]) simp
    finally show ?thesis by (simp only: powi_Suc p)
  qed
  have lo: "real d * 2 powi (?e - 1) \<le> real n"
  proof -
    have "real d * (2 ^ msb n / 2 ^ msb d / 2) \<le> (2 * 2 ^ msb d) * (2 ^ msb n / 2 ^ msb d / 2)"
      by (rule mult_right_mono) (use d(2) in simp_all)
    also have "\<dots> = 2 ^ msb n" by simp
    also have "\<dots> \<le> real n" by (rule n(1))
    finally show ?thesis by (simp only: powi_diff [of ?e 1] p) simp
  qed
  show "real d * 2 powi ratio_exp n d \<le> real n" "real n < real d * 2 powi (ratio_exp n d + 1)"
    unfolding ratio_exp_def Let_def scaled_le using hi lo by (simp_all add: not_le)
qed

text \<open>The significand is the fraction in units of the last place, rounded.\<close>

lemma round_sig_ratio:
  assumes "0 < d"
  obtains a b where "0 < b" "round_sig n d = half_even a b" "real a / real b = real n / real d / 2 powi ulp_exp n d"
proof (cases "0 \<le> ulp_exp n d")
  case True
  then show thesis
    using assms that [of "d * 2 ^ nat (ulp_exp n d)" n] by (simp add: round_sig_def Let_def power_int_def field_simps)
next
  case False
  then show thesis
    using assms that [of d "n * 2 ^ nat (- ulp_exp n d)"] by (simp add: round_sig_def Let_def power_int_def field_simps)
qed

lemma round_sig_le:
  assumes "0 < d" "real n / real d \<le> real c * 2 powi ulp_exp n d"
  shows "round_sig n d \<le> c"
proof -
  obtain a b where ab: "0 < b" "round_sig n d = half_even a b" "real a / real b = real n / real d / 2 powi ulp_exp n d"
    by (rule round_sig_ratio [OF assms(1)])
  have p: "0 < (2 :: real) powi ulp_exp n d" by simp
  have "real a / real b \<le> real c" unfolding ab(3) using assms(2) by (simp only: pos_divide_le_eq [OF p])
  then have "real a \<le> real (c * b)" using ab(1) by (simp add: field_simps)
  then have "a \<le> c * b" by (simp only: of_nat_le_iff)
  with ab show ?thesis using half_even_le by simp
qed

lemma round_sig_ge:
  assumes "0 < d" "real c * 2 powi ulp_exp n d \<le> real n / real d"
  shows "c \<le> round_sig n d"
proof -
  obtain a b where ab: "0 < b" "round_sig n d = half_even a b" "real a / real b = real n / real d / 2 powi ulp_exp n d"
    by (rule round_sig_ratio [OF assms(1)])
  have p: "0 < (2 :: real) powi ulp_exp n d" by simp
  have "real c \<le> real a / real b" unfolding ab(3) using assms(2) by (simp only: pos_le_divide_eq [OF p])
  then have "real (c * b) \<le> real a" using ab(1) by (simp add: field_simps)
  then have "c * b \<le> a" by (simp only: of_nat_le_iff)
  with ab show ?thesis using half_even_ge by simp
qed

lemma round_sig_near:
  assumes "0 < d"
  shows "\<bar>real (round_sig n d) * 2 powi ulp_exp n d - real n / real d\<bar> \<le> 2 powi ulp_exp n d / 2"
proof -
  obtain a b where ab: "0 < b" "round_sig n d = half_even a b" "real a / real b = real n / real d / 2 powi ulp_exp n d"
    by (rule round_sig_ratio [OF assms(1)])
  let ?h = "half_even a b" and ?p = "2 powi ulp_exp n d :: real"
  have "real (2 * (?h * b)) \<le> real (2 * a + b)" "real (2 * a) \<le> real (2 * (?h * b) + b)"
    using half_even_near [OF ab(1), of a] by (simp_all only: of_nat_le_iff)
  then have "\<bar>real ?h - real a / real b\<bar> \<le> 1 / 2" using ab(1) by (intro abs_leI) (simp_all add: field_simps)
  then have le: "\<bar>real ?h - real n / real d / ?p\<bar> * ?p \<le> 1 / 2 * ?p"
    unfolding ab(3) by (rule mult_right_mono) simp
  have "\<bar>real ?h * ?p - real n / real d\<bar> = \<bar>(real ?h - real n / real d / ?p) * ?p\<bar>" by (simp add: field_simps)
  also have "\<dots> = \<bar>real ?h - real n / real d / ?p\<bar> * ?p" by (simp only: abs_mult) simp
  finally show ?thesis using le unfolding ab(2) by simp
qed

lemma round_sig_bounds:
  assumes "0 < n" "0 < d"
  shows "round_sig n d \<le> 2 ^ 53" "ulp_exp n d \<noteq> - 1074 \<Longrightarrow> 2 ^ 52 \<le> round_sig n d"
proof -
  note e = ratio_exp_bounds [OF assms]
  have q: "ratio_exp n d - 52 \<le> ulp_exp n d" by (simp add: ulp_exp_def)
  have "real n / real d \<le> 2 powi (ratio_exp n d + 1)" using e(2) assms(2) by (simp add: field_simps)
  also have "\<dots> \<le> 2 powi (53 + ulp_exp n d)" by (rule power_int_increasing) (use q in simp_all)
  also have "\<dots> = real (2 ^ 53) * 2 powi ulp_exp n d" by (simp add: power_int_add)
  finally show "round_sig n d \<le> 2 ^ 53" by (rule round_sig_le [OF assms(2)])
  assume "ulp_exp n d \<noteq> - 1074"
  then have u: "ulp_exp n d = ratio_exp n d - 52" by (auto simp: ulp_exp_def max_def split: if_splits)
  have "real (2 ^ 52) * 2 powi ulp_exp n d = 2 powi (52 + ulp_exp n d)" by (simp add: power_int_add)
  also have "\<dots> = 2 powi ratio_exp n d" by (simp add: u)
  also have "\<dots> \<le> real n / real d" using e(1) assms(2) by (simp add: field_simps)
  finally show "2 ^ 52 \<le> round_sig n d" by (rule round_sig_ge [OF assms(2)])
qed

section \<open>The value of the rounded pattern\<close>

definition f64_real :: "64 word \<Rightarrow> real" where
  "f64_real w = (if f64_sign w = 1 then - 1 else 1) * real (f64_units w) * 2 powi (- 1075)"

text \<open>The code that the pattern holds beside its sign.\<close>

definition round_code :: "nat \<Rightarrow> nat \<Rightarrow> nat" where
  "round_code n d =
     (let m = round_sig n d in if m < 2 ^ 52 then m else nat (ulp_exp n d + 1075) * 2 ^ 52 + (m - 2 ^ 52))"

lemma round_f64_code:
  "round_f64 neg n d =
     (if n = 0 then pack_f64 (if neg then 1 else 0) 0 0
      else if 2047 * 2 ^ 52 \<le> round_code n d then pack_f64 (if neg then 1 else 0) 2047 0
      else pack_f64 (if neg then 1 else 0) (round_code n d div 2 ^ 52) (round_code n d mod 2 ^ 52))"
  by (simp only: round_f64_def round_code_def Let_def)

lemma code_units:
  assumes "0 < n" "0 < d" "round_code n d < 2047 * 2 ^ 52"
  shows "f64_units (round_f64 neg n d) = round_sig n d * 2 ^ nat (ulp_exp n d + 1075)"
    "f64_finite (round_f64 neg n d)" "f64_sign (round_f64 neg n d) = (if neg then 1 else 0)"
proof -
  let ?m = "round_sig n d" and ?q = "ulp_exp n d" and ?k = "round_code n d" and ?s = "if neg then 1 else (0 :: nat)"
  have q: "- 1074 \<le> ?q" by (simp add: ulp_exp_def)
  have w: "round_f64 neg n d = pack_f64 ?s (?k div 2 ^ 52) (?k mod 2 ^ 52)"
    using assms by (simp only: round_f64_code) simp
  have e: "?k div 2 ^ 52 < 2047" by (rule less_mult_imp_div_less) (rule assms(3))
  have parts: "f64_sign (round_f64 neg n d) = ?s" "f64_exp (round_f64 neg n d) = ?k div 2 ^ 52"
    "f64_mant (round_f64 neg n d) = ?k mod 2 ^ 52"
    unfolding w by (rule pack_f64_parts; use e in simp)+
  show "f64_sign (round_f64 neg n d) = ?s" by (rule parts(1))
  show "f64_finite (round_f64 neg n d)" unfolding f64_finite_def parts(2) using e by simp
  show "f64_units (round_f64 neg n d) = ?m * 2 ^ nat (?q + 1075)"
  proof (cases "?m < 2 ^ 52")
    case True
    then have q': "?q = - 1074" using round_sig_bounds(2) [OF assms(1,2)] by fastforce
    have "?k = ?m" using True by (simp add: round_code_def Let_def)
    then have "?k div 2 ^ 52 = 0" "?k mod 2 ^ 52 = ?m" using True by simp_all
    then show ?thesis unfolding f64_units_def f64_sig_def parts(2,3) by (simp add: q')
  next
    case False
    then obtain x where x: "?m = 2 ^ 52 + x" by (metis le_iff_add not_less)
    have k: "?k = nat (?q + 1075) * 2 ^ 52 + x" using False x by (simp add: round_code_def Let_def)
    have pos: "0 < nat (?q + 1075)" using q by simp
    show ?thesis
    proof (cases "x < 2 ^ 52")
      case True
      then have "?k div 2 ^ 52 = nat (?q + 1075)" "?k mod 2 ^ 52 = x" unfolding k by simp_all
      then show ?thesis unfolding f64_units_def f64_sig_def parts(2,3) using pos by (simp add: x max_def)
    next
      case False
      with round_sig_bounds(1) [OF assms(1,2)] x have "x = 2 ^ 52" by simp
      then have "?k = Suc (nat (?q + 1075)) * 2 ^ 52" unfolding k by simp
      then have "?k div 2 ^ 52 = Suc (nat (?q + 1075))" "?k mod 2 ^ 52 = 0" by (simp_all only: nonzero_mult_div_cancel_right mod_mult_self2_is_0) simp_all
      then show ?thesis unfolding f64_units_def f64_sig_def parts(2,3) using \<open>x = 2 ^ 52\<close> x by (simp add: max_def)
    qed
  qed
qed

lemma round_real:
  assumes "0 < n" "0 < d" "round_code n d < 2047 * 2 ^ 52"
  shows "f64_real (round_f64 neg n d) = (if neg then - 1 else 1) * (real (round_sig n d) * 2 powi ulp_exp n d)"
proof -
  have q: "- 1074 \<le> ulp_exp n d" by (simp add: ulp_exp_def)
  have "(2 :: real) ^ nat (ulp_exp n d + 1075) * 2 powi (- 1075) = 2 powi (ulp_exp n d + 1075) * 2 powi (- 1075)"
    using q by (simp add: power_int_def)
  also have "\<dots> = 2 powi (ulp_exp n d + 1075 + - 1075)" by (rule power_int_add [symmetric]) simp
  also have "\<dots> = 2 powi ulp_exp n d" by (simp only: add.assoc) simp
  finally have p: "(2 :: real) ^ nat (ulp_exp n d + 1075) * 2 powi (- 1075) = 2 powi ulp_exp n d" .
  show ?thesis
    unfolding f64_real_def code_units [OF assms]
    by (simp only: of_nat_mult of_nat_power of_nat_numeral mult.assoc p) simp
qed

text \<open>Rounding is correct: unless the result is infinite, the pattern that rounding gives has the sign asked for
  and a value that differs from the exact fraction by at most half a unit in the last place, where the unit is
  the spacing of binary64 numbers at that magnitude.\<close>

theorem round_f64_nearest:
  assumes "0 < n" "0 < d" "f64_finite (round_f64 neg n d)"
  shows "f64_sign (round_f64 neg n d) = (if neg then 1 else 0) \<and>
    \<bar>\<bar>f64_real (round_f64 neg n d)\<bar> - real n / real d\<bar> \<le> 2 powi max (ratio_exp n d - 52) (- 1074) / 2 \<and>
    2 powi ratio_exp n d \<le> real n / real d \<and> real n / real d < 2 powi (ratio_exp n d + 1)"
proof -
  have fin: "round_code n d < 2047 * 2 ^ 52"
  proof (rule ccontr)
    assume "\<not> ?thesis"
    then have "round_f64 neg n d = pack_f64 (if neg then 1 else 0) 2047 0"
      using assms(1) by (simp only: round_f64_code) simp
    with assms(3) show False by (simp add: f64_finite_def pack_f64_parts)
  qed
  have v: "\<bar>f64_real (round_f64 neg n d)\<bar> = real (round_sig n d) * 2 powi ulp_exp n d"
    unfolding round_real [OF assms(1,2) fin] by (simp add: abs_mult)
  show ?thesis
    using code_units(3) [OF assms(1,2) fin] round_sig_near [OF assms(2)] ratio_exp_bounds [OF assms(1,2)] assms(2)
    unfolding v ulp_exp_def by (simp add: field_simps)
qed

lemma small_code:
  assumes "0 < n" "0 < d" "ulp_exp n d \<le> 12"
  shows "round_code n d < 2047 * 2 ^ 52"
proof -
  have "nat (ulp_exp n d + 1075) \<le> 1087" using assms(3) by simp
  then show ?thesis using round_sig_bounds(1) [OF assms(1,2)] by (auto simp: round_code_def Let_def)
qed

text \<open>Rounding never passes an integer below \<open>2 ^ 53\<close>.\<close>

lemma round_le_nat:
  assumes "0 < n" "0 < d" "n \<le> c * d" "c < 2 ^ 53"
  shows "f64_units (round_f64 False n d) \<le> c * 2 ^ 1075" "f64_finite (round_f64 False n d)" "f64_sign (round_f64 False n d) = 0"
proof -
  let ?q = "ulp_exp n d"
  have r: "real n / real d \<le> real c"
  proof -
    have "real n \<le> real (c * d)" using assms(3) by (simp only: of_nat_le_iff)
    then show ?thesis using assms(2) by (simp add: field_simps)
  qed
  have "real c < real (2 ^ 53)" using assms(4) by (simp only: of_nat_less_iff)
  then have c: "real c < 2 powi 53" by (simp add: power_int_def)
  have "2 powi ratio_exp n d \<le> real n / real d" using ratio_exp_bounds(1) [OF assms(1,2)] assms(2) by (simp add: field_simps)
  with r c have "(2 :: real) powi ratio_exp n d < 2 powi 53" by linarith
  then have "ratio_exp n d < 53" using power_int_increasing [of 53 "ratio_exp n d" "2 :: real"] by (cases "53 \<le> ratio_exp n d") auto
  then have q: "?q \<le> 0" by (simp add: ulp_exp_def)
  define z where "z = nat (- ?q)"
  have z: "?q = - int z" "z \<le> 1074" using q by (simp_all add: z_def ulp_exp_def)
  have m: "round_sig n d \<le> c * 2 ^ z"
  proof (rule round_sig_le [OF assms(2)])
    have eq: "real (c * 2 ^ z) * 2 powi ?q = real c" unfolding z(1) by (simp add: power_int_minus)
    show "real n / real d \<le> real (c * 2 ^ z) * 2 powi ?q" unfolding eq by (rule r)
  qed
  have fin: "round_code n d < 2047 * 2 ^ 52" by (rule small_code [OF assms(1,2)]) (use q in simp)
  have "nat (?q + 1075) = 1075 - z" using z by simp
  then have u: "f64_units (round_f64 False n d) = round_sig n d * 2 ^ (1075 - z)"
    using code_units(1) [OF assms(1,2) fin] by simp
  have "round_sig n d * 2 ^ (1075 - z) \<le> c * 2 ^ z * 2 ^ (1075 - z)" by (rule mult_right_mono [OF m]) simp
  also have "\<dots> = c * 2 ^ 1075" using z(2) by (simp only: mult.assoc flip: power_add) simp
  finally show "f64_units (round_f64 False n d) \<le> c * 2 ^ 1075" unfolding u .
  show "f64_finite (round_f64 False n d)" "f64_sign (round_f64 False n d) = 0" using code_units(2,3) [OF assms(1,2) fin] by simp_all
qed

section \<open>Operations\<close>

text \<open>The value of a float that is not a NaN, in units of \<open>2 ^ -1075\<close>; infinities compare beyond all others.\<close>

definition f64_int :: "64 word \<Rightarrow> int" where
  "f64_int w = (if f64_sign w = 1 then - int (f64_units w) else int (f64_units w))"

definition f64_is_nan :: "64 word \<Rightarrow> bool" where
  "f64_is_nan w = (f64_exp w = 2047 \<and> f64_mant w \<noteq> 0)"

abbreviation "nan_f64 \<equiv> 0x7FF8000000000000 :: 64 word"

definition f64_neg :: "64 word \<Rightarrow> 64 word" where
  "f64_neg w = pack_f64 (1 - f64_sign w) (f64_exp w) (f64_mant w)"

definition round_int :: "bool \<Rightarrow> int \<Rightarrow> nat \<Rightarrow> 64 word" where
  "round_int zero_neg i d = (if i = 0 then round_f64 zero_neg 0 1 else round_f64 (i < 0) (nat \<bar>i\<bar>) d)"

definition f64_add :: "64 word \<Rightarrow> 64 word \<Rightarrow> 64 word" where
  "f64_add x y =
     (if f64_is_nan x \<or> f64_is_nan y then nan_f64
      else if \<not> f64_finite x then (if \<not> f64_finite y \<and> f64_sign x \<noteq> f64_sign y then nan_f64 else x)
      else if \<not> f64_finite y then y
      else round_int (f64_sign x = 1 \<and> f64_sign y = 1) (f64_int x + f64_int y) (2 ^ 1075))"

definition f64_sub :: "64 word \<Rightarrow> 64 word \<Rightarrow> 64 word" where
  "f64_sub x y = f64_add x (f64_neg y)"

definition f64_mul :: "64 word \<Rightarrow> 64 word \<Rightarrow> 64 word" where
  "f64_mul x y =
     (let neg = (f64_sign x \<noteq> f64_sign y) in
      if f64_is_nan x \<or> f64_is_nan y \<or> \<not> f64_finite x \<and> f64_units y = 0 \<or> \<not> f64_finite y \<and> f64_units x = 0 then nan_f64
      else if \<not> f64_finite x \<or> \<not> f64_finite y then pack_f64 (if neg then 1 else 0) 2047 0
      else round_f64 neg (f64_units x * f64_units y) (2 ^ 2150))"

text \<open>\<open>x / y\<close> for a finite \<open>y\<close> that is not zero.\<close>

definition f64_div :: "64 word \<Rightarrow> 64 word \<Rightarrow> 64 word" where
  "f64_div x y =
     (let neg = (f64_sign x \<noteq> f64_sign y) in
      if f64_is_nan x then nan_f64 else if \<not> f64_finite x then pack_f64 (if neg then 1 else 0) 2047 0
      else round_f64 neg (f64_units x) (f64_units y))"

text \<open>\<open>float(i)\<close>; and \<open>a / b\<close> on integers that are not negative, which rounds the exact quotient.\<close>

definition f64_of_int :: "int \<Rightarrow> py_exn + 64 word" where
  "f64_of_int i = (let w = round_int False i 1 in if f64_finite w then Inr w else Inl OverflowError)"

definition f64_of_nat :: "nat \<Rightarrow> 64 word" where
  "f64_of_nat n = round_f64 False n 1"

definition f64_floor :: "64 word \<Rightarrow> int" where
  "f64_floor w = f64_int w div 2 ^ 1075"

definition f64_ceil :: "64 word \<Rightarrow> int" where
  "f64_ceil w = - (- f64_int w div 2 ^ 1075)"

definition f64_less :: "64 word \<Rightarrow> 64 word \<Rightarrow> bool" where
  "f64_less x y = (\<not> f64_is_nan x \<and> \<not> f64_is_nan y \<and> f64_int x < f64_int y)"

definition f64_le :: "64 word \<Rightarrow> 64 word \<Rightarrow> bool" where
  "f64_le x y = (\<not> f64_is_nan x \<and> \<not> f64_is_nan y \<and> f64_int x \<le> f64_int y)"

text \<open>\<open>f"{w:.kf}"\<close>: the exact decimal expansion, rounded to \<open>k\<close> places.\<close>

definition f64_fixed :: "nat \<Rightarrow> 64 word \<Rightarrow> pystr" where
  "f64_fixed k w =
     (let sign = (if f64_sign w = 1 then u ''-'' else []) in
      if f64_is_nan w then u ''nan'' else if \<not> f64_finite w then sign @ u ''inf''
      else let digits = str_nat (half_even (f64_units w * 10 ^ k) (2 ^ 1075));
               digits = replicate (Suc k - length digits) 48 @ digits;
               cut = length digits - k
           in sign @ take cut digits @ (if k = 0 then [] else u ''.'' @ drop cut digits))"

lemma f64_floor_le:
  assumes "f64_units w \<le> c * 2 ^ 1075" "f64_sign w = 0"
  shows "0 \<le> f64_floor w" "f64_floor w \<le> f64_ceil w" "f64_ceil w \<le> int c"
proof -
  have i: "f64_int w = int (f64_units w)" using assms(2) by (simp add: f64_int_def)
  show "0 \<le> f64_floor w" unfolding f64_floor_def i by (simp add: pos_imp_zdiv_nonneg_iff)
  have "int (f64_units w) \<le> int (c * 2 ^ 1075)" using assms(1) by (simp only: of_nat_le_iff)
  then have "int (f64_units w) \<le> int c * 2 ^ 1075" by (simp only: of_nat_mult of_nat_power of_nat_numeral)
  then have "- int c * 2 ^ 1075 \<le> - int (f64_units w)" by simp
  then have "(- int c * 2 ^ 1075) div 2 ^ 1075 \<le> - int (f64_units w) div 2 ^ 1075" by (rule zdiv_mono1) simp
  then show "f64_ceil w \<le> int c" unfolding f64_ceil_def i by simp
  have up: "x div d \<le> - (- x div d)" if "0 < d" for x d :: int
  proof -
    have "x div d * d \<le> x" "- x div d * d \<le> - x" using that by (simp_all flip: minus_mod_eq_div_mult)
    then have "(x div d + - x div d) * d \<le> 0" by (simp add: distrib_right)
    with that show ?thesis by (simp add: mult_le_0_iff)
  qed
  show "f64_floor w \<le> f64_ceil w" unfolding f64_floor_def f64_ceil_def by (rule up) simp
qed

section \<open>Exact results\<close>

text \<open>A fraction \<open>m / 2 ^ z\<close> with a significand of 53 bits is not changed by rounding.\<close>

lemma round_exact:
  assumes "0 < m" "0 < d" "n * 2 ^ z = m * d" "m < 2 ^ 53" "z \<le> 1074"
  shows "f64_units (round_f64 neg n d) = m * 2 ^ (1075 - z)" "f64_finite (round_f64 neg n d)"
    "f64_sign (round_f64 neg n d) = (if neg then 1 else 0)"
proof -
  let ?q = "ulp_exp n d"
  have n: "0 < n" using assms(1-3) by (cases n) auto
  have "real (n * 2 ^ z) = real (m * d)" unfolding assms(3) ..
  then have r: "real n / real d = real m * 2 powi (- int z)"
    using assms(2) by (simp add: power_int_minus field_simps)
  have "real m < real (2 ^ 53)" using assms(4) by (simp only: of_nat_less_iff)
  then have "real m * 2 powi (- int z) < 2 powi (53 - int z)" by (simp add: power_int_diff power_int_minus field_simps)
  moreover have "2 powi ratio_exp n d \<le> real n / real d" using ratio_exp_bounds(1) [OF n assms(2)] assms(2) by (simp add: field_simps)
  ultimately have "(2 :: real) powi ratio_exp n d < 2 powi (53 - int z)" unfolding r by (rule le_less_trans [rotated])
  then have "ratio_exp n d < 53 - int z"
    using power_int_increasing [of "53 - int z" "ratio_exp n d" "2 :: real"] by (cases "53 - int z \<le> ratio_exp n d") auto
  then have q: "?q \<le> - int z" using assms(5) by (simp add: ulp_exp_def)
  define y where "y = nat (- ?q)"
  have y: "?q = - int y" "y \<le> 1074" using q by (simp_all add: y_def ulp_exp_def)
  have zy: "z \<le> y" using q unfolding y(1) by simp
  have "real (m * 2 ^ (y - z)) * 2 powi ?q = real m * ((2 ^ (y - z)) * 2 powi (- int y))" by (simp add: y(1))
  also have "(2 :: real) ^ (y - z) * 2 powi (- int y) = 2 powi (- int z)"
    using zy by (simp add: power_int_minus power_diff field_simps)
  finally have e: "real (m * 2 ^ (y - z)) * 2 powi ?q = real n / real d" unfolding r .
  have s: "round_sig n d = m * 2 ^ (y - z)"
    by (rule antisym) (rule round_sig_le [OF assms(2)], simp only: e order.refl, rule round_sig_ge [OF assms(2)], simp only: e order.refl)
  have c: "round_code n d < 2047 * 2 ^ 52" by (rule small_code [OF n assms(2)]) (use q in simp)
  have "nat (?q + 1075) = 1075 - y" using y by linarith
  then have "f64_units (round_f64 neg n d) = m * (2 ^ (y - z) * 2 ^ (1075 - y))"
    unfolding code_units(1) [OF n assms(2) c] s by simp
  also have "(2 :: nat) ^ (y - z) * 2 ^ (1075 - y) = 2 ^ (1075 - z)" using y(2) zy by (simp only: flip: power_add) simp
  finally show "f64_units (round_f64 neg n d) = m * 2 ^ (1075 - z)" .
  show "f64_finite (round_f64 neg n d)" "f64_sign (round_f64 neg n d) = (if neg then 1 else 0)"
    using code_units(2,3) [OF n assms(2) c] by simp_all
qed

lemma pack_zero: "f64_units (pack_f64 s 0 0) = 0" if "s \<le> 1"
  using that by (simp add: f64_units_def f64_sig_def pack_f64_parts)

lemma f64_of_nat_exact:
  assumes "m < 2 ^ 53"
  shows "f64_units (f64_of_nat m) = m * 2 ^ 1075" "f64_finite (f64_of_nat m)" "f64_sign (f64_of_nat m) = 0"
proof -
  have "f64_units (f64_of_nat m) = m * 2 ^ 1075 \<and> f64_finite (f64_of_nat m) \<and> f64_sign (f64_of_nat m) = 0"
  proof (cases "m = 0")
    case True
    then show ?thesis unfolding f64_of_nat_def by (simp add: round_f64_def pack_zero pack_f64_parts f64_finite_def)
  next
    case False
    then show ?thesis
      unfolding f64_of_nat_def using round_exact [of m 1 m 0 False] assms by simp
  qed
  then show "f64_units (f64_of_nat m) = m * 2 ^ 1075" "f64_finite (f64_of_nat m)" "f64_sign (f64_of_nat m) = 0" by blast+
qed

lemma f64_int_unsigned: "f64_sign w = 0 \<Longrightarrow> f64_int w = int (f64_units w)"
  by (simp add: f64_int_def)

lemma finite_not_nan: "f64_finite w \<Longrightarrow> \<not> f64_is_nan w"
  by (simp add: f64_finite_def f64_is_nan_def)

lemma f64_of_int_exact: "0 \<le> i \<Longrightarrow> i < 2 ^ 53 \<Longrightarrow> f64_of_int i = Inr (f64_of_nat (nat i))"
proof -
  assume i: "0 \<le> i" "i < 2 ^ 53"
  then have "round_int False i 1 = f64_of_nat (nat i)"
    by (cases "i = 0") (simp_all add: round_int_def f64_of_nat_def)
  moreover have "f64_finite (f64_of_nat (nat i))" using i by (intro f64_of_nat_exact(2)) (simp add: nat_less_iff)
  ultimately show ?thesis by (simp add: f64_of_int_def)
qed

text \<open>\<open>float(i)\<close> does not overflow for 64-bit integers.\<close>

lemma f64_of_int_64:
  assumes "\<bar>i\<bar> < 2 ^ 64"
  obtains w where "f64_of_int i = Inr w" "f64_finite w"
proof -
  have "f64_finite (round_int False i 1)"
  proof (cases "i = 0")
    case True
    then show ?thesis by (simp add: round_int_def round_f64_def f64_finite_def pack_f64_parts)
  next
    case False
    let ?n = "nat \<bar>i\<bar>"
    have n: "0 < ?n" using False by simp
    have "real ?n < 2 powi 64" using assms by (simp add: power_int_def)
    moreover have "2 powi ratio_exp ?n 1 \<le> real ?n" using ratio_exp_bounds(1) [OF n, of 1] by simp
    ultimately have "(2 :: real) powi ratio_exp ?n 1 < 2 powi 64" by linarith
    then have "ratio_exp ?n 1 < 64"
      using power_int_increasing [of 64 "ratio_exp ?n 1" "2 :: real"] by (cases "64 \<le> ratio_exp ?n 1") auto
    then have "round_code ?n 1 < 2047 * 2 ^ 52" by (intro small_code [OF n]) (simp_all add: ulp_exp_def)
    from code_units(2) [OF n _ this] show ?thesis using False by (simp add: round_int_def)
  qed
  then show thesis using that by (simp add: f64_of_int_def Let_def)
qed

end
