(* ===== verification/Jsonl_Store.thy ===== *)
theory Jsonl_Store imports Dtj_Store Trace_Config Json_Text Py_Float "HOL-Library.Product_Lexorder" begin

text \<open>
  The JSONL session store (\<open>store.py\<close>), importing a session into it (\<open>ingest.py\<close>) and searching it
  (\<open>search.py\<close>), over an explicit file system. What is written is the text of \<open>Json_Text\<close>; \<open>json.loads\<close> is a
  parameter. Only the failures the code itself can cause are modelled: a directory in the place of a file, text
  that cannot be encoded or decoded, documents of another shape; not a full or failing disk.
\<close>

section \<open>Text files\<close>

type_synonym json_reader = "pystr \<Rightarrow> loaded"

text \<open>\<open>json.load(fh)\<close> where nothing is caught; a \<open>JSONDecodeError\<close> is a \<open>ValueError\<close>.\<close>

definition load_all :: "json_reader \<Rightarrow> pystr \<Rightarrow> py_exn + json" where
  "load_all loads text =
     (case loads text of Parsed j \<Rightarrow> Inr j | DecodeError m \<Rightarrow> Inl (ValueError m) | Raises e \<Rightarrow> Inl e)"

text \<open>The lines of a file opened for text: \<open>\<rbackslash>n\<close>, \<open>\<rbackslash>r\<close> and \<open>\<rbackslash>r\<rbackslash>n\<close> end a line.\<close>

fun lines_from :: "pystr \<Rightarrow> pystr \<Rightarrow> pystr list" where
  "lines_from cur [] = (if cur = [] then [] else [cur])"
| "lines_from cur (c # cs) =
     (if c = 10 then cur # lines_from [] cs
      else if c = 13 then cur # lines_from [] (if cs \<noteq> [] \<and> hd cs = 10 then tl cs else cs)
      else lines_from (cur @ [c]) cs)"

definition read_text :: "files \<Rightarrow> pystr \<Rightarrow> py_exn + pystr" where
  "read_text f p =
     (case f p of
        File b m \<Rightarrow> (case utf8_decode b of Some t \<Rightarrow> Inr t | None \<Rightarrow> Inl (ValueError (u ''invalid utf-8'')))
      | Missing \<Rightarrow> Inl (FileNotFoundError p) | _ \<Rightarrow> Inl OsError)"

text \<open>\<open>open(p, "w", encoding="utf-8")\<close> and the writes: each is encoded when it is made, and what was written
  before one that fails stays in the file.\<close>

fun encode_all :: "pystr list \<Rightarrow> bytes \<times> bool" where
  "encode_all [] = ([], True)"
| "encode_all (t # ts) =
     (case utf8_encode t of None \<Rightarrow> ([], False)
      | Some b \<Rightarrow> (case encode_all ts of (bs, done) \<Rightarrow> (b @ bs, done)))"

definition write_text :: "io_env \<Rightarrow> pystr \<Rightarrow> pystr list \<Rightarrow> files \<Rightarrow> (py_exn + unit) \<times> files" where
  "write_text env p chunks f =
     (case f p of
        Directory n m \<Rightarrow> (Inl OsError, f)
      | Unreadable e n m \<Rightarrow> (Inl OsError, f)
      | _ \<Rightarrow> (case encode_all chunks of (bs, done) \<Rightarrow>
          ((if done then Inr () else Inl (ValueError (u ''surrogates not allowed''))), f(p := File bs (now_ns env)))))"

text \<open>Sequencing of steps on the file system.\<close>

type_synonym 'a io = "files \<Rightarrow> (py_exn + 'a) \<times> files"

definition bindIO :: "'a io \<Rightarrow> ('a \<Rightarrow> 'b io) \<Rightarrow> 'b io" where
  "bindIO m k f = (case m f of (Inl e, f1) \<Rightarrow> (Inl e, f1) | (Inr x, f1) \<Rightarrow> k x f1)"

definition liftIO :: "(files \<Rightarrow> py_exn + 'a) \<Rightarrow> 'a io" where
  "liftIO g f = (g f, f)"

section \<open>Session metadata\<close>

record jsonl_meta =
  m_session_id :: pystr
  m_source_path :: pystr
  m_event_count :: int
  m_skipped_lines :: int
  m_domains :: "json list"
  m_categories :: "json list"
  m_first_ts :: json
  m_last_ts :: json
  m_imported_at :: json

definition meta_to_dict :: "jsonl_meta \<Rightarrow> jdict" where
  "meta_to_dict m =
     [(u ''session_id'', JStr (m_session_id m)), (u ''source_path'', JStr (m_source_path m)),
      (u ''event_count'', JInt (m_event_count m)), (u ''skipped_lines'', JInt (m_skipped_lines m)),
      (u ''domains'', JList (m_domains m)), (u ''categories'', JList (m_categories m)),
      (u ''first_timestamp_utc'', m_first_ts m), (u ''last_timestamp_utc'', m_last_ts m),
      (u ''imported_at_utc'', m_imported_at m)]"

text \<open>\<open>list(v)\<close>\<close>

definition py_list :: "json \<Rightarrow> py_exn + json list" where
  "py_list v =
     (case v of JList xs \<Rightarrow> Inr xs | JStr s \<Rightarrow> Inr (map (\<lambda>c. JStr [c]) s) | JObj d \<Rightarrow> Inr (map (\<lambda>(k, x). JStr k) d)
      | _ \<Rightarrow> Inl (TypeError (u ''object is not iterable'')))"

definition meta_from_dict :: "runtime \<Rightarrow> json \<Rightarrow> py_exn + jsonl_meta" where
  "meta_from_dict r v =
     (if \<not> is_dict v then Inl (TypeError (u ''indices must be integers or slices''))
      else let d = dict_val v in
      case map_of d (u ''session_id'') of None \<Rightarrow> Inl (KeyError (u ''session_id''))
      | Some sid \<Rightarrow>
          bindE (py_int r (getd d (u ''event_count'') (JInt 0))) (\<lambda>n.
          bindE (py_int r (getd d (u ''skipped_lines'') (JInt 0))) (\<lambda>k.
          bindE (py_list (or_else (getj d (u ''domains'')) (JList []))) (\<lambda>ds.
          bindE (py_list (or_else (getj d (u ''categories'')) (JList []))) (\<lambda>cs.
          Inr \<lparr>m_session_id = py_str r sid, m_source_path = py_str r (getd d (u ''source_path'') (JStr [])),
            m_event_count = n, m_skipped_lines = k, m_domains = ds, m_categories = cs,
            m_first_ts = getj d (u ''first_timestamp_utc''), m_last_ts = getj d (u ''last_timestamp_utc''),
            m_imported_at = getj d (u ''imported_at_utc'')\<rparr>)))))"

section \<open>The store\<close>

record session_store =
  store_root :: pystr
  index_path :: pystr
  sessions_dir :: pystr

definition open_session_store :: "pystr \<Rightarrow> session_store" where
  "open_session_store store_dir =
     (let r = path_str store_dir in
      \<lparr>store_root = r, index_path = path_join (path_join r (u ''index'')) (u ''sessions.json''),
       sessions_dir = path_join r (u ''sessions'')\<rparr>)"

definition session_dir :: "session_store \<Rightarrow> pystr \<Rightarrow> pystr" where
  "session_dir st sid = path_join (sessions_dir st) sid"

definition events_path :: "session_store \<Rightarrow> pystr \<Rightarrow> pystr" where
  "events_path st sid = path_join (session_dir st sid) (u ''events.jsonl'')"

definition meta_path :: "session_store \<Rightarrow> pystr \<Rightarrow> pystr" where
  "meta_path st sid = path_join (session_dir st sid) (u ''meta.json'')"

definition file_at :: "files \<Rightarrow> pystr \<Rightarrow> bool" where
  "file_at f p = (case f p of File b m \<Rightarrow> True | Unreadable e n m \<Rightarrow> True | _ \<Rightarrow> False)"

definition read_index :: "json_reader \<Rightarrow> session_store \<Rightarrow> files \<Rightarrow> py_exn + json list" where
  "read_index loads st f =
     (if \<not> file_at f (index_path st) then Inr []
      else bindE (read_text f (index_path st)) (\<lambda>text.
      bindE (load_all loads text) (\<lambda>data.
        if is_list data then Inr (list_val data)
        else if \<not> is_dict data then Inl AttributeError
        else py_list (or_else (getj (dict_val data) (u ''sessions'')) (JList [])))))"

definition write_index :: "io_env \<Rightarrow> host \<Rightarrow> session_store \<Rightarrow> json list \<Rightarrow> unit io" where
  "write_index env h st rows =
     bindIO (make_dirs env (ancestors h (index_path st))) (\<lambda>_.
       write_text env (index_path st) (json_chunks (rt h) 0 (JObj [(u ''sessions'', JList rows)]) @ [[10]]))"

definition ensure_session_store :: "io_env \<Rightarrow> host \<Rightarrow> session_store \<Rightarrow> unit io" where
  "ensure_session_store env h st =
     bindIO (make_dirs env (ancestors h (sessions_dir st) @ [sessions_dir st])) (\<lambda>_.
     bindIO (make_dirs env (ancestors h (index_path st))) (\<lambda>_ f.
       if file_at f (index_path st) then (Inr (), f) else write_index env h st [] f))"

text \<open>\<open>out.sort(key=..., reverse=True)\<close>: equal keys keep their order. Strings compare with strings and numbers with
  numbers, by their exact values; other kinds do not compare. Where the sort leaves NaNs, and keys that are lists, is
  up to the library.\<close>

definition sort_desc :: "('a \<Rightarrow> 'k::linorder) \<Rightarrow> 'a list \<Rightarrow> 'a list" where
  "sort_desc key xs = rev (sort_key key (rev xs))"

definition number_rank :: "json \<Rightarrow> int \<times> int" where
  "number_rank v =
     (case v of
        JFloat w \<Rightarrow> (if f64_finite w then (0, f64_int w) else if f64_sign w = 0 then (1, 0) else (- 1, 0))
      | _ \<Rightarrow> (0, int_val v * 2 ^ 1075))"

definition is_nan_json :: "json \<Rightarrow> bool" where
  "is_nan_json v = (case v of JFloat w \<Rightarrow> f64_is_nan w | _ \<Rightarrow> False)"

definition sort_rows :: "runtime \<Rightarrow> jdict list \<Rightarrow> py_exn + jdict list" where
  "sort_rows r rows =
     (let key = (\<lambda>d. or_else (getj d (u ''imported_at_utc'')) (JStr [])); keys = map key rows in
      if length rows \<le> 1 then Inr rows
      else if list_all is_str keys then Inr (sort_desc (\<lambda>d. str_val (key d)) rows)
      else if list_all (\<lambda>k. is_int k \<or> is_float k) keys \<and> \<not> list_ex is_nan_json keys
      then Inr (sort_desc (\<lambda>d. number_rank (key d)) rows)
      else if list_all (\<lambda>k. is_int k \<or> is_float k) keys \<or> list_all is_list keys
      then bindE (odd_order r keys) (\<lambda>rank. Inr (map snd (sort_key (\<lambda>p. rank (fst p)) (zip [0..<length rows] rows))))
      else Inl (TypeError (u ''not supported between instances'')))"

definition upsert_rows :: "runtime \<Rightarrow> jsonl_meta \<Rightarrow> json list \<Rightarrow> py_exn + jdict list" where
  "upsert_rows r m rows =
     (if list_all is_dict rows
      then sort_rows r (filter (\<lambda>d. getj d (u ''session_id'') \<noteq> JStr (m_session_id m)) (map dict_val rows) @ [meta_to_dict m])
      else Inl AttributeError)"

definition upsert_index :: "json_reader \<Rightarrow> io_env \<Rightarrow> host \<Rightarrow> session_store \<Rightarrow> jsonl_meta \<Rightarrow> unit io" where
  "upsert_index loads env h st m =
     bindIO (liftIO (\<lambda>f. bindE (read_index loads st f) (upsert_rows (rt h) m))) (\<lambda>rows. write_index env h st (map JObj rows))"

definition save_session ::
  "json_reader \<Rightarrow> io_env \<Rightarrow> host \<Rightarrow> session_store \<Rightarrow> jsonl_meta \<Rightarrow> jdict list \<Rightarrow> unit io" where
  "save_session loads env h st m events =
     (let sid = m_session_id m; sdir = session_dir st sid in
      bindIO (ensure_session_store env h st) (\<lambda>_.
      bindIO (make_dirs env (ancestors h sdir @ [sdir])) (\<lambda>_.
      bindIO (write_text env (events_path st sid) (map (\<lambda>e. json_line (rt h) (JObj e) @ [10]) events)) (\<lambda>_.
      bindIO (write_text env (meta_path st sid) (json_chunks (rt h) 0 (JObj (meta_to_dict m)) @ [[10]])) (\<lambda>_.
      upsert_index loads env h st m)))))"

section \<open>Reading events\<close>

text \<open>What a generator yields before it ends or raises.\<close>

type_synonym stream = "jdict list \<times> py_exn option"

fun parse_lines :: "json_reader \<Rightarrow> pystr list \<Rightarrow> stream" where
  "parse_lines loads [] = ([], None)"
| "parse_lines loads (l # ls) =
     (if strip l = [] then parse_lines loads ls
      else case loads (strip l) of
        Raises e \<Rightarrow> ([], Some e)
      | DecodeError m \<Rightarrow> parse_lines loads ls
      | Parsed j \<Rightarrow>
          (case parse_lines loads ls of (es, x) \<Rightarrow> (if is_dict j then dict_val j # es else es, x)))"

text \<open>A file that is not UTF-8 is read up to the block in which that shows.\<close>

definition iter_jsonl :: "json_reader \<Rightarrow> runtime \<Rightarrow> files \<Rightarrow> pystr \<Rightarrow> stream" where
  "iter_jsonl loads r f p =
     (if \<not> file_at f p then ([], None)
      else case f p of
        File b m \<Rightarrow>
          (case utf8_decode b of
             Some t \<Rightarrow> parse_lines loads (lines_from [] t)
           | None \<Rightarrow>
               (case parse_lines loads (lines_before r b) of
                  (es, Some e) \<Rightarrow> (es, Some e)
                | (es, None) \<Rightarrow> (es, Some (ValueError (u ''invalid utf-8'')))))
      | _ \<Rightarrow> ([], Some OsError))"

fun chain_streams :: "stream list \<Rightarrow> stream" where
  "chain_streams [] = ([], None)"
| "chain_streams ((es, Some e) # ss) = (es, Some e)"
| "chain_streams ((es, None) # ss) = (case chain_streams ss of (rest, x) \<Rightarrow> (es @ rest, x))"

definition list_metas :: "json_reader \<Rightarrow> runtime \<Rightarrow> session_store \<Rightarrow> files \<Rightarrow> py_exn + jsonl_meta list" where
  "list_metas loads r st f = bindE (read_index loads st f) (mapE (meta_from_dict r))"

definition list_jsonl_sessions :: "json_reader \<Rightarrow> io_env \<Rightarrow> host \<Rightarrow> session_store \<Rightarrow> jsonl_meta list io" where
  "list_jsonl_sessions loads env h st =
     bindIO (ensure_session_store env h st) (\<lambda>_. liftIO (list_metas loads (rt h) st))"

definition get_meta :: "json_reader \<Rightarrow> runtime \<Rightarrow> session_store \<Rightarrow> pystr \<Rightarrow> files \<Rightarrow> py_exn + jsonl_meta option" where
  "get_meta loads r st sid f =
     (if \<not> file_at f (meta_path st sid) then Inr None
      else bindE (read_text f (meta_path st sid)) (\<lambda>t.
      bindE (load_all loads t) (\<lambda>j. bindE (meta_from_dict r j) (\<lambda>m. Inr (Some m)))))"

text \<open>\<open>iter_events\<close> behind its leading \<open>ensure\<close>, which its two callers have just run themselves: one session, or all
  sessions of the index in its order.\<close>

definition iter_events_of :: "json_reader \<Rightarrow> runtime \<Rightarrow> session_store \<Rightarrow> pystr option \<Rightarrow> files \<Rightarrow> stream" where
  "iter_events_of loads r st sid f =
     (case sid of
        Some (c # cs) \<Rightarrow> iter_jsonl loads r f (events_path st (c # cs))
      | _ \<Rightarrow> (case list_metas loads r st f of
            Inl e \<Rightarrow> ([], Some e)
          | Inr ms \<Rightarrow> chain_streams (map (\<lambda>m. iter_jsonl loads r f (events_path st (m_session_id m))) ms)))"

end
