(* ===== verification/Jsonl_Ingest.thy ===== *)
theory Jsonl_Ingest imports Jsonl_Store begin

text \<open>
  Importing a JSONL session (\<open>ingest.py\<close>) and searching the store (\<open>search.py\<close>).
\<close>

section \<open>Import\<close>

record import_state =
  i_events :: "jdict list"
  i_skipped :: "jdict list"
  i_domains :: "pystr list"
  i_categories :: "pystr list"
  i_first :: "pystr option"
  i_last :: "pystr option"
  i_session :: "pystr option"

definition skip_row :: "nat \<Rightarrow> pystr \<Rightarrow> pystr \<Rightarrow> jdict" where
  "skip_row lineno reason snippet =
     [(u ''line'', jnat lineno), (u ''reason'', JStr reason), (u ''snippet'', JStr snippet)]"

definition add_skip :: "nat \<Rightarrow> pystr \<Rightarrow> pystr \<Rightarrow> import_state \<Rightarrow> import_state" where
  "add_skip lineno reason snippet s = s\<lparr>i_skipped := i_skipped s @ [skip_row lineno reason snippet]\<rparr>"

text \<open>The end of the loop's body: the event joins the session, or is of another one.\<close>

definition accept_event :: "runtime \<Rightarrow> nat \<Rightarrow> pystr \<Rightarrow> jdict \<Rightarrow> import_state \<Rightarrow> import_state" where
  "accept_event r lineno line obj s =
     (let sid = py_str r (getj obj (u ''sessionId'')) in
      if i_session s \<noteq> None \<and> i_session s \<noteq> Some sid
      then add_skip lineno (u ''sessionId mismatch: expected '' @ the (i_session s) @ u '', got '' @ sid) (take 120 line) s
      else
        let ts = getj obj (u ''timestampUtc'');
            timed = is_str ts \<and> str_val ts \<noteq> [] in
        s\<lparr>i_events := i_events s @ [obj],
          i_domains := i_domains s @ [py_str r (getj obj (u ''domain''))],
          i_categories := i_categories s @ [py_str r (getj obj (u ''category''))],
          i_first := (if timed \<and> i_first s = None then Some (str_val ts) else i_first s),
          i_last := (if timed then Some (str_val ts) else i_last s),
          i_session := Some sid\<rparr>)"

definition import_line ::
  "json_reader \<Rightarrow> runtime \<Rightarrow> jdict option \<Rightarrow> nat \<Rightarrow> pystr \<Rightarrow> import_state \<Rightarrow> py_exn + import_state" where
  "import_line loads r gate lineno raw s =
     (let line = strip raw in
      if line = [] then Inr s
      else case loads line of
        Raises e \<Rightarrow> Inl e
      | DecodeError msg \<Rightarrow> Inr (add_skip lineno (u ''json: '' @ msg) (take 120 line) s)
      | Parsed v \<Rightarrow>
          (let errors = validate_event r v; obj = dict_val v in
           if errors \<noteq> [] then Inr (add_skip lineno (join (u ''; '') errors) (take 120 line) s)
           else case gate of
             None \<Rightarrow> Inr (accept_event r lineno line obj s)
           | Some config \<Rightarrow>
               bindE (event_matches_config r obj config) (\<lambda>pass.
                 if pass then Inr (accept_event r lineno line obj s)
                 else Inr (add_skip lineno (u ''filtered_by_config'')
                   (py_str r (getj obj (u ''domain'')) @ u ''/'' @ py_str r (getj obj (u ''category''))) s))))"

fun import_lines ::
  "json_reader \<Rightarrow> runtime \<Rightarrow> jdict option \<Rightarrow> nat \<Rightarrow> pystr list \<Rightarrow> import_state \<Rightarrow> py_exn + import_state" where
  "import_lines loads r gate lineno [] s = Inr s"
| "import_lines loads r gate lineno (l # ls) s =
     bindE (import_line loads r gate lineno l s) (import_lines loads r gate (lineno + 1) ls)"

definition import_start :: "pystr option \<Rightarrow> import_state" where
  "import_start sid = \<lparr>i_events = [], i_skipped = [], i_domains = [], i_categories = [], i_first = None, i_last = None, i_session = sid\<rparr>"

definition opt_json :: "pystr option \<Rightarrow> json" where
  "opt_json t = (case t of None \<Rightarrow> JNull | Some s \<Rightarrow> JStr s)"

definition import_meta :: "host \<Rightarrow> pystr \<Rightarrow> pystr \<Rightarrow> import_state \<Rightarrow> jsonl_meta" where
  "import_meta h now path s =
     \<lparr>m_session_id = (case i_session s of None \<Rightarrow> path_stem path | Some sid \<Rightarrow> sid),
      m_source_path = resolve h path, m_event_count = int (length (i_events s)),
      m_skipped_lines = int (length (i_skipped s)), m_domains = map JStr (sort (remdups (i_domains s))),
      m_categories = map JStr (sort (remdups (i_categories s))), m_first_ts = opt_json (i_first s),
      m_last_ts = opt_json (i_last s), m_imported_at = JStr now\<rparr>"

text \<open>\<open>gate\<close> is the configuration when \<open>apply_config_filter\<close> is set and one is given; \<open>now\<close> is \<open>_utc_now()\<close>.\<close>

definition import_session_jsonl ::
  "json_reader \<Rightarrow> io_env \<Rightarrow> host \<Rightarrow> pystr \<Rightarrow> pystr \<Rightarrow> pystr \<Rightarrow> jdict option \<Rightarrow> pystr option \<Rightarrow> jdict io" where
  "import_session_jsonl loads env h now session_path store_dir gate sid f =
     (let path = path_str session_path; st = open_session_store store_dir in
      if \<not> file_at f path then (Inl (FileNotFoundError (u ''session file not found: '' @ path)), f)
      else bindIO (ensure_session_store env h st) (\<lambda>_.
        bindIO (liftIO (\<lambda>f. bindE (read_text f path) (\<lambda>t.
          import_lines loads (rt h) gate 1 (lines_from [] t) (import_start sid)))) (\<lambda>s.
        let m = import_meta h now path s in
        bindIO (save_session loads env h st m (i_events s)) (\<lambda>_.
        liftIO (\<lambda>_. Inr
          [(u ''ok'', JBool True), (u ''session'', JObj (meta_to_dict m)), (u ''imported'', jnat (length (i_events s))),
           (u ''skipped'', jnat (length (i_skipped s))), (u ''skipped_samples'', JList (map JObj (take 20 (i_skipped s)))),
           (u ''store_dir'', JStr (resolve h (path_str store_dir))),
           (u ''events_path'', JStr (events_path st (m_session_id m)))])))) f)"

section \<open>Search\<close>

record event_query =
  q_domain :: "pystr option"
  q_category :: "pystr option"
  q_event_name :: "pystr option"
  q_correlation :: "pystr option"
  q_severity :: "pystr option"
  q_text :: "pystr option"
  q_gate :: "jdict option"

text \<open>\<open>if wanted and event.get(key) != wanted: continue\<close>\<close>

definition wanted :: "pystr option \<Rightarrow> json \<Rightarrow> bool" where
  "wanted q v = (q = None \<or> q = Some [] \<or> v = JStr (the q))"

definition event_text :: "runtime \<Rightarrow> jdict \<Rightarrow> pystr" where
  "event_text r ev =
     join (u '' '') (map (\<lambda>k. py_str r (getd ev (u k) (JStr [])))
         [''domain'', ''category'', ''eventName'', ''correlationId'', ''severity''] @
       (if is_dict (getj ev (u ''payload'')) then [py_str r (getj ev (u ''payload''))] else []))"

definition event_hit :: "runtime \<Rightarrow> event_query \<Rightarrow> jdict \<Rightarrow> py_exn + bool" where
  "event_hit r q ev =
     (if \<not> wanted (q_domain q) (getj ev (u ''domain'')) then Inr False
      else if \<not> wanted (q_category q) (getj ev (u ''category'')) then Inr False
      else if \<not> wanted (q_event_name q) (getj ev (u ''eventName'')) then Inr False
      else if \<not> wanted (q_correlation q) (getj ev (u ''correlationId'')) then Inr False
      else if \<not> wanted (q_severity q) (getj ev (u ''severity'')) then Inr False
      else bindE (case q_gate q of None \<Rightarrow> Inr True | Some config \<Rightarrow> event_matches_config r ev config) (\<lambda>pass.
        if \<not> pass then Inr False
        else Inr (q_text q = None \<or> q_text q = Some [] \<or>
          is_infix (lower r (the (q_text q))) (lower r (event_text r ev)))))"

text \<open>The loop: the hits and the number of events looked at; it stops at the limit.\<close>

fun collect_hits ::
  "runtime \<Rightarrow> event_query \<Rightarrow> nat \<Rightarrow> jdict list \<Rightarrow> py_exn option \<Rightarrow> jdict list \<Rightarrow> nat \<Rightarrow> py_exn + jdict list \<times> nat" where
  "collect_hits r q limit [] ends hits scanned =
     (case ends of None \<Rightarrow> Inr (hits, scanned) | Some e \<Rightarrow> Inl e)"
| "collect_hits r q limit (ev # evs) ends hits scanned =
     bindE (event_hit r q ev) (\<lambda>hit.
       if hit \<and> limit \<le> length hits + 1 then Inr (hits @ [ev], scanned + 1)
       else collect_hits r q limit evs ends (if hit then hits @ [ev] else hits) (scanned + 1))"

definition search_events ::
  "json_reader \<Rightarrow> io_env \<Rightarrow> host \<Rightarrow> pystr \<Rightarrow> pystr option \<Rightarrow> event_query \<Rightarrow> json \<Rightarrow> jdict io" where
  "search_events loads env h store_dir sid q limit =
     (let st = open_session_store store_dir in
      bindIO (ensure_session_store env h st) (\<lambda>_.
      bindIO (liftIO (\<lambda>_. py_int (rt h) limit)) (\<lambda>n.
      let limit = max 1 (min n 500) in
      liftIO (\<lambda>f.
        case iter_events_of loads (rt h) st sid f of (evs, ends) \<Rightarrow>
          bindE (collect_hits (rt h) q (nat limit) evs ends [] 0) (\<lambda>(hits, scanned).
            Inr [(u ''ok'', JBool True), (u ''store_dir'', JStr store_dir), (u ''scanned'', jnat scanned),
              (u ''returned'', jnat (length hits)), (u ''limit'', JInt limit), (u ''events'', JList (map JObj hits))])))))"

end
