(* ===== verification/Jsonl_Props.thy ===== *)
theory Jsonl_Props imports Jsonl_Ingest Config_Io "HOL-Library.Multiset" begin

text \<open>
  The JSONL store keeps what is saved into it, an import accounts for every line, and a search returns the
  first hits. Two lemmas state defects: an event with a lone surrogate aborts the import after the session's
  file was emptied, and a session identifier that is an absolute path leaves the store.
\<close>

section \<open>Sequences of steps\<close>

lemma bindIO_Inr: "bindIO m k f = (Inr y, f') \<longleftrightarrow> (\<exists>x f1. m f = (Inr x, f1) \<and> k x f1 = (Inr y, f'))"
  by (auto simp: bindIO_def split: prod.splits sum.splits)

lemma liftIO_Inr: "liftIO g f = (Inr y, f') \<longleftrightarrow> g f = Inr y \<and> f' = f"
  by (auto simp: liftIO_def)

section \<open>Import\<close>

definition sid_of :: "runtime \<Rightarrow> jdict \<Rightarrow> pystr" where
  "sid_of r e = py_str r (getj e (u ''sessionId''))"

text \<open>The event of a line: it parses, it is valid, and it passes the configuration when there is one.\<close>

definition line_event :: "json_reader \<Rightarrow> runtime \<Rightarrow> jdict option \<Rightarrow> pystr \<Rightarrow> jdict option" where
  "line_event loads r gate raw =
     (case loads (strip raw) of
        Parsed v \<Rightarrow>
          (if validate_event r v = [] \<and>
              (case gate of None \<Rightarrow> True | Some c \<Rightarrow> event_matches_config r (dict_val v) c = Inr True)
           then Some (dict_val v) else None)
      | _ \<Rightarrow> None)"

definition nonblank :: "pystr list \<Rightarrow> pystr list" where
  "nonblank ls = filter (\<lambda>l. strip l \<noteq> []) ls"

definition line_events :: "json_reader \<Rightarrow> runtime \<Rightarrow> jdict option \<Rightarrow> pystr list \<Rightarrow> jdict list" where
  "line_events loads r gate ls = List.map_filter (line_event loads r gate) (nonblank ls)"

lemma accept_event_facts:
  "i_session s = Some x \<Longrightarrow> i_session (accept_event r n l e s) = Some x"
  "i_session s = None \<Longrightarrow> i_session (accept_event r n l e s) = Some (sid_of r e)"
  "i_events (accept_event r n l e s) = i_events s @ (if i_session s = None \<or> i_session s = Some (sid_of r e) then [e] else [])"
  "length (i_events (accept_event r n l e s)) + length (i_skipped (accept_event r n l e s)) =
     Suc (length (i_events s) + length (i_skipped s))"
  by (auto simp: accept_event_def Let_def add_skip_def sid_of_def)

lemma import_line_facts:
  assumes "import_line loads r gate n l s = Inr s'"
  shows "length (i_events s') + length (i_skipped s') =
      length (i_events s) + length (i_skipped s) + (if strip l = [] then 0 else 1)"
    "strip l = [] \<or> line_event loads r gate l = None \<Longrightarrow> i_events s' = i_events s \<and> i_session s' = i_session s"
    "strip l \<noteq> [] \<Longrightarrow> line_event loads r gate l = Some e \<Longrightarrow> s' = accept_event r n (strip l) e s"
  using assms
  by (auto simp: import_line_def line_event_def Let_def add_skip_def accept_event_facts(4) bindE_Inr_iff
      split: if_splits loaded.splits option.splits)

lemma import_lines_facts:
  assumes "import_lines loads r gate n ls s = Inr s'"
  shows "length (i_events s') + length (i_skipped s') =
      length (i_events s) + length (i_skipped s) + length (nonblank ls) \<and>
    i_events s' = i_events s @ filter (\<lambda>e. i_session s' = Some (sid_of r e)) (line_events loads r gate ls) \<and>
    i_session s' = (case i_session s of Some x \<Rightarrow> Some x
      | None \<Rightarrow> (case line_events loads r gate ls of [] \<Rightarrow> None | e # es \<Rightarrow> Some (sid_of r e)))"
  using assms
proof (induction loads r gate n ls s rule: import_lines.induct)
  case (1 loads r gate n s)
  then show ?case by (auto simp: nonblank_def line_events_def map_filter_def split: option.split)
next
  case (2 loads r gate n l ls s)
  then obtain s1 where s1: "import_line loads r gate n l s = Inr s1" "import_lines loads r gate (n + 1) ls s1 = Inr s'"
    by (auto simp: bindE_Inr_iff)
  from "2.IH" [OF s1] have len: "length (i_events s') + length (i_skipped s') =
      length (i_events s1) + length (i_skipped s1) + length (nonblank ls)"
    and evs: "i_events s' = i_events s1 @ filter (\<lambda>e. i_session s' = Some (sid_of r e)) (line_events loads r gate ls)"
    and ses: "i_session s' = (case i_session s1 of Some x \<Rightarrow> Some x
      | None \<Rightarrow> (case line_events loads r gate ls of [] \<Rightarrow> None | e # es \<Rightarrow> Some (sid_of r e)))"
    by blast+
  have nb: "nonblank (l # ls) = (if strip l = [] then nonblank ls else l # nonblank ls)" by (simp add: nonblank_def)
  show ?case
  proof (cases "strip l = [] \<or> line_event loads r gate l = None")
    case True
    then have le: "line_events loads r gate (l # ls) = line_events loads r gate ls"
      by (auto simp: line_events_def nb List.map_filter_simps)
    have same: "i_events s1 = i_events s \<and> i_session s1 = i_session s" by (rule import_line_facts(2) [OF s1(1) True])
    have "length (i_events s') + length (i_skipped s') =
        length (i_events s) + length (i_skipped s) + length (nonblank (l # ls))"
      using len import_line_facts(1) [OF s1(1)] unfolding nb by simp
    then show ?thesis using evs ses same unfolding le by simp
  next
    case False
    then obtain e where e: "line_event loads r gate l = Some e" by auto
    then have le: "line_events loads r gate (l # ls) = e # line_events loads r gate ls"
      using False by (simp add: line_events_def nb List.map_filter_simps)
    have a: "s1 = accept_event r n (strip l) e s" using import_line_facts(3) [OF s1(1) _ e] False by simp
    have 1: "length (i_events s') + length (i_skipped s') =
        length (i_events s) + length (i_skipped s) + length (nonblank (l # ls))"
      using len import_line_facts(1) [OF s1(1)] False unfolding nb by simp
    have 2: "i_session s' = Some (case i_session s of None \<Rightarrow> sid_of r e | Some x \<Rightarrow> x)"
      using ses unfolding a by (cases "i_session s") (simp_all add: accept_event_facts)
    have 3: "i_events s' = i_events s @ filter (\<lambda>e. i_session s' = Some (sid_of r e)) (line_events loads r gate (l # ls))"
      using evs unfolding a le 2 by (auto simp: accept_event_facts split: option.split)
    from 2 have "i_session s' = (case i_session s of Some x \<Rightarrow> Some x
        | None \<Rightarrow> (case line_events loads r gate (l # ls) of [] \<Rightarrow> None | e # es \<Rightarrow> Some (sid_of r e)))"
      unfolding le by (simp split: option.split)
    with 1 3 show ?thesis by blast
  qed
qed

text \<open>C29: An import accounts for every line. When it succeeds, each line of the file that is not blank was either
  imported or is counted as skipped; the imported events are, in the order of the file, exactly the valid ones
  that pass the configuration and belong to the session, which is the requested one or that of the first such
  event; and the metadata counts both kinds.\<close>

theorem import_accounts:
  assumes "import_session_jsonl loads env h now p store_dir gate sid f = (Inr res, f')"
  shows "\<exists>f1 t s. ensure_session_store env h (open_session_store store_dir) f = (Inr (), f1) \<and>
    read_text f1 (path_str p) = Inr t \<and>
    length (i_events s) + length (i_skipped s) = length (nonblank (lines_from [] t)) \<and>
    i_events s = filter (\<lambda>e. i_session s = Some (sid_of (rt h) e)) (line_events loads (rt h) gate (lines_from [] t)) \<and>
    i_session s = (if sid \<noteq> None then sid
      else (case line_events loads (rt h) gate (lines_from [] t) of [] \<Rightarrow> None | e # es \<Rightarrow> Some (sid_of (rt h) e))) \<and>
    getj res (u ''imported'') = jnat (length (i_events s)) \<and> getj res (u ''skipped'') = jnat (length (i_skipped s)) \<and>
    getj res (u ''session'') = JObj (meta_to_dict (import_meta h now (path_str p) s)) \<and>
    save_session loads env h (open_session_store store_dir) (import_meta h now (path_str p) s) (i_events s) f1 = (Inr (), f')"
proof -
  define st where "st = open_session_store store_dir"
  from assms obtain f1 where f1: "ensure_session_store env h st f = (Inr (), f1)"
    by (auto simp: import_session_jsonl_def Let_def bindIO_def st_def split: if_splits prod.splits sum.splits)
  with assms obtain t s where t: "read_text f1 (path_str p) = Inr t"
    and s: "import_lines loads (rt h) gate 1 (lines_from [] t) (import_start sid) = Inr s"
    by (auto simp: import_session_jsonl_def Let_def bindIO_def liftIO_def bindE_Inr_iff st_def [symmetric]
        split: if_splits prod.splits sum.splits)
  have sv: "save_session loads env h st (import_meta h now (path_str p) s) (i_events s) f1 = (Inr (), f') \<and>
      getj res (u ''imported'') = jnat (length (i_events s)) \<and> getj res (u ''skipped'') = jnat (length (i_skipped s)) \<and>
      getj res (u ''session'') = JObj (meta_to_dict (import_meta h now (path_str p) s))"
    using assms f1 t s
    by (auto simp: import_session_jsonl_def Let_def bindIO_def liftIO_def st_def [symmetric]
        split: if_splits prod.splits sum.splits)
  have start: "i_events (import_start sid) = []" "i_skipped (import_start sid) = []" "i_session (import_start sid) = sid"
    by (simp_all add: import_start_def)
  show ?thesis
    using f1 t sv import_lines_facts [OF s] unfolding st_def start
    by (intro exI [of _ f1] exI [of _ t] exI [of _ s]) (auto split: option.splits)
qed

section \<open>Search\<close>

definition hits_of :: "runtime \<Rightarrow> event_query \<Rightarrow> jdict list \<Rightarrow> jdict list" where
  "hits_of r q evs = filter (\<lambda>e. event_hit r q e = Inr True) evs"

lemma collect_hits_facts:
  assumes "collect_hits r q limit evs e hits n = Inr (out, m)" "length hits < limit"
  shows "\<exists>k \<le> length evs. m = n + k \<and> out = hits @ hits_of r q (take k evs) \<and> length out \<le> limit \<and>
    (length out < limit \<longrightarrow> k = length evs \<and> e = None)"
  using assms
proof (induction r q limit evs e hits n rule: collect_hits.induct)
  case (1 r q limit e hits n)
  then show ?case by (auto simp: hits_of_def split: option.splits)
next
  case (2 r q limit ev evs e hits n)
  from "2.prems"(1) obtain hit where hit: "event_hit r q ev = Inr hit"
    unfolding collect_hits.simps bindE_Inr_iff by blast
  show ?case
  proof (cases "hit \<and> limit \<le> length hits + 1")
    case True
    have "out = hits @ [ev]" "m = n + 1"
      using "2.prems"(1) unfolding collect_hits.simps hit bindE.simps if_P [OF True] by simp_all
    with True "2.prems"(2) hit show ?thesis by (intro exI [of _ 1]) (simp add: hits_of_def)
  next
    case False
    let ?h = "if hit then hits @ [ev] else hits"
    have "collect_hits r q limit evs e ?h (n + 1) = Inr (out, m)"
      using "2.prems"(1) unfolding collect_hits.simps hit bindE.simps if_not_P [OF False] .
    moreover have "length ?h < limit" using "2.prems"(2) False by auto
    ultimately obtain k where k: "k \<le> length evs" "m = n + 1 + k" "out = ?h @ hits_of r q (take k evs)" "length out \<le> limit"
      "length out < limit \<longrightarrow> k = length evs \<and> e = None"
      using "2.IH" [OF hit False] by blast
    have h: "hits_of r q (take (Suc k) (ev # evs)) = (if hit then [ev] else []) @ hits_of r q (take k evs)"
      by (simp add: hits_of_def hit)
    show ?thesis
    proof (rule exI [of _ "Suc k"], intro conjI)
      show "Suc k \<le> length (ev # evs)" "m = n + Suc k" "length out < limit \<longrightarrow> Suc k = length (ev # evs) \<and> e = None"
        using k(1,2,5) by simp_all
      show "out = hits @ hits_of r q (take (Suc k) (ev # evs))" unfolding h using k(3) by simp
      show "length out \<le> limit" by (rule k(4))
    qed
  qed
qed

text \<open>A search of the JSONL store returns the first hits. When it succeeds, the events it returns are the hits
  among the events it scanned, in order and at most as many as the clamped limit, between 1 and 500; and when they
  are fewer, every event of the store was scanned.\<close>

theorem jsonl_search_first_hits:
  assumes "search_events loads env h store_dir sid q (JInt n) f = (Inr res, f')"
  shows "\<exists>evs e k. iter_events_of loads (rt h) (open_session_store store_dir) sid f' = (evs, e) \<and> k \<le> length evs \<and>
    getj res (u ''scanned'') = jnat k \<and> getj res (u ''limit'') = JInt (max 1 (min n 500)) \<and>
    getj res (u ''events'') = JList (map JObj (hits_of (rt h) q (take k evs))) \<and>
    length (hits_of (rt h) q (take k evs)) \<le> nat (max 1 (min n 500)) \<and>
    (length (hits_of (rt h) q (take k evs)) < nat (max 1 (min n 500)) \<longrightarrow> k = length evs \<and> e = None)"
proof -
  define limit where "limit = max 1 (min n 500)"
  define st where "st = open_session_store store_dir"
  obtain evs e where it: "iter_events_of loads (rt h) st sid f' = (evs, e)" by (cases "iter_events_of loads (rt h) st sid f'")
  from assms obtain x f1 y f2 where run: "ensure_session_store env h st f = (Inr x, f1)" "py_int (rt h) (JInt n) = Inr y" "f2 = f1"
    "f' = f2" "(case iter_events_of loads (rt h) st sid f2 of (evs, ends) \<Rightarrow>
       bindE (collect_hits (rt h) q (nat (max 1 (min y 500))) evs ends [] 0) (\<lambda>(hits, scanned).
         Inr [(u ''ok'', JBool True), (u ''store_dir'', JStr store_dir), (u ''scanned'', jnat scanned),
           (u ''returned'', jnat (length hits)), (u ''limit'', JInt (max 1 (min y 500))),
           (u ''events'', JList (map JObj hits))])) = Inr res"
    unfolding search_events_def Let_def bindIO_Inr liftIO_Inr st_def [symmetric] by (elim exE conjE) (rule that)
  have y: "max 1 (min y 500) = limit" using run(2) by (simp add: limit_def)
  have "bindE (collect_hits (rt h) q (nat limit) evs e [] 0) (\<lambda>(hits, scanned).
         Inr [(u ''ok'', JBool True), (u ''store_dir'', JStr store_dir), (u ''scanned'', jnat scanned),
           (u ''returned'', jnat (length hits)), (u ''limit'', JInt limit),
           (u ''events'', JList (map JObj hits))]) = Inr res"
    using run(5) unfolding y run(4) [symmetric] it by simp
  then obtain hits k where c: "collect_hits (rt h) q (nat limit) evs e [] 0 = Inr (hits, k)"
    "res = [(u ''ok'', JBool True), (u ''store_dir'', JStr store_dir), (u ''scanned'', jnat k),
       (u ''returned'', jnat (length hits)), (u ''limit'', JInt limit), (u ''events'', JList (map JObj hits))]"
    unfolding bindE_Inr_iff by (elim exE conjE) (simp split: prod.splits)
  have "length ([] :: jdict list) < nat limit" by (simp add: limit_def)
  from collect_hits_facts [OF c(1) this] obtain k' where k': "k' \<le> length evs" "k = k'"
    "hits = hits_of (rt h) q (take k' evs)" "length hits \<le> nat limit" "length hits < nat limit \<longrightarrow> k' = length evs \<and> e = None"
    unfolding add_0 append_Nil by blast
  have res: "getj res (u ''scanned'') = jnat k" "getj res (u ''limit'') = JInt limit" "getj res (u ''events'') = JList (map JObj hits)"
    unfolding c(2) by simp_all
  show ?thesis
    unfolding st_def [symmetric] limit_def [symmetric]
    using it k'(1) res k'(4,5) unfolding k'(2,3) by blast
qed

section \<open>The store keeps what is saved\<close>

lemma utf8_encode_append:
  "utf8_encode s = Some b \<Longrightarrow> utf8_encode t = Some c \<Longrightarrow> utf8_encode (s @ t) = Some (b @ c)"
  by (induction s arbitrary: b) (auto split: if_splits)

lemma encode_all_concat: "encode_all ts = (bs, True) \<Longrightarrow> utf8_encode (concat ts) = Some bs"
  by (induction ts arbitrary: bs) (auto split: option.splits prod.splits intro: utf8_encode_append)

lemma lines_of_join:
  "one_line l \<Longrightarrow> lines_from cur (l @ 10 # rest) = (cur @ l) # lines_from [] rest"
  by (induction l arbitrary: cur) auto

lemma lines_of_lines: "\<forall>l \<in> set ls. one_line l \<Longrightarrow> lines_from [] (concat (map (\<lambda>l. l @ [10]) ls)) = ls"
  by (induction ls) (simp_all add: lines_of_join)

lemma strip_object: "strip (json_line r (JObj d)) = json_line r (JObj d)" "json_line r (JObj d) \<noteq> []"
  by (simp_all add: strip_def rstrip_def u_Cons is_space_def)

lemma parse_saved:
  "\<forall>e \<in> set es. loads (json_line r (JObj e)) = Parsed (JObj e) \<Longrightarrow>
   parse_lines loads (map (\<lambda>e. json_line r (JObj e)) es) = (es, None)"
  by (induction es) (simp_all add: strip_object del: json_line.simps)

lemma saved_text:
  assumes "write_text env p ts f = (Inr (), f')"
  shows "\<exists>bs. f' = f(p := File bs (now_ns env)) \<and> utf8_decode bs = Some (concat ts)"
  using assms by (auto simp: write_text_def split: node.splits prod.splits if_splits
      dest!: encode_all_concat utf8_decode_encode)

lemma read_saved_events:
  assumes "f p = File bs m" "utf8_decode bs = Some (concat (map (\<lambda>e. json_line r (JObj e) @ [10]) es))"
    "plain_floats r" "\<forall>e \<in> set es. loads (json_line r (JObj e)) = Parsed (JObj e)"
  shows "iter_jsonl loads r f p = (es, None)"
proof -
  have "lines_from [] (concat (map (\<lambda>l. l @ [10]) (map (\<lambda>e. json_line r (JObj e)) es))) = map (\<lambda>e. json_line r (JObj e)) es"
    using one_line_json [OF assms(3)] by (intro lines_of_lines) (auto simp del: json_line.simps)
  then show ?thesis
    using assms(1,2) parse_saved [OF assms(4)]
    by (simp add: iter_jsonl_def file_at_def comp_def del: json_line.simps)
qed

text \<open>The files of a session are told apart by how their paths end.\<close>

lemma split_slash_nonempty: "split_slash s \<noteq> []"
  by (induction s) (auto split: list.splits)

lemma split_slash_append: "split_slash (a @ 47 # b) = split_slash a @ split_slash b"
proof (induction a)
  case (Cons c a)
  then show ?case using split_slash_nonempty [of a] by (cases "split_slash a") auto
qed simp

lemma join_snoc: "\<exists>pre. join sep (xs @ [x]) = pre @ x"
  by (cases xs) (auto simp: join_def)

lemma path_join_end:
  assumes "path_root b = []" "path_parts b = [b]" "b \<noteq> []"
  shows "\<exists>pre. path_join d b = pre @ b"
proof -
  have "path_parts (d @ 47 # b) = path_parts d @ [b]"
    using assms(2) by (simp add: path_parts_def split_slash_append)
  then obtain pre where "join [47] (path_parts (d @ 47 # b)) = pre @ b" using join_snoc [of "[47]" "path_parts d" b] by auto
  then have "path_join d b = (path_root (d @ 47 # b) @ pre) @ b"
    using assms(1,3) by (simp add: path_join_def path_str_def Let_def)
  then show ?thesis by blast
qed

lemma file_names:
  "\<exists>pre. events_path st sid = pre @ u ''events.jsonl''" "\<exists>pre. meta_path st sid = pre @ u ''meta.json''"
  "\<exists>pre. index_path (open_session_store d) = pre @ u ''sessions.json''"
proof -
  have "path_root (u ''events.jsonl'') = []" "path_parts (u ''events.jsonl'') = [u ''events.jsonl'']"
    "path_root (u ''meta.json'') = []" "path_parts (u ''meta.json'') = [u ''meta.json'']"
    "path_root (u ''sessions.json'') = []" "path_parts (u ''sessions.json'') = [u ''sessions.json'']"
    by (simp_all add: path_root_def path_parts_def u_Cons)
  then show "\<exists>pre. events_path st sid = pre @ u ''events.jsonl''" "\<exists>pre. meta_path st sid = pre @ u ''meta.json''"
    "\<exists>pre. index_path (open_session_store d) = pre @ u ''sessions.json''"
    by (auto simp: events_path_def meta_path_def open_session_store_def Let_def intro!: path_join_end)
qed

lemma distinct_ends: "rev x ! 5 \<noteq> rev y ! 5 \<Longrightarrow> 5 < length x \<Longrightarrow> 5 < length y \<Longrightarrow> pre @ x \<noteq> pre' @ y"
proof
  assume n: "rev x ! 5 \<noteq> rev y ! 5" "5 < length x" "5 < length y" and e: "pre @ x = pre' @ y"
  from e have "rev (pre @ x) ! 5 = rev (pre' @ y) ! 5" by simp
  with n show False by (simp add: nth_append)
qed

lemma distinct_files:
  "events_path st sid \<noteq> meta_path st sid" "events_path st sid \<noteq> index_path (open_session_store d)"
  "meta_path st sid \<noteq> index_path (open_session_store d)"
proof -
  obtain a b c where ends: "events_path st sid = a @ u ''events.jsonl''" "meta_path st sid = b @ u ''meta.json''"
    "index_path (open_session_store d) = c @ u ''sessions.json''" using file_names by metis
  show "events_path st sid \<noteq> meta_path st sid" "events_path st sid \<noteq> index_path (open_session_store d)"
    "meta_path st sid \<noteq> index_path (open_session_store d)"
    unfolding ends by (rule distinct_ends; simp add: u_Cons)+
qed

text \<open>The states a successful save goes through.\<close>

lemma save_session_steps:
  assumes "save_session loads env h (open_session_store d) m es f = (Inr (), f')"
  defines "st \<equiv> open_session_store d" and "sid \<equiv> m_session_id m"
  obtains f1 f2 f5 bs mb ib rows out where
    "ensure_session_store env h st f = (Inr (), f1)"
    "make_dirs env (ancestors h (session_dir st sid) @ [session_dir st sid]) f1 = (Inr (), f2)"
    "utf8_decode bs = Some (concat (map (\<lambda>e. json_line (rt h) (JObj e) @ [10]) es))"
    "utf8_decode mb = Some (json_indent (rt h) 0 (JObj (meta_to_dict m)) @ [10])"
    "read_index loads st (f2(events_path st sid := File bs (now_ns env), meta_path st sid := File mb (now_ns env))) = Inr rows"
    "upsert_rows (rt h) m rows = Inr out"
    "make_dirs env (ancestors h (index_path st))
       (f2(events_path st sid := File bs (now_ns env), meta_path st sid := File mb (now_ns env))) = (Inr (), f5)"
    "utf8_decode ib = Some (json_indent (rt h) 0 (JObj [(u ''sessions'', JList (map JObj out))]) @ [10])"
    "f' = f5(index_path st := File ib (now_ns env))"
proof -
  from assms(1) obtain x1 f1 x2 f2 x3 f3 x4 f4 out f5 x5 f6 where
    s: "ensure_session_store env h st f = (Inr x1, f1)"
    "make_dirs env (ancestors h (session_dir st sid) @ [session_dir st sid]) f1 = (Inr x2, f2)"
    "write_text env (events_path st sid) (map (\<lambda>e. json_line (rt h) (JObj e) @ [10]) es) f2 = (Inr x3, f3)"
    "write_text env (meta_path st sid) (json_chunks (rt h) 0 (JObj (meta_to_dict m)) @ [[10]]) f3 = (Inr x4, f4)"
    "bindE (read_index loads st f4) (upsert_rows (rt h) m) = Inr out" "f5 = f4"
    "make_dirs env (ancestors h (index_path st)) f5 = (Inr x5, f6)"
    "write_text env (index_path st) (json_chunks (rt h) 0 (JObj [(u ''sessions'', JList (map JObj out))]) @ [[10]]) f6 = (Inr (), f')"
    unfolding save_session_def upsert_index_def write_index_def Let_def bindIO_Inr liftIO_Inr st_def [symmetric] sid_def [symmetric]
    by (elim exE conjE) (rule that)
  from s(5) obtain rows where rows: "read_index loads st f4 = Inr rows" "upsert_rows (rt h) m rows = Inr out"
    unfolding bindE_Inr_iff by blast
  have units: "x1 = ()" "x2 = ()" "x3 = ()" "x4 = ()" "x5 = ()" by simp_all
  note t3 = saved_text [OF s(3) [unfolded units]] and t4 = saved_text [OF s(4) [unfolded units]] and t8 = saved_text [OF s(8)]
  from t3 obtain bs where bs: "f3 = f2(events_path st sid := File bs (now_ns env))"
    "utf8_decode bs = Some (concat (map (\<lambda>e. json_line (rt h) (JObj e) @ [10]) es))" by blast
  from t4 obtain mb where mb: "f4 = f3(meta_path st sid := File mb (now_ns env))"
    "utf8_decode mb = Some (json_indent (rt h) 0 (JObj (meta_to_dict m)) @ [10])" by (auto simp: json_chunks_text simp del: json_chunks.simps json_indent.simps)
  from t8 obtain ib where ib: "f' = f6(index_path st := File ib (now_ns env))"
    "utf8_decode ib = Some (json_indent (rt h) 0 (JObj [(u ''sessions'', JList (map JObj out))]) @ [10])" by (auto simp: json_chunks_text simp del: json_chunks.simps json_indent.simps)
  show thesis
    using s(1,2) bs(2) mb(2) rows s(7) ib(2,1) unfolding units s(6) mb(1) bs(1) by (rule that)
qed

lemma meta_back: "meta_from_dict r (JObj (meta_to_dict m)) = Inr m"
proof -
  have "py_list (or_else (JList xs) (JList [])) = Inr xs" for xs by (cases xs) (simp_all add: or_else_def py_list_def)
  then show ?thesis by (simp add: meta_from_dict_def meta_to_dict_def Let_def getd_def py_str_def)
qed

text \<open>C30: The store keeps what is saved. After a session was saved, reading the session back (behind the leading
  \<open>ensure\<close> of \<open>iter_events\<close>) yields exactly its events, in order and without an error, and reading its metadata
  yields the metadata that was saved, provided that parsing the text of these documents gives them back.\<close>

theorem save_session_kept:
  assumes "save_session loads env h (open_session_store d) m es f = (Inr (), f')" "plain_floats (rt h)"
    "\<forall>e \<in> set es. loads (json_line (rt h) (JObj e)) = Parsed (JObj e)"
    "loads (json_indent (rt h) 0 (JObj (meta_to_dict m)) @ [10]) = Parsed (JObj (meta_to_dict m))" "m_session_id m \<noteq> []"
  shows "iter_events_of loads (rt h) (open_session_store d) (Some (m_session_id m)) f' = (es, None) \<and>
    get_meta loads (rt h) (open_session_store d) (m_session_id m) f' = Inr (Some m)"
proof -
  let ?st = "open_session_store d" and ?sid = "m_session_id m"
  from save_session_steps [OF assms(1)] obtain f2 f5 bs mb ib where
    b: "utf8_decode bs = Some (concat (map (\<lambda>e. json_line (rt h) (JObj e) @ [10]) es))"
    "utf8_decode mb = Some (json_indent (rt h) 0 (JObj (meta_to_dict m)) @ [10])"
    and dirs: "make_dirs env (ancestors h (index_path ?st))
       (f2(events_path ?st ?sid := File bs (now_ns env), meta_path ?st ?sid := File mb (now_ns env))) = (Inr (), f5)"
    and f': "f' = f5(index_path ?st := File ib (now_ns env))" by metis
  have ev: "f' (events_path ?st ?sid) = File bs (now_ns env)"
    using make_dirs_keeps [OF dirs, of "events_path ?st ?sid"] distinct_files [of ?st ?sid] distinct_files(2) [of ?st ?sid d]
    by (simp add: f')
  have mt: "f' (meta_path ?st ?sid) = File mb (now_ns env)"
    using make_dirs_keeps [OF dirs, of "meta_path ?st ?sid"] distinct_files(3) [of ?st ?sid d] by (simp add: f')
  have "iter_jsonl loads (rt h) f' (events_path ?st ?sid) = (es, None)"
    by (rule read_saved_events [where f = f' and p = "events_path ?st ?sid", OF ev b(1) assms(2,3)])
  then have "iter_events_of loads (rt h) ?st (Some ?sid) f' = (es, None)"
    using assms(5) by (cases ?sid) (simp_all add: iter_events_of_def)
  moreover have "get_meta loads (rt h) ?st ?sid f' = Inr (Some m)"
    using mt b(2) assms(4) by (simp add: get_meta_def file_at_def read_text_def load_all_def meta_back del: json_indent.simps)
  ultimately show ?thesis by blast
qed

section \<open>The index\<close>

lemma sort_rows_mset: "sort_rows r rows = Inr out \<Longrightarrow> mset out = mset rows"
proof -
  have ranked: "mset (map snd (sort_key f (zip [0..<length rows] rows))) = mset rows" for f :: "nat \<times> jdict \<Rightarrow> nat"
    by (simp only: mset_map mset_sort) (simp flip: mset_map)
  assume "sort_rows r rows = Inr out"
  then show ?thesis by (auto simp: sort_rows_def Let_def sort_desc_def bindE_Inr_iff ranked simp del: map_map mset_map split: if_splits)
qed

lemma sort_desc_sorted: "sorted_wrt (\<lambda>a b. key b \<le> key a) (sort_desc key xs)"
proof -
  have "sorted_wrt (\<lambda>a b. key a \<le> key b) (sort_key key (rev xs))"
    using sorted_sort_key [of key "rev xs"] by (simp add: sorted_wrt_map)
  then show ?thesis by (simp add: sort_desc_def sorted_wrt_rev)
qed

text \<open>Saving replaces the session's row of the index and keeps the others; rows imported later come first.\<close>

lemma upsert_rows_spec:
  assumes "upsert_rows r m rows = Inr out"
  shows "mset out = mset (filter (\<lambda>d. getj d (u ''session_id'') \<noteq> JStr (m_session_id m)) (map dict_val rows)) + {#meta_to_dict m#}"
    "filter (\<lambda>d. getj d (u ''session_id'') = JStr (m_session_id m)) out = [meta_to_dict m]"
proof -
  let ?P = "\<lambda>d. getj d (u ''session_id'') = JStr (m_session_id m)"
  show ms: "mset out = mset (filter (\<lambda>d. \<not> ?P d) (map dict_val rows)) + {#meta_to_dict m#}"
    using assms by (auto simp: upsert_rows_def dest: sort_rows_mset split: if_splits)
  have "filter_mset ?P (mset out) = {#meta_to_dict m#}" unfolding ms by (simp add: meta_to_dict_def flip: mset_filter)
  then have "mset (filter ?P out) = {#meta_to_dict m#}" by (simp only: mset_filter)
  then show "filter ?P out = [meta_to_dict m]" by (simp only: mset_single_iff)
qed

lemma ensure_index_file:
  assumes "ensure_session_store env h st f = (Inr (), f1)"
  shows "file_at f1 (index_path st)"
proof -
  from assms obtain x a y b where b: "make_dirs env (ancestors h (index_path st)) a = (Inr y, b)"
    "(if file_at b (index_path st) then (Inr (), b) else write_index env h st [] b) = (Inr (), f1)"
    unfolding ensure_session_store_def bindIO_Inr by (elim exE conjE) (rule that)
  show ?thesis
  proof (cases "file_at b (index_path st)")
    case True
    with b(2) show ?thesis by simp
  next
    case False
    with b(2) obtain c z where "write_text env (index_path st) (json_chunks (rt h) 0 (JObj [(u ''sessions'', JList [])]) @ [[10]]) c = (Inr (), f1)"
      unfolding if_not_P [OF False] write_index_def bindIO_Inr by (elim exE conjE) (rule that)
    from saved_text [OF this] show ?thesis by (auto simp: file_at_def)
  qed
qed

lemma read_index_same: "f p = g p \<Longrightarrow> p = index_path st \<Longrightarrow> read_index loads st f = read_index loads st g"
  by (simp add: read_index_def file_at_def read_text_def)

text \<open>C31: The index after a save. It holds the saved session's metadata exactly once, and of the other rows exactly
  those it held before; and when the text of that document parses back, listing reads these rows.\<close>

theorem save_session_indexed:
  assumes "save_session loads env h (open_session_store d) m es f = (Inr (), f')"
  shows "\<exists>f1 rows out. ensure_session_store env h (open_session_store d) f = (Inr (), f1) \<and>
    read_index loads (open_session_store d) f1 = Inr rows \<and>
    mset out = mset (filter (\<lambda>r. getj r (u ''session_id'') \<noteq> JStr (m_session_id m)) (map dict_val rows)) + {#meta_to_dict m#} \<and>
    filter (\<lambda>r. getj r (u ''session_id'') = JStr (m_session_id m)) out = [meta_to_dict m] \<and>
    (let text = json_indent (rt h) 0 (JObj [(u ''sessions'', JList (map JObj out))]) @ [10] in
     read_text f' (index_path (open_session_store d)) = Inr text \<and>
     (loads text = Parsed (JObj [(u ''sessions'', JList (map JObj out))]) \<longrightarrow>
        read_index loads (open_session_store d) f' = Inr (map JObj out)))"
proof -
  let ?st = "open_session_store d" and ?sid = "m_session_id m"
  obtain f1 f2 f5 bs mb ib rows out where
    e: "ensure_session_store env h ?st f = (Inr (), f1)"
    and dirs: "make_dirs env (ancestors h (session_dir ?st ?sid) @ [session_dir ?st ?sid]) f1 = (Inr (), f2)"
    and rd: "read_index loads ?st (f2(events_path ?st ?sid := File bs (now_ns env), meta_path ?st ?sid := File mb (now_ns env))) = Inr rows"
    and up: "upsert_rows (rt h) m rows = Inr out"
    and ib: "utf8_decode ib = Some (json_indent (rt h) 0 (JObj [(u ''sessions'', JList (map JObj out))]) @ [10])"
    and f': "f' = f5(index_path ?st := File ib (now_ns env))"
    by (rule save_session_steps [OF assms])
  have "f1 (index_path ?st) \<noteq> Missing" using ensure_index_file [OF e] by (auto simp: file_at_def)
  from make_dirs_keeps [OF dirs this] have same: "f2 (index_path ?st) = f1 (index_path ?st)" .
  have r1: "read_index loads ?st f1 = Inr rows"
    using rd distinct_files(2) [of ?st ?sid d] distinct_files(3) [of ?st ?sid d] same
    by (subst read_index_same [where p = "index_path ?st" and g =
      "f2(events_path ?st ?sid := File bs (now_ns env), meta_path ?st ?sid := File mb (now_ns env))"]) simp_all
  have body: "read_text f' (index_path ?st) = Inr (json_indent (rt h) 0 (JObj [(u ''sessions'', JList (map JObj out))]) @ [10])"
    using ib by (simp add: f' read_text_def del: json_indent.simps)
  have listed: "loads t = Parsed (JObj [(u ''sessions'', JList (map JObj out))]) \<Longrightarrow> read_text f' (index_path ?st) = Inr t \<Longrightarrow>
      read_index loads ?st f' = Inr (map JObj out)" for t
    by (cases out) (simp_all add: read_index_def file_at_def f' load_all_def or_else_def py_list_def)
  from e r1 upsert_rows_spec [OF up] body listed show ?thesis unfolding Let_def by blast
qed

end
