(* ===== verification/Jsonl_Samples.thy ===== *)
theory Jsonl_Samples imports Jsonl_Props begin

text \<open>
  Concrete runs of the JSONL store on an empty file system, and two inputs on which it misbehaves.
\<close>

section \<open>A run on an empty file system\<close>

definition plain_env :: io_env where
  "plain_env = \<lparr>fault = (\<lambda>s. None), partial_write = [], tmp_name = [], now_ns = 3, dir_size = 0\<rparr>"

definition sample_ev :: jdict where
  "sample_ev = [(u ''version'', JInt 1), (u ''sessionId'', JStr (u ''s'')), (u ''eventName'', JStr (u ''e'')),
     (u ''domain'', JStr (u ''d'')), (u ''category'', JStr (u ''c'')), (u ''correlationId'', JStr (u ''k'')),
     (u ''sequence'', JInt 0), (u ''severity'', JStr (u ''info'')), (u ''timestampUtc'', JStr (u ''t''))]"

definition const_loads :: json_reader where
  "const_loads t = Parsed (JObj sample_ev)"

lemma sample_ev_valid: "validate_event r (JObj sample_ev) = []"
  by (simp add: validate_event_def sample_ev_def EVENT_STRINGS_def SEVERITIES_def Let_def)

definition jsonl_sample_store :: session_store where
  "jsonl_sample_store = open_session_store (u ''d'')"

lemma jsonl_sample_store_simps:
  "jsonl_sample_store = \<lparr>store_root = u ''d'', index_path = u ''d/index/sessions.json'', sessions_dir = u ''d/sessions''\<rparr>"
  "session_dir jsonl_sample_store (u ''s'') = u ''d/sessions/s''"
  "events_path jsonl_sample_store (u ''s'') = u ''d/sessions/s/events.jsonl''"
  "meta_path jsonl_sample_store (u ''s'') = u ''d/sessions/s/meta.json''"
  by code_simp+

lemma encode_all_ascii: "\<forall>t \<in> set ts. \<forall>c \<in> set t. c < 128 \<Longrightarrow> encode_all ts = (map mk_byte (concat ts), True)"
  by (induction ts) (simp_all add: utf8_encode_ascii)

lemma write_ascii:
  "\<forall>t \<in> set ts. \<forall>c \<in> set t. c < 128 \<Longrightarrow> f p = Missing \<or> (\<exists>b m. f p = File b m) \<Longrightarrow>
   write_text env p ts f = (Inr (), f(p := File (map mk_byte (concat ts)) (now_ns env)))"
  by (auto simp: write_text_def encode_all_ascii split: node.split)

definition ascii :: "pystr \<Rightarrow> bool" where
  "ascii t = (\<forall>c \<in> set t. c < 128)"

lemma write_chunks:
  assumes "ascii (json_indent r 0 j)" "f p = Missing \<or> (\<exists>b m. f p = File b m)"
  shows "write_text env p (json_chunks r 0 j @ [[10]]) f = (Inr (), f(p := File (map mk_byte (json_indent r 0 j @ [10])) (now_ns env)))"
proof -
  have "\<Union> (set ` set (json_chunks r 0 j)) = set (json_indent r 0 j)" using json_chunks_text [of r 0 j] by (metis set_concat)
  with assms(1) have "\<forall>t \<in> set (json_chunks r 0 j @ [[10]]). \<forall>c \<in> set t. c < 128" unfolding ascii_def by auto
  from write_ascii [where ts = "json_chunks r 0 j @ [[10]]" and f = f and p = p, OF this assms(2)] show ?thesis by (simp add: json_chunks_text del: json_chunks.simps json_indent.simps)
qed

text \<open>The files after \<open>ensure\<close>, with whatever else \<open>f\<close> holds outside the store.\<close>

definition outside :: "files \<Rightarrow> bool" where
  "outside f = (\<forall>p \<in> {u ''d/sessions'', u ''d/index/sessions.json'', u ''d/sessions/s'', u ''d/sessions/s/events.jsonl'',
     u ''d/sessions/s/meta.json''}. f p = Missing)"

definition index_text :: "jdict list \<Rightarrow> bytes" where
  "index_text rows = map mk_byte (json_indent sample_runtime 0 (JObj [(u ''sessions'', JList (map JObj rows))]) @ [10])"

definition ensured :: "files \<Rightarrow> files" where
  "ensured f = f(u ''d/sessions'' := Directory 0 3, u ''d/index/sessions.json'' := File (index_text []) 3)"

lemma sample_host_facts: "rt sample_host = sample_runtime" "ancestors sample_host p = []"
  by (simp_all add: sample_host_def)

lemma ensure_sample:
  assumes "outside f"
  shows "ensure_session_store plain_env sample_host jsonl_sample_store f = (Inr (), ensured f)"
proof -
  have a: "ascii (json_indent sample_runtime 0 (JObj [(u ''sessions'', JList [])]))"
    by code_simp
  show ?thesis
    using assms write_chunks [OF a, of "f(u ''d/sessions'' := Directory 0 3)" "u ''d/index/sessions.json''" plain_env]
    by (simp add: ensure_session_store_def bindIO_def jsonl_sample_store_simps sample_host_facts outside_def plain_env_def
        file_at_def write_index_def ensured_def index_text_def del: json_indent.simps json_chunks.simps)
qed

lemma ensure_again: "outside f \<Longrightarrow> ensure_session_store plain_env sample_host jsonl_sample_store (ensured f) = (Inr (), ensured f)"
  by (simp add: ensure_session_store_def bindIO_def jsonl_sample_store_simps sample_host_facts plain_env_def
      file_at_def ensured_def)

lemma read_ascii: "f p = File (map mk_byte t) m \<Longrightarrow> ascii t \<Longrightarrow> read_text f p = Inr t"
proof -
  assume "f p = File (map mk_byte t) m" "ascii t"
  moreover from this(2) have "utf8_decode (map mk_byte t) = Some t"
    using utf8_decode_encode utf8_encode_ascii unfolding ascii_def by blast
  ultimately show ?thesis by (simp add: read_text_def)
qed

lemma read_sample_index:
  assumes l: "loads (json_indent sample_runtime 0 (JObj [(u ''sessions'', JList [])]) @ [10]) = Parsed (JObj sample_ev)"
    and "f (u ''d/index/sessions.json'') = File (index_text []) m"
  shows "read_index loads jsonl_sample_store f = Inr []"
proof -
  have "ascii (json_indent sample_runtime 0 (JObj [(u ''sessions'', JList [])]) @ [10])"
    by code_simp
  from read_ascii [of f "u ''d/index/sessions.json''", OF _ this] assms(2) l
  show ?thesis
    by (simp add: read_index_def jsonl_sample_store_simps file_at_def index_text_def load_all_def sample_ev_def
        or_else_def py_list_def del: json_indent.simps)
qed

lemma save_sample:
  assumes l: "loads (json_indent sample_runtime 0 (JObj [(u ''sessions'', JList [])]) @ [10]) = Parsed (JObj sample_ev)"
    and f: "outside f" and id: "m_session_id m = u ''s''"
    and a: "ascii (json_indent sample_runtime 0 (JObj (meta_to_dict m)))"
      "ascii (json_indent sample_runtime 0 (JObj [(u ''sessions'', JList [JObj (meta_to_dict m)])]))"
      "ascii (json_line sample_runtime (JObj sample_ev))"
  shows "\<exists>f'. save_session loads plain_env sample_host jsonl_sample_store m [sample_ev] (ensured f) = (Inr (), f')"
proof -
  have up: "upsert_rows sample_runtime m [] = Inr [meta_to_dict m]" by (simp add: upsert_rows_def sort_rows_def)
  have dirs: "make_dirs plain_env [u ''d/sessions/s''] (ensured f) = (Inr (), (ensured f)(u ''d/sessions/s'' := Directory 0 3))"
    using f by (simp add: outside_def ensured_def plain_env_def)
  define f2 where "f2 = (ensured f)(u ''d/sessions/s'' := Directory 0 3)"
  have w1: "write_text plain_env (u ''d/sessions/s/events.jsonl'') [json_line sample_runtime (JObj sample_ev) @ [10]] f2 =
      (Inr (), f2(u ''d/sessions/s/events.jsonl'' := File (map mk_byte (concat [json_line sample_runtime (JObj sample_ev) @ [10]])) (now_ns plain_env)))"
    using f a(3) by (intro write_ascii) (auto simp: f2_def outside_def ensured_def ascii_def)
  define f3 where "f3 = f2(u ''d/sessions/s/events.jsonl'' := File (map mk_byte (concat [json_line sample_runtime (JObj sample_ev) @ [10]])) (now_ns plain_env))"
  have w2: "write_text plain_env (u ''d/sessions/s/meta.json'') (json_chunks sample_runtime 0 (JObj (meta_to_dict m)) @ [[10]]) f3 =
      (Inr (), f3(u ''d/sessions/s/meta.json'' := File (map mk_byte (json_indent sample_runtime 0 (JObj (meta_to_dict m)) @ [10])) (now_ns plain_env)))"
    using f a(1) by (intro write_chunks) (auto simp: f3_def f2_def outside_def ensured_def)
  define f4 where "f4 = f3(u ''d/sessions/s/meta.json'' := File (map mk_byte (json_indent sample_runtime 0 (JObj (meta_to_dict m)) @ [10])) (now_ns plain_env))"
  have ix: "f4 (u ''d/index/sessions.json'') = File (index_text []) 3"
    by (simp add: f4_def f3_def f2_def ensured_def)
  have w3: "write_text plain_env (u ''d/index/sessions.json'')
      (json_chunks sample_runtime 0 (JObj [(u ''sessions'', JList [JObj (meta_to_dict m)])]) @ [[10]]) f4 =
      (Inr (), f4(u ''d/index/sessions.json'' := File (map mk_byte (json_indent sample_runtime 0
        (JObj [(u ''sessions'', JList [JObj (meta_to_dict m)])]) @ [10])) (now_ns plain_env)))"
    by (rule write_chunks [OF a(2)]) (use ix in simp)
  have index_name: "index_path jsonl_sample_store = u ''d/index/sessions.json''" by (simp add: jsonl_sample_store_simps)
  have step: "bindIO m k f = k x g" if "m f = (Inr x, g)" for m :: "'x io" and k :: "'x \<Rightarrow> 'y io" and f x g
    using that by (simp add: bindIO_def)
  show ?thesis
    unfolding save_session_def Let_def id upsert_index_def write_index_def jsonl_sample_store_simps(2-) sample_host_facts append_Nil
    apply (subst step, rule ensure_again [OF f])
    apply (subst step, rule dirs)
    apply (fold f2_def, subst step, simp only: list.map, rule w1)
    apply (fold f3_def, subst step, rule w2)
    apply (fold f4_def, subst step)
     apply (simp only: liftIO_def read_sample_index [where f = f4 and loads = loads, OF l ix] bindE.simps up)
    apply (subst step, simp add: jsonl_sample_store_simps)
    apply (simp only: list.map index_name w3)
    apply blast
    done
qed

section \<open>The theorems at work\<close>

definition sample_meta :: jsonl_meta where
  "sample_meta = \<lparr>m_session_id = u ''s'', m_source_path = u ''x'', m_event_count = 1, m_skipped_lines = 0,
     m_domains = [JStr (u ''d'')], m_categories = [JStr (u ''c'')], m_first_ts = JStr (u ''t''), m_last_ts = JStr (u ''t''),
     m_imported_at = JStr (u ''n'')\<rparr>"

lemma sample_texts:
  "ascii (json_indent sample_runtime 0 (JObj (meta_to_dict sample_meta)))"
  "ascii (json_indent sample_runtime 0 (JObj [(u ''sessions'', JList [JObj (meta_to_dict sample_meta)])]))"
  "ascii (json_line sample_runtime (JObj sample_ev))"
  by code_simp+

definition nothing :: files where
  "nothing p = Missing"

lemma nothing_outside: "outside nothing"
  by (simp add: outside_def nothing_def)

lemma sample_saved: "\<exists>f'. save_session const_loads plain_env sample_host jsonl_sample_store sample_meta [sample_ev] (ensured nothing) = (Inr (), f')"
  by (rule save_sample [OF _ nothing_outside _ sample_texts]) (simp_all add: sample_meta_def const_loads_def)

theorem save_session_indexed_witness:
  "\<exists>f' out. save_session const_loads plain_env sample_host jsonl_sample_store sample_meta [sample_ev] (ensured nothing) = (Inr (), f') \<and>
     filter (\<lambda>r. getj r (u ''session_id'') = JStr (u ''s'')) out = [meta_to_dict sample_meta]"
proof -
  obtain f' where f': "save_session const_loads plain_env sample_host jsonl_sample_store sample_meta [sample_ev] (ensured nothing) = (Inr (), f')"
    using sample_saved by blast
  have "m_session_id sample_meta = u ''s''" by (simp add: sample_meta_def)
  with f' save_session_indexed [OF f' [unfolded jsonl_sample_store_def]] show ?thesis by metis
qed

text \<open>A reader for the saved event and metadata.\<close>

definition sample_loads :: json_reader where
  "sample_loads t = (if t = json_indent sample_runtime 0 (JObj (meta_to_dict sample_meta)) @ [10]
     then Parsed (JObj (meta_to_dict sample_meta)) else Parsed (JObj sample_ev))"

lemma sample_line: "json_line sample_runtime (JObj sample_ev) \<noteq> json_indent sample_runtime 0 (JObj (meta_to_dict sample_meta)) @ [10]"
  by (simp add: u_Cons sample_ev_def meta_to_dict_def line_indent_def)

lemma sample_index_text:
  "json_indent sample_runtime 0 (JObj [(u ''sessions'', JList [])]) @ [10] \<noteq>
     json_indent sample_runtime 0 (JObj (meta_to_dict sample_meta)) @ [10]"
  by (simp add: u_Cons meta_to_dict_def line_indent_def sample_meta_def join_def json_string_def escape_char_def)

theorem save_session_kept_witness:
  "\<exists>f'. iter_events_of sample_loads sample_runtime jsonl_sample_store (Some (u ''s'')) f' = ([sample_ev], None) \<and>
     get_meta sample_loads sample_runtime jsonl_sample_store (u ''s'') f' = Inr (Some sample_meta)"
proof -
  have l: "sample_loads (json_indent sample_runtime 0 (JObj [(u ''sessions'', JList [])]) @ [10]) = Parsed (JObj sample_ev)"
    using sample_index_text by (simp only: sample_loads_def if_False)
  have id: "m_session_id sample_meta = u ''s''" by (simp add: sample_meta_def)
  obtain f' where f': "save_session sample_loads plain_env sample_host jsonl_sample_store sample_meta [sample_ev] (ensured nothing) = (Inr (), f')"
    using save_sample [where loads = sample_loads and f = nothing and m = sample_meta, OF l nothing_outside id sample_texts] by blast
  have p: "plain_floats (rt sample_host)" by (simp add: plain_floats_def sample_host_facts sample_runtime_def)
  have e: "\<forall>e \<in> set [sample_ev]. sample_loads (json_line (rt sample_host) (JObj e)) = Parsed (JObj e)"
    using sample_line by (simp add: sample_loads_def sample_host_facts del: json_line.simps json_indent.simps)
  have m: "sample_loads (json_indent (rt sample_host) 0 (JObj (meta_to_dict sample_meta)) @ [10]) = Parsed (JObj (meta_to_dict sample_meta))"
    by (simp add: sample_loads_def sample_host_facts del: json_indent.simps)
  have n: "m_session_id sample_meta \<noteq> []" by (simp add: id)
  from save_session_kept [OF f' [unfolded jsonl_sample_store_def] p e m n] show ?thesis
    unfolding id sample_host_facts jsonl_sample_store_def by blast
qed

definition sample_files :: files where
  "sample_files = nothing(u ''x'' := File [0x79, 0x0A] 1)"

lemma sample_files_outside: "outside sample_files"
  by (simp add: outside_def sample_files_def nothing_def)

lemma sample_import_lines:
  "import_lines const_loads sample_runtime None 1 [u ''y''] (import_start None) =
     Inr \<lparr>i_events = [sample_ev], i_skipped = [], i_domains = [u ''d''], i_categories = [u ''c''], i_first = Some (u ''t''),
       i_last = Some (u ''t''), i_session = Some (u ''s'')\<rparr>"
proof -
  have "strip (u ''y'') = u ''y''" by (simp add: strip_def rstrip_def is_space_def u_Cons)
  then show ?thesis
    by (simp add: import_line_def const_loads_def sample_ev_valid accept_event_def import_start_def Let_def)
      (simp add: sample_ev_def py_str_def)
qed

theorem import_accounts_witness:
  "\<exists>res f'. import_session_jsonl const_loads plain_env sample_host (u ''n'') (u ''x'') (u ''d'') None None sample_files = (Inr res, f') \<and>
     (\<exists>s :: import_state. length (i_events s) + length (i_skipped s) = 1 \<and> getj res (u ''imported'') = jnat (length (i_events s)))"
proof -
  let ?s = "\<lparr>i_events = [sample_ev], i_skipped = [], i_domains = [u ''d''], i_categories = [u ''c''], i_first = Some (u ''t''),
       i_last = Some (u ''t''), i_session = Some (u ''s'')\<rparr>"
  have p: "path_str (u ''x'') = u ''x''" by code_simp
  have x: "(ensured sample_files) (u ''x'') = File [0x79, 0x0A] 1"
    by (simp add: ensured_def sample_files_def)
  have t: "read_text (ensured sample_files) (u ''x'') = Inr (u ''y'' @ [10])"
    by (simp add: read_text_def x) code_simp
  have ls: "lines_from [] (u ''y'' @ [10]) = [u ''y'']" by (simp add: u_Cons)
  have m: "import_meta sample_host (u ''n'') (u ''x'') ?s = sample_meta"
    by (simp add: import_meta_def sample_meta_def opt_json_def sample_host_def)
  obtain f' where f': "save_session const_loads plain_env sample_host jsonl_sample_store sample_meta [sample_ev] (ensured sample_files) = (Inr (), f')"
    using save_sample [where loads = const_loads, OF _ sample_files_outside _ sample_texts]
    by (auto simp: sample_meta_def const_loads_def)
  have "file_at sample_files (u ''x'')" by (simp add: file_at_def sample_files_def)
  then have "\<exists>res. import_session_jsonl const_loads plain_env sample_host (u ''n'') (u ''x'') (u ''d'') None None sample_files = (Inr res, f')"
    unfolding import_session_jsonl_def Let_def p jsonl_sample_store_def [symmetric]
    using ensure_sample [OF sample_files_outside] t ls sample_import_lines m f'
    by (simp add: bindIO_def liftIO_def sample_host_facts)
  then obtain res where res: "import_session_jsonl const_loads plain_env sample_host (u ''n'') (u ''x'') (u ''d'') None None sample_files = (Inr res, f')"
    by blast
  from import_accounts [OF res] obtain f1 t and s :: import_state where
    a: "ensure_session_store plain_env sample_host (open_session_store (u ''d'')) sample_files = (Inr (), f1)"
    "read_text f1 (path_str (u ''x'')) = Inr t"
    "length (i_events s) + length (i_skipped s) = length (nonblank (lines_from [] t))"
    "getj res (u ''imported'') = jnat (length (i_events s))" by (elim exE conjE) (rule that)
  have "f1 = ensured sample_files"
    using a(1) ensure_sample [OF sample_files_outside] unfolding jsonl_sample_store_def by simp
  with a(2) t have "t = u ''y'' @ [10]" unfolding p by simp
  with a(3,4) have s: "length (i_events s) + length (i_skipped s) = length (nonblank (lines_from [] (u ''y'' @ [10])))"
    "getj res (u ''imported'') = jnat (length (i_events s))" by simp_all
  have "length (nonblank (lines_from [] (u ''y'' @ [10]))) = 1"
    unfolding ls by (simp add: nonblank_def strip_def rstrip_def is_space_def u_Cons)
  with s(1) have one: "length (i_events s) + length (i_skipped s) = 1" by (rule trans)
  show ?thesis by (rule exI [of _ res], rule exI [of _ f'], rule conjI [OF res], rule exI [of _ s], rule conjI [OF one s(2)])
qed

theorem jsonl_search_first_hits_witness:
  "\<exists>res f'. search_events const_loads plain_env sample_host (u ''d'') None
     \<lparr>q_domain = None, q_category = None, q_event_name = None, q_correlation = None, q_severity = None, q_text = None, q_gate = None\<rparr>
     (JInt 0) nothing = (Inr res, f') \<and> getj res (u ''limit'') = JInt 1"
proof -
  let ?q = "\<lparr>q_domain = None, q_category = None, q_event_name = None, q_correlation = None, q_severity = None, q_text = None, q_gate = None\<rparr>"
  have rd: "read_index const_loads jsonl_sample_store (ensured nothing) = Inr []"
    by (rule read_sample_index [where m = 3]) (simp_all add: const_loads_def ensured_def)
  have "\<exists>res. search_events const_loads plain_env sample_host (u ''d'') None ?q (JInt 0) nothing = (Inr res, ensured nothing)"
    unfolding search_events_def Let_def jsonl_sample_store_def [symmetric]
    using ensure_sample [OF nothing_outside]
    by (simp add: bindIO_def liftIO_def iter_events_of_def list_metas_def rd)
  then obtain res where "search_events const_loads plain_env sample_host (u ''d'') None ?q (JInt 0) nothing = (Inr res, ensured nothing)" by blast
  with jsonl_search_first_hits [OF this] show ?thesis by auto
qed

section \<open>Two defects\<close>

text \<open>An event with a lone surrogate (which JSON can spell as an escape) is valid, but its text cannot be encoded:
  the save raises when the session's file has already been emptied, and the import with it.\<close>

lemma surrogate_aborts:
  assumes "utf8_encode (json_line (rt h) (JObj e)) = None" "f p = Missing \<or> (\<exists>b m. f p = File b m)"
  shows "write_text env p (map (\<lambda>e. json_line (rt h) (JObj e) @ [10]) (e # es)) f =
    (Inl (ValueError (u ''surrogates not allowed'')), f(p := File [] (now_ns env)))"
proof -
  have app: "utf8_encode t = None \<Longrightarrow> utf8_encode (t @ w) = None" for t w
    by (induction t) (auto split: if_splits)
  have "encode_all (map (\<lambda>e. json_line (rt h) (JObj e) @ [10]) (e # es)) = ([], False)"
    using app [OF assms(1)] by (simp del: json_line.simps)
  with assms(2) show ?thesis by (auto simp: write_text_def simp del: json_line.simps split: node.split)
qed

text \<open>A session identifier comes from the events; an absolute path as identifier leaves the store.\<close>

lemma session_leaves_store: "events_path (open_session_store (u ''d'')) (u ''/etc/x'') = u ''/etc/x/events.jsonl''"
  by code_simp

end
