(* ===== verification/Perf_Report.thy ===== *)
theory Perf_Report imports Py_Float Jsonl_Ingest Dtj_Index Dtj_Analyze begin

text \<open>
  The performance reports: counts, percentiles and maxima of duration-like numbers, over the JSONL store
  (\<open>report.py\<close>), over a validated index (\<open>dtj_report.py\<close>) and over a session (\<open>stats_report_dtj\<close> of
  \<open>dtj_query.py\<close>). Floats are binary64 patterns, computed with \<open>Py_Float\<close>.
\<close>

section \<open>Duration fields\<close>

text \<open>Which characters a lower-case letter matches under \<open>re.IGNORECASE\<close>: beside its two cases, the dotted and
  dotless \<open>i\<close> and the long \<open>s\<close>.\<close>

definition same_letter :: "nat \<Rightarrow> nat \<Rightarrow> bool" where
  "same_letter p c =
     (c = p \<or> 97 \<le> p \<and> p \<le> 122 \<and> c + 32 = p \<or> p = 105 \<and> (c = 0x130 \<or> c = 0x131) \<or> p = 115 \<and> c = 0x17F)"

fun prefix_ci :: "pystr \<Rightarrow> pystr \<Rightarrow> bool" where
  "prefix_ci [] s = True"
| "prefix_ci (p # ps) [] = False"
| "prefix_ci (p # ps) (c # cs) = (same_letter p c \<and> prefix_ci ps cs)"

fun search_ci :: "pystr \<Rightarrow> pystr \<Rightarrow> bool" where
  "search_ci ps [] = (ps = [])"
| "search_ci ps (c # cs) = (prefix_ci ps (c # cs) \<or> search_ci ps cs)"

text \<open>\<open>ps$\<close>: at the end, or before a final line feed.\<close>

definition search_end_ci :: "pystr \<Rightarrow> pystr \<Rightarrow> bool" where
  "search_end_ci ps s =
     (list_ex (\<lambda>t. length ps \<le> length t \<and> prefix_ci ps (drop (length t - length ps) t))
       (s # (if s \<noteq> [] \<and> last s = 10 then [butlast s] else [])))"

definition duration_key :: "pystr \<Rightarrow> bool" where
  "duration_key key =
     (search_ci (u ''duration'') key \<or> search_ci (u ''elapsed'') key \<or> search_ci (u ''latency'') key \<or>
      search_end_ci (u ''ms'') key \<or> search_end_ci (u ''_ms'') key)"

definition is_number :: "json \<Rightarrow> bool" where
  "is_number v = (\<not> is_bool v \<and> (is_int v \<or> is_float v))"

definition is_duration_field :: "pystr \<Rightarrow> json \<Rightarrow> bool" where
  "is_duration_field key v = (is_number v \<and> duration_key key)"

text \<open>\<open>float(v)\<close> of a number\<close>

definition py_float :: "json \<Rightarrow> py_exn + 64 word" where
  "py_float v =
     (case v of JFloat w \<Rightarrow> Inr w | JInt i \<Rightarrow> f64_of_int i
      | _ \<Rightarrow> Inl (TypeError (u ''float() argument must be a string or a real number'')))"

section \<open>Percentiles\<close>

text \<open>\<open>xs[i]\<close>\<close>

definition py_nth :: "'a list \<Rightarrow> int \<Rightarrow> py_exn + 'a" where
  "py_nth xs i =
     (if 0 \<le> i \<and> i < int (length xs) then Inr (xs ! nat i)
      else if - int (length xs) \<le> i \<and> i < 0 then Inr (xs ! nat (int (length xs) + i))
      else Inl IndexError)"

text \<open>\<open>_percentile(xs, p)\<close> for an integer \<open>p\<close>; \<open>None\<close> of Python is \<open>None\<close> here.\<close>

definition percentile :: "64 word list \<Rightarrow> nat \<Rightarrow> py_exn + 64 word option" where
  "percentile xs p =
     (if xs = [] then Inr None
      else if length xs = 1 then Inr (Some (xs ! 0))
      else
        let k = f64_mul (f64_of_nat (length xs - 1)) (f64_div (f64_of_nat p) (f64_of_nat 100));
            f = f64_floor k; c = f64_ceil k in
        if f = c then bindE (py_nth xs (f64_trunc k)) (\<lambda>v. Inr (Some v))
        else bindE (py_nth xs f) (\<lambda>vf. bindE (f64_of_int c) (\<lambda>cw.
          let d0 = f64_mul vf (f64_sub cw k) in
          bindE (py_nth xs c) (\<lambda>vc. bindE (f64_of_int f) (\<lambda>fw.
          let d1 = f64_mul vc (f64_sub k fw) in Inr (Some (f64_add d0 d1)))))))"

text \<open>\<open>sorted(values)\<close>: a stable sort by value. In which order a list with NaNs is left depends on the sorting
  algorithm and is a parameter, \<open>nan_order\<close>.\<close>

definition sorted_floats :: "(64 word list \<Rightarrow> 64 word list) \<Rightarrow> 64 word list \<Rightarrow> 64 word list" where
  "sorted_floats nan_order ws = (if list_ex f64_is_nan ws then nan_order ws else sort_key f64_int ws)"

section \<open>Buckets\<close>

text \<open>Domain, category, event name and field; the values in the order they were found.\<close>

type_synonym bucket_key = "pystr \<times> pystr \<times> pystr \<times> pystr"
type_synonym buckets = "(bucket_key \<times> 64 word list) list"

fun bucket_add :: "'k \<Rightarrow> 'v \<Rightarrow> ('k \<times> 'v list) list \<Rightarrow> ('k \<times> 'v list) list" where
  "bucket_add k v [] = [(k, [v])]"
| "bucket_add k v ((k', vs) # bs) = (if k' = k then (k', vs @ [v]) # bs else (k', vs) # bucket_add k v bs)"

definition opt_float :: "64 word option \<Rightarrow> json" where
  "opt_float v = (case v of None \<Rightarrow> JNull | Some w \<Rightarrow> JFloat w)"

definition metric :: "(64 word list \<Rightarrow> 64 word list) \<Rightarrow> bucket_key \<times> 64 word list \<Rightarrow> py_exn + jdict" where
  "metric nan_order b =
     (case b of ((dm, cat, ev, fld), ws) \<Rightarrow>
        let xs = sorted_floats nan_order ws in
        bindE (percentile xs 50) (\<lambda>p50. bindE (percentile xs 95) (\<lambda>p95.
        Inr [(u ''domain'', JStr dm), (u ''category'', JStr cat), (u ''eventName'', JStr ev), (u ''field'', JStr fld),
          (u ''count'', jnat (length xs)), (u ''p50'', opt_float p50), (u ''p95'', opt_float p95),
          (u ''max'', if xs = [] then JNull else JFloat (last xs))])))"

definition count_key :: "jdict \<Rightarrow> int" where
  "count_key row = - int_val (getj row (u ''count''))"

definition row_str :: "string \<Rightarrow> jdict \<Rightarrow> pystr" where
  "row_str k row = str_val (getj row (u k))"

section \<open>\<open>report.py\<close>\<close>

definition payload_entry ::
  "runtime \<Rightarrow> jdict \<Rightarrow> pystr option \<Rightarrow> pystr \<times> json \<Rightarrow> buckets \<Rightarrow> py_exn + buckets" where
  "payload_entry r event field entry bs =
     (case entry of (key, val) \<Rightarrow>
        if field \<noteq> None \<and> field \<noteq> Some [] \<and> field \<noteq> Some key then Inr bs
        else if \<not> is_duration_field key val then Inr bs
        else bindE (py_float val) (\<lambda>w. Inr (bucket_add
          (py_str r (getd event (u ''domain'') (JStr [])), py_str r (getd event (u ''category'') (JStr [])),
           py_str r (getd event (u ''eventName'') (JStr [])), key) w bs)))"

definition perf_event ::
  "runtime \<Rightarrow> pystr option \<Rightarrow> pystr option \<Rightarrow> pystr option \<Rightarrow> jdict \<Rightarrow> buckets \<Rightarrow> py_exn + buckets" where
  "perf_event r domain category field event bs =
     (if \<not> wanted domain (getj event (u ''domain'')) then Inr bs
      else if \<not> wanted category (getj event (u ''category'')) then Inr bs
      else if \<not> is_dict (getj event (u ''payload'')) then Inr bs
      else foldE (payload_entry r event field) (dict_val (getj event (u ''payload''))) bs)"

definition performance_report ::
  "json_reader \<Rightarrow> (64 word list \<Rightarrow> 64 word list) \<Rightarrow> io_env \<Rightarrow> host \<Rightarrow> pystr \<Rightarrow> pystr option \<Rightarrow> pystr option \<Rightarrow>
   pystr option \<Rightarrow> pystr option \<Rightarrow> jdict io" where
  "performance_report loads nan_order env h store_dir sid domain category field =
     (let st = open_session_store store_dir in
      bindIO (ensure_session_store env h st) (\<lambda>_. liftIO (\<lambda>f.
        case iter_events_of loads (rt h) st sid f of (evs, ends) \<Rightarrow>
          bindE (foldE (perf_event (rt h) domain category field) evs []) (\<lambda>bs.
          case ends of Some e \<Rightarrow> Inl e
          | None \<Rightarrow>
              bindE (mapE (metric nan_order) (sort_key fst bs)) (\<lambda>rows.
              Inr [(u ''ok'', JBool True), (u ''store_dir'', JStr store_dir), (u ''session_id'', opt_json sid),
                (u ''events_scanned'', jnat (length evs)),
                (u ''metrics'', JList (map JObj
                  (sort_key (\<lambda>r. (count_key r, row_str ''domain'' r, row_str ''category'' r, row_str ''eventName'' r)) rows)))])))))"

section \<open>Typed payloads\<close>

definition SCALAR_NUMERIC_TYPES :: "pystr list" where
  "SCALAR_NUMERIC_TYPES = [u ''i32'', u ''i64'', u ''u32'', u ''u64'', u ''f32'', u ''f64'']"

text \<open>One field of a typed payload: skipped, or a value for its bucket.\<close>

definition typed_entry ::
  "runtime \<Rightarrow> jdict \<Rightarrow> pystr option \<Rightarrow> json \<Rightarrow> buckets \<Rightarrow> py_exn + buckets" where
  "typed_entry r event field item bs =
     (if \<not> is_dict item then Inr bs
      else let d = dict_val item; name = getj d (u ''name''); val = getj d (u ''value'') in
        if \<not> is_str name \<or> str_val name = [] then Inr bs
        else bindE (in_str_set (getj d (u ''type'')) SCALAR_NUMERIC_TYPES) (\<lambda>numeric.
          if \<not> numeric \<or> \<not> is_number val then Inr bs
          else if field \<noteq> None \<and> field \<noteq> Some (str_val name) then Inr bs
          else if \<not> is_duration_field (str_val name) val then Inr bs
          else bindE (py_float val) (\<lambda>w. Inr (bucket_add
            (py_str r (or_else (getj event (u ''domain'')) (JStr [])), py_str r (or_else (getj event (u ''category'')) (JStr [])),
             py_str r (or_else (getj event (u ''event_name'')) (JStr [])), str_val name) w bs))))"

definition typed_event :: "runtime \<Rightarrow> pystr option \<Rightarrow> jdict \<Rightarrow> buckets \<Rightarrow> py_exn + buckets" where
  "typed_event r field event bs =
     (if \<not> is_list (getj event (u ''payload'')) then Inr bs
      else foldE (typed_entry r event field) (list_val (getj event (u ''payload''))) bs)"

definition sorted_metrics :: "(64 word list \<Rightarrow> 64 word list) \<Rightarrow> buckets \<Rightarrow> py_exn + json" where
  "sorted_metrics nan_order bs =
     bindE (mapE (metric nan_order) bs) (\<lambda>rows.
       Inr (JList (map JObj (sort_key
         (\<lambda>r. (count_key r, row_str ''domain'' r, row_str ''category'' r, row_str ''eventName'' r, row_str ''field'' r)) rows))))"

section \<open>\<open>dtj_report.py\<close>\<close>

definition index_report_error :: "pystr \<Rightarrow> pystr \<Rightarrow> string \<Rightarrow> jdict" where
  "index_report_error session index message =
     [(u ''ok'', JBool False), (u ''adapter'', core_adapter), (u ''session_path'', JStr session),
      (u ''index_path'', JStr index), (u ''error'', JObj (kind_message ''CorruptIndex'' (u message)))]"

text \<open>One event of the index: \<open>Inl None\<close> when it is not an object, \<open>Inl (Some e)\<close> for an exception.\<close>

definition indexed_event :: "runtime \<Rightarrow> pystr option \<Rightarrow> json \<Rightarrow> buckets \<Rightarrow> py_exn option + buckets" where
  "indexed_event r field ev bs =
     (if \<not> is_dict ev then Inl None
      else case typed_event r field (dict_val ev) bs of Inl e \<Rightarrow> Inl (Some e) | Inr bs \<Rightarrow> Inr bs)"

definition performance_report_dtj_index ::
  "(64 word list \<Rightarrow> 64 word list) \<Rightarrow> host \<Rightarrow> pystr \<Rightarrow> pystr \<Rightarrow> pystr option \<Rightarrow> pystr option \<Rightarrow> pystr option \<Rightarrow> py_exn + jdict" where
  "performance_report_dtj_index nan_order h session_p index_p domain category field =
     bindE (load_validated_index_events h session_p index_p domain category None None None) (\<lambda>loaded.
       if \<not> is_ok loaded then Inr loaded
       else
         let session = str_val (getj loaded (u ''session_path'')); index = str_val (getj loaded (u ''index_path''));
             events = getj loaded (u ''events'') in
         if \<not> is_list events
         then Inr (index_report_error session index ''validated index load missing events list'')
         else case foldE (indexed_event (rt h) field) (list_val events) [] of
           Inl (Some e) \<Rightarrow> Inl e
         | Inl None \<Rightarrow> Inr (index_report_error session index ''index event projection is not an object'')
         | Inr bs \<Rightarrow>
             bindE (sorted_metrics nan_order bs) (\<lambda>metrics.
             Inr [(u ''ok'', JBool True), (u ''adapter'', core_adapter), (u ''session_path'', getj loaded (u ''session_path'')),
               (u ''index_path'', getj loaded (u ''index_path'')),
               (u ''torn_tail'', JBool (truthy (getj loaded (u ''torn_tail'')))),
               (u ''events_scanned'', jnat (length (list_val events))), (u ''metrics'', metrics)]))"

section \<open>\<open>stats_report_dtj\<close>\<close>

definition name_counts :: "runtime \<Rightarrow> string \<Rightarrow> jdict list \<Rightarrow> json" where
  "name_counts r k events =
     (let c = fold (\<lambda>e. bump (py_str r (or_else (getj e (u k)) (JStr (u ''<none>''))))) events []
      in JObj (map (\<lambda>(name, n). (name, jnat n)) (most_common (length c) c)))"

text \<open>The loop over the payload, written out again in \<open>dtj_query.py\<close>; without a filter for the field.\<close>

definition stats_entry :: "runtime \<Rightarrow> jdict \<Rightarrow> json \<Rightarrow> buckets \<Rightarrow> py_exn + buckets" where
  "stats_entry r event item bs =
     (if \<not> is_dict item then Inr bs
      else if \<not> is_str (getj (dict_val item) (u ''name'')) \<or> str_val (getj (dict_val item) (u ''name'')) = [] then Inr bs
      else case in_str_set (getj (dict_val item) (u ''type'')) SCALAR_NUMERIC_TYPES of
        Inl e \<Rightarrow> Inl e
      | Inr numeric \<Rightarrow>
          (let name = str_val (getj (dict_val item) (u ''name'')); value = getj (dict_val item) (u ''value'') in
           if \<not> numeric then Inr bs
           else if is_bool value \<or> \<not> (is_int value \<or> is_float value) then Inr bs
           else if \<not> is_duration_field name value then Inr bs
           else let key = (py_str r (or_else (getj event (u ''domain'')) (JStr [])),
                  py_str r (or_else (getj event (u ''category'')) (JStr [])),
                  py_str r (or_else (getj event (u ''event_name'')) (JStr [])), name)
                in (case py_float value of Inl e \<Rightarrow> Inl e | Inr w \<Rightarrow> Inr (bucket_add key w bs))))"

fun stats_items :: "runtime \<Rightarrow> jdict \<Rightarrow> json list \<Rightarrow> buckets \<Rightarrow> py_exn + buckets" where
  "stats_items r event [] bs = Inr bs"
| "stats_items r event (item # items) bs =
     (case stats_entry r event item bs of Inl e \<Rightarrow> Inl e | Inr bs1 \<Rightarrow> stats_items r event items bs1)"

fun stats_buckets :: "runtime \<Rightarrow> jdict list \<Rightarrow> buckets \<Rightarrow> py_exn + buckets" where
  "stats_buckets r [] bs = Inr bs"
| "stats_buckets r (event # events) bs =
     (if \<not> is_list (getj event (u ''payload'')) then stats_buckets r events bs
      else case stats_items r event (list_val (getj event (u ''payload''))) bs of
        Inl e \<Rightarrow> Inl e | Inr bs1 \<Rightarrow> stats_buckets r events bs1)"

definition stats_result ::
  "(64 word list \<Rightarrow> 64 word list) \<Rightarrow> runtime \<Rightarrow> pystr \<Rightarrow> pystr option \<Rightarrow> pystr option \<Rightarrow> jdict \<Rightarrow> py_exn + jdict" where
  "stats_result nan_order r path domain category decoded =
     bindE (event_dicts decoded) (\<lambda>all.
       let events = filter (event_matches_native_filters r (no_filters\<lparr>f_domain := domain, f_category := category\<rparr>)) all in
       bindE (stats_buckets r events []) (\<lambda>bs.
       bindE (sorted_metrics nan_order bs) (\<lambda>metrics.
       Inr (base_result path decoded @
         [(u ''events_scanned'', jnat (length events)),
          (u ''counts'', JObj [(u ''by_domain'', name_counts r ''domain'' events),
             (u ''by_category'', name_counts r ''category'' events),
             (u ''by_event_name'', name_counts r ''event_name'' events),
             (u ''by_severity'', name_counts r ''severity'' events)]),
          (u ''metrics'', metrics)]))))"

definition stats_report_dtj ::
  "(64 word list \<Rightarrow> 64 word list) \<Rightarrow> host \<Rightarrow> pystr \<Rightarrow> pystr option \<Rightarrow> pystr option \<Rightarrow> py_exn + jdict" where
  "stats_report_dtj nan_order h p domain category =
     with_loadedE (read_session_dtj h p) (stats_result nan_order (rt h) (expanduser h p) domain category)"

end
