(* ===== verification/Perf_Percentile.thy ===== *)
theory Perf_Percentile imports Perf_Report begin

text \<open>
  Percentiles: the interpolation never indexes outside the list, and the median is the middle element, or the
  mean of the middle pair computed by halves.
\<close>

section \<open>The rank\<close>

definition rank_of :: "nat \<Rightarrow> nat \<Rightarrow> 64 word" where
  "rank_of n p = f64_mul (f64_of_nat (n - 1)) (f64_div (f64_of_nat p) (f64_of_nat 100))"

text \<open>A finite value that is not negative, with its magnitude.\<close>

definition magnitude :: "64 word \<Rightarrow> nat \<Rightarrow> bool" where
  "magnitude w m = (f64_finite w \<and> f64_sign w = 0 \<and> f64_units w = m)"

lemma magnitude_of_nat: "m < 2 ^ 53 \<Longrightarrow> magnitude (f64_of_nat m) (m * 2 ^ 1075)"
  by (simp only: magnitude_def f64_of_nat_exact simp_thms)

lemma magnitude_zero: "magnitude (round_f64 False 0 d) 0"
  by (simp add: magnitude_def round_f64_def f64_finite_def pack_f64_parts pack_zero)

lemma round_magnitude_le:
  assumes "0 < d" "n \<le> c * d" "c < 2 ^ 53"
  obtains m where "magnitude (round_f64 False n d) m" "m \<le> c * 2 ^ 1075"
proof (cases "n = 0")
  case True
  then show thesis using magnitude_zero that by blast
next
  case False
  then show thesis using round_le_nat [of n d c] assms that by (simp only: magnitude_def)
qed

lemma magnitude_div:
  "magnitude x m \<Longrightarrow> magnitude y n \<Longrightarrow> f64_div x y = round_f64 False m n"
  by (simp add: magnitude_def f64_div_def finite_not_nan)

lemma magnitude_mul:
  "magnitude x m \<Longrightarrow> magnitude y n \<Longrightarrow> f64_mul x y = round_f64 False (m * n) (2 ^ 2150)"
  by (simp add: magnitude_def f64_mul_def finite_not_nan)

lemma magnitude_int: "magnitude w m \<Longrightarrow> f64_int w = int m"
  by (simp add: magnitude_def f64_int_def)

lemma rank_magnitude:
  assumes "n < 2 ^ 53" "p \<le> 100"
  obtains m where "magnitude (rank_of n p) m" "m \<le> (n - 1) * 2 ^ 1075"
proof -
  have n: "n - 1 < 2 ^ 53" using assms(1) by simp
  have f: "f64_div (f64_of_nat p) (f64_of_nat 100) = round_f64 False (p * 2 ^ 1075) (100 * 2 ^ 1075)"
    by (rule magnitude_div; rule magnitude_of_nat) (use assms(2) in simp_all)
  obtain q where q: "magnitude (f64_div (f64_of_nat p) (f64_of_nat 100)) q" "q \<le> 1 * 2 ^ 1075"
    unfolding f
  proof (rule round_magnitude_le [where c = 1])
    show "p * 2 ^ 1075 \<le> 1 * (100 * 2 ^ 1075)"
      unfolding mult_1 by (rule mult_right_mono) (use assms(2) in simp_all)
  qed simp_all
  have r: "rank_of n p = round_f64 False ((n - 1) * 2 ^ 1075 * q) (2 ^ 2150)"
    unfolding rank_of_def by (rule magnitude_mul [OF magnitude_of_nat [OF n] q(1)])
  have "(n - 1) * 2 ^ 1075 * q \<le> (n - 1) * 2 ^ 1075 * 2 ^ 1075" using q(2) by simp
  also have "\<dots> = (n - 1) * 2 ^ 2150" by (simp only: mult.assoc flip: power_add) simp
  finally have le: "(n - 1) * 2 ^ 1075 * q \<le> (n - 1) * 2 ^ 2150" .
  show thesis
    by (rule round_magnitude_le [OF _ le n]) (simp, rule that [unfolded r])
qed

lemma trunc_floor: "magnitude w m \<Longrightarrow> f64_trunc w = f64_floor w"
proof -
  assume w: "magnitude w m"
  let ?e = "max 1 (f64_exp w)"
  have u: "f64_units w div 2 ^ 1075 = (if 1075 \<le> ?e then f64_sig w * 2 ^ (?e - 1075) else f64_sig w div 2 ^ (1075 - ?e))"
  proof (cases "1075 \<le> ?e")
    case True
    then have "f64_units w = f64_sig w * 2 ^ (?e - 1075) * 2 ^ 1075"
      by (simp only: f64_units_def mult.assoc flip: power_add) simp
    then show ?thesis unfolding if_P [OF True] by (simp only:) (rule nonzero_mult_div_cancel_right, simp)
  next
    case False
    then have e: "(2 :: nat) ^ 1075 = 2 ^ (1075 - ?e) * 2 ^ ?e" by (simp only: flip: power_add) simp
    show ?thesis unfolding if_not_P [OF False] f64_units_def e by (rule div_mult_mult2) simp
  qed
  have s: "f64_sign w \<noteq> 1" using w by (simp add: magnitude_def)
  show ?thesis
    unfolding f64_trunc_def f64_floor_def f64_int_def Let_def if_not_P [OF s] u [symmetric]
    by (simp only: zdiv_int of_nat_power of_nat_numeral)
qed

section \<open>No index outside the list\<close>

lemma rank_position:
  assumes "magnitude w m" "m \<le> c * 2 ^ 1075"
  obtains i where "f64_floor w = int i" "i \<le> c" "f64_trunc w = int i"
    "f64_ceil w = int i \<or> f64_ceil w = int (Suc i) \<and> Suc i \<le> c"
proof -
  have w: "f64_units w \<le> c * 2 ^ 1075" "f64_sign w = 0" using assms by (simp_all only: magnitude_def)
  note b = f64_floor_le [OF w]
  define i where "i = nat (f64_floor w)"
  have i: "f64_floor w = int i" using b(1) by (simp add: i_def)
  have "f64_ceil w \<le> f64_floor w + 1"
  proof -
    have "- ((- x) div d) \<le> x div d + 1" if "0 < d" for x d :: int
    proof (cases "x mod d = 0")
      case True
      then show ?thesis using that by (simp add: zdiv_zminus1_eq_if)
    next
      case False
      then show ?thesis using that by (simp add: zdiv_zminus1_eq_if)
    qed
    then show ?thesis unfolding f64_ceil_def f64_floor_def by simp
  qed
  then have "f64_ceil w = int i \<or> f64_ceil w = int (Suc i)" using b(2) i by linarith
  moreover have "i \<le> c" "f64_ceil w \<le> int c" using b i by linarith+
  ultimately show thesis using that [OF i] trunc_floor [OF assms(1)] i by auto
qed

lemma py_nth_in [simp]: "i < length xs \<Longrightarrow> py_nth xs (int i) = Inr (xs ! i)"
  by (simp add: py_nth_def)

definition interpolate :: "64 word list \<Rightarrow> nat \<Rightarrow> 64 word \<Rightarrow> 64 word" where
  "interpolate xs i k =
     f64_add (f64_mul (xs ! i) (f64_sub (f64_of_nat (Suc i)) k)) (f64_mul (xs ! Suc i) (f64_sub k (f64_of_nat i)))"

lemma percentile_at:
  assumes "2 \<le> length xs" "length xs < 2 ^ 53" "magnitude (rank_of (length xs) p) m" "m \<le> (length xs - 1) * 2 ^ 1075"
  shows "\<exists>i. f64_floor (rank_of (length xs) p) = int i \<and> i < length xs \<and>
    (if f64_ceil (rank_of (length xs) p) = int i then percentile xs p = Inr (Some (xs ! i))
     else Suc i < length xs \<and> f64_ceil (rank_of (length xs) p) = int (Suc i) \<and>
       percentile xs p = Inr (Some (interpolate xs i (rank_of (length xs) p))))"
proof -
  let ?k = "rank_of (length xs) p"
  obtain i where i: "f64_floor ?k = int i" "i \<le> length xs - 1" "f64_trunc ?k = int i"
    "f64_ceil ?k = int i \<or> f64_ceil ?k = int (Suc i) \<and> Suc i \<le> length xs - 1"
    by (rule rank_position [OF assms(3,4)])
  have ne: "xs \<noteq> []" "length xs \<noteq> 1" using assms(1) by auto
  have unf: "percentile xs p = (if f64_floor ?k = f64_ceil ?k then bindE (py_nth xs (f64_trunc ?k)) (\<lambda>v. Inr (Some v))
      else bindE (py_nth xs (f64_floor ?k)) (\<lambda>vf. bindE (f64_of_int (f64_ceil ?k)) (\<lambda>cw.
        bindE (py_nth xs (f64_ceil ?k)) (\<lambda>vc. bindE (f64_of_int (f64_floor ?k)) (\<lambda>fw.
        Inr (Some (f64_add (f64_mul vf (f64_sub cw ?k)) (f64_mul vc (f64_sub ?k fw)))))))))"
    unfolding percentile_def rank_of_def [symmetric] Let_def if_not_P [OF ne(1)] if_not_P [OF ne(2)] ..
  have lt: "i < length xs" using i(2) assms(1) by linarith
  show ?thesis
  proof (cases "f64_ceil ?k = int i")
    case True
    then show ?thesis unfolding unf by (simp add: i(1,3) lt)
  next
    case False
    with i(4) have c: "f64_ceil ?k = int (Suc i)" "Suc i < length xs" using assms(1) by auto
    have "f64_of_int (int (Suc i)) = Inr (f64_of_nat (Suc i))" "f64_of_int (int i) = Inr (f64_of_nat i)"
      using f64_of_int_exact [of "int (Suc i)"] f64_of_int_exact [of "int i"] c(2) assms(2) by (simp_all del: of_nat_Suc)
    with c lt show ?thesis unfolding unf by (simp add: i(1) interpolate_def del: of_nat_Suc)
  qed
qed

text \<open>The percentile of a report never raises and never leaves the list: for a percentage between 0 and 100 of
  a list that is not empty, it is an element, or the interpolation of two neighbours.\<close>

lemma percentile_in_range:
  assumes "xs \<noteq> []" "length xs < 2 ^ 53" "p \<le> 100"
  shows "\<exists>i < length xs. percentile xs p = Inr (Some (xs ! i)) \<or>
    Suc i < length xs \<and> percentile xs p = Inr (Some (interpolate xs i (rank_of (length xs) p)))"
proof (cases "length xs = 1")
  case True
  then show ?thesis using assms(1) by (intro exI [of _ 0]) (simp add: percentile_def)
next
  case False
  then have "2 \<le> length xs" using assms(1) by (cases xs) (auto simp: Suc_le_eq)
  then show ?thesis
    using rank_magnitude [OF assms(2,3)] percentile_at [OF _ assms(2)] by metis
qed

section \<open>The median\<close>

abbreviation (input) "half_f64 \<equiv> 0x3FE0000000000000 :: 64 word"

lemma msb_power: "msb (2 ^ k) = k"
proof -
  have b: "2 ^ msb (2 ^ k) \<le> (2 :: nat) ^ k" "(2 :: nat) ^ k < 2 ^ Suc (msb (2 ^ k))" using msb_bounds [of "2 ^ k"] by simp_all
  from b(1) have "msb (2 ^ k) \<le> k" by (simp only: power_increasing_iff)
  moreover from b(2) have "k < Suc (msb (2 ^ k))" by (simp only: power_strict_increasing_iff)
  ultimately show ?thesis by simp
qed

lemma round_half: "round_f64 False (2 ^ 1074) (2 ^ 1075) = half_f64"
proof -
  have "ratio_exp (2 ^ 1074) (2 ^ 1075) = - 1" unfolding ratio_exp_def msb_power by simp
  then have q: "ulp_exp (2 ^ 1074) (2 ^ 1075) = - 53" by (simp only: ulp_exp_def) simp
  have "round_sig (2 ^ 1074) (2 ^ 1075) = half_even (2 ^ 52 * 2 ^ 1075) (2 ^ 1075)"
    unfolding round_sig_def q Let_def by simp
  also have "\<dots> = 2 ^ 52" by (simp add: half_even_def)
  finally show ?thesis unfolding round_f64_def q Let_def by (simp add: pack_f64_def)
qed

lemma f64_neg_facts:
  assumes "magnitude w m"
  shows "f64_finite (f64_neg w)" "f64_sign (f64_neg w) = 1" "f64_int (f64_neg w) = - int m"
proof -
  have "f64_exp w < 2048" "f64_mant w < 2 ^ 52" by (simp_all add: f64_exp_def f64_mant_def)
  then have p: "f64_sign (f64_neg w) = 1" "f64_exp (f64_neg w) = f64_exp w" "f64_mant (f64_neg w) = f64_mant w"
    using assms by (simp_all add: f64_neg_def pack_f64_parts magnitude_def)
  have m: "f64_units (f64_neg w) = f64_units w" by (simp only: f64_units_def f64_sig_def p)
  show "f64_finite (f64_neg w)" using assms by (simp add: f64_finite_def magnitude_def p)
  show "f64_sign (f64_neg w) = 1" by (rule p(1))
  show "f64_int (f64_neg w) = - int m" using assms by (simp add: f64_int_def m p magnitude_def)
qed

lemma sub_half:
  assumes "magnitude x a" "magnitude y b" "a = b + 2 ^ 1074"
  shows "f64_sub x y = half_f64"
proof -
  note n = f64_neg_facts [OF assms(2)]
  have x: "f64_finite x" using assms(1) by (simp only: magnitude_def)
  have "f64_sub x y = round_int (f64_sign x = 1 \<and> f64_sign (f64_neg y) = 1) (f64_int x + f64_int (f64_neg y)) (2 ^ 1075)"
    using x n(1) by (simp only: f64_sub_def f64_add_def finite_not_nan simp_thms if_True if_False)
  also have "f64_int x + f64_int (f64_neg y) = int (2 ^ 1074)"
    unfolding n(3) magnitude_int [OF assms(1)] assms(3) by (simp only: of_nat_add)
  also have "round_int z (int (2 ^ 1074)) (2 ^ 1075) = round_f64 False (2 ^ 1074) (2 ^ 1075)" for z
    by (simp add: round_int_def)
  finally show ?thesis unfolding round_half .
qed

lemma rank_median:
  assumes "2 \<le> n" "n < 2 ^ 53"
  shows "magnitude (rank_of n 50) ((n - 1) * 2 ^ 1074)"
proof -
  have h: "magnitude (f64_div (f64_of_nat 50) (f64_of_nat 100)) (1 * 2 ^ (1075 - 1))"
  proof -
    have f: "f64_div (f64_of_nat 50) (f64_of_nat 100) = round_f64 False (50 * 2 ^ 1075) (100 * 2 ^ 1075)"
      by (rule magnitude_div; rule magnitude_of_nat) simp_all
    have e: "50 * 2 ^ 1075 * 2 ^ 1 = 1 * (100 * 2 ^ 1075 :: nat)" by simp
    show ?thesis unfolding f magnitude_def using round_exact [OF _ _ e, of False] by simp
  qed
  have l: "n - 1 < 2 ^ 53" using assms by simp
  have r: "rank_of n 50 = round_f64 False ((n - 1) * 2 ^ 1075 * (1 * 2 ^ (1075 - 1))) (2 ^ 2150)"
    unfolding rank_of_def by (rule magnitude_mul [OF magnitude_of_nat [OF l] h])
  have "(n - 1) * 2 ^ 1075 * (1 * 2 ^ (1075 - 1)) * 2 ^ 1 = (n - 1) * (2 ^ 1075 * (2 ^ (1075 - 1) * 2 ^ 1))"
    by (simp only: mult.assoc mult_1_left)
  also have "\<dots> = (n - 1) * 2 ^ 2150" by (simp only: flip: power_add) simp
  finally have e: "(n - 1) * 2 ^ 1075 * (1 * 2 ^ (1075 - 1)) * 2 ^ 1 = (n - 1) * 2 ^ 2150" .
  have pos: "0 < n - 1" using assms by simp
  have "(1075 :: nat) - 1 = 1074" by simp
  with round_exact [OF pos _ e l, of False] show ?thesis unfolding r magnitude_def by simp
qed

lemma halves:
  fixes X :: int
  assumes "0 < X"
  shows "(2 * j + 1) * X div (2 * X) = j" "- (- ((2 * j + 1) * X) div (2 * X)) = j + 1" "2 * j * X div (2 * X) = j"
    "- (- (2 * j * X) div (2 * X)) = j"
proof -
  have "(2 * j + 1) * X div (2 * X) = (2 * j + 1) div 2" by (rule div_mult_mult2) (use assms in simp)
  then show "(2 * j + 1) * X div (2 * X) = j" by simp
  have "- ((2 * j + 1) * X) div (2 * X) = - (2 * j + 1) div 2"
    unfolding minus_mult_left by (rule div_mult_mult2) (use assms in simp)
  moreover have "- (2 * j + 1) div 2 = - j - 1" by simp
  ultimately show "- (- ((2 * j + 1) * X) div (2 * X)) = j + 1" by simp
  have "2 * j * X div (2 * X) = 2 * j div 2" by (rule div_mult_mult2) (use assms in simp)
  then show "2 * j * X div (2 * X) = j" by simp
  have "- (2 * j * X) div (2 * X) = - (2 * j) div 2"
    unfolding minus_mult_left by (rule div_mult_mult2) (use assms in simp)
  then show "- (- (2 * j * X) div (2 * X)) = j" by simp
qed

text \<open>C34: The median of a report is exact: the middle element of a list of odd length, and otherwise the sum of the
  halves of the middle pair.\<close>

theorem median_exact:
  assumes "xs \<noteq> []" "length xs < 2 ^ 53"
  shows "percentile xs 50 = Inr (Some (if odd (length xs) then xs ! (length xs div 2)
    else f64_add (f64_mul (xs ! (length xs div 2 - 1)) half_f64) (f64_mul (xs ! (length xs div 2)) half_f64)))"
proof (cases "length xs = 1")
  case True
  then show ?thesis using assms(1) by (simp add: percentile_def)
next
  case False
  let ?n = "length xs" and ?k = "rank_of (length xs) 50"
  have n: "2 \<le> ?n" using False assms(1) by (cases xs) (auto simp: Suc_le_eq)
  note m = rank_median [OF n assms(2)]
  have P: "(2 :: int) ^ 1075 = 2 * 2 ^ 1074" "0 < (2 :: int) ^ 1074" by simp_all
  have le: "(?n - 1) * 2 ^ 1074 \<le> (?n - 1) * 2 ^ 1075" by simp
  obtain i where i: "f64_floor ?k = int i" "i < ?n"
    "if f64_ceil ?k = int i then percentile xs 50 = Inr (Some (xs ! i))
     else Suc i < ?n \<and> f64_ceil ?k = int (Suc i) \<and> percentile xs 50 = Inr (Some (interpolate xs i ?k))"
    using percentile_at [OF n assms(2) m le] by blast
  have k: "f64_int ?k = int (?n - 1) * 2 ^ 1074" unfolding magnitude_int [OF m] by (simp only: of_nat_mult of_nat_power of_nat_numeral)
  show ?thesis
  proof (cases "odd ?n")
    case True
    then obtain j where j: "?n = 2 * j + 1" by (rule oddE)
    have n1: "?n - 1 = 2 * j" using j by simp
    have k': "f64_int ?k = 2 * int j * 2 ^ 1074" unfolding k n1 by (simp only: of_nat_mult of_nat_numeral)
    have "f64_floor ?k = int j" "f64_ceil ?k = int j"
      unfolding f64_floor_def f64_ceil_def k' P(1) using halves(3,4) [OF P(2), of "int j"] by (simp_all only:)
    with i have "percentile xs 50 = Inr (Some (xs ! j))" by simp
    with True show ?thesis by (simp add: j)
  next
    case False
    then obtain l where "?n = 2 * l" by (auto elim: evenE)
    with n obtain j where j: "?n = 2 * Suc j" by (cases l) auto
    have n1: "?n - 1 = 2 * j + 1" using j by simp
    have k': "f64_int ?k = (2 * int j + 1) * 2 ^ 1074"
      unfolding k n1 by (simp only: of_nat_mult of_nat_add of_nat_numeral of_nat_1)
    have fc: "f64_floor ?k = int j" "f64_ceil ?k = int j + 1"
      unfolding f64_floor_def f64_ceil_def k' P(1) using halves(1,2) [OF P(2), of "int j"] by (simp_all only:)
    with i have p: "percentile xs 50 = Inr (Some (interpolate xs j ?k))" by (simp split: if_splits)
    have b: "Suc j < 2 ^ 53" "j < 2 ^ 53" using assms(2) j by simp_all
    have mk: "magnitude ?k ((2 * j + 1) * 2 ^ 1074)" using m unfolding n1 .
    have X: "(2 :: nat) ^ 1075 = 2 * 2 ^ 1074" by simp
    have g: "Suc j * (2 * y) = (2 * j + 1) * y + y" "(2 * j + 1) * y = j * (2 * y) + y" for y :: nat
      by (simp_all add: algebra_simps)
    have "Suc j * 2 ^ 1075 = (2 * j + 1) * 2 ^ 1074 + (2 :: nat) ^ 1074" unfolding X by (rule g(1))
    then have s1: "f64_sub (f64_of_nat (Suc j)) ?k = half_f64" by (rule sub_half [OF magnitude_of_nat [OF b(1)] mk])
    have "(2 * j + 1) * 2 ^ 1074 = j * 2 ^ 1075 + (2 :: nat) ^ 1074" unfolding X by (rule g(2))
    then have s2: "f64_sub ?k (f64_of_nat j) = half_f64" by (rule sub_half [OF mk magnitude_of_nat [OF b(2)]])
    show ?thesis using False p unfolding interpolate_def s1 s2 by (simp add: j)
  qed
qed

theorem median_exact_witness:
  "percentile [0x3FF0000000000000, 0x4000000000000000, 0x4008000000000000] 50 = Inr (Some 0x4000000000000000) \<and>
   percentile [0x3FF0000000000000, 0x4008000000000000] 50 =
     Inr (Some (f64_add (f64_mul 0x3FF0000000000000 half_f64) (f64_mul 0x4008000000000000 half_f64)))"
  using median_exact [of "[0x3FF0000000000000, 0x4000000000000000, 0x4008000000000000]"]
    median_exact [of "[0x3FF0000000000000, 0x4008000000000000]"] by simp

end
