(* ===== verification/Perf_Report_Props.thy ===== *)
theory Perf_Report_Props imports Perf_Percentile Dtj_Index_Props "HOL-Library.Multiset" begin

text \<open>
  The reports count what is there: a report of a loaded session has one row per group of duration-like numbers,
  with their number, their median and their maximum; and the report over an index is the report over the session.
\<close>

section \<open>Buckets\<close>

definition values_of :: "'k \<Rightarrow> ('k \<times> 'v) list \<Rightarrow> 'v list" where
  "values_of k xs = map snd (filter (\<lambda>p. fst p = k) xs)"

definition group_all :: "('k \<times> 'v) list \<Rightarrow> ('k \<times> 'v list) list \<Rightarrow> ('k \<times> 'v list) list" where
  "group_all xs bs = fold (\<lambda>p. bucket_add (fst p) (snd p)) xs bs"

lemma group_all_simps [simp]:
  "group_all [] bs = bs" "group_all (p # xs) bs = group_all xs (bucket_add (fst p) (snd p) bs)"
  "group_all (xs @ ys) bs = group_all ys (group_all xs bs)"
  by (simp_all add: group_all_def)

lemma values_of_simps [simp]:
  "values_of k [] = []" "values_of k (p # xs) = (if fst p = k then snd p # values_of k xs else values_of k xs)"
  by (simp_all add: values_of_def)

lemma values_of_empty: "values_of k xs = [] \<longleftrightarrow> k \<notin> fst ` set xs"
  by (induction xs) auto

lemma values_of_sub: "v \<in> set (values_of k xs) \<Longrightarrow> (k, v) \<in> set xs"
  by (auto simp: values_of_def)

lemma length_values_of: "length (values_of k xs) \<le> length xs"
  by (simp add: values_of_def)

lemma bucket_add_keys [simp]: "fst ` set (bucket_add k v bs) = insert k (fst ` set bs)"
  by (induction k v bs rule: bucket_add.induct) auto

lemma bucket_add_distinct: "distinct (map fst bs) \<Longrightarrow> distinct (map fst (bucket_add k v bs))"
proof (induction k v bs rule: bucket_add.induct)
  case (2 k v k' vs bs)
  then show ?case using bucket_add_keys [of k v bs] by auto
qed simp

lemma bucket_add_lookup:
  "map_of (bucket_add k v bs) k' =
     (if k' = k then Some ((case map_of bs k of None \<Rightarrow> [] | Some vs \<Rightarrow> vs) @ [v]) else map_of bs k')"
  by (induction k v bs rule: bucket_add.induct) auto

lemma group_distinct: "distinct (map fst bs) \<Longrightarrow> distinct (map fst (group_all xs bs))"
  by (induction xs arbitrary: bs) (simp_all add: bucket_add_distinct)

lemma group_lookup:
  "map_of (group_all xs bs) k =
     (case map_of bs k of Some vs \<Rightarrow> Some (vs @ values_of k xs)
      | None \<Rightarrow> if values_of k xs = [] then None else Some (values_of k xs))"
  by (induction xs arbitrary: bs) (auto simp: bucket_add_lookup split: option.split)

lemma group_empty:
  "distinct (map fst (group_all xs []))" "fst ` set (group_all xs []) = fst ` set xs"
  "(k, vs) \<in> set (group_all xs []) \<Longrightarrow> vs = values_of k xs \<and> vs \<noteq> []"
proof -
  show d: "distinct (map fst (group_all xs []))" by (rule group_distinct) simp
  have l: "map_of (group_all xs []) k = (if values_of k xs = [] then None else Some (values_of k xs))" for k
    by (simp add: group_lookup)
  have "k \<in> fst ` set (group_all xs []) \<longleftrightarrow> map_of (group_all xs []) k \<noteq> None" for k by (simp add: map_of_eq_None_iff)
  then have "k \<in> fst ` set (group_all xs []) \<longleftrightarrow> k \<in> fst ` set xs" for k by (simp add: l values_of_empty)
  then show "fst ` set (group_all xs []) = fst ` set xs" by (rule set_eqI)
  show "vs = values_of k xs \<and> vs \<noteq> []" if "(k, vs) \<in> set (group_all xs [])"
    using map_of_is_SomeI [OF d that] by (auto simp: l split: if_splits)
qed

section \<open>The numbers of a session\<close>

definition number_key :: "runtime \<Rightarrow> jdict \<Rightarrow> pystr \<Rightarrow> bucket_key" where
  "number_key r event name =
     (py_str r (or_else (getj event (u ''domain'')) (JStr [])), py_str r (or_else (getj event (u ''category'')) (JStr [])),
      py_str r (or_else (getj event (u ''event_name'')) (JStr [])), name)"

text \<open>The number a payload field contributes: its name is not empty and of a duration, its type numeric.\<close>

definition entry_numbers :: "runtime \<Rightarrow> pystr option \<Rightarrow> jdict \<Rightarrow> json \<Rightarrow> (bucket_key \<times> 64 word) list" where
  "entry_numbers r field event item =
     (let d = dict_val item; name = str_val (getj d (u ''name'')); val = getj d (u ''value'') in
      if name \<noteq> [] \<and> getj d (u ''type'') \<in> JStr ` set SCALAR_NUMERIC_TYPES \<and> is_duration_field name val \<and>
         (field = None \<or> field = Some name)
      then (case py_float val of Inr w \<Rightarrow> [(number_key r event name, w)] | Inl e \<Rightarrow> []) else [])"

definition event_numbers :: "runtime \<Rightarrow> pystr option \<Rightarrow> jdict \<Rightarrow> (bucket_key \<times> 64 word) list" where
  "event_numbers r field event = concat (map (entry_numbers r field event) (list_val (getj event (u ''payload''))))"

definition session_numbers :: "runtime \<Rightarrow> pystr option \<Rightarrow> jdict list \<Rightarrow> (bucket_key \<times> 64 word) list" where
  "session_numbers r field events = concat (map (event_numbers r field) events)"

lemma scalar_types_numeric: "t \<in> set numeric_types \<longleftrightarrow> u t \<in> set SCALAR_NUMERIC_TYPES"
  by (simp add: numeric_types_def SCALAR_NUMERIC_TYPES_def)

lemma in_str_set_str: "in_str_set (JStr s) names = Inr (s \<in> set names)"
  by (auto simp: in_str_set_def hashable_def list_ex_iff)

lemma number_float:
  assumes "(\<exists>i. v = JInt i \<and> \<bar>i\<bar> < 2 ^ 64) \<or> (\<exists>w. v = JFloat w \<and> f64_finite w) \<or> v = JNull" "is_number v"
  obtains w where "py_float v = Inr w" "f64_finite w"
proof -
  have i: "\<bar>i\<bar> < 2 ^ 64 \<Longrightarrow> \<exists>w. f64_of_int i = Inr w \<and> f64_finite w" for i by (rule f64_of_int_64) auto
  show thesis using assms that by (auto simp: py_float_def is_number_def dest!: i [simplified])
qed

lemma typed_entry_group:
  assumes "field_obj item"
  shows "typed_entry r event field item bs = Inr (group_all (entry_numbers r field event item) bs) \<and>
    (\<forall>p \<in> set (entry_numbers r field event item). f64_finite (snd p))"
proof -
  from assms obtain d t where d: "item = JObj d" "is_str (getj d (u ''name''))" "getj d (u ''type'') = JStr (u t)"
    "t \<in> set numeric_types \<longrightarrow> (\<exists>i. getj d (u ''value'') = JInt i \<and> \<bar>i\<bar> < 2 ^ 64) \<or>
        (\<exists>w. getj d (u ''value'') = JFloat w \<and> f64_finite w) \<or> getj d (u ''value'') = JNull"
    unfolding field_obj_def by blast
  let ?v = "getj d (u ''value'')" and ?name = "str_val (getj d (u ''name''))"
  show ?thesis
  proof (cases "u t \<in> set SCALAR_NUMERIC_TYPES \<and> is_number ?v")
    case True
    then obtain w where w: "py_float ?v = Inr w" "f64_finite w"
      using number_float d(4) unfolding scalar_types_numeric by blast
    have t: "in_str_set (getj d (u ''type'')) SCALAR_NUMERIC_TYPES = Inr True"
      "getj d (u ''type'') \<in> JStr ` set SCALAR_NUMERIC_TYPES" using True d(3) by (simp_all add: in_str_set_str)
    have typed: "typed_entry r event field item bs =
        (if ?name = [] \<or> field \<noteq> None \<and> field \<noteq> Some ?name \<or> \<not> is_duration_field ?name ?v then Inr bs
         else Inr (bucket_add (number_key r event ?name) w bs))"
      using True d(2) w(1) by (cases field) (simp_all add: typed_entry_def d(1) t(1) number_key_def Let_def)
    have spec: "entry_numbers r field event item =
        (if ?name = [] \<or> field \<noteq> None \<and> field \<noteq> Some ?name \<or> \<not> is_duration_field ?name ?v then []
         else [(number_key r event ?name, w)])"
      unfolding entry_numbers_def Let_def d(1) dict_val.simps using t(2) w(1) by simp
    show ?thesis unfolding typed spec using w(2) by (cases field) simp_all
  next
    case False
    then have "\<not> (u t \<in> set SCALAR_NUMERIC_TYPES \<and> is_duration_field ?name ?v)" by (auto simp: is_duration_field_def)
    then have f: "\<not> (getj d (u ''type'') \<in> JStr ` set SCALAR_NUMERIC_TYPES \<and> is_duration_field ?name ?v)"
      using d(3) by auto
    have none: "entry_numbers r field event item = []"
      unfolding entry_numbers_def Let_def d(1) dict_val.simps by (rule if_not_P) (use f in blast)
    have "typed_entry r event field item bs = Inr bs"
    proof (cases "u t \<in> set SCALAR_NUMERIC_TYPES")
      case True
      with False have "\<not> is_number ?v" by blast
      then show ?thesis by (simp add: typed_entry_def d(1,3) Let_def in_str_set_str)
    next
      case False
      then show ?thesis by (simp add: typed_entry_def d(1,3) Let_def in_str_set_str)
    qed
    then show ?thesis by (simp add: none)
  qed
qed

lemma foldE_group:
  "\<forall>x \<in> set xs. \<forall>bs. f x bs = Inr (group_all (g x) bs) \<Longrightarrow> foldE f xs bs = Inr (group_all (concat (map g xs)) bs)"
  by (induction xs arbitrary: bs) auto

lemma typed_event_group:
  assumes "event_obj n e"
  shows "typed_event r field (dict_val e) bs = Inr (group_all (event_numbers r field (dict_val e)) bs) \<and>
    (\<forall>p \<in> set (event_numbers r field (dict_val e)). f64_finite (snd p))"
proof -
  from assms obtain d fs where d: "e = JObj d" "getj d (u ''payload'') = JList fs" "\<forall>f \<in> set fs. field_obj f"
    by (auto simp: event_obj_def)
  have "foldE (typed_entry r d field) fs bs = Inr (group_all (concat (map (entry_numbers r field d) fs)) bs)"
    by (rule foldE_group) (use d(3) typed_entry_group in blast)
  moreover have "\<forall>p \<in> set (concat (map (entry_numbers r field d) fs)). f64_finite (snd p)"
    using d(3) typed_entry_group unfolding set_concat set_map UN_iff by blast
  ultimately show ?thesis using d(1,2) by (simp add: typed_event_def event_numbers_def)
qed

lemma typed_session_group:
  assumes "\<forall>e \<in> set es. \<exists>n. event_obj n e"
  shows "foldE (typed_event r field) (map dict_val es) bs = Inr (group_all (session_numbers r field (map dict_val es)) bs)"
    "\<forall>p \<in> set (session_numbers r field (map dict_val es)). f64_finite (snd p)"
proof -
  have e: "\<exists>e \<in> set es. x = dict_val e" if "x \<in> set (map dict_val es)" for x using that by auto
  show "foldE (typed_event r field) (map dict_val es) bs = Inr (group_all (session_numbers r field (map dict_val es)) bs)"
    unfolding session_numbers_def by (rule foldE_group) (use assms typed_event_group in auto)
  show "\<forall>p \<in> set (session_numbers r field (map dict_val es)). f64_finite (snd p)"
    using assms typed_event_group unfolding session_numbers_def by fastforce
qed

section \<open>Metrics\<close>

definition row_key :: "jdict \<Rightarrow> bucket_key" where
  "row_key row = (row_str ''domain'' row, row_str ''category'' row, row_str ''eventName'' row, row_str ''field'' row)"

text \<open>A row that counts the values of its key: their number, their median and a greatest one.\<close>

definition exact_row :: "(bucket_key \<times> 64 word) list \<Rightarrow> jdict \<Rightarrow> bool" where
  "exact_row nums row =
     (let ws = values_of (row_key row) nums in
      getj row (u ''count'') = jnat (length ws) \<and>
      (\<exists>w \<in> set ws. getj row (u ''max'') = JFloat w \<and> (\<forall>v \<in> set ws. f64_int v \<le> f64_int w)) \<and>
      (\<exists>m. percentile (sort_key f64_int ws) 50 = Inr (Some m) \<and> getj row (u ''p50'') = JFloat m))"

lemma percentile_total:
  assumes "xs \<noteq> []" "length xs < 2 ^ 53" "p \<le> 100"
  obtains m where "percentile xs p = Inr (Some m)"
  using percentile_in_range [OF assms] by blast

lemma last_sorted_key:
  assumes "xs \<noteq> []"
  shows "last (sort_key f xs) \<in> set xs" "\<forall>v \<in> set xs. f v \<le> f (last (sort_key f xs))"
proof -
  let ?s = "sort_key f xs"
  have ne: "?s \<noteq> []" using assms by (metis length_0_conv length_sort)
  show "last ?s \<in> set xs" using last_in_set [OF ne] by simp
  have "f v \<le> f (last ?s)" if v: "v \<in> set xs" for v
  proof -
    obtain i where i: "i < length ?s" "?s ! i = v" using v by (metis in_set_conv_nth set_sort)
    have "map f ?s ! i \<le> map f ?s ! (length ?s - 1)"
      by (rule sorted_nth_mono [OF sorted_sort_key]) (use i in simp_all)
    with i ne show ?thesis by (simp add: last_conv_nth)
  qed
  then show "\<forall>v \<in> set xs. f v \<le> f (last ?s)" by blast
qed

lemma metric_row:
  assumes "ws = values_of k nums" "ws \<noteq> []" "\<forall>p \<in> set nums. f64_finite (snd p)" "length nums < 2 ^ 53"
  shows "\<exists>row. metric nan_order (k, ws) = Inr row \<and> row_key row = k \<and> exact_row nums row"
proof -
  obtain dm cat ev fld where k: "k = (dm, cat, ev, fld)" by (cases k) auto
  have "\<not> list_ex f64_is_nan ws"
    using assms(3) values_of_sub [of _ k nums] finite_not_nan unfolding assms(1) list_ex_iff by fastforce
  then have s: "sorted_floats nan_order ws = sort_key f64_int ws" by (simp add: sorted_floats_def)
  have ne: "sort_key f64_int ws \<noteq> []" using assms(2) by (metis length_0_conv length_sort)
  have len: "length (sort_key f64_int ws) < 2 ^ 53" using assms(1,4) length_values_of [of k nums] by simp
  obtain a where a: "percentile (sort_key f64_int ws) 50 = Inr (Some a)" by (rule percentile_total [OF ne len, of 50]) simp_all
  obtain b where b: "percentile (sort_key f64_int ws) 95 = Inr (Some b)" by (rule percentile_total [OF ne len, of 95]) simp_all
  note ab = a b
  let ?row = "[(u ''domain'', JStr dm), (u ''category'', JStr cat), (u ''eventName'', JStr ev), (u ''field'', JStr fld),
    (u ''count'', jnat (length ws)), (u ''p50'', JFloat a), (u ''p95'', JFloat b), (u ''max'', JFloat (last (sort_key f64_int ws)))]"
  have m: "metric nan_order (k, ws) = Inr ?row" by (simp add: metric_def k s ab ne Let_def opt_float_def)
  have key: "row_key ?row = k" by (simp add: row_key_def row_str_def k)
  have "exact_row nums ?row"
    unfolding exact_row_def Let_def key assms(1) [symmetric] using ab(1) last_sorted_key [OF assms(2), of f64_int] by simp
  with m key show ?thesis by blast
qed

lemma mapE_list:
  "\<forall>x \<in> set xs. \<exists>y. f x = Inr y \<and> g y = h x \<and> P y \<Longrightarrow> \<exists>ys. mapE f xs = Inr ys \<and> map g ys = map h xs \<and> (\<forall>y \<in> set ys. P y)"
proof (induction xs)
  case (Cons x xs)
  then obtain y ys where "f x = Inr y" "g y = h x" "P y" "mapE f xs = Inr ys" "map g ys = map h xs" "\<forall>y \<in> set ys. P y" by auto
  then show ?case by (intro exI [of _ "y # ys"]) simp
qed simp

text \<open>The metrics of a list of numbers: one exact row for each key, most frequent first.\<close>

definition metrics_of :: "(bucket_key \<times> 64 word) list \<Rightarrow> json \<Rightarrow> bool" where
  "metrics_of nums j =
     (\<exists>rows. j = JList (map JObj rows) \<and> distinct (map row_key rows) \<and> row_key ` set rows = fst ` set nums \<and>
        (\<forall>row \<in> set rows. exact_row nums row) \<and> sorted (map (\<lambda>r. (count_key r, row_key r)) rows))"

lemma sorted_metrics_exact:
  assumes "\<forall>p \<in> set nums. f64_finite (snd p)" "length nums < 2 ^ 53"
  shows "\<exists>j. sorted_metrics nan_order (group_all nums []) = Inr j \<and> metrics_of nums j"
proof -
  let ?bs = "group_all nums []"
  have "\<forall>b \<in> set ?bs. \<exists>row. metric nan_order b = Inr row \<and> row_key row = fst b \<and> exact_row nums row"
  proof
    fix b assume b: "b \<in> set ?bs"
    then have "(fst b, snd b) \<in> set ?bs" by simp
    from group_empty(3) [OF this] have "snd b = values_of (fst b) nums \<and> snd b \<noteq> []" .
    then show "\<exists>row. metric nan_order b = Inr row \<and> row_key row = fst b \<and> exact_row nums row"
      using metric_row [of "snd b" "fst b" nums nan_order] assms unfolding prod.collapse by blast
  qed
  from mapE_list [OF this] obtain rows where rows: "mapE (metric nan_order) ?bs = Inr rows" "map row_key rows = map fst ?bs"
    "\<forall>row \<in> set rows. exact_row nums row" by blast
  define out where "out = sort_key (\<lambda>r. (count_key r, row_key r)) rows"
  have "sorted_metrics nan_order ?bs = Inr (JList (map JObj out))"
    by (simp add: sorted_metrics_def rows(1) out_def row_key_def)
  moreover have "metrics_of nums (JList (map JObj out))"
  proof -
    have "mset (map row_key out) = mset (map fst ?bs)" unfolding rows(2) [symmetric] out_def by (simp only: mset_map mset_sort)
    then have d: "distinct (map row_key out)" and s: "set (map row_key out) = set (map fst ?bs)"
      using group_empty(1) [of nums] mset_eq_imp_distinct_iff mset_eq_setD by blast+
    have "row_key ` set out = fst ` set nums" using s group_empty(2) [of nums] by simp
    moreover have "\<forall>row \<in> set out. exact_row nums row" using rows(3) by (simp add: out_def)
    moreover have "sorted (map (\<lambda>r. (count_key r, row_key r)) out)" unfolding out_def by (rule sorted_sort_key)
    ultimately show ?thesis using d unfolding metrics_of_def by blast
  qed
  ultimately show ?thesis by blast
qed

section \<open>The report of a session\<close>

definition by_names :: "pystr option \<Rightarrow> pystr option \<Rightarrow> filters" where
  "by_names domain category = no_filters\<lparr>f_domain := domain, f_category := category\<rparr>"

lemma matched_dicts:
  "wf_events evs \<Longrightarrow>
   filter (event_matches_native_filters r f) (map dict_val evs) = map dict_val (matched_events r f evs)"
  by (auto simp: matched_events_def filter_map o_def wf_events_dict intro!: arg_cong [of _ _ "map dict_val"] filter_cong)

lemma matched_objs: "wf_events evs \<Longrightarrow> \<forall>e \<in> set (matched_events r f evs). \<exists>n. event_obj n e"
  by (auto simp: matched_events_def wf_events_def in_set_conv_nth)

text \<open>The two loops agree: the one of the session's report is the one of the index's report without a field.\<close>

lemma stats_entry_typed: "stats_entry r event item bs = typed_entry r event None item bs"
  by (auto simp: stats_entry_def typed_entry_def Let_def is_number_def split: sum.splits)

lemma stats_items_typed: "stats_items r event items bs = foldE (typed_entry r event None) items bs"
  by (induction items arbitrary: bs) (auto simp: stats_entry_typed split: sum.splits)

lemma stats_buckets_typed: "stats_buckets r events bs = foldE (typed_event r None) events bs"
  by (induction events arbitrary: bs) (auto simp: typed_event_def stats_items_typed split: sum.splits)

lemma stats_loaded:
  assumes "read_session_dtj (native h) p = Inr d" "is_ok d"
    and "evs = map dict_val (matched_events (rt h) (by_names domain category) (events_in d))"
  shows "stats_report_dtj nan_order (native h) p domain category =
    bindE (sorted_metrics nan_order (group_all (session_numbers (rt h) None evs) [])) (\<lambda>metrics.
      Inr (base_result (expanduser h p) d @
         [(u ''events_scanned'', jnat (length evs)),
          (u ''counts'', JObj [(u ''by_domain'', name_counts (rt h) ''domain'' evs),
             (u ''by_category'', name_counts (rt h) ''category'' evs),
             (u ''by_event_name'', name_counts (rt h) ''event_name'' evs),
             (u ''by_severity'', name_counts (rt h) ''severity'' evs)]),
          (u ''metrics'', metrics)]))"
proof -
  have w: "wf_events (events_in d)" using native_source.loaded_events [OF assms(1,2)] by blast
  have e: "event_dicts d = Inr (map dict_val (events_in d))"
    by (simp add: event_dicts_def native_source.loaded_iter [OF assms(1,2)])
  show ?thesis
    unfolding stats_report_dtj_def with_loadedE_def assms(1) stats_result_def stats_buckets_typed e bindE.simps Let_def
      by_names_def [symmetric] matched_dicts [OF w] typed_session_group(1) [OF matched_objs [OF w]] assms(3)
    using assms(2) by simp
qed

text \<open>C32: The report of a loaded session counts what is there. It does not raise, its metrics have one row for each
  group of duration-like numbers (domain, category, event name and field) among the events that match, with how
  many there are, their median and their maximum, the largest groups first.\<close>

theorem stats_report_exact:
  assumes "read_session_dtj (native h) p = Inr d" "is_ok d"
    and "evs = matched_events (rt h) (by_names domain category) (events_in d)"
    and "nums = session_numbers (rt h) None (map dict_val evs)" "length nums < 2 ^ 53"
  shows "\<exists>res. stats_report_dtj nan_order (native h) p domain category = Inr res \<and> is_ok res \<and>
    getj res (u ''events_scanned'') = jnat (length evs) \<and> metrics_of nums (getj res (u ''metrics''))"
proof -
  have w: "wf_events (events_in d)" using native_source.loaded_events [OF assms(1,2)] by blast
  have "\<forall>p \<in> set nums. f64_finite (snd p)"
    unfolding assms(3,4) by (rule typed_session_group(2) [OF matched_objs [OF w]])
  from sorted_metrics_exact [OF this assms(5)] obtain j where
    j: "sorted_metrics nan_order (group_all nums []) = Inr j" "metrics_of nums j" by blast
  then show ?thesis
    unfolding stats_loaded [OF assms(1,2) refl] assms(3,4) by (simp add: is_ok_def base_result_def)
qed

lemma sample_numbers:
  "session_numbers (rt sample_host) None (map dict_val (matched_events (rt sample_host) f (events_in sample_projection))) = []"
proof -
  have "entry_numbers r field event (field_to_json d (fld :: pfield)) = []" if "fld_value fld = VBool True" for r field event d fld
    using that by (simp add: entry_numbers_def field_to_json_def is_duration_field_def is_number_def Let_def)
  then have "event_numbers r None (dict_val (event_to_json d (sample_event n))) = []" for r d n
    by (simp add: event_numbers_def event_to_json_def sample_event_def)
  then have "\<forall>e \<in> set (events_in sample_projection). event_numbers (rt sample_host) None (dict_val e) = []"
    unfolding sample_events by simp
  then show ?thesis by (simp add: session_numbers_def matched_events_def)
qed

theorem stats_report_exact_witness:
  "\<exists>res. stats_report_dtj id (native sample_host) sample_path None None = Inr res \<and> metrics_of [] (getj res (u ''metrics''))"
proof -
  have "length (session_numbers (rt sample_host) None (map dict_val
      (matched_events (rt sample_host) (by_names None None) (events_in sample_projection)))) < 2 ^ 53"
    unfolding sample_numbers by simp
  from stats_report_exact [OF sample_load sample_ok refl refl this, of id] show ?thesis unfolding sample_numbers by blast
qed

section \<open>The report over an index\<close>

text \<open>The index compares categories exactly, the session without regard to case. They select the same events when no
  event has a category that differs from the one asked for in case only.\<close>

definition case_consistent :: "runtime \<Rightarrow> pystr option \<Rightarrow> json list \<Rightarrow> bool" where
  "case_consistent r category evs \<longleftrightarrow>
     (\<forall>c. category = Some c \<longrightarrow> (\<forall>e \<in> set evs. \<forall>n. getj (dict_val e) (u ''category'') = JStr n \<longrightarrow> casefold r n = casefold r c \<longrightarrow> n = c))"

lemma filter_events_wf:
  assumes "wf_events evs" "case_consistent r category evs"
  shows "filter_events r evs domain category None None None = Inr (matched_events r (by_names domain category) evs)"
proof -
  let ?out = "matched_events r (by_names domain category) evs"
  have cat: "eq_filter category (getj (dict_val e) (u ''category'')) \<longleftrightarrow>
      \<not> (category \<noteq> None \<and> (\<not> is_str (getj (dict_val e) (u ''category'')) \<or>
        casefold r (str_val (getj (dict_val e) (u ''category''))) \<noteq> casefold r (the category)))"
    if "e \<in> set evs" for e
  proof (cases "\<exists>c n. category = Some c \<and> getj (dict_val e) (u ''category'') = JStr n")
    case True
    then obtain c n where cn: "category = Some c" "getj (dict_val e) (u ''category'') = JStr n" by blast
    with assms(2) that have "casefold r n = casefold r c \<longrightarrow> n = c" unfolding case_consistent_def by blast
    then have "casefold r n = casefold r c \<longleftrightarrow> n = c" by blast
    then show ?thesis by (simp add: eq_filter_def cn)
  next
    case False
    then show ?thesis
      by (cases category; cases "getj (dict_val e) (u ''category'')") (simp_all add: eq_filter_def)
  qed
  have same: "filter (index_filter domain category None None None) evs = ?out"
    unfolding matched_events_def
  proof (rule filter_cong [OF refl])
    fix e assume e: "e \<in> set evs"
    show "index_filter domain category None None None e = (is_dict e \<and> event_matches_native_filters r (by_names domain category) (dict_val e))"
      unfolding index_filter_def cat [OF e] 
      by (auto simp: eq_filter_def event_matches_native_filters_def by_names_def no_filters_def Let_def split: option.split)
  qed
  have keys: "mapE (\<lambda>e. py_int r (or_else (getj (dict_val e) (u ''event_sequence'')) (JInt 0))) es = Inr (map event_seq es)"
    if "\<forall>e \<in> set es. \<exists>n. event_obj n e" for es
    using that by (induction es) (auto simp: event_obj_def event_seq_def or_else_def)
  have "sorted (map fst (zip (map event_seq ?out) ?out))"
    using matched_events_ascending [OF assms(1), of r "by_names domain category"]
    by (simp add: comp_def strict_sorted_imp_sorted)
  then have "sort_key fst (zip (map event_seq ?out) ?out) = zip (map event_seq ?out) ?out" by (rule sort_key_id_if_sorted)
  then show ?thesis
    unfolding filter_events_def same Let_def keys [OF matched_objs [OF assms(1)]] bindE.simps by simp
qed

lemma indexed_events:
  assumes "\<forall>e \<in> set es. is_dict e" "foldE (typed_event r field) (map dict_val es) bs = Inr out"
  shows "foldE (indexed_event r field) es bs = Inr out"
  using assms by (induction es arbitrary: bs) (auto simp: indexed_event_def bindE_Inr_iff)

definition report_view :: "jdict \<Rightarrow> json \<times> json \<times> json" where
  "report_view res = (getj res (u ''ok''), getj res (u ''events_scanned''), getj res (u ''metrics''))"

text \<open>C33: The performance report over an index is the report over the session. After a successful build, while the
  session file keeps its content and time stamp, both raise the same exception or return the same number of events and
  the same metrics, for any domain and category. The session's report has no filter for a field, so none is given to the
  index's. The categories must not differ in case only: the index compares them exactly, the session without regard
  to case.\<close>

theorem index_report_agrees:
  assumes "build_index_atomic env (native h) later (read_session_dtj (native h)) session index = (Inr out, f')" "is_ok out"
    and "expanduser h session = session" "expanduser h index = index" "fs h session = File b m" "later session = File b m"
    and "session \<noteq> index" "session \<noteq> tmp_name env" "tmp_name env \<noteq> index" "session \<notin> set (ancestors h index)"
    and "m \<noteq> 0" "\<forall>d doc. read_session_dtj (native h) session = Inr d \<longrightarrow>
      build_document (rt h) (file_identity h session b m) d (events_in d) = Inr doc \<longrightarrow> json_faithful (rt h) (JObj doc)"
    and "\<forall>d. read_session_dtj (native h) session = Inr d \<longrightarrow> case_consistent (rt h) category (events_in d)"
    and "h' = h\<lparr>fs := f'\<rparr>"
  shows "bindE (performance_report_dtj_index nan_order (native h') session index domain category None) (\<lambda>o'. Inr (report_view o')) =
    bindE (stats_report_dtj nan_order (native h') session domain category) (\<lambda>o'. Inr (report_view o'))"
proof -
  obtain d doc body where d: "read_session_dtj (native h) session = Inr d" "is_ok d" "128 \<le> length b"
    and doc: "build_document (rt h) (file_identity h session b m) d (events_in d) = Inr doc" "json_dumps (rt h) (JObj doc) = Inr body"
    and f': "f' index = File (body @ [10]) (now_ns env)" "f' session = File b m"
    using built_index [OF assms(1,2,3,5-10)] by metis
  have ld: "json_loads (rt h) (body @ [10]) = Parsed (JObj doc)" using assms(12) d doc by (auto simp: json_faithful_def)
  have r: "read_session_dtj (native h') session = Inr d"
    using d read_session_local [OF assms(3), of f'] f' assms(5,14) by simp
  have w: "wf_events (events_in d)" using native_source.loaded_events [OF r d(2)] by blast
  have cc: "case_consistent (rt h) category (events_in d)" using assms(13) d(1) by blast
  have "b \<noteq> []" using d(3) by auto
  then have op: "open_validated_index (native h') session index = Inr (Inr doc)"
    using open_written [of "native h'" session b m d "events_in d" doc "body @ [10]" index "now_ns env" b m] doc ld f' assms(11,14) d(3)
    by (simp add: file_identity_def)
  have ev: "iter_events doc = Inr (events_in d)"
    using build_document_fields(6) [OF doc(1)] by (cases "events_in d") (simp_all add: iter_events_def or_else_def)
  let ?es = "matched_events (rt h) (by_names domain category) (events_in d)"
  have dicts: "\<forall>e \<in> set ?es. is_dict e" by (simp add: matched_events_def)
  note g = typed_session_group(1) [OF matched_objs [OF w], of "rt h" None "rt h" "by_names domain category" "[]"]
  show ?thesis
    unfolding stats_loaded [OF r d(2) refl] performance_report_dtj_index_def load_validated_index_events_def
    using op filter_events_wf [OF w cc] indexed_events [OF dicts g] assms(3,4,14)
    by (simp add: ev Let_def is_ok_def base_result_def report_view_def)
      (cases "sorted_metrics nan_order (group_all (session_numbers (rt h) None (map dict_val ?es)) [])"; simp add: report_view_def)
qed

theorem index_report_agrees_witness:
  "\<exists>f'. bindE (performance_report_dtj_index id (native (index_host\<lparr>fs := f'\<rparr>)) sample_path sample_index None (Some (u ''c'')) None)
       (\<lambda>o'. Inr (report_view o')) =
     bindE (stats_report_dtj id (native (index_host\<lparr>fs := f'\<rparr>)) sample_path None (Some (u ''c''))) (\<lambda>o'. Inr (report_view o'))"
proof -
  obtain out f' where b: "build_index_atomic sample_env (native index_host) (fs sample_host) (read_session_dtj (native index_host))
      sample_path sample_index = (Inr out, f')" "is_ok out" by (rule sample_build)
  have "case_consistent (rt index_host) (Some (u ''c'')) (events_in d)" for d
    by (simp add: case_consistent_def sample_runtime_def)
  then show ?thesis
    using index_report_agrees [OF b _ _ _ _ sample_names _ _ sample_codec _ refl, of "Some (u ''c'')"]
    by (auto simp: sample_fs)
qed

end
