(* ===== verification/Dtj_Analytics.thy ===== *)
theory Dtj_Analytics imports Py_Float Dtj_Analyze begin

text \<open>
  The analytics of \<open>dtj_analytics.py\<close> on entities, fields, templates and snapshots. The Unicode classes of the
  regular expressions and the order in which Python iterates over a set of strings are parameters.
\<close>

abbreviation (input) "MAX_WINDOW \<equiv> 500 :: int"
abbreviation (input) "MAX_MAX_LINES \<equiv> 500 :: int"

section \<open>Arguments\<close>

definition validate_window :: "json \<Rightarrow> jdict option" where
  "validate_window v =
     (if is_bool v \<or> \<not> is_int v \<or> int_val v < 0 \<or> MAX_WINDOW < int_val v
      then Some [(u ''kind'', JStr (u ''InvalidLimit'')),
        (u ''message'', JStr (u ''window must be an integer in 0..500'')), (u ''max'', JInt MAX_WINDOW)]
      else None)"

text \<open>\<open>isinstance(v, str) and v\<close>\<close>

definition nonempty_string :: "json \<Rightarrow> bool" where
  "nonempty_string v = (is_str v \<and> str_val v \<noteq> [])"

definition empty_string_error :: "string \<Rightarrow> jdict" where
  "empty_string_error name =
     [(u ''kind'', JStr (u ''InvalidQuery'')), (u ''message'', JStr (u name @ u '' must be a non-empty string''))]"

definition with_session :: "host \<Rightarrow> pystr \<Rightarrow> jdict option list \<Rightarrow> (pystr \<Rightarrow> jdict \<Rightarrow> py_exn + jdict) \<Rightarrow> py_exn + jdict" where
  "with_session h p checks answer =
     (case find (\<lambda>c. c \<noteq> None) checks of
        Some (Some e) \<Rightarrow> Inr (fail_at (expanduser h p) e)
      | _ \<Rightarrow> with_loadedE (read_session_dtj h p) (answer (expanduser h p)))"

definition since_scope :: "bool \<Rightarrow> pystr option \<Rightarrow> scope" where
  "since_scope since category = whole\<lparr>since_last_clear := since, in_category := category\<rparr>"

definition lower_in :: "runtime \<Rightarrow> pystr \<Rightarrow> pystr \<Rightarrow> bool" where
  "lower_in r needle hay = is_infix (lower r needle) (lower r hay)"

section \<open>Event templates\<close>

text \<open>The character classes of regular expressions on strings: letters, digits and underscore (\<open>\<rbackslash>w\<close>), and
  digits (\<open>\<rbackslash>d\<close>), of which every one is a \<open>\<rbackslash>w\<close>.\<close>

record char_classes =
  is_word :: "nat \<Rightarrow> bool"
  is_digit :: "nat \<Rightarrow> bool"

definition first_char :: "pystr \<Rightarrow> nat option" where
  "first_char s = (case s of [] \<Rightarrow> None | c # cs \<Rightarrow> Some c)"

text \<open>\<open>\<rbackslash>b\<close> between two characters, either of which may be missing.\<close>

definition boundary :: "char_classes \<Rightarrow> nat option \<Rightarrow> nat option \<Rightarrow> bool" where
  "boundary cc a b =
     ((case a of None \<Rightarrow> False | Some c \<Rightarrow> is_word cc c) \<noteq> (case b of None \<Rightarrow> False | Some c \<Rightarrow> is_word cc c))"

definition digit_run :: "char_classes \<Rightarrow> pystr \<Rightarrow> nat" where
  "digit_run cc s = length (takeWhile (is_digit cc) s)"

text \<open>The length of \<open>\<rbackslash>d+(?:\<rbackslash>.\<rbackslash>d+)?\<rbackslash>b\<close> at the start of \<open>s\<close>. No shorter run of digits can match: there
  is no boundary between two digits.\<close>

definition number_len :: "char_classes \<Rightarrow> pystr \<Rightarrow> nat option" where
  "number_len cc s =
     (let n = digit_run cc s; rest = drop n s;
          m = (if first_char rest = Some 46 then digit_run cc (tl rest) else 0) in
      if n = 0 then None
      else if 0 < m \<and> boundary cc (Some (s ! (n + m))) (first_char (drop (n + 1 + m) s)) then Some (n + 1 + m)
      else if boundary cc (Some (s ! (n - 1))) (first_char rest) then Some n
      else None)"

definition match_number :: "char_classes \<Rightarrow> nat option \<Rightarrow> pystr \<Rightarrow> nat option" where
  "match_number cc prev s =
     (if \<not> boundary cc prev (first_char s) then None
      else case (if first_char s = Some 45 then number_len cc (tl s) else None) of
        Some k \<Rightarrow> Some (Suc k)
      | None \<Rightarrow> number_len cc s)"

text \<open>\<open>_TEMPLATE_NUM_RE.sub("{}", s)\<close>: the second argument counts what is left to skip of a match.\<close>

fun sub_numbers :: "char_classes \<Rightarrow> nat \<Rightarrow> nat option \<Rightarrow> pystr \<Rightarrow> pystr" where
  "sub_numbers cc k prev [] = []"
| "sub_numbers cc (Suc k) prev (c # cs) = sub_numbers cc k (Some c) cs"
| "sub_numbers cc 0 prev (c # cs) =
     (case match_number cc prev (c # cs) of
        Some n \<Rightarrow> u ''{}'' @ sub_numbers cc (n - 1) (Some c) cs
      | None \<Rightarrow> c # sub_numbers cc 0 (Some c) cs)"

text \<open>The length of \<open>(\<rbackslash>s+\<rbackslash>{\<rbackslash>})*\<close> at the start of \<open>s\<close>, and \<open>re.sub(r"\<rbackslash>{\<rbackslash>}(\<rbackslash>s+\<rbackslash>{\<rbackslash>})+", "{}", s)\<close>.\<close>

function holes_len :: "pystr \<Rightarrow> nat" where
  "holes_len s =
     (let w = takeWhile is_space s; rest = drop (length w) s in
      if w \<noteq> [] \<and> take 2 rest = u ''{}'' then length w + 2 + holes_len (drop 2 rest) else 0)"
  by pat_completeness auto
termination
proof (relation "measure length")
  fix s w rest assume "w = takeWhile is_space s" "rest = drop (length w) s" "w \<noteq> [] \<and> take 2 rest = u ''{}''"
  then show "(drop 2 rest, s) \<in> measure length" by (cases s) auto
qed simp

fun collapse_holes :: "nat \<Rightarrow> pystr \<Rightarrow> pystr" where
  "collapse_holes k [] = []"
| "collapse_holes (Suc k) (c # cs) = collapse_holes k cs"
| "collapse_holes 0 (c # cs) =
     (let n = holes_len (tl cs) in
      if take 2 (c # cs) = u ''{}'' \<and> 0 < n then u ''{}'' @ collapse_holes (Suc n) cs
      else c # collapse_holes 0 cs)"

text \<open>\<open>re.sub(r"\<rbackslash>s+", " ", s)\<close>\<close>

fun squeeze :: "bool \<Rightarrow> pystr \<Rightarrow> pystr" where
  "squeeze after [] = []"
| "squeeze after (c # cs) =
     (if is_space c then (if after then squeeze True cs else 32 # squeeze True cs) else c # squeeze False cs)"

definition abstract_value :: "char_classes \<Rightarrow> pystr \<Rightarrow> pystr" where
  "abstract_value cc v =
     (let a = sub_numbers cc 0 None v in if a = v \<and> v \<noteq> [] then u ''{}'' else a)"

definition event_template :: "runtime \<Rightarrow> char_classes \<Rightarrow> jdict \<Rightarrow> pystr" where
  "event_template r cc ev =
     (let parts = map (\<lambda>(name, v). name @ u ''='' @ abstract_value cc (str_val v)) (sort_key fst (payload_kv r ev));
          body = strip (squeeze False (collapse_holes 0 (join (u '' '') parts)))
      in event_tag r ev @ tab @ body)"

definition templates_result :: "runtime \<Rightarrow> char_classes \<Rightarrow> json \<Rightarrow> scope \<Rightarrow> pystr \<Rightarrow> jdict \<Rightarrow> py_exn + jdict" where
  "templates_result r cc n_top sc path decoded =
     bindE (event_dicts decoded) (\<lambda>events.
       let counts = fold (\<lambda>e. bump (event_template r cc e)) (scope_events r sc events) [];
           rows = map (\<lambda>(t, n). [(u ''count'', jnat n), (u ''template'', JStr t),
             (u ''text'', JStr (pad5 n @ u ''  '' @ take 100 t))]) (most_common (nat (int_val n_top)) counts);
           txt = (if rows \<noteq> [] then join newline (map row_text rows) else u ''No templates.'')
       in Inr (base_result path decoded @
            [(u ''top'', n_top), (u ''templates'', JList (map JObj rows)), (u ''text'', JStr txt)]))"

definition message_templates_dtj :: "host \<Rightarrow> char_classes \<Rightarrow> pystr \<Rightarrow> json \<Rightarrow> bool \<Rightarrow> pystr option \<Rightarrow> py_exn + jdict" where
  "message_templates_dtj h cc p n_top since category =
     with_session h p [validate_top n_top] (templates_result (rt h) cc n_top (since_scope since category))"

section \<open>Repetition\<close>

definition validate_min_run :: "json \<Rightarrow> jdict option" where
  "validate_min_run v = (if bad_between MAX_TOP v then Some (between_error ''min_run'' MAX_TOP) else None)"

definition repetition_result :: "runtime \<Rightarrow> json \<Rightarrow> json \<Rightarrow> scope \<Rightarrow> pystr \<Rightarrow> jdict \<Rightarrow> py_exn + jdict" where
  "repetition_result r n_top min_run sc path decoded =
     bindE (event_dicts decoded) (\<lambda>events.
       let sr = scan_events r 1 (scope_events r sc events);
           (rs, fs') = repetition r (nat (int_val min_run)) (nat (int_val n_top)) sr;
           lines = (\<lambda>rows. if rows \<noteq> [] then map row_text rows else [u ''(none)'']);
           txt = join newline ([u ''=== Consecutive runs ===''] @ lines rs @ [[], u ''=== Top payloads ===''] @ lines fs')
       in Inr (base_result path decoded @
            [(u ''top'', n_top), (u ''min_run'', min_run), (u ''runs'', JList (map JObj rs)),
             (u ''top_payloads'', JList (map JObj fs')), (u ''text'', JStr txt)]))"

definition repetition_dtj :: "host \<Rightarrow> pystr \<Rightarrow> json \<Rightarrow> json \<Rightarrow> bool \<Rightarrow> pystr option \<Rightarrow> py_exn + jdict" where
  "repetition_dtj h p n_top min_run since category =
     with_session h p [validate_top n_top, validate_min_run min_run]
       (repetition_result (rt h) n_top min_run (since_scope since category))"

section \<open>One entity\<close>

definition entity_field_match :: "runtime \<Rightarrow> pystr \<Rightarrow> jdict \<Rightarrow> bool" where
  "entity_field_match r eid ev =
     (getj ev (u ''correlation'') = JStr eid \<or>
      list_ex (\<lambda>k. getj (payload_kv r ev) (u k) = JStr eid) [''id'', ''wire'', ''networkId'', ''sourceId''])"

definition entity_check :: "json \<Rightarrow> jdict option" where
  "entity_check v = (if nonempty_string v then None else Some (empty_string_error ''entity_id''))"

definition no_lines :: "runtime \<Rightarrow> pystr \<Rightarrow> pystr" where
  "no_lines r eid = u ''No lines for entity '' @ str_repr r eid @ u ''.''"

definition timeline_result :: "runtime \<Rightarrow> pystr \<Rightarrow> json \<Rightarrow> pystr \<Rightarrow> jdict \<Rightarrow> py_exn + jdict" where
  "timeline_result r eid limit path decoded =
     bindE (event_dicts decoded) (\<lambda>events.
       let matched = filter (entity_field_match r eid) events; returned = take (nat (int_val limit)) matched;
           answer = (\<lambda>txt. Inr (base_result path decoded @
             [(u ''entity_id'', JStr eid), (u ''matched_count'', jnat (length matched)),
              (u ''returned_count'', jnat (length returned)), (u ''events'', JList (map JObj returned)), (u ''text'', JStr txt)]))
       in if matched = [] then answer (no_lines r eid)
          else answer (nstr (length matched) @ u '' line(s) for entity '' @ str_repr r eid @ u ''; showing '' @
            nstr (length returned) @ u ''.'' @ newline @ join newline (map (compact r) returned)))"

definition entity_timeline_dtj :: "host \<Rightarrow> pystr \<Rightarrow> json \<Rightarrow> json \<Rightarrow> py_exn + jdict" where
  "entity_timeline_dtj h p entity_id limit =
     with_session h p [entity_check entity_id, validate_limit limit] (timeline_result (rt h) (str_val entity_id) limit)"

text \<open>The loop over the windows around the anchors: the related references, the events and the sequence numbers
  seen. \<open>order\<close> is the order in which the references of an event, a set, are visited.\<close>

record cluster =
  related :: "pystr counter"
  cluster_events :: "jdict list"
  seen_seqs :: "int list"

definition cluster_step ::
  "runtime \<Rightarrow> (pystr list \<Rightarrow> pystr list) \<Rightarrow> pystr \<Rightarrow> jdict \<Rightarrow> cluster \<Rightarrow> cluster" where
  "cluster_step r order eid ev c =
     (if \<not> is_int (seq_of ev) \<or> int_val (seq_of ev) \<in> set (seen_seqs c) then c
      else \<lparr>related = fold (\<lambda>ref cnt. if ref \<noteq> eid then bump ref cnt else cnt) (order (remdups (entity_refs r ev))) (related c),
            cluster_events = cluster_events c @ [ev], seen_seqs = int_val (seq_of ev) # seen_seqs c\<rparr>)"

definition cluster_around ::
  "runtime \<Rightarrow> (pystr list \<Rightarrow> pystr list) \<Rightarrow> pystr \<Rightarrow> nat \<Rightarrow> jdict list \<Rightarrow> nat list \<Rightarrow> cluster" where
  "cluster_around r order eid window events anchors =
     fold (\<lambda>i. fold (cluster_step r order eid) (slice events (i - window) (min (length events) (i + window + 1)))) anchors
       \<lparr>related = [], cluster_events = [], seen_seqs = []\<rparr>"

definition cluster_result ::
  "runtime \<Rightarrow> (pystr list \<Rightarrow> pystr list) \<Rightarrow> pystr \<Rightarrow> json \<Rightarrow> json \<Rightarrow> pystr \<Rightarrow> jdict \<Rightarrow> py_exn + jdict" where
  "cluster_result r order eid window limit path decoded =
     bindE (event_dicts decoded) (\<lambda>events.
       let anchors = filter (\<lambda>i. entity_field_match r eid (events ! i)) [0..<length events] in
       if anchors = []
       then Inr (base_result path decoded @
         [(u ''entity_id'', JStr eid), (u ''text'', JStr (no_lines r eid)), (u ''related'', JList []), (u ''events'', JList [])])
       else
         let c = cluster_around r order eid (nat (int_val window)) events anchors;
             rel = most_common 15 (related c); k = nat (int_val limit); shown = take k (cluster_events c);
             rows = [u ''primary='' @ eid @ u ''  anchor_hits='' @ nstr (length anchors) @ u ''  window='' @ [177] @
                 str_int (int_val window), u ''related ids:''] @
               (if rel \<noteq> [] then map (\<lambda>(i, n). u ''  '' @ i @ u '' ('' @ [215] @ nstr n @ u '')'') rel else [u ''  (none)'']) @
               [u ''events (up to '' @ str_int (int_val limit) @ u ''):''] @
               (if shown \<noteq> [] then map (compact r) shown else [u ''  (none)'']) @
               (if k < length (cluster_events c) then [u ''  ... '' @ nstr (length (cluster_events c) - k) @ u '' more''] else [])
         in Inr (base_result path decoded @
              [(u ''entity_id'', JStr eid), (u ''window'', window), (u ''limit'', limit), (u ''anchor_hits'', jnat (length anchors)),
               (u ''related'', JList (map (\<lambda>(i, n). JObj [(u ''id'', JStr i), (u ''count'', jnat n)]) rel)),
               (u ''events'', JList (map JObj shown)), (u ''text'', JStr (join newline rows))]))"

definition entity_cluster_dtj :: "host \<Rightarrow> (pystr list \<Rightarrow> pystr list) \<Rightarrow> pystr \<Rightarrow> json \<Rightarrow> json \<Rightarrow> json \<Rightarrow> py_exn + jdict" where
  "entity_cluster_dtj h order p entity_id window limit =
     with_session h p [entity_check entity_id, validate_window window, validate_limit limit]
       (cluster_result (rt h) order (str_val entity_id) window limit)"

end
