(* ===== verification/Dtj_Fields.thy ===== *)
theory Dtj_Fields imports Dtj_Analytics begin

text \<open>
  The analytics of \<open>dtj_analytics.py\<close> on field values, opening and closing events, ranges and snapshots.
\<close>

section \<open>Values of a field\<close>

text \<open>\<open>category and (event.get("category") or "").lower() != category.lower()\<close>\<close>

definition other_category :: "runtime \<Rightarrow> pystr option \<Rightarrow> jdict \<Rightarrow> bool" where
  "other_category r category ev =
     (category \<noteq> None \<and> category \<noteq> Some [] \<and>
      lower r (str_val (or_else (getj ev (u ''category'')) (JStr []))) \<noteq> lower r (the category))"

definition string_check :: "string \<Rightarrow> json \<Rightarrow> jdict option" where
  "string_check name v = (if nonempty_string v then None else Some (empty_string_error name))"

definition field_values :: "runtime \<Rightarrow> pystr \<Rightarrow> pystr option \<Rightarrow> jdict list \<Rightarrow> pystr counter" where
  "field_values r field category events =
     fold (\<lambda>e values. if other_category r category e then values
       else case map_of (payload_kv r e) field of Some v \<Rightarrow> bump (str_val v) values | None \<Rightarrow> values) events []"

definition breakdown_result ::
  "runtime \<Rightarrow> pystr \<Rightarrow> pystr option \<Rightarrow> json \<Rightarrow> scope \<Rightarrow> pystr \<Rightarrow> jdict \<Rightarrow> py_exn + jdict" where
  "breakdown_result r field category n_top sc path decoded =
     bindE (event_dicts decoded) (\<lambda>events.
       let rows = map (\<lambda>(v, n). [(u ''value'', JStr v), (u ''count'', jnat n), (u ''text'', JStr (v @ u '' : '' @ nstr n))])
             (most_common (nat (int_val n_top)) (field_values r field category (scope_events r sc events)));
           txt = (if rows \<noteq> [] then join newline (map row_text rows)
             else u ''No values for field '' @ str_repr r field @ u ''.'')
       in Inr (base_result path decoded @
            [(u ''field'', JStr field), (u ''rows'', JList (map JObj rows)), (u ''text'', JStr txt)]))"

definition field_breakdown_dtj :: "host \<Rightarrow> pystr \<Rightarrow> json \<Rightarrow> pystr option \<Rightarrow> json \<Rightarrow> bool \<Rightarrow> py_exn + jdict" where
  "field_breakdown_dtj h p field category n_top since =
     with_session h p [string_check ''field'' field, validate_top n_top]
       (breakdown_result (rt h) (str_val field) category n_top (since_scope since category))"

definition field_pairs ::
  "runtime \<Rightarrow> pystr \<Rightarrow> pystr \<Rightarrow> pystr option \<Rightarrow> jdict list \<Rightarrow> (pystr \<times> pystr) counter" where
  "field_pairs r field_a field_b category events =
     fold (\<lambda>e pairs. if other_category r category e then pairs
       else case (map_of (payload_kv r e) field_a, map_of (payload_kv r e) field_b) of
         (Some a, Some b) \<Rightarrow> bump (str_val a, str_val b) pairs | _ \<Rightarrow> pairs) events []"

definition times_sign :: pystr where
  "times_sign = [32, 215, 32]"

definition crosstab_result ::
  "runtime \<Rightarrow> pystr \<Rightarrow> pystr \<Rightarrow> pystr option \<Rightarrow> json \<Rightarrow> scope \<Rightarrow> pystr \<Rightarrow> jdict \<Rightarrow> py_exn + jdict" where
  "crosstab_result r field_a field_b category n_top sc path decoded =
     bindE (event_dicts decoded) (\<lambda>events.
       let rows = map (\<lambda>((a, b), n). [(u ''a'', JStr a), (u ''b'', JStr b), (u ''count'', jnat n),
             (u ''text'', JStr (a @ times_sign @ b @ u '' : '' @ nstr n))])
             (most_common (nat (int_val n_top)) (field_pairs r field_a field_b category (scope_events r sc events)));
           txt = (if rows \<noteq> [] then join newline (map row_text rows)
             else u ''No pairs for '' @ str_repr r field_a @ times_sign @ str_repr r field_b @ u ''.'')
       in Inr (base_result path decoded @
            [(u ''field_a'', JStr field_a), (u ''field_b'', JStr field_b), (u ''rows'', JList (map JObj rows)),
             (u ''text'', JStr txt)]))"

definition field_crosstab_dtj :: "host \<Rightarrow> pystr \<Rightarrow> json \<Rightarrow> json \<Rightarrow> pystr option \<Rightarrow> json \<Rightarrow> bool \<Rightarrow> py_exn + jdict" where
  "field_crosstab_dtj h p field_a field_b category n_top since =
     with_session h p [string_check ''field_a'' field_a, string_check ''field_b'' field_b, validate_top n_top]
       (crosstab_result (rt h) (str_val field_a) (str_val field_b) category n_top (since_scope since category))"

section \<open>From an opening event to the next closing one\<close>

fun split_bar :: "pystr \<Rightarrow> pystr list" where
  "split_bar [] = [[]]"
| "split_bar (c # cs) = (if c = 124 then [] # split_bar cs else case split_bar cs of [] \<Rightarrow> [[c]] | p # ps \<Rightarrow> (c # p) # ps)"

definition close_parts :: "pystr \<Rightarrow> pystr list" where
  "close_parts s = filter (\<lambda>p. p \<noteq> []) (map strip (split_bar s))"

definition find_close :: "runtime \<Rightarrow> pystr list \<Rightarrow> nat \<Rightarrow> jdict list \<Rightarrow> jdict option" where
  "find_close r parts max_lines later = find (\<lambda>e. list_ex (\<lambda>c. lower_in r c (name_of r e)) parts) (take max_lines later)"

text \<open>\<open>int(e["event_sequence"])\<close>\<close>

definition required_seq :: "runtime \<Rightarrow> jdict \<Rightarrow> py_exn + int" where
  "required_seq r e =
     (case map_of e (u ''event_sequence'') of None \<Rightarrow> Inl (KeyError (u ''event_sequence'')) | Some v \<Rightarrow> py_int r v)"

definition gap_row :: "runtime \<Rightarrow> nat \<Rightarrow> jdict \<Rightarrow> jdict option \<Rightarrow> py_exn + jdict" where
  "gap_row r max_lines event found =
     (let opened_at = u ''open@seq='' @ py_str r (seq_of event) in
      case found of
        Some f \<Rightarrow>
          bindE (required_seq r f) (\<lambda>b. bindE (required_seq r event) (\<lambda>a.
          Inr [(u ''open_event_sequence'', seq_of event), (u ''close_event_sequence'', seq_of f), (u ''delta'', JInt (b - a)),
            (u ''closed'', JBool True),
            (u ''text'', JStr (opened_at @ u '' close@seq='' @ py_str r (seq_of f) @ u '' delta='' @ str_int (b - a) @ u ''  '' @
              event_tag r event @ u '' -> '' @ event_tag r f))]))
      | None \<Rightarrow>
          Inr [(u ''open_event_sequence'', seq_of event), (u ''close_event_sequence'', JNull), (u ''delta'', JNull),
            (u ''closed'', JBool False),
            (u ''text'', JStr (opened_at @ u '' UNCLOSED within '' @ nstr max_lines @ u '' events  '' @ event_tag r event))])"

fun sequence_gaps ::
  "runtime \<Rightarrow> pystr \<Rightarrow> pystr list \<Rightarrow> nat \<Rightarrow> nat \<Rightarrow> jdict list \<Rightarrow> jdict list \<Rightarrow> py_exn + jdict list" where
  "sequence_gaps r opener parts max_lines limit [] gaps = Inr gaps"
| "sequence_gaps r opener parts max_lines limit (e # es) gaps =
     (if \<not> lower_in r opener (name_of r e) then sequence_gaps r opener parts max_lines limit es gaps
      else if limit \<le> length gaps then Inr gaps
      else bindE (gap_row r max_lines e (find_close r parts max_lines es)) (\<lambda>row.
        sequence_gaps r opener parts max_lines limit es (gaps @ [row])))"

definition sequence_gap_result ::
  "runtime \<Rightarrow> pystr \<Rightarrow> pystr \<Rightarrow> json \<Rightarrow> json \<Rightarrow> scope \<Rightarrow> pystr \<Rightarrow> jdict \<Rightarrow> py_exn + jdict" where
  "sequence_gap_result r opener closer max_lines limit sc path decoded =
     bindE (event_dicts decoded) (\<lambda>events.
     bindE (sequence_gaps r opener (close_parts closer) (nat (int_val max_lines)) (nat (int_val limit))
         (scope_events r sc events) []) (\<lambda>gaps.
       let unclosed = length (filter (\<lambda>g. getj g (u ''closed'') = JBool False) gaps);
           rows = (if 0 < unclosed
             then [u ''summary: '' @ nstr unclosed @ u '' unclosed (showing up to '' @ str_int (int_val limit) @ u '' opens)'']
             else []) @ map row_text gaps;
           txt = (if rows \<noteq> [] then join newline rows else u ''No lines matching open_event '' @ str_repr r opener @ u ''.'')
       in Inr (base_result path decoded @
            [(u ''open_event'', JStr opener), (u ''close_event'', JStr closer), (u ''max_lines'', max_lines), (u ''limit'', limit),
             (u ''unclosed'', jnat unclosed), (u ''gaps'', JList (map JObj gaps)), (u ''text'', JStr txt)])))"

definition max_lines_check :: "json \<Rightarrow> jdict option" where
  "max_lines_check v = (if bad_between MAX_MAX_LINES v then Some (between_error ''max_lines'' MAX_MAX_LINES) else None)"

definition sequence_gap_dtj :: "host \<Rightarrow> pystr \<Rightarrow> json \<Rightarrow> json \<Rightarrow> json \<Rightarrow> json \<Rightarrow> bool \<Rightarrow> py_exn + jdict" where
  "sequence_gap_dtj h p open_event close_event max_lines limit since =
     with_session h p [string_check ''open_event'' open_event, string_check ''close_event'' close_event,
         max_lines_check max_lines, validate_limit limit]
       (sequence_gap_result (rt h) (str_val open_event) (str_val close_event) max_lines limit (since_scope since None))"

section \<open>First and last\<close>

definition mention :: "runtime \<Rightarrow> pystr option \<Rightarrow> pystr option \<Rightarrow> jdict \<Rightarrow> bool" where
  "mention r tag_part eid ev =
     ((tag_part \<noteq> None \<and> tag_part \<noteq> Some [] \<and> lower_in r (the tag_part) (event_tag r ev)) \<or>
      (eid \<noteq> None \<and> eid \<noteq> Some [] \<and> entity_field_match r (the eid) ev))"

definition first_last_result :: "runtime \<Rightarrow> pystr option \<Rightarrow> pystr option \<Rightarrow> pystr \<Rightarrow> jdict \<Rightarrow> py_exn + jdict" where
  "first_last_result r tag_part eid path decoded =
     bindE (event_dicts decoded) (\<lambda>events.
       let hits = filter (mention r tag_part eid) events in
       if hits = [] \<or> hd hits = [] \<or> last hits = []
       then Inr (base_result path decoded @ [(u ''count'', JInt 0), (u ''text'', JStr (u ''No matches.''))])
       else
         let txt = join newline [u ''count='' @ nstr (length hits),
               u ''first: seq='' @ py_str r (seq_of (hd hits)) @ u ''  '' @ compact r (hd hits),
               u ''last:  seq='' @ py_str r (seq_of (last hits)) @ u ''  '' @ compact r (last hits)]
         in Inr (base_result path decoded @
              [(u ''count'', jnat (length hits)), (u ''first'', JObj (hd hits)), (u ''last'', JObj (last hits)),
               (u ''text'', JStr txt)]))"

definition first_last_dtj :: "host \<Rightarrow> pystr \<Rightarrow> pystr option \<Rightarrow> pystr option \<Rightarrow> py_exn + jdict" where
  "first_last_dtj h p tag_part eid =
     with_session h p
       [if (tag_part = None \<or> tag_part = Some []) \<and> (eid = None \<or> eid = Some [])
        then Some [(u ''kind'', JStr (u ''InvalidQuery'')), (u ''message'', JStr (u ''Provide tag and/or entity_id.''))] else None]
       (first_last_result (rt h) tag_part eid)"

section \<open>A minimal reproduction\<close>

definition repro_check :: "json \<Rightarrow> json \<Rightarrow> jdict option" where
  "repro_check s e =
     (if is_bool s \<or> is_bool e \<or> \<not> is_int s \<or> \<not> is_int e
      then Some [(u ''kind'', JStr (u ''InvalidRange'')),
        (u ''message'', JStr (u ''start and end must be integers (event_sequence)''))]
      else if int_val e < int_val s
      then Some [(u ''kind'', JStr (u ''InvalidRange'')), (u ''message'', JStr (u ''end must be >= start'')),
        (u ''start'', s), (u ''end'', e)]
      else if MAX_LIMIT < int_val e - int_val s + 1
      then Some [(u ''kind'', JStr (u ''ResultTooLarge'')), (u ''message'', JStr (u ''range size exceeds max 500'')),
        (u ''max'', JInt MAX_LIMIT)]
      else None)"

text \<open>\<open>(_tag(e), frozenset(_entity_refs(e)))\<close>; the list stands for the set.\<close>

definition same_signature :: "runtime \<Rightarrow> jdict \<Rightarrow> jdict \<Rightarrow> bool" where
  "same_signature r a b = (event_tag r a = event_tag r b \<and> set (entity_refs r a) = set (entity_refs r b))"

definition keep_first :: "runtime \<Rightarrow> jdict list \<Rightarrow> jdict list" where
  "keep_first r events =
     fold (\<lambda>e kept. if list_ex (same_signature r e) kept then kept else kept @ [e]) events []"

definition repro_result :: "runtime \<Rightarrow> json \<Rightarrow> json \<Rightarrow> pystr \<Rightarrow> jdict \<Rightarrow> py_exn + jdict" where
  "repro_result r s e path decoded =
     bindE (event_dicts decoded) (\<lambda>events.
       let subset = filter (\<lambda>ev. is_int (seq_of ev) \<and> int_val s \<le> int_val (seq_of ev) \<and> int_val (seq_of ev) \<le> int_val e) events;
           kept = keep_first r subset;
           range = (\<lambda>sep. str_int (int_val s) @ sep @ str_int (int_val e)) in
       if subset = []
       then Inr (base_result path decoded @
         [(u ''events'', JList []), (u ''text'', JStr (u ''No lines in ['' @ range (u '', '') @ u ''].''))])
       else Inr (base_result path decoded @
         [(u ''start'', s), (u ''end'', e), (u ''original_count'', jnat (length subset)), (u ''kept_count'', jnat (length kept)),
          (u ''events'', JList (map JObj kept)),
          (u ''text'', JStr (join newline ((u ''minimal repro: '' @ nstr (length kept) @ u '' of '' @ nstr (length subset) @
             u '' lines (range '' @ range (u ''-'') @ u '')'') # map (compact r) kept)))]))"

definition minimal_repro_dtj :: "host \<Rightarrow> pystr \<Rightarrow> json \<Rightarrow> json \<Rightarrow> py_exn + jdict" where
  "minimal_repro_dtj h p s e = with_session h p [repro_check s e] (repro_result (rt h) s e)"

end
