(* ===== verification/Dtj_Snapshots.thy ===== *)
theory Dtj_Snapshots imports Dtj_Fields Trace_Config begin

text \<open>
  The analytics of \<open>dtj_analytics.py\<close> on snapshot events: suspicious blocks, differences between the snapshot
  before and after, and the report of persistence mismatches.
\<close>

definition snapshot_events :: "jdict list \<Rightarrow> jdict list" where
  "snapshot_events events = filter (\<lambda>e. getj e (u ''category'') = JStr (u ''Snapshot'')) events"

definition warning_mark :: pystr where
  "warning_mark = [32, 9888]"

definition arrow :: pystr where
  "arrow = [32, 8594, 32]"

section \<open>Suspicious blocks\<close>

definition suspicious :: "pystr list" where
  "suspicious = [u ''mismatch'', u ''<null>'', u ''skip'', u ''fail'']"

definition block_flags :: "runtime \<Rightarrow> jdict \<Rightarrow> pystr list" where
  "block_flags r head = filter (\<lambda>s. is_infix s (lower r (event_haystack r head))) suspicious"

definition flags_or_ok :: "runtime \<Rightarrow> jdict \<Rightarrow> json" where
  "flags_or_ok r head = JList (map JStr (if block_flags r head \<noteq> [] then block_flags r head else [u ''ok'']))"

definition block_json :: "runtime \<Rightarrow> jdict \<Rightarrow> json" where
  "block_json r head = JObj
     [(u ''event_sequence'', seq_of head), (u ''tag'', JStr (event_tag r head)), (u ''flags'', flags_or_ok r head),
      (u ''fields'', JObj (payload_kv r head))]"

definition block_lines :: "runtime \<Rightarrow> jdict \<Rightarrow> pystr list" where
  "block_lines r head =
     (u ''block@seq='' @ py_str r (seq_of head) @ u ''  '' @ event_tag r head @ u ''  flags='' @ py_str r (flags_or_ok r head)) #
     map (\<lambda>(key, v). u ''  '' @ key @ u ''='' @ str_val v @
         (if list_ex (\<lambda>x. is_infix x (lower r (str_val v))) [u ''null'', u ''mismatch'', u ''fail'', u ''skip'']
          then warning_mark else []))
       (sort_key fst (payload_kv r head))"

definition diff_blocks :: "runtime \<Rightarrow> json \<Rightarrow> nat \<Rightarrow> jdict list \<Rightarrow> jdict list" where
  "diff_blocks r seqno limit events =
     take limit (if seqno = JNull then filter (\<lambda>e. block_flags r e \<noteq> []) (snapshot_events events)
       else filter (\<lambda>e. num_eq (seq_of e) (int_val seqno)) (snapshot_events events))"

definition snapshot_diff_result :: "runtime \<Rightarrow> json \<Rightarrow> json \<Rightarrow> pystr \<Rightarrow> jdict \<Rightarrow> py_exn + jdict" where
  "snapshot_diff_result r seqno limit path decoded =
     bindE (event_dicts decoded) (\<lambda>events.
       let blocks = diff_blocks r seqno (nat (int_val limit)) events;
           rows = concat (map (block_lines r) blocks);
           txt = (if rows \<noteq> [] then join newline rows else u ''No matching snapshot blocks.'')
       in Inr (base_result path decoded @
            [(u ''event_sequence'', seqno), (u ''limit'', limit), (u ''blocks'', JList (map (block_json r) blocks)),
             (u ''text'', JStr txt)]))"

definition seqno_check :: "json \<Rightarrow> jdict option" where
  "seqno_check v =
     (if v \<noteq> JNull \<and> (is_bool v \<or> \<not> is_int v)
      then Some [(u ''kind'', JStr (u ''InvalidRange'')),
        (u ''message'', JStr (u ''event_sequence must be an integer when provided''))]
      else None)"

definition snapshot_diff_dtj :: "host \<Rightarrow> pystr \<Rightarrow> json \<Rightarrow> json \<Rightarrow> py_exn + jdict" where
  "snapshot_diff_dtj h p seqno limit =
     with_session h p [validate_top limit, seqno_check seqno] (snapshot_diff_result (rt h) seqno limit)"

section \<open>Before and after\<close>

type_synonym snapshot = "jdict \<times> jdict"

record snapshots =
  before :: "(pystr \<times> snapshot) list"
  after :: "(pystr \<times> snapshot) list"

text \<open>\<open>entity_id or kv.get("id") or str(head.get("event_sequence"))\<close>\<close>

definition snapshot_key :: "runtime \<Rightarrow> pystr option \<Rightarrow> jdict \<Rightarrow> pystr" where
  "snapshot_key r eid head =
     (if eid \<noteq> None \<and> eid \<noteq> Some [] then the eid
      else let v = getj (payload_kv r head) (u ''id'') in
        if truthy v then str_val v else py_str r (seq_of head))"

definition collect_snapshot :: "runtime \<Rightarrow> pystr option \<Rightarrow> jdict \<Rightarrow> snapshots \<Rightarrow> snapshots" where
  "collect_snapshot r eid head st =
     (let kv = payload_kv r head; key = snapshot_key r eid head; ev = lower r (name_of r head) in
      if eid \<noteq> None \<and> eid \<noteq> Some [] \<and> getj kv (u ''id'') \<noteq> JStr (the eid) \<and> \<not> entity_field_match r (the eid) head then st
      else if is_infix (u ''before'') ev then st\<lparr>before := AList.update key (head, kv) (before st)\<rparr>
      else if is_infix (u ''after'') ev then st\<lparr>after := AList.update key (head, kv) (after st)\<rparr>
      else st)"

definition snapshot_at :: "(pystr \<times> snapshot) list \<Rightarrow> pystr \<Rightarrow> snapshot" where
  "snapshot_at d key = (case map_of d key of Some s \<Rightarrow> s | None \<Rightarrow> ([], []))"

definition paired_keys :: "snapshots \<Rightarrow> nat \<Rightarrow> json \<Rightarrow> pystr list" where
  "paired_keys st limit seqno =
     filter (\<lambda>k. seqno = JNull \<or> py_eq (seq_of (fst (snapshot_at (before st) k))) seqno \<or>
         py_eq (seq_of (fst (snapshot_at (after st) k))) seqno)
       (take limit (sort (filter (\<lambda>k. k \<in> set (map fst (after st))) (map fst (before st)))))"

text \<open>The fields whose values differ: name, old and new value, with \<open>None\<close> for a missing one.\<close>

definition field_diffs :: "jdict \<Rightarrow> jdict \<Rightarrow> (pystr \<times> json \<times> json) list" where
  "field_diffs bkv akv =
     filter (\<lambda>(fld, old, new). old \<noteq> new)
       (map (\<lambda>fld. (fld, getj bkv fld, getj akv fld)) (sort (remdups (map fst bkv @ map fst akv))))"

definition diff_line :: "runtime \<Rightarrow> pystr \<times> json \<times> json \<Rightarrow> pystr" where
  "diff_line r d =
     (case d of (fld, old, new) \<Rightarrow>
        u ''  '' @ fld @ u '': '' @ py_str r old @ arrow @ py_str r new @
          (if truthy new \<and> list_ex (\<lambda>x. is_infix x (lower r (py_str r new))) [u ''null'', u ''mismatch'', u ''fail'']
           then warning_mark else []))"

text \<open>The loop over the keys: it stops after a pair when there are too many lines.\<close>

fun pair_rows :: "runtime \<Rightarrow> snapshots \<Rightarrow> nat \<Rightarrow> pystr list \<Rightarrow> json list \<Rightarrow> pystr list \<Rightarrow> json list \<times> pystr list" where
  "pair_rows r st limit [] pairs rows = (pairs, rows)"
| "pair_rows r st limit (key # keys) pairs rows =
     (let (bh, bkv) = snapshot_at (before st) key; (ah, akv) = snapshot_at (after st) key;
          diffs = field_diffs bkv akv;
          rows = rows @ (u ''=== id='' @ key @ u ''  after@seq='' @ py_str r (seq_of ah) @ u '' ==='') # map (diff_line r) diffs;
          pairs = pairs @ [JObj [(u ''id'', JStr key), (u ''before_event_sequence'', seq_of bh),
            (u ''after_event_sequence'', seq_of ah),
            (u ''diffs'', JList (map (\<lambda>(fld, old, new). JObj
               [(u ''field'', JStr fld), (u ''before'', old), (u ''after'', new)]) diffs))]]
      in if limit * 6 < length rows then (pairs, rows) else pair_rows r st limit keys pairs rows)"

definition collect_snapshots :: "runtime \<Rightarrow> pystr option \<Rightarrow> jdict list \<Rightarrow> snapshots" where
  "collect_snapshots r eid events = fold (collect_snapshot r eid) (snapshot_events events) \<lparr>before = [], after = []\<rparr>"

definition before_after_result :: "runtime \<Rightarrow> pystr option \<Rightarrow> json \<Rightarrow> json \<Rightarrow> pystr \<Rightarrow> jdict \<Rightarrow> py_exn + jdict" where
  "before_after_result r eid seqno limit path decoded =
     bindE (event_dicts decoded) (\<lambda>events.
       let k = nat (int_val limit); st = collect_snapshots r eid events; keys = paired_keys st k seqno;
           answer = (\<lambda>pairs txt. Inr (base_result path decoded @ [(u ''pairs'', JList pairs), (u ''text'', JStr txt)])) in
       if keys = [] then answer [] (u ''No matching before/after snapshot pairs.'')
       else let (pairs, rows) = pair_rows r st k keys [] [] in answer pairs (join newline rows))"

definition snapshot_before_after_dtj :: "host \<Rightarrow> pystr \<Rightarrow> pystr option \<Rightarrow> json \<Rightarrow> json \<Rightarrow> py_exn + jdict" where
  "snapshot_before_after_dtj h p eid seqno limit =
     with_session h p [validate_top limit] (before_after_result (rt h) eid seqno limit)"

section \<open>Persistence mismatches\<close>

definition mismatches_result :: "runtime \<Rightarrow> json \<Rightarrow> jdict \<Rightarrow> pystr \<Rightarrow> jdict \<Rightarrow> py_exn + jdict" where
  "mismatches_result r n_top snap path decoded =
     bindE (event_dicts decoded) (\<lambda>events.
       let k = nat (int_val n_top);
           sync_lines = take k (map (compact r) (filter (\<lambda>e. is_infix (u ''AfterSync'') (name_of r e)) (snapshot_events events)));
           mismatch = take k (map (compact r) (filter (\<lambda>e. is_infix (u ''mismatch'') (lower r (event_haystack r e))) events));
           or_none = (\<lambda>rows. if rows \<noteq> [] then rows else [u ''(none)'']);
           parts = [u ''=== Snapshot AfterSync ===''] @ or_none sync_lines @ [newline @ u ''=== Snapshot diff ===''] @
             [str_val (getd snap (u ''text'') (JStr (u ''(none)'')))] @ [newline @ u ''=== mismatch markers ===''] @ or_none mismatch
       in Inr (base_result path decoded @
            [(u ''top'', n_top), (u ''after_sync'', JList (map JStr sync_lines)), (u ''mismatches'', JList (map JStr mismatch)),
             (u ''text'', JStr (join newline parts))]))"

text \<open>The session is read a second time for the snapshot diff.\<close>

definition persistence_mismatches_dtj :: "host \<Rightarrow> pystr \<Rightarrow> json \<Rightarrow> py_exn + jdict" where
  "persistence_mismatches_dtj h p n_top =
     with_session h p [validate_top n_top] (\<lambda>path decoded.
       bindE (event_dicts decoded) (\<lambda>_.
       bindE (snapshot_diff_dtj h p JNull n_top) (\<lambda>snap. mismatches_result (rt h) n_top snap path decoded)))"

end
