(* ===== verification/Dtj_Timing.thy ===== *)
theory Dtj_Timing imports Dtj_Fields Perf_Report begin

text \<open>
  The analytics of \<open>dtj_analytics.py\<close> on time: the latency between opening and closing, bursts, gaps and the
  density over time. Times are binary64 patterns computed from 64-bit nanoseconds.
\<close>

abbreviation (input) "NS_PER_SEC \<equiv> 0x41CDCD6500000000 :: 64 word"

section \<open>Times\<close>

text \<open>\<open>mono / 1_000_000_000.0\<close>, for the 64-bit integers that both readers produce.\<close>

definition mono_sec :: "jdict \<Rightarrow> 64 word option" where
  "mono_sec ev =
     (let mono = getj ev (u ''monotonic_ns'') in
      if is_bool mono \<or> \<not> is_int mono then None else Some (f64_div (round_int False (int_val mono) 1) NS_PER_SEC))"

text \<open>\<open>_mono_sec(e) or 0.0\<close>\<close>

definition mono_or_zero :: "jdict \<Rightarrow> 64 word" where
  "mono_or_zero ev = (case mono_sec ev of None \<Rightarrow> 0 | Some t \<Rightarrow> if f64_units t = 0 then 0 else t)"

definition timed :: "jdict list \<Rightarrow> jdict list" where
  "timed events = filter (\<lambda>e. mono_sec e \<noteq> None) events"

definition f64_of_json :: "json \<Rightarrow> 64 word" where
  "f64_of_json v = (case v of JFloat w \<Rightarrow> w | JInt i \<Rightarrow> round_int False i 1 | _ \<Rightarrow> 0)"

text \<open>\<open>_validate_positive_float\<close>: \<open>float()\<close> of an integer that is too large raises \<open>OverflowError\<close>.\<close>

definition validate_positive_float :: "runtime \<Rightarrow> string \<Rightarrow> 64 word \<Rightarrow> json \<Rightarrow> py_exn + jdict option" where
  "validate_positive_float r name max_v v =
     (if \<not> is_number v
      then Inr (Some [(u ''kind'', JStr (u ''InvalidQuery'')), (u ''message'', JStr (u name @ u '' must be a positive number''))])
      else bindE (py_float v) (\<lambda>w.
        if \<not> f64_finite w \<or> f64_le w 0 \<or> f64_less max_v w
        then Inr (Some [(u ''kind'', JStr (u ''InvalidQuery'')),
          (u ''message'', JStr (u name @ u '' must be in (0, '' @ float_repr r max_v @ u '']'')), (u ''max'', JFloat max_v)])
        else Inr None))"

section \<open>Latency of a pair\<close>

record latency_state =
  open_ids :: "(pystr \<times> jdict) list"
  latencies :: "64 word list"

definition latency_step :: "runtime \<Rightarrow> string list \<Rightarrow> string list \<Rightarrow> latency_state \<Rightarrow> jdict \<Rightarrow> latency_state" where
  "latency_step r os cs st ev =
     (case entity_id_from_event r ev of
        None \<Rightarrow> st
      | Some [] \<Rightarrow> st
      | Some eid \<Rightarrow>
          if event_matches (name_of r ev) os then st\<lparr>open_ids := AList.update eid ev (open_ids st)\<rparr>
          else if event_matches (name_of r ev) cs then
            (case map_of (open_ids st) eid of
               None \<Rightarrow> st
             | Some e0 \<Rightarrow>
                 st\<lparr>latencies := latencies st @
                      (case (mono_sec e0, mono_sec ev) of
                         (Some a, Some b) \<Rightarrow> [f64_mul (f64_sub b a) 0x408F400000000000] | _ \<Rightarrow> []),
                    open_ids := AList.delete eid (open_ids st)\<rparr>)
          else st)"

definition pair_latencies :: "runtime \<Rightarrow> string list \<Rightarrow> string list \<Rightarrow> jdict list \<Rightarrow> latency_state" where
  "pair_latencies r os cs events = foldl (latency_step r os cs) \<lparr>open_ids = [], latencies = []\<rparr> events"

definition latency_result ::
  "runtime \<Rightarrow> pystr \<Rightarrow> string list \<times> string list \<Rightarrow> scope \<Rightarrow> pystr \<Rightarrow> jdict \<Rightarrow> py_exn + jdict" where
  "latency_result r kind pair sc path decoded =
     bindE (event_dicts decoded) (\<lambda>events.
       let st = pair_latencies r (fst pair) (snd pair) (scope_events r sc events);
           ls = sort_key f64_int (latencies st); n = length ls; still = length (open_ids st);
           samples = take 5 (open_ids st) in
       bindE (if ls = [] then Inr ([], [u ''  closed=0''])
         else bindE (py_nth ls (int (n div 2))) (\<lambda>p50.
           bindE (py_nth ls (min (f64_trunc (f64_mul (f64_of_nat n) 0x3FEE666666666666)) (int n - 1))) (\<lambda>p95.
           Inr ([(u ''p50'', JFloat p50), (u ''p95'', JFloat p95), (u ''max'', JFloat (last ls))],
             [u ''  closed='' @ nstr n @ u ''  p50='' @ f64_fixed 1 p50 @ u ''  p95='' @ f64_fixed 1 p95 @ u ''  max='' @
                f64_fixed 1 (last ls)])))) (\<lambda>(stats, lines).
       let rows = [kind @ u '' open'' @ [8594] @ u ''close latency (ms):''] @ lines @ [u ''  still_open='' @ nstr still] @
             (if open_ids st \<noteq> [] then u ''  open samples:'' # map (\<lambda>(eid, ev). u ''    id='' @ eid @ u ''  opened@seq='' @
                  py_str r (seq_of ev) @ u ''  mono_ns='' @ py_str r (getj ev (u ''monotonic_ns''))) samples else []);
           open_json = map (\<lambda>(eid, ev). JObj [(u ''id'', JStr eid), (u ''event_sequence'', seq_of ev),
             (u ''monotonic_ns'', getj ev (u ''monotonic_ns''))]) samples
       in Inr (base_result path decoded @
            [(u ''kind'', JStr kind), (u ''stats'', JObj ([(u ''closed'', jnat n), (u ''still_open'', jnat still)] @ stats)),
             (u ''open_samples'', JList open_json), (u ''text'', JStr (join newline rows))])))"

definition unknown_kind :: "runtime \<Rightarrow> pystr \<Rightarrow> jdict" where
  "unknown_kind r kind =
     [(u ''kind'', JStr (u ''InvalidQuery'')),
      (u ''message'', JStr (u ''Unknown kind '' @ str_repr r kind @ u ''. Choose from: '' @
         join (u '', '') (map (\<lambda>p. u (fst p)) EVENT_PAIRS)))]"

definition pair_latency_dtj :: "host \<Rightarrow> pystr \<Rightarrow> pystr \<Rightarrow> bool \<Rightarrow> py_exn + jdict" where
  "pair_latency_dtj h p kind since =
     (case map_of (map (\<lambda>(n, os, cs). (u n, (os, cs))) EVENT_PAIRS) kind of
        None \<Rightarrow> Inr (fail_at (expanduser h p) (unknown_kind (rt h) kind))
      | Some pair \<Rightarrow> with_session h p [] (latency_result (rt h) kind pair (since_scope since None)))"

section \<open>Bursts\<close>

text \<open>The inner \<open>while\<close>: from \<open>j\<close> on, the first event beyond the window or with another tag. Neither loop counts
  down, so a call that does not return is \<open>None\<close>.\<close>

partial_function (option) burst_end :: "(nat \<Rightarrow> bool) \<Rightarrow> nat \<Rightarrow> nat \<Rightarrow> nat option" where
  "burst_end stop n j = (if j < n then if stop j then Some j else burst_end stop n (j + 1) else Some j)"

definition burst_stop :: "runtime \<Rightarrow> 64 word \<Rightarrow> jdict list \<Rightarrow> nat \<Rightarrow> nat \<Rightarrow> bool" where
  "burst_stop r window events i j =
     (f64_less window (f64_sub (mono_or_zero (events ! j)) (mono_or_zero (events ! i))) \<or>
      event_tag r (events ! j) \<noteq> event_tag r (events ! i))"

text \<open>The outer \<open>while\<close>: the bounds of each burst.\<close>

partial_function (option) burst_loop ::
  "(nat \<Rightarrow> nat \<Rightarrow> bool) \<Rightarrow> nat \<Rightarrow> nat \<Rightarrow> (nat \<times> nat) list \<Rightarrow> (nat \<times> nat) list option" where
  "burst_loop stop n i groups =
     (if i < n then
        (case burst_end (stop i) n (i + 1) of
           None \<Rightarrow> None
         | Some j \<Rightarrow> burst_loop stop n (max (i + 1) j) (groups @ [(i, j)]))
      else Some groups)"

definition burst_row :: "runtime \<Rightarrow> json \<Rightarrow> jdict list \<Rightarrow> nat \<times> nat \<Rightarrow> jdict" where
  "burst_row r window events g =
     (case g of (i, j) \<Rightarrow>
        let first = seq_of (events ! i); final = seq_of (events ! (j - 1)) in
        [(u ''count'', jnat (j - i)), (u ''tag'', JStr (event_tag r (events ! i))), (u ''start_event_sequence'', first),
         (u ''end_event_sequence'', final),
         (u ''text'', JStr (u ''burst='' @ nstr (j - i) @ u ''  tag='' @ event_tag r (events ! i) @ u ''  seq='' @ py_str r first @
            u ''-'' @ py_str r final @ u ''  window='' @ py_str r window @ u ''s''))])"

definition bursts_of :: "runtime \<Rightarrow> json \<Rightarrow> nat \<Rightarrow> nat \<Rightarrow> jdict list \<Rightarrow> jdict list option" where
  "bursts_of r window min_count n_top events =
     map_option (\<lambda>groups. take n_top (map (burst_row r window events)
         (sort_key (\<lambda>(i, j). - int (j - i)) (filter (\<lambda>(i, j). min_count \<le> j - i) groups))))
       (burst_loop (burst_stop r (f64_of_json window) events) (length events) 0 [])"

text \<open>\<open>None\<close>: the call does not return.\<close>

definition bursts_result ::
  "runtime \<Rightarrow> json \<Rightarrow> json \<Rightarrow> json \<Rightarrow> scope \<Rightarrow> pystr \<Rightarrow> jdict \<Rightarrow> (py_exn + jdict) option" where
  "bursts_result r window min_count n_top sc path decoded =
     (case event_dicts decoded of
        Inl e \<Rightarrow> Some (Inl e)
      | Inr events \<Rightarrow>
          let ts = timed (scope_events r sc events);
              answer = (\<lambda>rows txt. Some (Inr (base_result path decoded @ [(u ''bursts'', JList (map JObj rows)), (u ''text'', JStr txt)]))) in
          if ts = [] then answer [] (u ''No timed lines.'')
          else (case bursts_of r window (nat (int_val min_count)) (nat (int_val n_top)) ts of
              None \<Rightarrow> None
            | Some rows \<Rightarrow> answer rows (if rows \<noteq> [] then join newline (map row_text rows) else u ''No bursts found.'')))"

definition min_count_check :: "json \<Rightarrow> jdict option" where
  "min_count_check v =
     (if bad_between MAX_LIMIT v
      then Some [(u ''kind'', JStr (u ''InvalidLimit'')), (u ''message'', JStr (u ''min_count must be an integer in 1..500''))]
      else None)"

definition bursts_dtj :: "host \<Rightarrow> pystr \<Rightarrow> json \<Rightarrow> json \<Rightarrow> json \<Rightarrow> bool \<Rightarrow> (py_exn + jdict) option" where
  "bursts_dtj h p window min_count n_top since =
     (let path = expanduser h p in
      case validate_positive_float (rt h) ''window_sec'' 0x40AC200000000000 window of
        Inl e \<Rightarrow> Some (Inl e)
      | Inr (Some e) \<Rightarrow> Some (Inr (fail_at path e))
      | Inr None \<Rightarrow>
          (case find (\<lambda>c. c \<noteq> None) [min_count_check min_count, validate_top n_top] of
             Some (Some e) \<Rightarrow> Some (Inr (fail_at path e))
           | _ \<Rightarrow>
               (case read_session_dtj h p of
                  Inl e \<Rightarrow> Some (Inl e)
                | Inr decoded \<Rightarrow>
                    if \<not> is_ok decoded then Some (Inr decoded)
                    else bursts_result (rt h) window min_count n_top (since_scope since None) path decoded)))"

section \<open>Gaps\<close>

definition gap_json :: "runtime \<Rightarrow> jdict \<times> jdict \<times> 64 word \<Rightarrow> jdict" where
  "gap_json r g =
     (case g of (a, b, dt) \<Rightarrow>
        [(u ''gap_sec'', JFloat dt), (u ''after_event_sequence'', seq_of a), (u ''before_event_sequence'', seq_of b),
         (u ''text'', JStr (u ''gap='' @ f64_fixed 2 dt @ u ''s  after seq='' @ py_str r (seq_of a) @ u ''  before seq='' @
            py_str r (seq_of b)))])"

definition gaps_between :: "64 word \<Rightarrow> jdict list \<Rightarrow> (jdict \<times> jdict \<times> 64 word) list" where
  "gaps_between min_gap events =
     filter (\<lambda>(a, b, dt). f64_le min_gap dt)
       (map (\<lambda>(a, b). (a, b, f64_sub (mono_or_zero b) (mono_or_zero a))) (zip events (tl events)))"

definition gaps_result :: "runtime \<Rightarrow> json \<Rightarrow> json \<Rightarrow> scope \<Rightarrow> pystr \<Rightarrow> jdict \<Rightarrow> py_exn + jdict" where
  "gaps_result r min_gap n_top sc path decoded =
     bindE (event_dicts decoded) (\<lambda>events.
       let ts = timed (scope_events r sc events);
           answer = (\<lambda>rows txt. Inr (base_result path decoded @ [(u ''gaps'', JList (map JObj rows)), (u ''text'', JStr txt)])) in
       if length ts < 2 then answer [] (u ''Not enough timed lines.'')
       else let rows = map (gap_json r) (take (nat (int_val n_top))
               (sort_key (\<lambda>(a, b, dt). - f64_int dt) (gaps_between (f64_of_json min_gap) ts)))
         in answer rows (if rows \<noteq> [] then join newline (map row_text rows) else u ''No gaps >= '' @ py_str r min_gap @ u ''s.''))"

definition gaps_dtj :: "host \<Rightarrow> pystr \<Rightarrow> json \<Rightarrow> json \<Rightarrow> bool \<Rightarrow> py_exn + jdict" where
  "gaps_dtj h p min_gap n_top since =
     bindE (validate_positive_float (rt h) ''min_gap_sec'' 0x40F5180000000000 min_gap) (\<lambda>err.
       with_session h p [err, validate_top n_top] (gaps_result (rt h) min_gap n_top (since_scope since None)))"

section \<open>Density over time\<close>

text \<open>\<open>x // y\<close> of a finite \<open>x\<close> and a positive \<open>y\<close>: the exact remainder first, then the quotient, rounded
  to the nearest integer and infinite when it is too large.\<close>

definition f64_floordiv :: "64 word \<Rightarrow> 64 word \<Rightarrow> 64 word" where
  "f64_floordiv x y =
     (let rem = (if f64_int x < 0 then - int (f64_units x mod f64_units y) else int (f64_units x mod f64_units y));
          q = f64_div (f64_sub x (round_int (f64_sign x = 1) rem (2 ^ 1075))) y;
          q = (if rem < 0 then f64_sub q 0x3FF0000000000000 else q);
          fl = round_int (f64_sign q = 1) (f64_floor q) 1
      in if \<not> f64_finite q then q else if f64_units q = 0 then round_f64 (f64_sign x = 1) 0 1
         else if f64_less 0x3FE0000000000000 (f64_sub q fl) then f64_add fl 0x3FF0000000000000 else fl)"

definition bucket_index :: "runtime \<Rightarrow> json \<Rightarrow> 64 word \<Rightarrow> jdict \<Rightarrow> py_exn + int" where
  "bucket_index r bucket t0 ev =
     py_int r (JFloat (f64_floordiv (f64_sub (mono_or_zero ev) t0) (f64_of_json bucket)))"

type_synonym density = "(int \<times> pystr counter) list"

definition category_name :: "jdict \<Rightarrow> pystr" where
  "category_name ev = str_val (or_else (getj ev (u ''category'')) (JStr (u ''<none>'')))"

definition density_add :: "int \<Rightarrow> pystr \<Rightarrow> density \<Rightarrow> density" where
  "density_add i c d = AList.update i (bump c (case map_of d i of None \<Rightarrow> [] | Some ctr \<Rightarrow> ctr)) d"

definition density_buckets :: "runtime \<Rightarrow> json \<Rightarrow> 64 word \<Rightarrow> jdict list \<Rightarrow> py_exn + density" where
  "density_buckets r bucket t0 events =
     foldE (\<lambda>e d. bindE (bucket_index r bucket t0 e) (\<lambda>i. Inr (density_add i (category_name e) d))) events []"

text \<open>The categories that occur in the most buckets.\<close>

definition top_categories :: "nat \<Rightarrow> density \<Rightarrow> pystr list" where
  "top_categories n d = map fst (most_common n (fold bump (concat (map (\<lambda>(i, ctr). map fst ctr) d)) []))"

definition bucket_start :: "json \<Rightarrow> 64 word \<Rightarrow> int \<Rightarrow> 64 word" where
  "bucket_start bucket t0 i =
     f64_add t0 (case bucket of JInt b \<Rightarrow> round_int False (i * b) 1 | _ \<Rightarrow> f64_mul (round_int False i 1) (f64_of_json bucket))"

definition bucket_counts :: "nat \<Rightarrow> density \<Rightarrow> int \<Rightarrow> (pystr \<times> nat) list" where
  "bucket_counts n d i =
     (let ctr = (case map_of d i of None \<Rightarrow> [] | Some c \<Rightarrow> c) in
      map (\<lambda>c. (c, count_of ctr c)) (filter (\<lambda>c. count_of ctr c \<noteq> 0) (sort (top_categories n d))))"

definition density_result :: "runtime \<Rightarrow> json \<Rightarrow> json \<Rightarrow> scope \<Rightarrow> pystr \<Rightarrow> jdict \<Rightarrow> py_exn + jdict" where
  "density_result r bucket n_top sc path decoded =
     bindE (event_dicts decoded) (\<lambda>events.
       let ts = timed (scope_events r sc events);
           answer = (\<lambda>rows txt. Inr (base_result path decoded @ [(u ''buckets'', JList rows), (u ''text'', JStr txt)])) in
       if ts = [] then answer [] (u ''No timed lines.'')
       else let t0 = mono_or_zero (hd ts) in
         bindE (density_buckets r bucket t0 ts) (\<lambda>d.
         let k = nat (int_val n_top); order = sort (map fst d) in
         answer
           (map (\<lambda>i. JObj [(u ''bucket_index'', JInt i), (u ''start_monotonic_s'', JFloat (bucket_start bucket t0 i)),
              (u ''counts'', JObj (map (\<lambda>(c, n). (c, jnat n)) (bucket_counts k d i)))]) order)
           (join newline (map (\<lambda>i. u ''+'' @ f64_fixed 3 (bucket_start bucket t0 i) @ u ''s/+'' @
              f64_fixed 0 (f64_of_json bucket) @ u ''s  '' @
              join (u '', '') (map (\<lambda>(c, n). c @ u ''='' @ nstr n) (bucket_counts k d i))) order))))"

definition density_timeline_dtj :: "host \<Rightarrow> pystr \<Rightarrow> json \<Rightarrow> json \<Rightarrow> bool \<Rightarrow> py_exn + jdict" where
  "density_timeline_dtj h p bucket n_top since =
     bindE (validate_positive_float (rt h) ''bucket_sec'' 0x40AC200000000000 bucket) (\<lambda>err.
       with_session h p [err, validate_top n_top] (density_result (rt h) bucket n_top (since_scope since None)))"

end
