(* ===== verification/Dtj_Compare.thy ===== *)
theory Dtj_Compare imports Dtj_Timing Jsonl_Store begin

text \<open>
  The analytics of \<open>dtj_analytics.py\<close> that compare: the last two sessions of a trace, each tag with the next,
  and a session with a baseline saved before. The order in which Python iterates over a set is a parameter.
\<close>

section \<open>The last two sessions\<close>

definition session_slices :: "runtime \<Rightarrow> jdict list \<Rightarrow> jdict list list" where
  "session_slices r events =
     (let starts = filter (\<lambda>i. is_session_boundary r (events ! i)) [0..<length events] in
      if starts = [] then (if events \<noteq> [] then [events] else [])
      else map (\<lambda>k. slice events (starts ! k) (if k + 1 < length starts then starts ! (k + 1) else length events))
             [0..<length starts])"

definition tag_counts :: "runtime \<Rightarrow> jdict list \<Rightarrow> pystr counter" where
  "tag_counts r events = fold (\<lambda>e. bump (event_tag r e)) events []"

definition flag_counts :: "runtime \<Rightarrow> jdict list \<Rightarrow> pystr counter" where
  "flag_counts r events = map (\<lambda>(label, n). (u label, n)) (red_counts (scan_events r 0 events))"

definition counts_json :: "pystr counter \<Rightarrow> json" where
  "counts_json c = JObj (map (\<lambda>(k, n). (k, jnat n)) c)"

text \<open>\<open>set(a) | set(b)\<close>, in the order in which it is visited.\<close>

definition both_keys :: "(pystr list \<Rightarrow> pystr list) \<Rightarrow> (pystr \<times> 'a) list \<Rightarrow> (pystr \<times> 'b) list \<Rightarrow> pystr list" where
  "both_keys order a b = order (remdups (map fst a @ map fst b))"

definition from_to :: "pystr \<Rightarrow> int \<Rightarrow> int \<Rightarrow> pystr" where
  "from_to k a b = u ''  '' @ k @ u '': '' @ str_int a @ [32, 8594, 32] @ str_int b"

definition count_changes ::
  "(pystr list \<Rightarrow> pystr list) \<Rightarrow> pystr counter \<Rightarrow> pystr counter \<Rightarrow> (pystr \<times> int \<times> int) list" where
  "count_changes order a b =
     filter (\<lambda>(k, m, n). m \<noteq> n) (map (\<lambda>k. (k, int (count_of a k), int (count_of b k))) (both_keys order a b))"

definition by_size :: "(pystr \<times> int \<times> int) list \<Rightarrow> (pystr \<times> int \<times> int) list" where
  "by_size changes = sort_key (\<lambda>(k, m, n). - \<bar>n - m\<bar>) changes"

definition change_line :: "pystr \<times> int \<times> int \<Rightarrow> pystr" where
  "change_line c = (case c of (k, m, n) \<Rightarrow>
     from_to k m n @ u '' ('' @ (if 0 < n - m then u ''+'' else []) @ str_int (n - m) @ u '')'')"

definition slice_json :: "runtime \<Rightarrow> jdict list \<Rightarrow> json" where
  "slice_json r events = JObj [(u ''event_count'', jnat (length events)), (u ''tags'', counts_json (tag_counts r events))]"

definition compare_result :: "(pystr list \<Rightarrow> pystr list) \<Rightarrow> runtime \<Rightarrow> pystr \<Rightarrow> jdict \<Rightarrow> py_exn + jdict" where
  "compare_result order r path decoded =
     bindE (event_dicts decoded) (\<lambda>events.
       let slices = session_slices r events in
       if length slices < 2
       then Inr (base_result path decoded @
         [(u ''text'', JStr (u ''Need at least 2 session segments (Session.Begin / trace cleared).'')),
          (u ''previous'', JNull), (u ''last'', JNull)])
       else
         let p = slices ! (length slices - 2); l = last slices;
             changes = by_size (count_changes order (tag_counts r p) (tag_counts r l));
             flags = count_changes order (flag_counts r p) (flag_counts r l);
             rows = [u ''previous: '' @ nstr (length p) @ u '' lines  |  last: '' @ nstr (length l) @ u '' lines'',
                 u ''tag changes (last vs previous):''] @
               map change_line (take 30 changes) @ (if changes = [] then [u ''  (no tag count changes)''] else []) @
               [u ''red flag changes:''] @
               (if flags \<noteq> [] then map (\<lambda>(k, m, n). from_to k m n) flags else [u ''  (none)''])
         in Inr (base_result path decoded @
              [(u ''previous'', slice_json r p), (u ''last'', slice_json r l), (u ''text'', JStr (join newline rows))]))"

definition compare_sessions_dtj :: "host \<Rightarrow> (pystr list \<Rightarrow> pystr list) \<Rightarrow> pystr \<Rightarrow> py_exn + jdict" where
  "compare_sessions_dtj h order p = with_session h p [] (compare_result order (rt h))"

section \<open>Each tag with the next\<close>

type_synonym transitions = "(pystr \<times> pystr counter) list"

definition add_transition :: "pystr \<times> pystr \<Rightarrow> transitions \<Rightarrow> transitions" where
  "add_transition ab m =
     (case ab of (a, b) \<Rightarrow> AList.update a (bump b (case map_of m a of None \<Rightarrow> [] | Some c \<Rightarrow> c)) m)"

definition transitions_of :: "pystr list \<Rightarrow> transitions" where
  "transitions_of tags = fold add_transition (zip tags (tl tags)) []"

definition total :: "'a counter \<Rightarrow> nat" where
  "total c = sum_list (map snd c)"

definition next_tags :: "pystr counter \<Rightarrow> (pystr \<times> 64 word \<times> nat) list" where
  "next_tags c = map (\<lambda>(t, n). (t, round_f64 False n (total c), n)) (most_common 5 c)"

text \<open>\<open>f"{x:.0%}"\<close>\<close>

definition f64_percent :: "64 word \<Rightarrow> pystr" where
  "f64_percent x = f64_fixed 0 (f64_mul x 0x4059000000000000) @ u ''%''"

definition transition_json :: "pystr \<times> pystr counter \<Rightarrow> json" where
  "transition_json t = (case t of (from_tag, c) \<Rightarrow>
     JObj [(u ''from'', JStr from_tag), (u ''total'', jnat (total c)),
       (u ''to'', JList (map (\<lambda>(t, x, n). JObj [(u ''tag'', JStr t), (u ''probability'', JFloat x), (u ''count'', jnat n)])
          (next_tags c)))])"

definition transition_line :: "pystr \<times> pystr counter \<Rightarrow> pystr" where
  "transition_line t = (case t of (from_tag, c) \<Rightarrow>
     u ''after '' @ from_tag @ u '': '' @ join (u '', '') (map (\<lambda>(t, x, n). t @ u ''='' @ f64_percent x) (next_tags c)))"

definition ranked_transitions :: "nat \<Rightarrow> transitions \<Rightarrow> transitions" where
  "ranked_transitions n m = take n (sort_key (\<lambda>(t, c). - int (total c)) m)"

definition transition_result :: "runtime \<Rightarrow> pystr option \<Rightarrow> json \<Rightarrow> scope \<Rightarrow> pystr \<Rightarrow> jdict \<Rightarrow> py_exn + jdict" where
  "transition_result r category n_top sc path decoded =
     bindE (event_dicts decoded) (\<lambda>events.
       let kept = filter (\<lambda>e. \<not> other_category r category e) (scope_events r sc events);
           answer = (\<lambda>rows txt. Inr (base_result path decoded @ [(u ''transitions'', JList rows), (u ''text'', JStr txt)])) in
       if length kept < 2 then answer [] (u ''Not enough lines.'')
       else let ranked = ranked_transitions (nat (int_val n_top)) (transitions_of (map (event_tag r) kept))
         in answer (map transition_json ranked) (join newline (map transition_line ranked)))"

definition transition_matrix_dtj :: "host \<Rightarrow> pystr \<Rightarrow> pystr option \<Rightarrow> json \<Rightarrow> bool \<Rightarrow> py_exn + jdict" where
  "transition_matrix_dtj h p category n_top since =
     with_session h p [validate_top n_top] (transition_result (rt h) category n_top (since_scope since category))"

section \<open>Saving a baseline\<close>

definition baseline_build :: "runtime \<Rightarrow> jdict list \<Rightarrow> jdict" where
  "baseline_build r events =
     [(u ''version'', JInt 1), (u ''format'', JStr (u ''dtj-baseline-v1'')), (u ''lines'', jnat (length events)),
      (u ''tags'', counts_json (tag_counts r events)),
      (u ''categories'', JObj (map (\<lambda>(c, n). (str_val c, jnat n)) (categories (scan_events r 0 events)))),
      (u ''red_flags'', counts_json (flag_counts r events)),
      (u ''last_monotonic_ns'', last_mono (scan_events r 0 events))]"

text \<open>The texts of the exceptions: of an \<open>OSError\<close>, and of a \<open>JSONDecodeError\<close> for a document and its \<open>msg\<close>.\<close>

record exn_texts =
  os_text :: "py_exn \<Rightarrow> pystr"
  decode_text :: "pystr \<Rightarrow> pystr \<Rightarrow> pystr"

definition path_check :: "pystr \<Rightarrow> jdict option" where
  "path_check b =
     (if strip b = []
      then Some [(u ''kind'', JStr (u ''InvalidPath'')),
        (u ''message'', JStr (u ''baseline_path must be an explicit non-empty path''))]
      else None)"

definition write_baseline :: "io_env \<Rightarrow> host \<Rightarrow> pystr \<Rightarrow> jdict \<Rightarrow> unit io" where
  "write_baseline env h bpath data =
     bindIO (make_dirs env (ancestors h bpath)) (\<lambda>_.
       write_text env bpath (json_chunks (rt h) 0 (JObj data) @ [newline]))"

definition os_error :: "py_exn \<Rightarrow> bool" where
  "os_error e = (case e of OsError \<Rightarrow> True | FileNotFoundError _ \<Rightarrow> True | _ \<Rightarrow> False)"

definition baseline_data :: "runtime \<Rightarrow> pystr \<Rightarrow> jdict list \<Rightarrow> jdict" where
  "baseline_data r path events = baseline_build r events @ [(u ''session_path'', JStr path)]"

definition baseline_save_dtj :: "io_env \<Rightarrow> exn_texts \<Rightarrow> host \<Rightarrow> pystr \<Rightarrow> pystr \<Rightarrow> (py_exn + jdict) \<times> files" where
  "baseline_save_dtj env x h p b =
     (let path = expanduser h p; bpath = expanduser h b in
      case path_check b of
        Some e \<Rightarrow> (Inr (fail_at path e), fs h)
      | None \<Rightarrow>
     (case read_session_dtj h p of
        Inl e \<Rightarrow> (Inl e, fs h)
      | Inr decoded \<Rightarrow>
     if \<not> is_ok decoded then (Inr decoded, fs h) else
     (case event_dicts decoded of
        Inl e \<Rightarrow> (Inl e, fs h)
      | Inr events \<Rightarrow>
          (case write_baseline env h bpath (baseline_data (rt h) path events) (fs h) of
             (Inl e, f) \<Rightarrow>
               (if os_error e
                then Inr (fail_at path [(u ''kind'', JStr (u ''Io'')),
                    (u ''message'', JStr (u ''failed to write baseline: '' @ os_text x e)), (u ''baseline_path'', JStr bpath)])
                else Inl e, f)
           | (Inr _, f) \<Rightarrow>
               (Inr (base_result path decoded @ [(u ''baseline_path'', JStr bpath),
                  (u ''baseline'', JObj (baseline_data (rt h) path events)),
                  (u ''text'', JStr (u ''baseline saved: '' @ bpath @ u ''  lines='' @ nstr (length events)))]), f)))))"

section \<open>Comparing with a baseline\<close>

text \<open>Text mode turns every line end into \<open>\<rbackslash>n\<close>.\<close>

fun newlines :: "pystr \<Rightarrow> pystr" where
  "newlines [] = []"
| "newlines (c # cs) = (if c = 13 then 10 # newlines (if cs \<noteq> [] \<and> hd cs = 10 then tl cs else cs) else c # newlines cs)"

text \<open>\<open>json.load\<close> of the file: the message of the exceptions that are caught, or the one that escapes.\<close>

definition load_baseline :: "json_reader \<Rightarrow> exn_texts \<Rightarrow> files \<Rightarrow> pystr \<Rightarrow> py_exn + pystr + json" where
  "load_baseline loads x f bpath =
     (case read_text f bpath of
        Inl e \<Rightarrow> (if os_error e then Inr (Inl (os_text x e)) else Inl e)
      | Inr t \<Rightarrow>
          (case loads (newlines t) of
             Parsed j \<Rightarrow> Inr (Inr j)
           | DecodeError m \<Rightarrow> Inr (Inl (decode_text x (newlines t) m))
           | Raises e \<Rightarrow> Inl e))"

text \<open>\<open>base.get(name, {}) if isinstance(base.get(name), dict) else {}\<close>, and \<open>int(d.get(k, 0) or 0)\<close>\<close>

definition dict_at :: "jdict \<Rightarrow> string \<Rightarrow> jdict" where
  "dict_at d name = (if is_dict (getj d (u name)) then dict_val (getj d (u name)) else [])"

definition int_at :: "runtime \<Rightarrow> jdict \<Rightarrow> pystr \<Rightarrow> py_exn + int" where
  "int_at r d k = py_int r (or_else (getd d k (JInt 0)) (JInt 0))"

definition dict_changes ::
  "runtime \<Rightarrow> (pystr list \<Rightarrow> pystr list) \<Rightarrow> jdict \<Rightarrow> jdict \<Rightarrow> py_exn + (pystr \<times> int \<times> int) list" where
  "dict_changes r order a b =
     bindE (mapE (\<lambda>k. bindE (int_at r a k) (\<lambda>m. bindE (int_at r b k) (\<lambda>n. Inr (k, m, n)))) (both_keys order a b)) (\<lambda>rows.
     Inr (filter (\<lambda>(k, m, n). m \<noteq> n) rows))"

definition diff_lines :: "(pystr \<times> int \<times> int) list \<Rightarrow> pystr list" where
  "diff_lines changes = (if changes \<noteq> [] then map (\<lambda>(k, m, n). from_to k m n) changes else [u ''  (none)''])"

definition baseline_result ::
  "(pystr list \<Rightarrow> pystr list) \<Rightarrow> runtime \<Rightarrow> pystr \<Rightarrow> jdict \<Rightarrow> pystr \<Rightarrow> jdict list \<Rightarrow> jdict \<Rightarrow> py_exn + jdict" where
  "baseline_result order r bpath base path events decoded =
     (let cur = baseline_build r events in
      bindE (dict_changes r order (dict_at base ''tags'') (dict_at cur ''tags'')) (\<lambda>tags.
      bindE (dict_changes r order (dict_at base ''red_flags'') (dict_at cur ''red_flags'')) (\<lambda>flags.
      Inr (base_result path decoded @
        [(u ''baseline_path'', JStr bpath), (u ''baseline'', JObj base), (u ''current'', JObj cur),
         (u ''text'', JStr (join newline
            ([u ''baseline: '' @ bpath,
              u ''lines: '' @ py_str r (getj base (u ''lines'')) @ [32, 8594, 32] @ nstr (length events), u ''tag diff:''] @
             diff_lines (take 25 (by_size tags)) @ [u ''red flag diff:''] @ diff_lines flags)))]))))"

definition baseline_diff_dtj ::
  "json_reader \<Rightarrow> exn_texts \<Rightarrow> (pystr list \<Rightarrow> pystr list) \<Rightarrow> host \<Rightarrow> pystr \<Rightarrow> pystr \<Rightarrow> py_exn + jdict" where
  "baseline_diff_dtj loads x order h p b =
     (let path = expanduser h p; bpath = expanduser h b in
      with_session h p
        [path_check b,
         if is_file h bpath then None
         else Some [(u ''kind'', JStr (u ''BaselineMissing'')),
           (u ''message'', JStr (u ''No baseline at '' @ bpath @ u ''. Call baseline_save first.'')),
           (u ''baseline_path'', JStr bpath)]]
        (\<lambda>path decoded.
           bindE (load_baseline loads x (fs h) bpath) (\<lambda>loaded.
           case loaded of
             Inl m \<Rightarrow> Inr (fail_at path [(u ''kind'', JStr (u ''CorruptBaseline'')),
                (u ''message'', JStr (u ''baseline is not readable JSON: '' @ m)), (u ''baseline_path'', JStr bpath)])
           | Inr (JObj base) \<Rightarrow>
               bindE (event_dicts decoded) (\<lambda>events. baseline_result order (rt h) bpath base path events decoded)
           | Inr _ \<Rightarrow> Inr (fail_at path [(u ''kind'', JStr (u ''CorruptBaseline'')),
                (u ''message'', JStr (u ''baseline root must be a JSON object''))]))))"

end
