(* ===== verification/Protocol_Doc.thy ===== *)
theory Protocol_Doc imports Dtj_Compare Trace_Config begin

text \<open>
  The protocol document of \<open>protocol.py\<close>, which agents read first. Its two schemas are files of the package.
\<close>

definition PROTOCOL_VERSION :: int where "PROTOCOL_VERSION = 1"

definition PERFORMANCE_RULE :: pystr where
  "PERFORMANCE_RULE =
     u ''If a domain or category is disabled by DebugTraceConfig (or profile=Off), '' @
     u ''the Unity producer MUST NOT allocate or format a payload for that event. '' @
     u ''Gate before string formatting / object construction.''"

section \<open>Schemas\<close>

text \<open>\<open>_SCHEMA_DIR\<close>, chosen when the module is imported: beside the module, or two directories up.\<close>

definition import_schema_dir :: "files \<Rightarrow> pystr \<Rightarrow> pystr \<Rightarrow> pystr" where
  "import_schema_dir f package_dir up =
     (if is_dir (f (path_join package_dir (u ''schemas''))) then path_join package_dir (u ''schemas'')
      else path_join up (u ''schemas''))"

text \<open>\<open>load_schema\<close>, for the directory chosen and the one of the package.\<close>

definition load_schema :: "json_reader \<Rightarrow> pystr \<times> pystr \<Rightarrow> files \<Rightarrow> string \<Rightarrow> py_exn + json" where
  "load_schema loads dirs f name =
     (let path = path_join (fst dirs) (u name); alt = path_join (snd dirs) (u name);
          path = (if \<not> file_at f path \<and> file_at f alt then alt else path)
      in bindE (read_text f path) (\<lambda>t. load_all loads (newlines t)))"

section \<open>The document\<close>

definition example_event :: json where
  "example_event =
     JObj [(u ''version'', JInt 1), (u ''sessionId'', JStr (u ''sess-2026-08-01T12-00-00Z'')), (u ''timestampUtc'',
     JStr (u ''2026-08-01T12:00:01.250Z'')), (u ''monotonicMs'', JFloat 0x4093880000000000), (u ''sequence'', JInt 42),
     (u ''domain'', JStr (u ''wire'')), (u ''category'', JStr (u ''gesture'')), (u ''eventName'', JStr (u ''KnotHit'')),
     (u ''correlationId'', JStr (u ''gesture-7f3a'')), (u ''severity'', JStr (u ''info'')), (u ''payload'',
     JObj [(u ''durationMs'', JFloat 0x4029000000000000), (u ''targetId'', JStr (u ''knot-12''))])]"

definition example_config :: json where
  "example_config =
     JObj [(u ''version'', JInt 1), (u ''enabled'', JBool True), (u ''profile'', JStr (u ''Verbose'')),
     (u ''enabledDomains'', JList [JStr (u ''wire''), JStr (u ''graph''), JStr (u ''persistence''),
     JStr (u ''simulation'')]), (u ''enabledCategoriesByDomain'', JObj [(u ''wire'', JList [JStr (u ''gesture''),
     JStr (u ''lifecycle'')]), (u ''graph'', JList [JStr (u ''*'')]), (u ''persistence'', JList [JStr (u ''snapshot'')]),
     (u ''simulation'', JList [JStr (u ''*'')])]), (u ''sampleEveryN'', JInt 1), (u ''maxEventsPerSession'', JInt 50000),
     (u ''captureUntilFirstAnomaly'', JBool False)]"

definition ownership :: json where
  "ownership =
     JObj [(u ''unity'', JStr (u ''lightweight producer '' @ [8212] @
     u '' append JSONL, poll config at safe boundaries; never call MCP per event'')), (u ''dochub'',
     JStr (u ''protocol docs, config schema, session ingest, indexing, search, reporting''))]"

definition lifecycle :: json where
  "lifecycle =
     JList [JStr (u ''MCP writes DebugTraceConfig JSON atomically to caller-supplied path''),
     JStr (u ''Unity polls/applies config at safe boundaries (not per-frame busy loop)''),
     JStr (u ''Producer appends native DTJ v1 bytes to a `.dtj` session (not JSONL)''),
     JStr (u ''Agents read/search/analyze via *_dtj tools on store_dir / session_path''),
     JStr (u ''No Wire Trace / JSONL import path on the production MCP surface'')]"

definition protocol_document :: "json_reader \<Rightarrow> pystr \<times> pystr \<Rightarrow> files \<Rightarrow> py_exn + jdict" where
  "protocol_document loads dirs f =
     bindE (load_schema loads dirs f ''debug-trace-event.schema.json'') (\<lambda>event_schema.
     bindE (load_schema loads dirs f ''debug-trace-config.schema.json'') (\<lambda>config_schema.
     Inr [(u ''status'', JStr (u ''experimental_foundation'')), (u ''not_a_wire_migration'', JBool True),
       (u ''protocolVersion'', JInt PROTOCOL_VERSION), (u ''ownership'', ownership),
       (u ''performanceRule'', JStr PERFORMANCE_RULE), (u ''profiles'', JList (map JStr PROFILES)),
       (u ''severities'', JList (map JStr SEVERITIES)), (u ''eventSchema'', event_schema), (u ''configSchema'', config_schema),
       (u ''exampleEvent'', example_event), (u ''exampleConfig'', example_config), (u ''lifecycle'', lifecycle)]))"

text \<open>The examples of the protocol document are valid, and consistent with each other: the example configuration
  and the example event pass the validators that the tools apply, and an event like the example is traced under a
  configuration like the example.\<close>

theorem protocol_examples_valid:
  "validate_config r example_config = [] \<and> validate_event r example_event = [] \<and>
   event_matches_config r (dict_val example_event) (dict_val example_config) = Inr True"
proof (intro conjI)
  show "validate_config r example_config = []"
    by (simp add: example_config_def validate_config_def Let_def PROFILES_def CONFIG_FIELDS_def str_array_def
        positive_int_def is_strict_int_def)
  show "validate_event r example_event = []"
    by (simp add: example_event_def validate_event_def Let_def EVENT_STRINGS_def SEVERITIES_def is_strict_int_def)
  show "event_matches_config r (dict_val example_event) (dict_val example_config) = Inr True"
    by (simp add: example_event_def example_config_def event_matches_config_def category_enabled_def or_else_def getd_def
        py_in_def hashable_def Let_def)
qed

end
