(* ===== verification/Mcp_Server.thy ===== *)
theory Mcp_Server imports Dtj_Snapshots Dtj_Compare Dtj_Brief Dtj_Catalog Config_Io Protocol_Doc begin

text \<open>
  The tools of \<open>server.py\<close>. Each calls one function of the library, answers with its JSON text and turns any
  exception into a structured error. Arguments that the library checks itself are JSON values, the others have the
  type of their annotation. What the library takes as parameters is collected in one record.
\<close>

section \<open>The server\<close>

record server =
  sv_host :: host
  sv_env :: io_env
  sv_store :: store_env
  sv_loads :: json_reader
  sv_texts :: exn_texts
  sv_str :: "py_exn \<Rightarrow> pystr"
  sv_regex :: regex_engine
  sv_nan :: "64 word list \<Rightarrow> 64 word list"
  sv_order :: "pystr list \<Rightarrow> pystr list"
  sv_classes :: char_classes
  sv_sha :: "bytes \<Rightarrow> pystr"
  sv_schemas :: "pystr \<times> pystr"

text \<open>\<open>_json\<close>\<close>

definition json_text :: "runtime \<Rightarrow> jdict \<Rightarrow> pystr" where
  "json_text r d = json_indent r 0 (JObj d)"

text \<open>\<open>except Exception as exc\<close>, where \<open>sv_str\<close> is \<open>str(exc)\<close>; the last argument are the fields that follow.\<close>

definition tool_failure :: "server \<Rightarrow> py_exn \<Rightarrow> jdict \<Rightarrow> jdict" where
  "tool_failure s e ctx =
     [(u ''ok'', JBool False), (u ''error'', JObj [(u ''kind'', JStr (u ''Io'')), (u ''message'', JStr (sv_str s e))])] @ ctx"

definition tool_text :: "server \<Rightarrow> jdict \<Rightarrow> (py_exn + jdict) \<Rightarrow> pystr" where
  "tool_text s ctx res = json_text (rt (sv_host s)) (case res of Inl e \<Rightarrow> tool_failure s e ctx | Inr d \<Rightarrow> d)"

definition session_only :: "pystr \<Rightarrow> jdict" where
  "session_only p = [(u ''session_path'', JStr p)]"

definition session_and_index :: "pystr \<Rightarrow> pystr \<Rightarrow> jdict" where
  "session_and_index p i = [(u ''session_path'', JStr p), (u ''index_path'', JStr i)]"

definition scope_args :: "bool \<Rightarrow> pystr option \<Rightarrow> int option \<Rightarrow> int option \<Rightarrow> scope" where
  "scope_args since_clear category mono_lo mono_hi =
     \<lparr>since_last_clear = since_clear, in_category = category, mono_from = mono_lo, mono_to = mono_hi\<rparr>"

section \<open>Protocol, catalog and configuration\<close>

definition debug_trace_protocol_get :: "server \<Rightarrow> py_exn + pystr" where
  "debug_trace_protocol_get s =
     bindE (protocol_document (sv_loads s) (sv_schemas s) (fs (sv_host s))) (\<lambda>d. Inr (json_text (rt (sv_host s)) d))"

definition debug_trace_event_catalog_resource :: "server \<Rightarrow> py_exn + pystr" where
  "debug_trace_event_catalog_resource s =
     bindE (event_catalog_dtj (sv_sha s) (sv_host s) (fs (sv_host s)) None) (render_event_catalog_markdown (rt (sv_host s)))"

definition debug_trace_event_catalog :: "server \<Rightarrow> pystr option \<Rightarrow> pystr" where
  "debug_trace_event_catalog s registry_path =
     tool_text s [(u ''registry_path'', json_str_opt registry_path)]
       (event_catalog_dtj (sv_sha s) (sv_host s) (fs (sv_host s)) registry_path)"

text \<open>The configuration tools answer with the text of the exception only.\<close>

definition config_failure :: "server \<Rightarrow> pystr \<Rightarrow> py_exn \<Rightarrow> jdict" where
  "config_failure s config_path e =
     [(u ''ok'', JBool False), (u ''error'', JStr (sv_str s e)), (u ''config_path'', JStr config_path)]"

definition config_answer :: "server \<Rightarrow> pystr \<Rightarrow> py_exn + jdict \<Rightarrow> pystr" where
  "config_answer s config_path res =
     json_text (rt (sv_host s)) (case res of Inl e \<Rightarrow> config_failure s config_path e | Inr d \<Rightarrow> d)"

definition debug_trace_config_get :: "server \<Rightarrow> pystr \<Rightarrow> pystr" where
  "debug_trace_config_get s config_path =
     config_answer s config_path
       (bindE (get_or_default (sv_host s) config_path) (\<lambda>cfg.
        Inr [(u ''ok'', JBool True), (u ''config_path'', JStr config_path),
          (u ''exists'', JBool (is_file (sv_host s) config_path)), (u ''config'', cfg),
          (u ''performanceRule'', JStr PERFORMANCE_RULE)]))"

definition parse_json_object :: "json_reader \<Rightarrow> pystr \<Rightarrow> string \<Rightarrow> py_exn + jdict" where
  "parse_json_object loads raw label =
     (case loads raw of
        DecodeError m \<Rightarrow> Inl (ValueError (u label @ u '' is not valid JSON: '' @ m))
      | Raises e \<Rightarrow> Inl e
      | Parsed j \<Rightarrow> (if is_dict j then Inr (dict_val j) else Inl (ValueError (u label @ u '' must be a JSON object''))))"

text \<open>\<open>base.update(cfg)\<close>\<close>

definition dict_update :: "jdict \<Rightarrow> jdict \<Rightarrow> jdict" where
  "dict_update base cfg = fold (\<lambda>(k, v). AList.update k v) cfg base"

definition writer_env :: "server \<Rightarrow> config_env" where
  "writer_env s = io_env.extend (sv_env s) \<lparr>dumps_indent = json_indent (rt (sv_host s)) 0\<rparr>"

definition debug_trace_config_set :: "server \<Rightarrow> pystr \<Rightarrow> pystr \<Rightarrow> pystr \<times> files" where
  "debug_trace_config_set s config_path config_json =
     (let h = sv_host s; answer = config_answer s config_path in
      case parse_json_object (sv_loads s) config_json ''config_json'' of
        Inl e \<Rightarrow> (answer (Inl e), fs h)
      | Inr cfg \<Rightarrow>
          (let base = JObj (dict_update default_config cfg); errors = validate_config (rt h) base in
           if errors \<noteq> [] then (answer (Inr [(u ''ok'', JBool False), (u ''errors'', JList (map JStr errors))]), fs h)
           else (case write_config_atomic (writer_env s) h config_path base of
               (Inl e, f) \<Rightarrow> (answer (Inl e), f)
             | (Inr path, f) \<Rightarrow>
                 (answer (Inr [(u ''ok'', JBool True), (u ''config_path'', JStr path), (u ''config'', base),
                    (u ''performanceRule'', JStr PERFORMANCE_RULE)]), f))))"

section \<open>Sessions\<close>

definition debug_trace_sessions_list_dtj :: "server \<Rightarrow> pystr \<Rightarrow> pystr" where
  "debug_trace_sessions_list_dtj s store_dir =
     tool_text s [(u ''store_dir'', JStr store_dir)]
       (list_sessions (sv_store s) (sv_host s) (open_store (sv_host s) store_dir))"

text \<open>\<open>session_info_dtj\<close> of \<open>dtj_query.py\<close>: the directory of the store is not used for a single session.\<close>

definition session_info_dtj :: "store_env \<Rightarrow> host \<Rightarrow> pystr \<Rightarrow> py_exn + jdict" where
  "session_info_dtj se h p = open_session_meta se h p"

definition debug_trace_session_info_dtj :: "server \<Rightarrow> pystr \<Rightarrow> pystr" where
  "debug_trace_session_info_dtj s p =
     tool_text s (session_only p) (session_info_dtj (sv_store s) (sv_host s) p)"

definition debug_trace_session_read_dtj :: "server \<Rightarrow> pystr \<Rightarrow> pystr" where
  "debug_trace_session_read_dtj s p =
     tool_text s (session_only p) (read_session_dtj (sv_host s) p)"

definition debug_trace_session_tail_dtj :: "server \<Rightarrow> pystr \<Rightarrow> json \<Rightarrow> pystr" where
  "debug_trace_session_tail_dtj s p n =
     tool_text s (session_only p) (tail_events_dtj (sv_host s) p n)"

definition debug_trace_session_events_dtj :: "server \<Rightarrow> pystr \<Rightarrow> json \<Rightarrow> json \<Rightarrow> pystr" where
  "debug_trace_session_events_dtj s p first_seq last_seq =
     tool_text s (session_only p) (get_event_range_dtj (sv_host s) p first_seq last_seq)"

definition debug_trace_session_context_dtj :: "server \<Rightarrow> pystr \<Rightarrow> json \<Rightarrow> json \<Rightarrow> json \<Rightarrow> pystr" where
  "debug_trace_session_context_dtj s p seqno n_before n_after =
     tool_text s (session_only p) (context_around_event_dtj (sv_host s) p seqno n_before n_after)"

definition debug_trace_session_search_dtj :: "server \<Rightarrow> pystr \<Rightarrow> filters \<Rightarrow> json \<Rightarrow> json \<Rightarrow> pystr" where
  "debug_trace_session_search_dtj s p flt limit offset =
     tool_text s (session_only p) (structured_search_dtj (sv_host s) p flt limit offset)"

definition debug_trace_session_text_search_dtj :: "server \<Rightarrow> pystr \<Rightarrow> json \<Rightarrow> pystr option \<Rightarrow> pystr option \<Rightarrow> json \<Rightarrow> pystr" where
  "debug_trace_session_text_search_dtj s p query domain category limit =
     tool_text s (session_only p) (text_search_dtj (sv_host s) p query domain category limit)"

definition debug_trace_session_regex_search_dtj :: "server \<Rightarrow> pystr \<Rightarrow> json \<Rightarrow> pystr option \<Rightarrow> pystr option \<Rightarrow> json \<Rightarrow> pystr" where
  "debug_trace_session_regex_search_dtj s p pattern domain category limit =
     tool_text s (session_only p) (regex_search_dtj (sv_regex s) (sv_host s) p pattern domain category limit)"

definition debug_trace_session_correlation_dtj :: "server \<Rightarrow> pystr \<Rightarrow> json \<Rightarrow> json \<Rightarrow> json \<Rightarrow> json \<Rightarrow> pystr" where
  "debug_trace_session_correlation_dtj s p corr n_before n_after limit =
     tool_text s (session_only p) (correlation_neighbourhood_dtj (sv_host s) p corr n_before n_after limit)"

definition debug_trace_session_stats_dtj :: "server \<Rightarrow> pystr \<Rightarrow> pystr option \<Rightarrow> pystr option \<Rightarrow> pystr" where
  "debug_trace_session_stats_dtj s p domain category =
     tool_text s (session_only p) (stats_report_dtj (sv_nan s) (sv_host s) p domain category)"

section \<open>Analysis\<close>

definition debug_trace_session_analyze_dtj :: "server \<Rightarrow> pystr \<Rightarrow> json \<Rightarrow> bool \<Rightarrow> pystr option \<Rightarrow> int option \<Rightarrow> int option \<Rightarrow> pystr" where
  "debug_trace_session_analyze_dtj s p n_top since_clear category mono_lo mono_hi =
     tool_text s (session_only p) (analyze_dtj (sv_host s) p n_top (scope_args since_clear category mono_lo mono_hi))"

definition debug_trace_session_since_last_repro_dtj :: "server \<Rightarrow> pystr \<Rightarrow> json \<Rightarrow> pystr" where
  "debug_trace_session_since_last_repro_dtj s p n_top =
     tool_text s (session_only p) (since_last_repro_dtj (sv_host s) p n_top)"

definition debug_trace_session_trace_brief_dtj :: "server \<Rightarrow> pystr \<Rightarrow> json \<Rightarrow> bool \<Rightarrow> pystr option \<Rightarrow> int option \<Rightarrow> int option \<Rightarrow> pystr" where
  "debug_trace_session_trace_brief_dtj s p n_top since_clear category mono_lo mono_hi =
     tool_text s (session_only p) (trace_brief_dtj (sv_host s) p n_top (scope_args since_clear category mono_lo mono_hi))"

definition debug_trace_session_red_flags_dtj :: "server \<Rightarrow> pystr \<Rightarrow> json \<Rightarrow> bool \<Rightarrow> pystr option \<Rightarrow> int option \<Rightarrow> int option \<Rightarrow> pystr" where
  "debug_trace_session_red_flags_dtj s p n_top since_clear category mono_lo mono_hi =
     tool_text s (session_only p) (red_flags_dtj (sv_host s) p n_top (scope_args since_clear category mono_lo mono_hi))"

definition debug_trace_session_event_balance_dtj :: "server \<Rightarrow> pystr \<Rightarrow> bool \<Rightarrow> bool \<Rightarrow> pystr option \<Rightarrow> int option \<Rightarrow> int option \<Rightarrow> pystr" where
  "debug_trace_session_event_balance_dtj s p only_unbalanced since_clear category mono_lo mono_hi =
     tool_text s (session_only p) (event_balance_dtj (sv_host s) p only_unbalanced (scope_args since_clear category mono_lo mono_hi))"

definition debug_trace_session_causal_chain_dtj :: "server \<Rightarrow> pystr \<Rightarrow> json \<Rightarrow> json \<Rightarrow> pystr" where
  "debug_trace_session_causal_chain_dtj s p seqno hops =
     tool_text s (session_only p) (causal_chain_dtj (sv_host s) p seqno hops)"

definition debug_trace_session_last_session_dtj :: "server \<Rightarrow> pystr \<Rightarrow> pystr" where
  "debug_trace_session_last_session_dtj s p =
     tool_text s (session_only p) (last_session_dtj (sv_host s) p)"

definition debug_trace_session_unmatched_entities_dtj :: "server \<Rightarrow> pystr \<Rightarrow> pystr \<Rightarrow> json \<Rightarrow> bool \<Rightarrow> pystr" where
  "debug_trace_session_unmatched_entities_dtj s p kind limit since_clear =
     tool_text s (session_only p) (unmatched_entities_dtj (sv_host s) p kind limit since_clear)"

definition debug_trace_session_preset_report_dtj :: "server \<Rightarrow> pystr \<Rightarrow> pystr \<Rightarrow> json \<Rightarrow> pystr" where
  "debug_trace_session_preset_report_dtj s p report n_top =
     tool_text s (session_only p) (preset_report_dtj (sv_host s) p report n_top)"

definition debug_trace_session_analyze_bundle_dtj :: "server \<Rightarrow> pystr \<Rightarrow> json \<Rightarrow> bool \<Rightarrow> pystr" where
  "debug_trace_session_analyze_bundle_dtj s p n_top since_clear =
     tool_text s (session_only p) (analyze_bundle_dtj (sv_host s) p n_top since_clear)"

definition debug_trace_session_line_bundle_dtj :: "server \<Rightarrow> pystr \<Rightarrow> json \<Rightarrow> json \<Rightarrow> json \<Rightarrow> json \<Rightarrow> pystr" where
  "debug_trace_session_line_bundle_dtj s p seqno n_before n_after hops =
     tool_text s (session_only p) (line_bundle_dtj (sv_host s) p seqno n_before n_after hops)"

section \<open>Analytics and index\<close>

definition debug_trace_session_repetition_dtj :: "server \<Rightarrow> pystr \<Rightarrow> json \<Rightarrow> json \<Rightarrow> bool \<Rightarrow> pystr option \<Rightarrow> pystr" where
  "debug_trace_session_repetition_dtj s p n_top min_run since_clear category =
     tool_text s (session_only p) (repetition_dtj (sv_host s) p n_top min_run since_clear category)"

definition debug_trace_session_entity_timeline_dtj :: "server \<Rightarrow> pystr \<Rightarrow> json \<Rightarrow> json \<Rightarrow> pystr" where
  "debug_trace_session_entity_timeline_dtj s p entity_id limit =
     tool_text s (session_only p) (entity_timeline_dtj (sv_host s) p entity_id limit)"

definition debug_trace_session_entity_cluster_dtj :: "server \<Rightarrow> pystr \<Rightarrow> json \<Rightarrow> json \<Rightarrow> json \<Rightarrow> pystr" where
  "debug_trace_session_entity_cluster_dtj s p entity_id window limit =
     tool_text s (session_only p) (entity_cluster_dtj (sv_host s) (sv_order s) p entity_id window limit)"

definition debug_trace_session_message_templates_dtj :: "server \<Rightarrow> pystr \<Rightarrow> json \<Rightarrow> bool \<Rightarrow> pystr option \<Rightarrow> pystr" where
  "debug_trace_session_message_templates_dtj s p n_top since_clear category =
     tool_text s (session_only p) (message_templates_dtj (sv_host s) (sv_classes s) p n_top since_clear category)"

definition debug_trace_session_snapshot_diff_dtj :: "server \<Rightarrow> pystr \<Rightarrow> json \<Rightarrow> json \<Rightarrow> pystr" where
  "debug_trace_session_snapshot_diff_dtj s p seqno limit =
     tool_text s (session_only p) (snapshot_diff_dtj (sv_host s) p seqno limit)"

definition debug_trace_session_pair_latency_dtj :: "server \<Rightarrow> pystr \<Rightarrow> pystr \<Rightarrow> bool \<Rightarrow> pystr" where
  "debug_trace_session_pair_latency_dtj s p kind since_clear =
     tool_text s (session_only p) (pair_latency_dtj (sv_host s) p kind since_clear)"

definition debug_trace_session_field_breakdown_dtj :: "server \<Rightarrow> pystr \<Rightarrow> json \<Rightarrow> pystr option \<Rightarrow> json \<Rightarrow> bool \<Rightarrow> pystr" where
  "debug_trace_session_field_breakdown_dtj s p field category n_top since_clear =
     tool_text s (session_only p) (field_breakdown_dtj (sv_host s) p field category n_top since_clear)"

definition debug_trace_session_field_crosstab_dtj :: "server \<Rightarrow> pystr \<Rightarrow> json \<Rightarrow> json \<Rightarrow> pystr option \<Rightarrow> json \<Rightarrow> bool \<Rightarrow> pystr" where
  "debug_trace_session_field_crosstab_dtj s p field_a field_b category n_top since_clear =
     tool_text s (session_only p) (field_crosstab_dtj (sv_host s) p field_a field_b category n_top since_clear)"

definition debug_trace_session_sequence_gap_dtj :: "server \<Rightarrow> pystr \<Rightarrow> json \<Rightarrow> json \<Rightarrow> json \<Rightarrow> json \<Rightarrow> bool \<Rightarrow> pystr" where
  "debug_trace_session_sequence_gap_dtj s p open_event close_event max_lines limit since_clear =
     tool_text s (session_only p) (sequence_gap_dtj (sv_host s) p open_event close_event max_lines limit since_clear)"

definition debug_trace_session_gaps_dtj :: "server \<Rightarrow> pystr \<Rightarrow> json \<Rightarrow> json \<Rightarrow> bool \<Rightarrow> pystr" where
  "debug_trace_session_gaps_dtj s p min_gap n_top since_clear =
     tool_text s (session_only p) (gaps_dtj (sv_host s) p min_gap n_top since_clear)"

definition debug_trace_session_compare_sessions_dtj :: "server \<Rightarrow> pystr \<Rightarrow> pystr" where
  "debug_trace_session_compare_sessions_dtj s p =
     tool_text s (session_only p) (compare_sessions_dtj (sv_host s) (sv_order s) p)"

definition debug_trace_session_transition_matrix_dtj :: "server \<Rightarrow> pystr \<Rightarrow> pystr option \<Rightarrow> json \<Rightarrow> bool \<Rightarrow> pystr" where
  "debug_trace_session_transition_matrix_dtj s p category n_top since_clear =
     tool_text s (session_only p) (transition_matrix_dtj (sv_host s) p category n_top since_clear)"

definition debug_trace_session_snapshot_before_after_dtj :: "server \<Rightarrow> pystr \<Rightarrow> pystr option \<Rightarrow> json \<Rightarrow> json \<Rightarrow> pystr" where
  "debug_trace_session_snapshot_before_after_dtj s p entity_id seqno limit =
     tool_text s (session_only p) (snapshot_before_after_dtj (sv_host s) p entity_id seqno limit)"

definition debug_trace_session_first_last_dtj :: "server \<Rightarrow> pystr \<Rightarrow> pystr option \<Rightarrow> pystr option \<Rightarrow> pystr" where
  "debug_trace_session_first_last_dtj s p tag_part entity_id =
     tool_text s (session_only p) (first_last_dtj (sv_host s) p tag_part entity_id)"

definition debug_trace_session_density_timeline_dtj :: "server \<Rightarrow> pystr \<Rightarrow> json \<Rightarrow> json \<Rightarrow> bool \<Rightarrow> pystr" where
  "debug_trace_session_density_timeline_dtj s p bucket n_top since_clear =
     tool_text s (session_only p) (density_timeline_dtj (sv_host s) p bucket n_top since_clear)"

definition debug_trace_session_minimal_repro_dtj :: "server \<Rightarrow> pystr \<Rightarrow> json \<Rightarrow> json \<Rightarrow> pystr" where
  "debug_trace_session_minimal_repro_dtj s p first_seq last_seq =
     tool_text s (session_only p) (minimal_repro_dtj (sv_host s) p first_seq last_seq)"

definition debug_trace_session_baseline_diff_dtj :: "server \<Rightarrow> pystr \<Rightarrow> pystr \<Rightarrow> pystr" where
  "debug_trace_session_baseline_diff_dtj s p b =
     tool_text s (session_only p) (baseline_diff_dtj (sv_loads s) (sv_texts s) (sv_order s) (sv_host s) p b)"

definition debug_trace_session_persistence_mismatches_dtj :: "server \<Rightarrow> pystr \<Rightarrow> json \<Rightarrow> pystr" where
  "debug_trace_session_persistence_mismatches_dtj s p n_top =
     tool_text s (session_only p) (persistence_mismatches_dtj (sv_host s) p n_top)"

definition debug_trace_session_search_dtj_index :: "server \<Rightarrow> pystr \<Rightarrow> pystr \<Rightarrow> filters \<Rightarrow> json \<Rightarrow> json \<Rightarrow> pystr" where
  "debug_trace_session_search_dtj_index s p i flt limit offset =
     tool_text s (session_and_index p i) (search_session_dtj_index (sv_host s) p i flt limit offset)"

definition debug_trace_session_performance_report_dtj_index :: "server \<Rightarrow> pystr \<Rightarrow> pystr \<Rightarrow> pystr option \<Rightarrow> pystr option \<Rightarrow> pystr option \<Rightarrow> pystr" where
  "debug_trace_session_performance_report_dtj_index s p i domain category field_name =
     tool_text s (session_and_index p i) (performance_report_dtj_index (sv_nan s) (sv_host s) p i domain category field_name)"

section \<open>Tools that may not return, or write\<close>

text \<open>\<open>None\<close>: the call does not return.\<close>

definition debug_trace_session_bursts_dtj :: "server \<Rightarrow> pystr \<Rightarrow> json \<Rightarrow> json \<Rightarrow> json \<Rightarrow> bool \<Rightarrow> pystr option" where
  "debug_trace_session_bursts_dtj s p window min_count n_top since_clear =
     map_option (tool_text s (session_only p)) (bursts_dtj (sv_host s) p window min_count n_top since_clear)"

definition debug_trace_session_baseline_save_dtj :: "server \<Rightarrow> pystr \<Rightarrow> pystr \<Rightarrow> pystr \<times> files" where
  "debug_trace_session_baseline_save_dtj s p b =
     (case baseline_save_dtj (sv_env s) (sv_texts s) (sv_host s) p b of (res, f) \<Rightarrow> (tool_text s (session_only p) res, f))"

text \<open>\<open>later\<close> is the file system after the source was decoded: others may change it in the meantime.\<close>

definition debug_trace_session_index_dtj :: "server \<Rightarrow> files \<Rightarrow> pystr \<Rightarrow> pystr \<Rightarrow> bool \<Rightarrow> pystr \<times> files" where
  "debug_trace_session_index_dtj s later p i rebuild =
     (case index_session_dtj (sv_env s) (sv_host s) later p i rebuild None of
        (res, f) \<Rightarrow> (tool_text s (session_and_index p i) res, f))"

section \<open>Calls\<close>

text \<open>A call of a registered tool with its arguments. The tools that only read and always return form four families.\<close>

datatype query_call =
    Session_info_dtj pystr
  | Session_read_dtj pystr
  | Session_tail_dtj pystr json
  | Session_events_dtj pystr json json
  | Session_context_dtj pystr json json json
  | Session_search_dtj pystr filters json json
  | Session_text_search_dtj pystr json "pystr option" "pystr option" json
  | Session_regex_search_dtj pystr json "pystr option" "pystr option" json
  | Session_correlation_dtj pystr json json json json
  | Session_stats_dtj pystr "pystr option" "pystr option"

primrec run_query :: "server \<Rightarrow> query_call \<Rightarrow> pystr" where
  "run_query s (Session_info_dtj p) = debug_trace_session_info_dtj s p"
| "run_query s (Session_read_dtj p) = debug_trace_session_read_dtj s p"
| "run_query s (Session_tail_dtj p n) = debug_trace_session_tail_dtj s p n"
| "run_query s (Session_events_dtj p first_seq last_seq) = debug_trace_session_events_dtj s p first_seq last_seq"
| "run_query s (Session_context_dtj p seqno n_before n_after) = debug_trace_session_context_dtj s p seqno n_before n_after"
| "run_query s (Session_search_dtj p flt limit offset) = debug_trace_session_search_dtj s p flt limit offset"
| "run_query s (Session_text_search_dtj p query domain category limit) = debug_trace_session_text_search_dtj s p query domain category limit"
| "run_query s (Session_regex_search_dtj p pattern domain category limit) = debug_trace_session_regex_search_dtj s p pattern domain category limit"
| "run_query s (Session_correlation_dtj p corr n_before n_after limit) = debug_trace_session_correlation_dtj s p corr n_before n_after limit"
| "run_query s (Session_stats_dtj p domain category) = debug_trace_session_stats_dtj s p domain category"

datatype analysis_call =
    Session_analyze_dtj pystr json bool "pystr option" "int option" "int option"
  | Session_since_last_repro_dtj pystr json
  | Session_trace_brief_dtj pystr json bool "pystr option" "int option" "int option"
  | Session_red_flags_dtj pystr json bool "pystr option" "int option" "int option"
  | Session_event_balance_dtj pystr bool bool "pystr option" "int option" "int option"
  | Session_causal_chain_dtj pystr json json
  | Session_last_session_dtj pystr
  | Session_unmatched_entities_dtj pystr pystr json bool
  | Session_preset_report_dtj pystr pystr json
  | Session_analyze_bundle_dtj pystr json bool
  | Session_line_bundle_dtj pystr json json json json

primrec run_analysis :: "server \<Rightarrow> analysis_call \<Rightarrow> pystr" where
  "run_analysis s (Session_analyze_dtj p n_top since_clear category mono_lo mono_hi) = debug_trace_session_analyze_dtj s p n_top since_clear category mono_lo mono_hi"
| "run_analysis s (Session_since_last_repro_dtj p n_top) = debug_trace_session_since_last_repro_dtj s p n_top"
| "run_analysis s (Session_trace_brief_dtj p n_top since_clear category mono_lo mono_hi) = debug_trace_session_trace_brief_dtj s p n_top since_clear category mono_lo mono_hi"
| "run_analysis s (Session_red_flags_dtj p n_top since_clear category mono_lo mono_hi) = debug_trace_session_red_flags_dtj s p n_top since_clear category mono_lo mono_hi"
| "run_analysis s (Session_event_balance_dtj p only_unbalanced since_clear category mono_lo mono_hi) = debug_trace_session_event_balance_dtj s p only_unbalanced since_clear category mono_lo mono_hi"
| "run_analysis s (Session_causal_chain_dtj p seqno hops) = debug_trace_session_causal_chain_dtj s p seqno hops"
| "run_analysis s (Session_last_session_dtj p) = debug_trace_session_last_session_dtj s p"
| "run_analysis s (Session_unmatched_entities_dtj p kind limit since_clear) = debug_trace_session_unmatched_entities_dtj s p kind limit since_clear"
| "run_analysis s (Session_preset_report_dtj p report n_top) = debug_trace_session_preset_report_dtj s p report n_top"
| "run_analysis s (Session_analyze_bundle_dtj p n_top since_clear) = debug_trace_session_analyze_bundle_dtj s p n_top since_clear"
| "run_analysis s (Session_line_bundle_dtj p seqno n_before n_after hops) = debug_trace_session_line_bundle_dtj s p seqno n_before n_after hops"

datatype analytics_call =
    Session_repetition_dtj pystr json json bool "pystr option"
  | Session_entity_timeline_dtj pystr json json
  | Session_entity_cluster_dtj pystr json json json
  | Session_message_templates_dtj pystr json bool "pystr option"
  | Session_snapshot_diff_dtj pystr json json
  | Session_pair_latency_dtj pystr pystr bool
  | Session_field_breakdown_dtj pystr json "pystr option" json bool
  | Session_field_crosstab_dtj pystr json json "pystr option" json bool
  | Session_sequence_gap_dtj pystr json json json json bool
  | Session_gaps_dtj pystr json json bool

primrec run_analytics :: "server \<Rightarrow> analytics_call \<Rightarrow> pystr" where
  "run_analytics s (Session_repetition_dtj p n_top min_run since_clear category) = debug_trace_session_repetition_dtj s p n_top min_run since_clear category"
| "run_analytics s (Session_entity_timeline_dtj p entity_id limit) = debug_trace_session_entity_timeline_dtj s p entity_id limit"
| "run_analytics s (Session_entity_cluster_dtj p entity_id window limit) = debug_trace_session_entity_cluster_dtj s p entity_id window limit"
| "run_analytics s (Session_message_templates_dtj p n_top since_clear category) = debug_trace_session_message_templates_dtj s p n_top since_clear category"
| "run_analytics s (Session_snapshot_diff_dtj p seqno limit) = debug_trace_session_snapshot_diff_dtj s p seqno limit"
| "run_analytics s (Session_pair_latency_dtj p kind since_clear) = debug_trace_session_pair_latency_dtj s p kind since_clear"
| "run_analytics s (Session_field_breakdown_dtj p field category n_top since_clear) = debug_trace_session_field_breakdown_dtj s p field category n_top since_clear"
| "run_analytics s (Session_field_crosstab_dtj p field_a field_b category n_top since_clear) = debug_trace_session_field_crosstab_dtj s p field_a field_b category n_top since_clear"
| "run_analytics s (Session_sequence_gap_dtj p open_event close_event max_lines limit since_clear) = debug_trace_session_sequence_gap_dtj s p open_event close_event max_lines limit since_clear"
| "run_analytics s (Session_gaps_dtj p min_gap n_top since_clear) = debug_trace_session_gaps_dtj s p min_gap n_top since_clear"

datatype timeline_call =
    Session_compare_sessions_dtj pystr
  | Session_transition_matrix_dtj pystr "pystr option" json bool
  | Session_snapshot_before_after_dtj pystr "pystr option" json json
  | Session_first_last_dtj pystr "pystr option" "pystr option"
  | Session_density_timeline_dtj pystr json json bool
  | Session_minimal_repro_dtj pystr json json
  | Session_baseline_diff_dtj pystr pystr
  | Session_persistence_mismatches_dtj pystr json
  | Session_search_dtj_index pystr pystr filters json json
  | Session_performance_report_dtj_index pystr pystr "pystr option" "pystr option" "pystr option"

primrec run_timeline :: "server \<Rightarrow> timeline_call \<Rightarrow> pystr" where
  "run_timeline s (Session_compare_sessions_dtj p) = debug_trace_session_compare_sessions_dtj s p"
| "run_timeline s (Session_transition_matrix_dtj p category n_top since_clear) = debug_trace_session_transition_matrix_dtj s p category n_top since_clear"
| "run_timeline s (Session_snapshot_before_after_dtj p entity_id seqno limit) = debug_trace_session_snapshot_before_after_dtj s p entity_id seqno limit"
| "run_timeline s (Session_first_last_dtj p tag_part entity_id) = debug_trace_session_first_last_dtj s p tag_part entity_id"
| "run_timeline s (Session_density_timeline_dtj p bucket n_top since_clear) = debug_trace_session_density_timeline_dtj s p bucket n_top since_clear"
| "run_timeline s (Session_minimal_repro_dtj p first_seq last_seq) = debug_trace_session_minimal_repro_dtj s p first_seq last_seq"
| "run_timeline s (Session_baseline_diff_dtj p b) = debug_trace_session_baseline_diff_dtj s p b"
| "run_timeline s (Session_persistence_mismatches_dtj p n_top) = debug_trace_session_persistence_mismatches_dtj s p n_top"
| "run_timeline s (Session_search_dtj_index p i flt limit offset) = debug_trace_session_search_dtj_index s p i flt limit offset"
| "run_timeline s (Session_performance_report_dtj_index p i domain category field_name) = debug_trace_session_performance_report_dtj_index s p i domain category field_name"

datatype tool_call =
    Protocol_get
  | Event_catalog "pystr option"
  | Config_get pystr
  | Config_set pystr pystr
  | Sessions_list_dtj pystr
  | Query query_call
  | Analysis analysis_call
  | Analytics analytics_call
  | Timeline timeline_call
  | Session_bursts_dtj pystr json json json bool
  | Session_baseline_save_dtj pystr pystr
  | Session_index_dtj pystr pystr bool

definition on_files :: "server \<Rightarrow> files \<Rightarrow> server" where
  "on_files s f = s\<lparr>sv_host := (sv_host s)\<lparr>fs := f\<rparr>\<rparr>"

text \<open>A call on a file system: the text or the exception, and the file system after it. No other process writes
  while it runs.\<close>

primrec run_tool :: "server \<Rightarrow> files \<Rightarrow> tool_call \<Rightarrow> ((py_exn + pystr) \<times> files) option" where
  "run_tool s f Protocol_get = Some (debug_trace_protocol_get (on_files s f), f)"
| "run_tool s f (Event_catalog registry_path) = Some (Inr (debug_trace_event_catalog (on_files s f) registry_path), f)"
| "run_tool s f (Config_get config_path) = Some (Inr (debug_trace_config_get (on_files s f) config_path), f)"
| "run_tool s f (Config_set config_path config_json) =
     (case debug_trace_config_set (on_files s f) config_path config_json of (t, f1) \<Rightarrow> Some (Inr t, f1))"
| "run_tool s f (Sessions_list_dtj store_dir) = Some (Inr (debug_trace_sessions_list_dtj (on_files s f) store_dir), f)"
| "run_tool s f (Query c) = Some (Inr (run_query (on_files s f) c), f)"
| "run_tool s f (Analysis c) = Some (Inr (run_analysis (on_files s f) c), f)"
| "run_tool s f (Analytics c) = Some (Inr (run_analytics (on_files s f) c), f)"
| "run_tool s f (Timeline c) = Some (Inr (run_timeline (on_files s f) c), f)"
| "run_tool s f (Session_bursts_dtj p window min_count n_top since_clear) =
     map_option (\<lambda>t. (Inr t, f)) (debug_trace_session_bursts_dtj (on_files s f) p window min_count n_top since_clear)"
| "run_tool s f (Session_baseline_save_dtj p b) =
     (case debug_trace_session_baseline_save_dtj (on_files s f) p b of (t, f1) \<Rightarrow> Some (Inr t, f1))"
| "run_tool s f (Session_index_dtj p i rebuild) =
     (case debug_trace_session_index_dtj (on_files s f) f p i rebuild of (t, f1) \<Rightarrow> Some (Inr t, f1))"

end
