(* ===== verification/Tool_Calls.thy ===== *)
theory Tool_Calls imports Mcp_Server begin

text \<open>
  The registered tools: name, parameters with their defaults, and the call that a list of argument values stands for.
  A call by name binds keyword arguments the way Python binds them.
\<close>

section \<open>Reading arguments\<close>

type_synonym signature = "(pystr \<times> json option) list"

type_synonym tool = "pystr \<times> signature \<times> (json list \<Rightarrow> tool_call option)"

text \<open>\<open>None\<close>: the value is not of the annotated type, and the call is outside the model. Nothing checks the types before
  the call, so a value whose type the code itself checks is taken as it is (\<open>Some\<close>), and so is one of which only the
  truth counts (\<open>truth_arg\<close>).\<close>

definition returns :: "'c \<Rightarrow> json list \<Rightarrow> 'c option" where
  "returns c vs = (if vs = [] then Some c else None)"

definition arg :: "(json \<Rightarrow> 'a option) \<Rightarrow> ('a \<Rightarrow> json list \<Rightarrow> 'c option) \<Rightarrow> json list \<Rightarrow> 'c option" where
  "arg parse k vs = (case vs of [] \<Rightarrow> None | v # ws \<Rightarrow> (case parse v of None \<Rightarrow> None | Some a \<Rightarrow> k a ws))"

definition str_arg :: "json \<Rightarrow> pystr option" where
  "str_arg v = (case v of JStr t \<Rightarrow> Some t | _ \<Rightarrow> None)"

definition bool_arg :: "json \<Rightarrow> bool option" where
  "bool_arg v = (case v of JBool b \<Rightarrow> Some b | _ \<Rightarrow> None)"

definition truth_arg :: "json \<Rightarrow> bool option" where
  "truth_arg v = Some (truthy v)"

definition str_opt_arg :: "json \<Rightarrow> pystr option option" where
  "str_opt_arg v = (case v of JNull \<Rightarrow> Some None | JStr t \<Rightarrow> Some (Some t) | _ \<Rightarrow> None)"

definition int_opt_arg :: "json \<Rightarrow> int option option" where
  "int_opt_arg v = (case v of JNull \<Rightarrow> Some None | JInt i \<Rightarrow> Some (Some i) | _ \<Rightarrow> None)"

text \<open>The parameters that both searches share.\<close>

definition FILTER_PARAMS :: signature where
  "FILTER_PARAMS =
     [(u ''domain'', Some JNull), (u ''category'', Some JNull), (u ''event_name'', Some JNull), (u ''event'', Some JNull),
      (u ''correlation_id'', Some JNull), (u ''severity'', Some JNull), (u ''text'', Some JNull), (u ''exclude'', Some JNull),
      (u ''exclude_category'', Some JNull), (u ''mono_from_ns'', Some JNull), (u ''mono_to_ns'', Some JNull)]"

definition filter_args :: "(filters \<Rightarrow> json list \<Rightarrow> 'c option) \<Rightarrow> json list \<Rightarrow> 'c option" where
  "filter_args k =
     arg str_opt_arg (\<lambda>domain. arg str_opt_arg (\<lambda>category. arg str_opt_arg (\<lambda>event_name. arg str_opt_arg (\<lambda>event.
     arg str_opt_arg (\<lambda>correlation_id. arg str_opt_arg (\<lambda>severity. arg str_opt_arg (\<lambda>txt. arg str_opt_arg (\<lambda>exclude.
     arg str_opt_arg (\<lambda>exclude_category. arg Some (\<lambda>mono_from_ns. arg Some (\<lambda>mono_to_ns.
       k \<lparr>f_domain = domain, f_category = category, f_event_name = event_name, f_event = event,
          f_correlation_id = correlation_id, f_severity = severity, f_text = txt, f_exclude = exclude,
          f_exclude_category = exclude_category, f_mono_from_ns = mono_from_ns, f_mono_to_ns = mono_to_ns\<rparr>)))))))))))"

section \<open>The tools\<close>

definition QUERY_TOOLS :: "tool list" where
  "QUERY_TOOLS =
    [(u ''session_info_dtj'', [(u ''session_path'', None)],
       arg str_arg (\<lambda>p. returns (Query (Session_info_dtj p)))),
     (u ''session_read_dtj'', [(u ''session_path'', None)],
       arg str_arg (\<lambda>p. returns (Query (Session_read_dtj p)))),
     (u ''session_tail_dtj'', [(u ''session_path'', None), (u ''n'', Some (JInt 50))],
       arg str_arg (\<lambda>p. arg Some (\<lambda>n. returns (Query (Session_tail_dtj p n))))),
     (u ''session_events_dtj'', [(u ''session_path'', None), (u ''start'', None), (u ''end'', None)],
       arg str_arg (\<lambda>p. arg Some (\<lambda>first_seq. arg Some (\<lambda>last_seq.
       returns (Query (Session_events_dtj p first_seq last_seq)))))),
     (u ''session_context_dtj'', [(u ''session_path'', None), (u ''event_sequence'', None),
       (u ''before'', Some (JInt 30)), (u ''after'', Some (JInt 30))],
       arg str_arg (\<lambda>p. arg Some (\<lambda>seqno. arg Some (\<lambda>n_before.
       arg Some (\<lambda>n_after. returns (Query (Session_context_dtj p seqno n_before n_after))))))),
     (u ''session_search_dtj'', [(u ''session_path'', None)] @ FILTER_PARAMS @ [(u ''limit'', Some (JInt 100)),
       (u ''offset'', Some (JInt 0))],
       arg str_arg (\<lambda>p. filter_args (\<lambda>flt. arg Some (\<lambda>maximum.
       arg Some (\<lambda>offset. returns (Query (Session_search_dtj p flt maximum offset))))))),
     (u ''session_text_search_dtj'', [(u ''session_path'', None), (u ''query'', None), (u ''domain'', Some JNull),
       (u ''category'', Some JNull), (u ''limit'', Some (JInt 50))],
       arg str_arg (\<lambda>p. arg Some (\<lambda>query_text. arg str_opt_arg (\<lambda>in_domain.
       arg str_opt_arg (\<lambda>category_arg. arg Some (\<lambda>maximum.
       returns (Query (Session_text_search_dtj p query_text in_domain category_arg maximum)))))))),
     (u ''session_regex_search_dtj'', [(u ''session_path'', None), (u ''pattern'', None),
       (u ''domain'', Some JNull), (u ''category'', Some JNull), (u ''limit'', Some (JInt 50))],
       arg str_arg (\<lambda>p. arg Some (\<lambda>pattern. arg str_opt_arg (\<lambda>in_domain.
       arg str_opt_arg (\<lambda>category_arg. arg Some (\<lambda>maximum.
       returns (Query (Session_regex_search_dtj p pattern in_domain category_arg maximum)))))))),
     (u ''session_correlation_dtj'', [(u ''session_path'', None), (u ''correlation_id'', None),
       (u ''before'', Some (JInt 5)), (u ''after'', Some (JInt 5)), (u ''limit'', Some (JInt 50))],
       arg str_arg (\<lambda>p. arg Some (\<lambda>corr. arg Some (\<lambda>n_before. arg Some (\<lambda>n_after.
       arg Some (\<lambda>maximum. returns (Query (Session_correlation_dtj p corr n_before n_after maximum)))))))),
     (u ''session_stats_dtj'', [(u ''session_path'', None), (u ''domain'', Some JNull), (u ''category'', Some JNull)],
       arg str_arg (\<lambda>p. arg str_opt_arg (\<lambda>in_domain. arg str_opt_arg (\<lambda>category_arg.
       returns (Query (Session_stats_dtj p in_domain category_arg))))))]"

definition ANALYSIS_TOOLS :: "tool list" where
  "ANALYSIS_TOOLS =
    [(u ''session_analyze_dtj'', [(u ''session_path'', None), (u ''top'', Some (JInt 5)),
       (u ''since_last_clear'', Some (JBool False)), (u ''category'', Some JNull), (u ''mono_from_ns'', Some JNull),
       (u ''mono_to_ns'', Some JNull)],
       arg str_arg (\<lambda>p. arg Some (\<lambda>n_top. arg bool_arg (\<lambda>since_clear.
       arg str_opt_arg (\<lambda>category_arg. arg int_opt_arg (\<lambda>mono_from_ns.
       arg int_opt_arg (\<lambda>mono_to_ns.
       returns (Analysis (Session_analyze_dtj p n_top since_clear category_arg mono_from_ns mono_to_ns))))))))),
     (u ''session_since_last_repro_dtj'', [(u ''session_path'', None), (u ''top'', Some (JInt 5))],
       arg str_arg (\<lambda>p. arg Some (\<lambda>n_top.
       returns (Analysis (Session_since_last_repro_dtj p n_top))))),
     (u ''session_trace_brief_dtj'', [(u ''session_path'', None), (u ''top'', Some (JInt 5)),
       (u ''since_last_clear'', Some (JBool True)), (u ''category'', Some JNull), (u ''mono_from_ns'', Some JNull),
       (u ''mono_to_ns'', Some JNull)],
       arg str_arg (\<lambda>p. arg Some (\<lambda>n_top. arg bool_arg (\<lambda>since_clear.
       arg str_opt_arg (\<lambda>category_arg. arg int_opt_arg (\<lambda>mono_from_ns.
       arg int_opt_arg (\<lambda>mono_to_ns.
       returns (Analysis (Session_trace_brief_dtj p n_top since_clear category_arg mono_from_ns mono_to_ns))))))))),
     (u ''session_red_flags_dtj'', [(u ''session_path'', None), (u ''top'', Some (JInt 5)),
       (u ''since_last_clear'', Some (JBool False)), (u ''category'', Some JNull), (u ''mono_from_ns'', Some JNull),
       (u ''mono_to_ns'', Some JNull)],
       arg str_arg (\<lambda>p. arg Some (\<lambda>n_top. arg bool_arg (\<lambda>since_clear.
       arg str_opt_arg (\<lambda>category_arg. arg int_opt_arg (\<lambda>mono_from_ns.
       arg int_opt_arg (\<lambda>mono_to_ns.
       returns (Analysis (Session_red_flags_dtj p n_top since_clear category_arg mono_from_ns mono_to_ns))))))))),
     (u ''session_event_balance_dtj'', [(u ''session_path'', None), (u ''only_unbalanced'', Some (JBool True)),
       (u ''since_last_clear'', Some (JBool False)), (u ''category'', Some JNull), (u ''mono_from_ns'', Some JNull),
       (u ''mono_to_ns'', Some JNull)],
       arg str_arg (\<lambda>p. arg bool_arg (\<lambda>only_unbalanced. arg bool_arg (\<lambda>since_clear.
       arg str_opt_arg (\<lambda>category_arg. arg int_opt_arg (\<lambda>mono_from_ns.
       arg int_opt_arg (\<lambda>mono_to_ns.
       returns (Analysis (Session_event_balance_dtj p only_unbalanced since_clear category_arg mono_from_ns
       mono_to_ns))))))))),
     (u ''session_causal_chain_dtj'', [(u ''session_path'', None), (u ''event_sequence'', None),
       (u ''hops'', Some (JInt 5))],
       arg str_arg (\<lambda>p. arg Some (\<lambda>seqno. arg Some (\<lambda>hops.
       returns (Analysis (Session_causal_chain_dtj p seqno hops)))))),
     (u ''session_last_session_dtj'', [(u ''session_path'', None)],
       arg str_arg (\<lambda>p. returns (Analysis (Session_last_session_dtj p)))),
     (u ''session_unmatched_entities_dtj'', [(u ''session_path'', None), (u ''kind'', Some (JStr (u ''Dangling''))),
       (u ''limit'', Some (JInt 50)), (u ''since_last_clear'', Some (JBool False))],
       arg str_arg (\<lambda>p. arg str_arg (\<lambda>kind_name. arg Some (\<lambda>maximum.
       arg bool_arg (\<lambda>since_clear.
       returns (Analysis (Session_unmatched_entities_dtj p kind_name maximum since_clear))))))),
     (u ''session_preset_report_dtj'', [(u ''session_path'', None), (u ''report'', None),
       (u ''top'', Some (JInt 10))],
       arg str_arg (\<lambda>p. arg str_arg (\<lambda>report. arg Some (\<lambda>n_top.
       returns (Analysis (Session_preset_report_dtj p report n_top)))))),
     (u ''session_analyze_bundle_dtj'', [(u ''session_path'', None), (u ''top'', Some (JInt 5)),
       (u ''since_last_clear'', Some (JBool True))],
       arg str_arg (\<lambda>p. arg Some (\<lambda>n_top. arg bool_arg (\<lambda>since_clear.
       returns (Analysis (Session_analyze_bundle_dtj p n_top since_clear)))))),
     (u ''session_line_bundle_dtj'', [(u ''session_path'', None), (u ''event_sequence'', None),
       (u ''before'', Some (JInt 8)), (u ''after'', Some (JInt 8)), (u ''hops'', Some (JInt 5))],
       arg str_arg (\<lambda>p. arg Some (\<lambda>seqno. arg Some (\<lambda>n_before. arg Some (\<lambda>n_after.
       arg Some (\<lambda>hops. returns (Analysis (Session_line_bundle_dtj p seqno n_before n_after hops))))))))]"

definition ANALYTICS_TOOLS :: "tool list" where
  "ANALYTICS_TOOLS =
    [(u ''session_repetition_dtj'', [(u ''session_path'', None), (u ''top'', Some (JInt 10)),
       (u ''min_run'', Some (JInt 3)), (u ''since_last_clear'', Some (JBool False)), (u ''category'', Some JNull)],
       arg str_arg (\<lambda>p. arg Some (\<lambda>n_top. arg Some (\<lambda>min_run.
       arg bool_arg (\<lambda>since_clear. arg str_opt_arg (\<lambda>category_arg.
       returns (Analytics (Session_repetition_dtj p n_top min_run since_clear category_arg)))))))),
     (u ''session_entity_timeline_dtj'', [(u ''session_path'', None), (u ''entity_id'', None),
       (u ''limit'', Some (JInt 100))],
       arg str_arg (\<lambda>p. arg Some (\<lambda>ent_id. arg Some (\<lambda>maximum.
       returns (Analytics (Session_entity_timeline_dtj p ent_id maximum)))))),
     (u ''session_entity_cluster_dtj'', [(u ''session_path'', None), (u ''entity_id'', None),
       (u ''window'', Some (JInt 20)), (u ''limit'', Some (JInt 30))],
       arg str_arg (\<lambda>p. arg Some (\<lambda>ent_id. arg Some (\<lambda>window_size.
       arg Some (\<lambda>maximum. returns (Analytics (Session_entity_cluster_dtj p ent_id window_size maximum))))))),
     (u ''session_message_templates_dtj'', [(u ''session_path'', None), (u ''top'', Some (JInt 10)),
       (u ''since_last_clear'', Some (JBool False)), (u ''category'', Some JNull)],
       arg str_arg (\<lambda>p. arg Some (\<lambda>n_top. arg bool_arg (\<lambda>since_clear.
       arg str_opt_arg (\<lambda>category_arg.
       returns (Analytics (Session_message_templates_dtj p n_top since_clear category_arg))))))),
     (u ''session_snapshot_diff_dtj'', [(u ''session_path'', None), (u ''event_sequence'', Some JNull),
       (u ''limit'', Some (JInt 5))],
       arg str_arg (\<lambda>p. arg Some (\<lambda>seqno. arg Some (\<lambda>maximum.
       returns (Analytics (Session_snapshot_diff_dtj p seqno maximum)))))),
     (u ''session_pair_latency_dtj'', [(u ''session_path'', None), (u ''kind'', Some (JStr (u ''Dangling''))),
       (u ''since_last_clear'', Some (JBool False))],
       arg str_arg (\<lambda>p. arg str_arg (\<lambda>kind_name. arg bool_arg (\<lambda>since_clear.
       returns (Analytics (Session_pair_latency_dtj p kind_name since_clear)))))),
     (u ''session_field_breakdown_dtj'', [(u ''session_path'', None), (u ''field'', None),
       (u ''category'', Some JNull), (u ''top'', Some (JInt 20)), (u ''since_last_clear'', Some (JBool False))],
       arg str_arg (\<lambda>p. arg Some (\<lambda>fld. arg str_opt_arg (\<lambda>category_arg.
       arg Some (\<lambda>n_top. arg bool_arg (\<lambda>since_clear.
       returns (Analytics (Session_field_breakdown_dtj p fld category_arg n_top since_clear)))))))),
     (u ''session_field_crosstab_dtj'', [(u ''session_path'', None), (u ''field_a'', None), (u ''field_b'', None),
       (u ''category'', Some JNull), (u ''top'', Some (JInt 20)), (u ''since_last_clear'', Some (JBool False))],
       arg str_arg (\<lambda>p. arg Some (\<lambda>field_a. arg Some (\<lambda>field_b.
       arg str_opt_arg (\<lambda>category_arg. arg Some (\<lambda>n_top. arg bool_arg (\<lambda>since_clear.
       returns (Analytics (Session_field_crosstab_dtj p field_a field_b category_arg n_top since_clear))))))))),
     (u ''session_sequence_gap_dtj'', [(u ''session_path'', None), (u ''open_event'', None),
       (u ''close_event'', None), (u ''max_lines'', Some (JInt 100)), (u ''limit'', Some (JInt 50)),
       (u ''since_last_clear'', Some (JBool False))],
       arg str_arg (\<lambda>p. arg Some (\<lambda>open_event. arg Some (\<lambda>close_event.
       arg Some (\<lambda>max_lines. arg Some (\<lambda>maximum. arg bool_arg (\<lambda>since_clear.
       returns (Analytics (Session_sequence_gap_dtj p open_event close_event max_lines maximum since_clear))))))))),
     (u ''session_gaps_dtj'', [(u ''session_path'', None), (u ''min_gap_sec'', Some (JFloat 0x4000000000000000)),
       (u ''top'', Some (JInt 10)), (u ''since_last_clear'', Some (JBool False))],
       arg str_arg (\<lambda>p. arg Some (\<lambda>min_gap_sec. arg Some (\<lambda>n_top.
       arg bool_arg (\<lambda>since_clear.
       returns (Analytics (Session_gaps_dtj p min_gap_sec n_top since_clear)))))))]"

definition TIMELINE_TOOLS :: "tool list" where
  "TIMELINE_TOOLS =
    [(u ''session_compare_sessions_dtj'', [(u ''session_path'', None)],
       arg str_arg (\<lambda>p. returns (Timeline (Session_compare_sessions_dtj p)))),
     (u ''session_transition_matrix_dtj'', [(u ''session_path'', None), (u ''category'', Some JNull),
       (u ''top'', Some (JInt 10)), (u ''since_last_clear'', Some (JBool False))],
       arg str_arg (\<lambda>p. arg str_opt_arg (\<lambda>category_arg. arg Some (\<lambda>n_top.
       arg bool_arg (\<lambda>since_clear.
       returns (Timeline (Session_transition_matrix_dtj p category_arg n_top since_clear))))))),
     (u ''session_snapshot_before_after_dtj'', [(u ''session_path'', None), (u ''entity_id'', Some JNull),
       (u ''event_sequence'', Some JNull), (u ''limit'', Some (JInt 20))],
       arg str_arg (\<lambda>p. arg str_opt_arg (\<lambda>ent_id. arg Some (\<lambda>seqno.
       arg Some (\<lambda>maximum. returns (Timeline (Session_snapshot_before_after_dtj p ent_id seqno maximum))))))),
     (u ''session_first_last_dtj'', [(u ''session_path'', None), (u ''tag'', Some JNull),
       (u ''entity_id'', Some JNull)],
       arg str_arg (\<lambda>p. arg str_opt_arg (\<lambda>tag_part. arg str_opt_arg (\<lambda>ent_id.
       returns (Timeline (Session_first_last_dtj p tag_part ent_id)))))),
     (u ''session_density_timeline_dtj'', [(u ''session_path'', None),
       (u ''bucket_sec'', Some (JFloat 0x4024000000000000)), (u ''top_categories'', Some (JInt 5)),
       (u ''since_last_clear'', Some (JBool False))],
       arg str_arg (\<lambda>p. arg Some (\<lambda>bucket_sec. arg Some (\<lambda>n_top.
       arg bool_arg (\<lambda>since_clear.
       returns (Timeline (Session_density_timeline_dtj p bucket_sec n_top since_clear))))))),
     (u ''session_minimal_repro_dtj'', [(u ''session_path'', None), (u ''start'', None), (u ''end'', None)],
       arg str_arg (\<lambda>p. arg Some (\<lambda>first_seq. arg Some (\<lambda>last_seq.
       returns (Timeline (Session_minimal_repro_dtj p first_seq last_seq)))))),
     (u ''session_baseline_diff_dtj'', [(u ''session_path'', None), (u ''baseline_path'', None)],
       arg str_arg (\<lambda>p. arg str_arg (\<lambda>b. returns (Timeline (Session_baseline_diff_dtj p b))))),
     (u ''session_persistence_mismatches_dtj'', [(u ''session_path'', None), (u ''top'', Some (JInt 10))],
       arg str_arg (\<lambda>p. arg Some (\<lambda>n_top.
       returns (Timeline (Session_persistence_mismatches_dtj p n_top))))),
     (u ''session_search_dtj_index'', [(u ''session_path'', None),
       (u ''index_path'', None)] @ FILTER_PARAMS @ [(u ''limit'', Some (JInt 100)), (u ''offset'', Some (JInt 0))],
       arg str_arg (\<lambda>p. arg str_arg (\<lambda>ix. filter_args (\<lambda>flt. arg Some (\<lambda>maximum.
       arg Some (\<lambda>offset. returns (Timeline (Session_search_dtj_index p ix flt maximum offset)))))))),
     (u ''session_performance_report_dtj_index'', [(u ''session_path'', None), (u ''index_path'', None),
       (u ''domain'', Some JNull), (u ''category'', Some JNull), (u ''field'', Some JNull)],
       arg str_arg (\<lambda>p. arg str_arg (\<lambda>ix. arg str_opt_arg (\<lambda>in_domain.
       arg str_opt_arg (\<lambda>category_arg. arg str_opt_arg (\<lambda>fld.
       returns (Timeline (Session_performance_report_dtj_index p ix in_domain category_arg fld))))))))]"

definition OTHER_TOOLS :: "tool list" where
  "OTHER_TOOLS =
    [(u ''protocol_get'', [],
       returns Protocol_get),
     (u ''event_catalog'', [(u ''registry_path'', Some JNull)],
       arg str_opt_arg (\<lambda>registry_path. returns (Event_catalog registry_path))),
     (u ''config_get'', [(u ''config_path'', None)],
       arg str_arg (\<lambda>cfg_path. returns (Config_get cfg_path))),
     (u ''config_set'', [(u ''config_path'', None), (u ''config_json'', None)],
       arg str_arg (\<lambda>cfg_path. arg str_arg (\<lambda>config_json.
       returns (Config_set cfg_path config_json)))),
     (u ''sessions_list_dtj'', [(u ''store_dir'', None)],
       arg str_arg (\<lambda>dir. returns (Sessions_list_dtj dir))),
     (u ''session_bursts_dtj'', [(u ''session_path'', None), (u ''window_sec'', Some (JFloat 0x3FF0000000000000)),
       (u ''min_count'', Some (JInt 5)), (u ''top'', Some (JInt 10)), (u ''since_last_clear'', Some (JBool False))],
       arg str_arg (\<lambda>p. arg Some (\<lambda>window_sec. arg Some (\<lambda>min_count.
       arg Some (\<lambda>n_top. arg bool_arg (\<lambda>since_clear.
       returns (Session_bursts_dtj p window_sec min_count n_top since_clear))))))),
     (u ''session_baseline_save_dtj'', [(u ''session_path'', None), (u ''baseline_path'', None)],
       arg str_arg (\<lambda>p. arg str_arg (\<lambda>b. returns (Session_baseline_save_dtj p b)))),
     (u ''session_index_dtj'', [(u ''session_path'', None), (u ''index_path'', None),
       (u ''rebuild'', Some (JBool False))],
       arg str_arg (\<lambda>p. arg str_arg (\<lambda>ix. arg truth_arg (\<lambda>rebuild.
       returns (Session_index_dtj p ix rebuild)))))]"

definition TOOLS :: "tool list" where
  "TOOLS = OTHER_TOOLS @ QUERY_TOOLS @ ANALYSIS_TOOLS @ ANALYTICS_TOOLS @ TIMELINE_TOOLS"

section \<open>Binding\<close>

text \<open>\<open>fn(**params)\<close>: the values of the parameters in their order, or the \<open>TypeError\<close> for a keyword that is not one,
  or for parameters that are missing.\<close>

definition quoted :: "pystr \<Rightarrow> pystr" where
  "quoted t = [39] @ t @ [39]"

definition name_list :: "pystr list \<Rightarrow> pystr" where
  "name_list ns =
     (case rev ns of
        [] \<Rightarrow> []
      | [n] \<Rightarrow> quoted n
      | [n, m] \<Rightarrow> quoted m @ u '' and '' @ quoted n
      | n # ms \<Rightarrow> join (u '', '') (map quoted (rev ms)) @ u '', and '' @ quoted n)"

definition missing_arguments :: "pystr \<Rightarrow> pystr list \<Rightarrow> py_exn" where
  "missing_arguments fn ns =
     TypeError (fn @ u ''() missing '' @ str_nat (length ns) @ u '' required positional argument'' @
       (if length ns = 1 then [] else u ''s'') @ u '': '' @ name_list ns)"

definition bind_arguments :: "pystr \<Rightarrow> signature \<Rightarrow> jdict \<Rightarrow> py_exn + json list" where
  "bind_arguments fn sig params =
     (case find (\<lambda>(k, v). k \<notin> fst ` set sig) params of
        Some (k, v) \<Rightarrow> Inl (TypeError (fn @ u ''() got an unexpected keyword argument '' @ quoted k))
      | None \<Rightarrow>
          (let absent = filter (\<lambda>(p, default). default = None \<and> map_of params p = None) sig in
           if absent \<noteq> [] then Inl (missing_arguments fn (map fst absent))
           else Inr (map (\<lambda>(p, default). case map_of params p of Some v \<Rightarrow> v | None \<Rightarrow> the default) sig)))"

definition function_name :: "pystr \<Rightarrow> pystr" where
  "function_name method = u ''debug_trace_'' @ method"

definition not_a_mapping :: "pystr \<Rightarrow> json \<Rightarrow> py_exn" where
  "not_a_mapping method params =
     TypeError (u ''debug_trace_mcp.server.'' @ function_name method @ u ''() argument after ** must be a mapping, not '' @
       type_name params)"

section \<open>A message for every call\<close>

definition json_int_opt :: "int option \<Rightarrow> json" where
  "json_int_opt i = (case i of None \<Rightarrow> JNull | Some n \<Rightarrow> JInt n)"

definition filter_items :: "filters \<Rightarrow> jdict" where
  "filter_items flt =
     [(u ''domain'', json_str_opt (f_domain flt)), (u ''category'', json_str_opt (f_category flt)),
      (u ''event_name'', json_str_opt (f_event_name flt)), (u ''event'', json_str_opt (f_event flt)),
      (u ''correlation_id'', json_str_opt (f_correlation_id flt)), (u ''severity'', json_str_opt (f_severity flt)),
      (u ''text'', json_str_opt (f_text flt)), (u ''exclude'', json_str_opt (f_exclude flt)),
      (u ''exclude_category'', json_str_opt (f_exclude_category flt)), (u ''mono_from_ns'', f_mono_from_ns flt),
      (u ''mono_to_ns'', f_mono_to_ns flt)]"

primrec query_message :: "query_call \<Rightarrow> pystr \<times> jdict" where
  "query_message (Session_info_dtj p) =
     (u ''session_info_dtj'', [(u ''session_path'', JStr p)])"
| "query_message (Session_read_dtj p) =
     (u ''session_read_dtj'', [(u ''session_path'', JStr p)])"
| "query_message (Session_tail_dtj p n) =
     (u ''session_tail_dtj'', [(u ''session_path'', JStr p), (u ''n'', n)])"
| "query_message (Session_events_dtj p first_seq last_seq) =
     (u ''session_events_dtj'', [(u ''session_path'', JStr p), (u ''start'', first_seq), (u ''end'', last_seq)])"
| "query_message (Session_context_dtj p seqno n_before n_after) =
     (u ''session_context_dtj'', [(u ''session_path'', JStr p), (u ''event_sequence'', seqno),
       (u ''before'', n_before), (u ''after'', n_after)])"
| "query_message (Session_search_dtj p flt maximum offset) =
     (u ''session_search_dtj'', [(u ''session_path'', JStr p)] @ filter_items flt @ [(u ''limit'', maximum),
       (u ''offset'', offset)])"
| "query_message (Session_text_search_dtj p query_text in_domain category_arg maximum) =
     (u ''session_text_search_dtj'', [(u ''session_path'', JStr p), (u ''query'', query_text),
       (u ''domain'', json_str_opt in_domain), (u ''category'', json_str_opt category_arg), (u ''limit'', maximum)])"
| "query_message (Session_regex_search_dtj p pattern in_domain category_arg maximum) =
     (u ''session_regex_search_dtj'', [(u ''session_path'', JStr p), (u ''pattern'', pattern),
       (u ''domain'', json_str_opt in_domain), (u ''category'', json_str_opt category_arg), (u ''limit'', maximum)])"
| "query_message (Session_correlation_dtj p corr n_before n_after maximum) =
     (u ''session_correlation_dtj'', [(u ''session_path'', JStr p), (u ''correlation_id'', corr),
       (u ''before'', n_before), (u ''after'', n_after), (u ''limit'', maximum)])"
| "query_message (Session_stats_dtj p in_domain category_arg) =
     (u ''session_stats_dtj'', [(u ''session_path'', JStr p), (u ''domain'', json_str_opt in_domain),
       (u ''category'', json_str_opt category_arg)])"

primrec analysis_message :: "analysis_call \<Rightarrow> pystr \<times> jdict" where
  "analysis_message (Session_analyze_dtj p n_top since_clear category_arg mono_from_ns mono_to_ns) =
     (u ''session_analyze_dtj'', [(u ''session_path'', JStr p), (u ''top'', n_top),
       (u ''since_last_clear'', JBool since_clear), (u ''category'', json_str_opt category_arg),
       (u ''mono_from_ns'', json_int_opt mono_from_ns), (u ''mono_to_ns'', json_int_opt mono_to_ns)])"
| "analysis_message (Session_since_last_repro_dtj p n_top) =
     (u ''session_since_last_repro_dtj'', [(u ''session_path'', JStr p), (u ''top'', n_top)])"
| "analysis_message (Session_trace_brief_dtj p n_top since_clear category_arg mono_from_ns mono_to_ns) =
     (u ''session_trace_brief_dtj'', [(u ''session_path'', JStr p), (u ''top'', n_top),
       (u ''since_last_clear'', JBool since_clear), (u ''category'', json_str_opt category_arg),
       (u ''mono_from_ns'', json_int_opt mono_from_ns), (u ''mono_to_ns'', json_int_opt mono_to_ns)])"
| "analysis_message (Session_red_flags_dtj p n_top since_clear category_arg mono_from_ns mono_to_ns) =
     (u ''session_red_flags_dtj'', [(u ''session_path'', JStr p), (u ''top'', n_top),
       (u ''since_last_clear'', JBool since_clear), (u ''category'', json_str_opt category_arg),
       (u ''mono_from_ns'', json_int_opt mono_from_ns), (u ''mono_to_ns'', json_int_opt mono_to_ns)])"
| "analysis_message (Session_event_balance_dtj p only_unbalanced since_clear category_arg mono_from_ns mono_to_ns) =
     (u ''session_event_balance_dtj'', [(u ''session_path'', JStr p),
       (u ''only_unbalanced'', JBool only_unbalanced), (u ''since_last_clear'', JBool since_clear),
       (u ''category'', json_str_opt category_arg), (u ''mono_from_ns'', json_int_opt mono_from_ns),
       (u ''mono_to_ns'', json_int_opt mono_to_ns)])"
| "analysis_message (Session_causal_chain_dtj p seqno hops) =
     (u ''session_causal_chain_dtj'', [(u ''session_path'', JStr p), (u ''event_sequence'', seqno),
       (u ''hops'', hops)])"
| "analysis_message (Session_last_session_dtj p) =
     (u ''session_last_session_dtj'', [(u ''session_path'', JStr p)])"
| "analysis_message (Session_unmatched_entities_dtj p kind_name maximum since_clear) =
     (u ''session_unmatched_entities_dtj'', [(u ''session_path'', JStr p), (u ''kind'', JStr kind_name),
       (u ''limit'', maximum), (u ''since_last_clear'', JBool since_clear)])"
| "analysis_message (Session_preset_report_dtj p report n_top) =
     (u ''session_preset_report_dtj'', [(u ''session_path'', JStr p), (u ''report'', JStr report),
       (u ''top'', n_top)])"
| "analysis_message (Session_analyze_bundle_dtj p n_top since_clear) =
     (u ''session_analyze_bundle_dtj'', [(u ''session_path'', JStr p), (u ''top'', n_top),
       (u ''since_last_clear'', JBool since_clear)])"
| "analysis_message (Session_line_bundle_dtj p seqno n_before n_after hops) =
     (u ''session_line_bundle_dtj'', [(u ''session_path'', JStr p), (u ''event_sequence'', seqno),
       (u ''before'', n_before), (u ''after'', n_after), (u ''hops'', hops)])"

primrec analytics_message :: "analytics_call \<Rightarrow> pystr \<times> jdict" where
  "analytics_message (Session_repetition_dtj p n_top min_run since_clear category_arg) =
     (u ''session_repetition_dtj'', [(u ''session_path'', JStr p), (u ''top'', n_top), (u ''min_run'', min_run),
       (u ''since_last_clear'', JBool since_clear), (u ''category'', json_str_opt category_arg)])"
| "analytics_message (Session_entity_timeline_dtj p ent_id maximum) =
     (u ''session_entity_timeline_dtj'', [(u ''session_path'', JStr p), (u ''entity_id'', ent_id),
       (u ''limit'', maximum)])"
| "analytics_message (Session_entity_cluster_dtj p ent_id window_size maximum) =
     (u ''session_entity_cluster_dtj'', [(u ''session_path'', JStr p), (u ''entity_id'', ent_id),
       (u ''window'', window_size), (u ''limit'', maximum)])"
| "analytics_message (Session_message_templates_dtj p n_top since_clear category_arg) =
     (u ''session_message_templates_dtj'', [(u ''session_path'', JStr p), (u ''top'', n_top),
       (u ''since_last_clear'', JBool since_clear), (u ''category'', json_str_opt category_arg)])"
| "analytics_message (Session_snapshot_diff_dtj p seqno maximum) =
     (u ''session_snapshot_diff_dtj'', [(u ''session_path'', JStr p), (u ''event_sequence'', seqno),
       (u ''limit'', maximum)])"
| "analytics_message (Session_pair_latency_dtj p kind_name since_clear) =
     (u ''session_pair_latency_dtj'', [(u ''session_path'', JStr p), (u ''kind'', JStr kind_name),
       (u ''since_last_clear'', JBool since_clear)])"
| "analytics_message (Session_field_breakdown_dtj p fld category_arg n_top since_clear) =
     (u ''session_field_breakdown_dtj'', [(u ''session_path'', JStr p), (u ''field'', fld),
       (u ''category'', json_str_opt category_arg), (u ''top'', n_top), (u ''since_last_clear'', JBool since_clear)])"
| "analytics_message (Session_field_crosstab_dtj p field_a field_b category_arg n_top since_clear) =
     (u ''session_field_crosstab_dtj'', [(u ''session_path'', JStr p), (u ''field_a'', field_a),
       (u ''field_b'', field_b), (u ''category'', json_str_opt category_arg), (u ''top'', n_top),
       (u ''since_last_clear'', JBool since_clear)])"
| "analytics_message (Session_sequence_gap_dtj p open_event close_event max_lines maximum since_clear) =
     (u ''session_sequence_gap_dtj'', [(u ''session_path'', JStr p), (u ''open_event'', open_event),
       (u ''close_event'', close_event), (u ''max_lines'', max_lines), (u ''limit'', maximum),
       (u ''since_last_clear'', JBool since_clear)])"
| "analytics_message (Session_gaps_dtj p min_gap_sec n_top since_clear) =
     (u ''session_gaps_dtj'', [(u ''session_path'', JStr p), (u ''min_gap_sec'', min_gap_sec), (u ''top'', n_top),
       (u ''since_last_clear'', JBool since_clear)])"

primrec timeline_message :: "timeline_call \<Rightarrow> pystr \<times> jdict" where
  "timeline_message (Session_compare_sessions_dtj p) =
     (u ''session_compare_sessions_dtj'', [(u ''session_path'', JStr p)])"
| "timeline_message (Session_transition_matrix_dtj p category_arg n_top since_clear) =
     (u ''session_transition_matrix_dtj'', [(u ''session_path'', JStr p),
       (u ''category'', json_str_opt category_arg), (u ''top'', n_top), (u ''since_last_clear'', JBool since_clear)])"
| "timeline_message (Session_snapshot_before_after_dtj p ent_id seqno maximum) =
     (u ''session_snapshot_before_after_dtj'', [(u ''session_path'', JStr p),
       (u ''entity_id'', json_str_opt ent_id), (u ''event_sequence'', seqno), (u ''limit'', maximum)])"
| "timeline_message (Session_first_last_dtj p tag_part ent_id) =
     (u ''session_first_last_dtj'', [(u ''session_path'', JStr p), (u ''tag'', json_str_opt tag_part),
       (u ''entity_id'', json_str_opt ent_id)])"
| "timeline_message (Session_density_timeline_dtj p bucket_sec n_top since_clear) =
     (u ''session_density_timeline_dtj'', [(u ''session_path'', JStr p), (u ''bucket_sec'', bucket_sec),
       (u ''top_categories'', n_top), (u ''since_last_clear'', JBool since_clear)])"
| "timeline_message (Session_minimal_repro_dtj p first_seq last_seq) =
     (u ''session_minimal_repro_dtj'', [(u ''session_path'', JStr p), (u ''start'', first_seq),
       (u ''end'', last_seq)])"
| "timeline_message (Session_baseline_diff_dtj p b) =
     (u ''session_baseline_diff_dtj'', [(u ''session_path'', JStr p), (u ''baseline_path'', JStr b)])"
| "timeline_message (Session_persistence_mismatches_dtj p n_top) =
     (u ''session_persistence_mismatches_dtj'', [(u ''session_path'', JStr p), (u ''top'', n_top)])"
| "timeline_message (Session_search_dtj_index p ix flt maximum offset) =
     (u ''session_search_dtj_index'', [(u ''session_path'', JStr p),
       (u ''index_path'', JStr ix)] @ filter_items flt @ [(u ''limit'', maximum), (u ''offset'', offset)])"
| "timeline_message (Session_performance_report_dtj_index p ix in_domain category_arg fld) =
     (u ''session_performance_report_dtj_index'', [(u ''session_path'', JStr p), (u ''index_path'', JStr ix),
       (u ''domain'', json_str_opt in_domain), (u ''category'', json_str_opt category_arg),
       (u ''field'', json_str_opt fld)])"

primrec call_message :: "tool_call \<Rightarrow> pystr \<times> jdict" where
  "call_message Protocol_get =
     (u ''protocol_get'', [])"
| "call_message (Event_catalog registry_path) =
     (u ''event_catalog'', [(u ''registry_path'', json_str_opt registry_path)])"
| "call_message (Config_get cfg_path) =
     (u ''config_get'', [(u ''config_path'', JStr cfg_path)])"
| "call_message (Config_set cfg_path config_json) =
     (u ''config_set'', [(u ''config_path'', JStr cfg_path), (u ''config_json'', JStr config_json)])"
| "call_message (Sessions_list_dtj dir) =
     (u ''sessions_list_dtj'', [(u ''store_dir'', JStr dir)])"
| "call_message (Session_bursts_dtj p window_sec min_count n_top since_clear) =
     (u ''session_bursts_dtj'', [(u ''session_path'', JStr p), (u ''window_sec'', window_sec),
       (u ''min_count'', min_count), (u ''top'', n_top), (u ''since_last_clear'', JBool since_clear)])"
| "call_message (Session_baseline_save_dtj p b) =
     (u ''session_baseline_save_dtj'', [(u ''session_path'', JStr p), (u ''baseline_path'', JStr b)])"
| "call_message (Session_index_dtj p ix rebuild) =
     (u ''session_index_dtj'', [(u ''session_path'', JStr p), (u ''index_path'', JStr ix),
       (u ''rebuild'', JBool rebuild)])"
| "call_message (Query c) = query_message c"
| "call_message (Analysis c) = analysis_message c"
| "call_message (Analytics c) = analytics_message c"
| "call_message (Timeline c) = timeline_message c"

section \<open>The table\<close>

lemmas tool_tables = OTHER_TOOLS_def QUERY_TOOLS_def ANALYSIS_TOOLS_def ANALYTICS_TOOLS_def TIMELINE_TOOLS_def

lemma tool_names_distinct: "distinct (map fst TOOLS)"
  by (simp add: TOOLS_def tool_tables)

lemma families_in: "set QUERY_TOOLS \<subseteq> set TOOLS" "set ANALYSIS_TOOLS \<subseteq> set TOOLS"
  "set ANALYTICS_TOOLS \<subseteq> set TOOLS" "set TIMELINE_TOOLS \<subseteq> set TOOLS" "set OTHER_TOOLS \<subseteq> set TOOLS"
  by (auto simp: TOOLS_def)

lemma find_tool:
  assumes "map_of ts n = Some tool" "set ts \<subseteq> set TOOLS"
  shows "map_of TOOLS n = Some tool"
  using assms by (auto intro!: map_of_is_SomeI [OF tool_names_distinct] dest!: map_of_SomeD)

end
