(* ===== verification/Http_Server.thy ===== *)
theory Http_Server imports Tool_Calls Trace_Config begin

text \<open>
  The JSON-RPC endpoint of \<open>http_server.py\<close>: one request at a time, from the bytes of its body to the bytes of
  the reply, on the tools of the server. Socket handling, header parsing and the page of \<open>send_error\<close> are the library's.
\<close>

section \<open>Requests and replies\<close>

text \<open>A request as the handler sees it: its target, the header \<open>Content-Length\<close>, and what can be read until the
  client closes its side.\<close>

record http_request =
  target :: pystr
  content_length :: "pystr option"
  stream :: bytes

type_synonym headers = "(string \<times> string) list"

text \<open>\<open>Page\<close> is the error page of the library. \<open>Cut\<close>: status and headers were sent before an exception ended the
  request; \<open>Dropped\<close>: nothing was.\<close>

datatype http_reply =
    Full int headers bytes
  | Page int pystr
  | Cut int headers py_exn
  | Dropped py_exn

text \<open>\<open>other_target\<close> is the path of \<open>urlparse\<close> for a target that does not begin with a slash.\<close>

record rpc =
  sv :: server
  other_target :: "pystr \<Rightarrow> py_exn + pystr"

text \<open>\<open>urlparse(self.path).path\<close>: the fragment, the query and the parameters of the last segment are cut off.\<close>

definition cut_params :: "pystr \<Rightarrow> pystr" where
  "cut_params p =
     (let seg = rev (takeWhile (\<lambda>c. c \<noteq> 47) (rev p))
      in take (length p - length seg) p @ takeWhile (\<lambda>c. c \<noteq> 59) seg)"

definition url_path :: "rpc \<Rightarrow> pystr \<Rightarrow> py_exn + pystr" where
  "url_path s t =
     (case t of
        c # cs \<Rightarrow> (if c = 47 then Inr (cut_params (takeWhile (\<lambda>c. c \<noteq> 63) (takeWhile (\<lambda>c. c \<noteq> 35) t))) else other_target s t)
      | [] \<Rightarrow> other_target s t)"

section \<open>Replies of the protocol\<close>

definition ok_reply :: "json \<Rightarrow> json \<Rightarrow> jdict" where
  "ok_reply req_id result = [(u ''jsonrpc'', JStr (u ''2.0'')), (u ''id'', req_id), (u ''result'', result)]"

definition err_reply :: "json \<Rightarrow> int \<Rightarrow> pystr \<Rightarrow> json option \<Rightarrow> jdict" where
  "err_reply req_id code message data =
     (let err = [(u ''code'', JInt code), (u ''message'', JStr message)] @ (case data of None \<Rightarrow> [] | Some d \<Rightarrow> [(u ''data'', d)])
      in [(u ''jsonrpc'', JStr (u ''2.0'')), (u ''id'', req_id), (u ''error'', JObj err)])"

definition internal_error :: "rpc \<Rightarrow> json \<Rightarrow> py_exn \<Rightarrow> jdict" where
  "internal_error s req_id e = err_reply req_id (- 32603) (u ''internal error: '' @ sv_str (sv s) e) None"

definition CORS_HEADERS :: headers where
  "CORS_HEADERS =
     [(''Access-Control-Allow-Origin'', ''*''), (''Access-Control-Allow-Methods'', ''POST, GET, OPTIONS''),
      (''Access-Control-Allow-Headers'', ''Content-Type'')]"

definition JSON_HEADERS :: headers where
  "JSON_HEADERS = (''Content-Type'', ''application/json'') # CORS_HEADERS"

text \<open>\<open>_send_json_response\<close>: the headers are out before the text is encoded.\<close>

definition send_json :: "rpc \<Rightarrow> json \<Rightarrow> http_reply" where
  "send_json s data =
     (case utf8_encode (json_line (rt (sv_host (sv s))) data) of
        Some b \<Rightarrow> Full 200 JSON_HEADERS b
      | None \<Rightarrow> Cut 200 JSON_HEADERS (ValueError (u ''surrogates not allowed'')))"

section \<open>One call\<close>

text \<open>\<open>tool.fn(**params)\<close>. \<open>None\<close>: an argument value is not of the annotated type, and what the tool makes of it is not
  modelled. The other calls all return.\<close>

definition call_tool :: "rpc \<Rightarrow> files \<Rightarrow> pystr \<Rightarrow> signature \<times> (json list \<Rightarrow> tool_call option) \<Rightarrow> json \<Rightarrow> ((py_exn + pystr) \<times> files) option" where
  "call_tool s f method tool params =
     (case (if is_dict params then bind_arguments (function_name method) (fst tool) (dict_val params)
            else Inl (not_a_mapping method params)) of
        Inl e \<Rightarrow> Some (Inl e, f)
      | Inr values \<Rightarrow> (case snd tool values of Some c \<Rightarrow> run_tool (sv s) f c | None \<Rightarrow> None))"

text \<open>\<open>None\<close>: the call is outside the model.\<close>

definition handle_single_request :: "rpc \<Rightarrow> files \<Rightarrow> jdict \<Rightarrow> (jdict \<times> files) option" where
  "handle_single_request s f req =
     (let method = getd req (u ''method'') JNull; params = getd req (u ''params'') (JObj []); req_id = getd req (u ''id'') JNull in
      if \<not> truthy method then Some (err_reply req_id (- 32600) (u ''method is required'') None, f)
      else if \<not> hashable method then Some (internal_error s req_id (unhashable_type method), f)
      else (case (if is_str method then map_of TOOLS (str_val method) else None) of
          None \<Rightarrow>
            Some (err_reply req_id (- 32601) (u ''method not found: '' @ py_str (rt (sv_host (sv s))) method) None, f)
        | Some tool \<Rightarrow>
            map_option (\<lambda>(res, f1). (case res of Inl e \<Rightarrow> internal_error s req_id e | Inr t \<Rightarrow> ok_reply req_id (JStr t), f1))
              (call_tool s f (str_val method) tool params)))"

section \<open>POST, GET and OPTIONS\<close>

text \<open>\<open>int(self.headers.get('Content-Length', 0))\<close> and \<open>self.rfile.read\<close>: a negative length reads everything.\<close>

definition body_length :: "rpc \<Rightarrow> http_request \<Rightarrow> py_exn + int" where
  "body_length s req = (case content_length req of None \<Rightarrow> Inr 0 | Some t \<Rightarrow> py_int (rt (sv_host (sv s))) (JStr t))"

definition read_stream :: "int \<Rightarrow> bytes \<Rightarrow> bytes" where
  "read_stream n bs = (if n < 0 then bs else take (nat n) bs)"

text \<open>What follows a decoded request object. The loop over a batch comes behind the check that the request is an
  object, so it is never reached.\<close>

definition dispatch :: "rpc \<Rightarrow> files \<Rightarrow> json \<Rightarrow> (http_reply \<times> files) option" where
  "dispatch s f req =
     (if \<not> is_dict req then Some (send_json s (JObj (err_reply JNull (- 32600) (u ''request must be an object'') None)), f)
      else if map_of (dict_val req) (u ''id'') = None
      then map_option (\<lambda>(resp, f1). (Full 204 [] [], f1)) (handle_single_request s f (dict_val req @ [(u ''id'', JNull)]))
      else map_option (\<lambda>(resp, f1). (send_json s (JObj resp), f1)) (handle_single_request s f (dict_val req)))"

definition do_POST :: "rpc \<Rightarrow> files \<Rightarrow> http_request \<Rightarrow> (http_reply \<times> files) option" where
  "do_POST s f req =
     (case url_path s (target req) of
        Inl e \<Rightarrow> Some (Dropped e, f)
      | Inr path \<Rightarrow>
         (if path \<noteq> u ''/rpc'' then Some (Page 404 (u ''Not Found''), f)
          else (case body_length s req of
              Inl e \<Rightarrow> Some (Dropped e, f)
            | Inr n \<Rightarrow>
               (if n = 0 then Some (Page 400 (u ''Bad Request: Empty body''), f)
                else (case utf8_decode (read_stream n (stream req)) of
                    None \<Rightarrow> Some (Dropped (ValueError (u ''invalid utf-8'')), f)
                  | Some body \<Rightarrow>
                     (case sv_loads (sv s) body of
                        DecodeError m \<Rightarrow>
                          Some (send_json s (JObj (err_reply JNull (- 32700)
                            (u ''parse error: '' @ decode_text (sv_texts (sv s)) body m) None)), f)
                      | Raises e \<Rightarrow> Some (Dropped e, f)
                      | Parsed j \<Rightarrow> dispatch s f j))))))"

definition SERVICE_INFO :: json where
  "SERVICE_INFO =
     JObj [(u ''service'', JStr (u ''debug-trace-mcp'')), (u ''version'', JStr (u ''0.1.0'')), (u ''transport'', JStr (u ''http'')),
       (u ''endpoints'', JObj [(u ''rpc'', JStr (u ''/rpc'')), (u ''health'', JStr (u ''/health'')), (u ''info'', JStr (u ''/info''))])]"

definition do_GET :: "rpc \<Rightarrow> http_request \<Rightarrow> http_reply" where
  "do_GET s req =
     (case url_path s (target req) of
        Inl e \<Rightarrow> Dropped e
      | Inr path \<Rightarrow>
          (if path = u ''/health'' then send_json s (JObj [(u ''status'', JStr (u ''ok'')), (u ''service'', JStr (u ''debug-trace-mcp''))])
           else if path = u ''/info'' then send_json s SERVICE_INFO
           else Page 404 (u ''Not Found'')))"

definition do_OPTIONS :: http_reply where
  "do_OPTIONS = Full 200 CORS_HEADERS []"

end
