(* ===== verification/Dtj_Fields_Props.thy ===== *)
theory Dtj_Fields_Props imports Dtj_Fields Dtj_Analyze_Props begin

text \<open>
  Minimal reproductions, opening and closing events, and field counts against references without state.
\<close>

section \<open>A minimal reproduction\<close>

lemma keep_first_snoc:
  "keep_first r (es @ [e]) =
     (if list_ex (same_signature r e) (keep_first r es) then keep_first r es else keep_first r es @ [e])"
  by (simp add: keep_first_def)

lemma same_signature_trans: "same_signature r a b \<Longrightarrow> same_signature r b c \<Longrightarrow> same_signature r a c"
  by (simp add: same_signature_def)

lemma same_signature_refl [simp]: "same_signature r a a"
  by (simp add: same_signature_def)

lemma keep_first_sub: "set (keep_first r es) \<subseteq> set es"
  by (induction es rule: rev_induct) (auto simp: keep_first_snoc keep_first_def)

lemma keep_first_covers: "e \<in> set es \<Longrightarrow> list_ex (same_signature r e) (keep_first r es)"
proof (induction es rule: rev_induct)
  case (snoc x es)
  then show ?case
    by (cases "e = x") (auto simp: keep_first_snoc)
qed simp

lemma keep_first_seen: "list_ex (same_signature r e) (keep_first r es) \<longleftrightarrow> (\<exists>j < length es. same_signature r e (es ! j))"
proof
  assume "list_ex (same_signature r e) (keep_first r es)"
  then show "\<exists>j < length es. same_signature r e (es ! j)"
    using keep_first_sub [of r es] by (metis in_set_conv_nth list_ex_iff subsetD)
next
  assume "\<exists>j < length es. same_signature r e (es ! j)"
  then obtain j where "j < length es" "same_signature r e (es ! j)" by blast
  with keep_first_covers [of "es ! j" es r] show "list_ex (same_signature r e) (keep_first r es)"
    by (auto simp: list_ex_iff intro: same_signature_trans)
qed

text \<open>The minimal reproduction keeps exactly the first event of each signature (the tag with the set of
  referenced entities), in the order of the trace: an event is dropped precisely when an earlier one has its
  signature.\<close>

theorem minimal_repro_firsts:
  "keep_first r events =
     map ((!) events) (filter (\<lambda>k. \<not> list_ex (\<lambda>j. same_signature r (events ! k) (events ! j)) [0..<k]) [0..<length events])"
proof (induction events rule: rev_induct)
  case (snoc e es)
  have a: "filter (\<lambda>k. \<not> list_ex (\<lambda>j. same_signature r ((es @ [e]) ! k) ((es @ [e]) ! j)) [0..<k]) [0..<length es] =
      filter (\<lambda>k. \<not> list_ex (\<lambda>j. same_signature r (es ! k) (es ! j)) [0..<k]) [0..<length es]"
    by (rule filter_cong) (auto simp: nth_append list_ex_iff)
  have b: "map ((!) (es @ [e])) (filter P [0..<length es]) = map ((!) es) (filter P [0..<length es])" for P
    by (rule map_cong) (auto simp: nth_append)
  have c: "list_ex (\<lambda>j. same_signature r e ((es @ [e]) ! j)) [0..<length es] \<longleftrightarrow>
      list_ex (same_signature r e) (keep_first r es)"
    unfolding keep_first_seen by (auto simp: list_ex_iff nth_append)
  have d: "[0..<length (es @ [e])] = [0..<length es] @ [length es]" by simp
  show ?case unfolding d filter_append map_append a b snoc [symmetric] keep_first_snoc using c by simp
qed (simp add: keep_first_def)

section \<open>From an opening event to the next closing one\<close>

lemma bindE_bindE: "bindE (bindE m f) g = bindE m (\<lambda>x. bindE (f x) g)"
  by (cases m) simp_all

lemma bindE_same: "bindE m Inr = m"
  by (cases m) simp_all

lemma sequence_gaps_from:
  "sequence_gaps r opener parts m limit es acc =
     bindE (mapE (\<lambda>i. gap_row r m (es ! i) (find_close r parts m (drop (i + 1) es)))
         (take (limit - length acc) (filter (\<lambda>i. lower_in r opener (name_of r (es ! i))) [0..<length es])))
       (\<lambda>rows. Inr (acc @ rows))"
proof (induction es arbitrary: acc)
  case (Cons e es)
  let ?P = "\<lambda>i. lower_in r opener (name_of r (es ! i))"
  let ?row = "\<lambda>i. gap_row r m (es ! i) (find_close r parts m (drop (i + 1) es))"
  have u: "[0..<length (e # es)] = 0 # map Suc [0..<length es]" by (simp add: map_Suc_upt upt_conv_Cons del: upt_Suc)
  have f: "filter (\<lambda>i. lower_in r opener (name_of r ((e # es) ! i))) [0..<length (e # es)] =
      (if lower_in r opener (name_of r e) then [0] else []) @ map Suc (filter ?P [0..<length es])"
    unfolding u by (simp add: filter_map comp_def)
  have g: "mapE (\<lambda>i. gap_row r m ((e # es) ! i) (find_close r parts m (drop (i + 1) (e # es)))) (map Suc ks) = mapE ?row ks" for ks
    by (induction ks) simp_all
  show ?case
  proof (cases "lower_in r opener (name_of r e)")
    case False
    then show ?thesis unfolding f by (simp add: Cons.IH take_map g [simplified])
  next
    case True
    show ?thesis
    proof (cases "limit \<le> length acc")
      case True
      with \<open>lower_in r opener (name_of r e)\<close> show ?thesis by simp
    next
      case False
      then obtain n where n: "limit - length acc = Suc n" by (metis Suc_diff_le diff_Suc_Suc not_less_eq_eq)
      then have n2: "limit - Suc (length acc) = n" by simp
      show ?thesis
        unfolding f n using True False
        by (cases "gap_row r m e (find_close r parts m es)") (simp_all add: Cons.IH n2 take_map g [simplified] bindE_bindE)
    qed
  qed
qed simp

text \<open>When an event closes the opening at position \<open>i\<close>: it is one of the \<open>m\<close> events behind it and its name contains
  one of the closers. The first one that does is the close of the opening.\<close>

definition closes_at :: "runtime \<Rightarrow> pystr list \<Rightarrow> nat \<Rightarrow> jdict list \<Rightarrow> nat \<Rightarrow> nat \<Rightarrow> bool" where
  "closes_at r parts m es i j =
     (i < j \<and> j \<le> i + m \<and> j < length es \<and> (\<exists>c \<in> set parts. is_infix (lower r c) (lower r (name_of r (es ! j)))))"

definition first_close :: "runtime \<Rightarrow> pystr list \<Rightarrow> nat \<Rightarrow> jdict list \<Rightarrow> nat \<Rightarrow> nat \<Rightarrow> bool" where
  "first_close r parts m es i j = (closes_at r parts m es i j \<and> (\<forall>k < j. \<not> closes_at r parts m es i k))"

definition opening_positions :: "runtime \<Rightarrow> pystr \<Rightarrow> jdict list \<Rightarrow> nat list" where
  "opening_positions r opener es = filter (\<lambda>i. is_infix (lower r opener) (lower r (name_of r (es ! i)))) [0..<length es]"

definition gap_fields :: "jdict \<Rightarrow> json \<Rightarrow> json \<Rightarrow> json \<Rightarrow> bool \<Rightarrow> bool" where
  "gap_fields row a b delta shut =
     (getj row (u ''open_event_sequence'') = a \<and> getj row (u ''close_event_sequence'') = b \<and>
      getj row (u ''delta'') = delta \<and> getj row (u ''closed'') = JBool shut)"

lemma find_close_Some:
  assumes "find_close r parts m (drop (i + 1) es) = Some f"
  shows "\<exists>j. first_close r parts m es i j \<and> f = es ! j"
proof -
  from assms obtain n where n: "n < length (take m (drop (i + 1) es))"
    "list_ex (\<lambda>c. lower_in r c (name_of r (take m (drop (i + 1) es) ! n))) parts" "f = take m (drop (i + 1) es) ! n"
    "\<And>k. k < n \<Longrightarrow> \<not> list_ex (\<lambda>c. lower_in r c (name_of r (take m (drop (i + 1) es) ! k))) parts"
    unfolding find_close_def find_Some_iff by auto
  from n(1) have len: "Suc i \<le> length es" by auto
  have at: "take m (drop (i + 1) es) ! k = es ! (i + 1 + k)" if "k \<le> n" for k
    using that n(1) by (simp add: nth_drop [OF len])
  have "closes_at r parts m es i (i + 1 + n)"
    using n(1,2) at [of n] by (auto simp: closes_at_def list_ex_iff lower_in_def)
  moreover have "\<not> closes_at r parts m es i k" if k: "k < i + 1 + n" for k
  proof
    assume c: "closes_at r parts m es i k"
    then have "i + 1 \<le> k" by (simp add: closes_at_def)
    then obtain l where l: "k = i + 1 + l" using le_Suc_ex by blast
    with k have "l < n" by simp
    with n(4) [OF this] at [of l] c l show False by (auto simp: closes_at_def list_ex_iff lower_in_def)
  qed
  ultimately show ?thesis using n(3) at [of n] unfolding first_close_def by auto
qed

lemma find_close_None:
  assumes "find_close r parts m (drop (i + 1) es) = None"
  shows "\<not> closes_at r parts m es i j"
proof
  assume c: "closes_at r parts m es i j"
  then obtain l where l: "j = i + 1 + l" using le_Suc_ex [of "i + 1" j] by (auto simp: closes_at_def)
  with c have len: "l < length (take m (drop (i + 1) es))" by (auto simp: closes_at_def)
  then have "Suc i \<le> length es" by auto
  from nth_drop [OF this, of l] len have "take m (drop (i + 1) es) ! l = es ! j" using l by simp
  moreover from len have "take m (drop (i + 1) es) ! l \<in> set (take m (drop (i + 1) es))" by (rule nth_mem)
  ultimately have "es ! j \<in> set (take m (drop (i + 1) es))" by simp
  with assms c show False unfolding find_close_def find_None_iff
    by (auto simp: closes_at_def list_ex_iff lower_in_def)
qed

lemma first_close_unique: "first_close r parts m es i j \<Longrightarrow> first_close r parts m es i k \<Longrightarrow> j = k"
  unfolding first_close_def by (meson nat_neq_iff)

definition gap_meaning :: "runtime \<Rightarrow> pystr list \<Rightarrow> nat \<Rightarrow> jdict list \<Rightarrow> nat \<Rightarrow> jdict \<Rightarrow> bool" where
  "gap_meaning r parts m es i row =
     ((\<exists>j a b. first_close r parts m es i j \<and> seq_of (es ! i) = JInt a \<and> seq_of (es ! j) = JInt b \<and>
        gap_fields row (JInt a) (JInt b) (JInt (b - a)) True) \<or>
      (\<forall>j. \<not> closes_at r parts m es i j) \<and> gap_fields row (seq_of (es ! i)) JNull JNull False)"

lemma gap_row_meaning:
  assumes ints: "\<forall>e \<in> set es. \<exists>n. seq_of e = JInt n" and i: "i < length es"
  shows "\<exists>row. gap_row r m (es ! i) (find_close r parts m (drop (i + 1) es)) = Inr row \<and> gap_meaning r parts m es i row"
proof (cases "find_close r parts m (drop (i + 1) es)")
  case None
  with find_close_None [OF this] show ?thesis
    by (simp add: gap_row_def gap_meaning_def gap_fields_def)
next
  case (Some f)
  from find_close_Some [OF Some] obtain j where j: "first_close r parts m es i j" "f = es ! j" by blast
  then have "j < length es" by (simp add: first_close_def closes_at_def)
  with ints i obtain a b where ab: "seq_of (es ! i) = JInt a" "seq_of (es ! j) = JInt b"
    by (metis nth_mem)
  then have req: "required_seq r (es ! i) = Inr a" "required_seq r (es ! j) = Inr b"
    by (auto simp: required_seq_def seq_of_def getj_def split: option.splits)
  have "\<exists>row. gap_row r m (es ! i) (Some f) = Inr row \<and> gap_fields row (JInt a) (JInt b) (JInt (b - a)) True"
    by (simp add: gap_row_def ab req j(2) gap_fields_def)
  with ab j(1) show ?thesis unfolding Some gap_meaning_def by blast
qed

lemma mapE_all2:
  assumes "\<And>x. x \<in> set xs \<Longrightarrow> \<exists>y. f x = Inr y \<and> P x y"
  shows "\<exists>ys. mapE f xs = Inr ys \<and> list_all2 P xs ys"
  using assms
proof (induction xs)
  case (Cons x xs)
  from Cons.prems [of x] obtain y where "f x = Inr y" "P x y" by auto
  moreover from Cons.IH Cons.prems obtain ys where "mapE f xs = Inr ys" "list_all2 P xs ys" by auto
  ultimately show ?case by simp
qed simp

lemma sequence_gaps_rows:
  assumes "\<forall>e \<in> set es. \<exists>n. seq_of e = JInt n"
  shows "\<exists>rows. sequence_gaps r opener parts m limit es [] = Inr rows \<and>
    list_all2 (gap_meaning r parts m es) (take limit (opening_positions r opener es)) rows"
proof -
  have pos: "filter (\<lambda>i. lower_in r opener (name_of r (es ! i))) [0..<length es] = opening_positions r opener es"
    by (simp add: opening_positions_def lower_in_def)
  have "\<exists>row. gap_row r m (es ! i) (find_close r parts m (drop (i + 1) es)) = Inr row \<and> gap_meaning r parts m es i row"
    if "i \<in> set (take limit (opening_positions r opener es))" for i
    using gap_row_meaning [OF assms, of i] in_set_takeD [OF that] by (auto simp: opening_positions_def)
  from mapE_all2 [of "take limit (opening_positions r opener es)", OF this] show ?thesis
    unfolding sequence_gaps_from pos by (simp add: bindE_same)
qed

lemma sequence_gaps_tool:
  assumes load: "read_session_dtj (native h) p = Inr d" and ok: "is_ok d"
    and args: "opener \<noteq> []" "closer \<noteq> []" "1 \<le> m" "m \<le> MAX_MAX_LINES" "1 \<le> limit" "limit \<le> MAX_LIMIT"
  shows "\<exists>es sc res rows. event_dicts d = Inr es \<and> sc = scope_events (rt h) (whole\<lparr>since_last_clear := s\<rparr>) es \<and>
    sequence_gap_dtj (native h) p (JStr opener) (JStr closer) (JInt m) (JInt limit) s = Inr res \<and> is_ok res \<and>
    getj res (u ''gaps'') = JList (map JObj rows) \<and>
    list_all2 (gap_meaning (rt h) (close_parts closer) (nat m) sc)
      (take (nat limit) (opening_positions (rt h) opener sc)) rows \<and>
    getj res (u ''unclosed'') =
      jnat (length (filter (\<lambda>i. \<forall>j. \<not> closes_at (rt h) (close_parts closer) (nat m) sc i j)
        (take (nat limit) (opening_positions (rt h) opener sc))))"
proof -
  from loaded_dicts [OF native_source.load_wf [OF load ok]] obtain es where es: "event_dicts d = Inr es" "numbered es" by blast
  define sc where "sc = scope_events (rt h) (whole\<lparr>since_last_clear := s\<rparr>) es"
  define ks where "ks = take (nat limit) (opening_positions (rt h) opener sc)"
  let ?means = "gap_meaning (rt h) (close_parts closer) (nat m) sc"
  have "\<forall>e \<in> set sc. \<exists>n. seq_of e = JInt n"
    using numbered_suffix [of "[]" es] es(2) by (fastforce simp: sc_def scope_events_def)
  from sequence_gaps_rows [OF this, of "rt h" opener "close_parts closer" "nat m" "nat limit"] obtain rows
    where rows: "sequence_gaps (rt h) opener (close_parts closer) (nat m) (nat limit) sc [] = Inr rows" "list_all2 ?means ks rows"
    unfolding ks_def by blast
  have count: "length (filter (\<lambda>g. getj g (u ''closed'') = JBool False) rows) =
      length (filter (\<lambda>i. \<forall>j. \<not> closes_at (rt h) (close_parts closer) (nat m) sc i j) ks)"
    using rows(2) by (induction rule: list_all2_induct) (auto simp: gap_meaning_def gap_fields_def first_close_def)
  have scope: "since_scope s None = whole\<lparr>since_last_clear := s\<rparr>" by (simp add: since_scope_def whole_def)
  obtain res where res: "sequence_gap_result (rt h) opener closer (JInt m) (JInt limit) (since_scope s None) (expanduser h p) d = Inr res"
    "is_ok res" "getj res (u ''gaps'') = JList (map JObj rows)"
    "getj res (u ''unclosed'') = jnat (length (filter (\<lambda>g. getj g (u ''closed'') = JBool False) rows))"
    by (simp add: sequence_gap_result_def es Let_def base_result_def is_ok_def scope rows(1) flip: sc_def)
  have "sequence_gap_dtj (native h) p (JStr opener) (JStr closer) (JInt m) (JInt limit) s = Inr res"
    using load ok args res(1)
    by (simp add: sequence_gap_dtj_def with_session_def with_loadedE_def string_check_def nonempty_string_def max_lines_check_def validate_limit_def bad_between_def Let_def)
  with es(1) res rows(2) show ?thesis unfolding count ks_def sc_def by blast
qed


definition sample_dict :: "nat \<Rightarrow> jdict" where
  "sample_dict n = dict_val (event_to_json (tr_dictionary sample_trace) (sample_event n))"

definition sample_dicts :: "jdict list" where
  "sample_dicts = [sample_dict 1, sample_dict 2]"

lemma sample_event_dicts: "event_dicts sample_projection = Inr sample_dicts"
  by (simp add: event_dicts_def dict_events_def iter_events_def or_else_def sample_projection_def session_to_projection_def
      native_adapter_def read_trace_def sample_trace_def sample_dicts_def sample_dict_def event_to_json_def)

lemma sample_dict_fields:
  "name_of r (sample_dict n) = u ''e''" "seq_of (sample_dict n) = JInt (int n)"
  by (simp_all add: sample_dict_def event_to_json_def name_of_def seq_of_def or_else_def py_str_def sample_event_def
      sample_trace_def get_name_def u_Cons json_opt_def)

text \<open>C35: \<open>sequence_gap_dtj\<close> on every session that loads: a row for each of the first \<open>limit\<close> events of the scope whose
  name contains the opener, case ignored, in the order of the scope. A row names as the close the first event among the next
  \<open>max_lines\<close> whose name contains one of the parts of the closer, with the difference of the two event numbers as
  delta; a row is unclosed exactly when none of them does. The count of unclosed rows is right, and the call never
  raises.\<close>

theorem sequence_gaps_exact:
  assumes "read_session_dtj (native h) p = Inr d" "is_ok d"
    "opener \<noteq> []" "closer \<noteq> []" "1 \<le> m" "m \<le> MAX_MAX_LINES" "1 \<le> limit" "limit \<le> MAX_LIMIT"
  shows "\<exists>es sc res rows. event_dicts d = Inr es \<and> sc = scope_events (rt h) (whole\<lparr>since_last_clear := s\<rparr>) es \<and>
    sequence_gap_dtj (native h) p (JStr opener) (JStr closer) (JInt m) (JInt limit) s = Inr res \<and> is_ok res \<and>
    getj res (u ''gaps'') = JList (map JObj rows) \<and>
    list_all2 (gap_meaning (rt h) (close_parts closer) (nat m) sc)
      (take (nat limit) (opening_positions (rt h) opener sc)) rows \<and>
    getj res (u ''unclosed'') =
      jnat (length (filter (\<lambda>i. \<forall>j. \<not> closes_at (rt h) (close_parts closer) (nat m) sc i j)
        (take (nat limit) (opening_positions (rt h) opener sc))))"
  by (rule sequence_gaps_tool [OF assms])

lemma sample_scope: "scope_events r (whole\<lparr>since_last_clear := False\<rparr>) sample_dicts = sample_dicts"
  by (simp add: scope_events_def in_scope_def whole_def eq_filter_def sample_dicts_def)

lemma sample_openings: "opening_positions sample_runtime (u ''e'') sample_dicts = [0, 1]"
  by (simp add: opening_positions_def sample_dicts_def sample_dict_fields sample_runtime_def upt_conv_Cons nth_Cons' u_Cons)

lemma sample_parts: "close_parts (u ''e'') = [u ''e'']"
  by (simp add: close_parts_def u_Cons strip_def rstrip_def is_space_def)

lemma sample_closes: "closes_at sample_runtime [u ''e''] 1 sample_dicts i j \<longleftrightarrow> i = 0 \<and> j = 1"
  by (auto simp: closes_at_def u_Cons sample_dicts_def sample_dict_fields sample_runtime_def less_2_cases_iff)

theorem sequence_gaps_exact_witness:
  "\<exists>res rows. sequence_gap_dtj (native sample_host) sample_path (JStr (u ''e'')) (JStr (u ''e'')) (JInt 1) (JInt 50) False = Inr res \<and>
    getj res (u ''gaps'') = JList (map JObj rows) \<and> map (\<lambda>row. getj row (u ''delta'')) rows = [JInt 1, JNull] \<and>
    getj res (u ''unclosed'') = jnat 1"
proof -
  have run: "rt sample_host = sample_runtime" by (simp add: sample_host_def)
  have name: "u ''e'' \<noteq> []" by (simp add: u_Cons)
  from sequence_gaps_exact [OF sample_load sample_ok name name, of 1 50 False]
  obtain res rows where r: "sequence_gap_dtj (native sample_host) sample_path (JStr (u ''e'')) (JStr (u ''e'')) (JInt 1) (JInt 50) False = Inr res"
    "getj res (u ''gaps'') = JList (map JObj rows)" "list_all2 (gap_meaning sample_runtime [u ''e''] 1 sample_dicts) [0, 1] rows"
    "getj res (u ''unclosed'') = jnat (length (filter (\<lambda>i. \<forall>j. \<not> closes_at sample_runtime [u ''e''] 1 sample_dicts i j) [0, 1]))"
    unfolding sample_event_dicts run sample_parts by (auto simp: sample_scope sample_openings)
  from r(4) have "getj res (u ''unclosed'') = jnat 1" unfolding sample_closes by simp
  moreover from r(3) obtain a b where rows: "rows = [a, b]" "gap_meaning sample_runtime [u ''e''] 1 sample_dicts 0 a"
    "gap_meaning sample_runtime [u ''e''] 1 sample_dicts 1 b"
    by (auto simp: list_all2_Cons1)
  have "getj a (u ''delta'') = JInt 1" "getj b (u ''delta'') = JNull"
    using rows(2,3) unfolding gap_meaning_def gap_fields_def first_close_def sample_closes
    by (auto simp: sample_dicts_def sample_dict_fields)
  ultimately show ?thesis using r(1,2) rows(1) by (intro exI [of _ res] exI [of _ rows]) simp
qed

section \<open>Values of a field\<close>

lemma field_values_count:
  "count_of (field_values r field category events) v =
     length (filter (\<lambda>e. \<not> other_category r category e \<and> map_option str_val (map_of (payload_kv r e) field) = Some v) events)"
proof -
  have "count_of (fold (\<lambda>e values. if other_category r category e then values
       else case map_of (payload_kv r e) field of Some v \<Rightarrow> bump (str_val v) values | None \<Rightarrow> values) events c) v =
     count_of c v +
     length (filter (\<lambda>e. \<not> other_category r category e \<and> map_option str_val (map_of (payload_kv r e) field) = Some v) events)" for c
    by (induction events arbitrary: c) (auto split: option.split)
  then show ?thesis by (simp add: field_values_def)
qed

lemma field_pairs_count:
  "count_of (field_pairs r field_a field_b category events) (a, b) =
     length (filter (\<lambda>e. \<not> other_category r category e \<and> map_option str_val (map_of (payload_kv r e) field_a) = Some a \<and>
       map_option str_val (map_of (payload_kv r e) field_b) = Some b) events)"
proof -
  have "count_of (fold (\<lambda>e pairs. if other_category r category e then pairs
       else case (map_of (payload_kv r e) field_a, map_of (payload_kv r e) field_b) of
         (Some a, Some b) \<Rightarrow> bump (str_val a, str_val b) pairs | _ \<Rightarrow> pairs) events c) (a, b) =
     count_of c (a, b) +
     length (filter (\<lambda>e. \<not> other_category r category e \<and> map_option str_val (map_of (payload_kv r e) field_a) = Some a \<and>
       map_option str_val (map_of (payload_kv r e) field_b) = Some b) events)" for c
    by (induction events arbitrary: c) (auto split: option.split)
  then show ?thesis by (simp add: field_pairs_def)
qed

end
