(* ===== verification/Dtj_Compare_Props.thy ===== *)
theory Dtj_Compare_Props imports Dtj_Compare Dtj_Fields_Props Jsonl_Props Dtj_Index_Props begin

text \<open>
  The session segments are a cut of the trace at its boundaries; the transition matrix counts every pair of
  neighbours once; and a baseline that was just saved shows no difference.
\<close>

section \<open>Session segments\<close>

text \<open>The segments of a list that begins with a boundary.\<close>

function cut_at :: "('a \<Rightarrow> bool) \<Rightarrow> 'a list \<Rightarrow> 'a list list" where
  "cut_at P [] = []"
| "cut_at P (e # es) = (e # takeWhile (\<lambda>x. \<not> P x) es) # cut_at P (dropWhile (\<lambda>x. \<not> P x) es)"
  by pat_completeness auto
termination
  by (relation "measure (length \<circ> snd)") (auto simp: less_Suc_eq_le length_dropWhile_le)

definition cuts :: "('a \<Rightarrow> bool) \<Rightarrow> 'a list \<Rightarrow> nat list" where
  "cuts P es = filter (\<lambda>i. P (es ! i)) [0..<length es]"

definition slices_from :: "'a list \<Rightarrow> nat list \<Rightarrow> 'a list list" where
  "slices_from es starts = map (\<lambda>(a, b). slice es a b) (zip starts (tl starts @ [length es]))"

lemma cuts_Cons: "cuts P (e # es) = (if P e then [0] else []) @ map Suc (cuts P es)"
proof -
  have "[0..<length (e # es)] = 0 # map Suc [0..<length es]" by (simp add: map_Suc_upt upt_conv_Cons del: upt_Suc)
  then show ?thesis unfolding cuts_def by (simp add: filter_map comp_def)
qed

lemma slices_from_Cons: "slices_from (e # es) (map Suc starts) = slices_from es starts"
proof -
  have "tl (map Suc starts) @ [length (e # es)] = map Suc (tl starts @ [length es])" by (simp add: map_tl)
  then show ?thesis unfolding slices_from_def by (simp only: zip_map_map) (simp add: slice_def split_beta comp_def)
qed

lemma slices_cut:
  "slices_from es (cuts P es) = cut_at P (dropWhile (\<lambda>x. \<not> P x) es) \<and>
   takeWhile (\<lambda>x. \<not> P x) es = take (hd (cuts P es @ [length es])) es"
proof (induction es)
  case Nil
  show ?case by (simp add: slices_from_def cuts_def)
next
  case (Cons e es)
  have h: "hd (map Suc (cuts P es) @ [Suc (length es)]) = Suc (hd (cuts P es @ [length es]))"
    by (cases "cuts P es") simp_all
  show ?case
  proof (cases "P e")
    case False
    with Cons show ?thesis by (simp add: cuts_Cons slices_from_Cons h)
  next
    case True
    have "slices_from (e # es) (0 # map Suc (cuts P es)) =
        slice (e # es) 0 (hd (map Suc (cuts P es) @ [Suc (length es)])) # slices_from (e # es) (map Suc (cuts P es))"
      by (cases "cuts P es") (simp_all add: slices_from_def)
    with True Cons show ?thesis by (simp add: cuts_Cons slices_from_Cons h slice_def)
  qed
qed

lemma cuts_empty: "cuts P es = [] \<longleftrightarrow> \<not> list_ex P es"
  unfolding cuts_def filter_empty_conv list_ex_iff by (metis atLeast0LessThan in_set_conv_nth lessThan_iff set_upt)

lemma session_slices_from:
  "session_slices r es =
     (if cuts (is_session_boundary r) es = [] then (if es \<noteq> [] then [es] else []) else slices_from es (cuts (is_session_boundary r) es))"
proof -
  have "map (\<lambda>k. slice es (starts ! k) (if k + 1 < length starts then starts ! (k + 1) else length es)) [0..<length starts] =
      slices_from es starts" for starts
    by (rule nth_equalityI) (auto simp: slices_from_def nth_append nth_tl)
  then show ?thesis by (simp add: session_slices_def cuts_def Let_def)
qed

text \<open>The sessions that are compared are the segments of the trace: it is cut in front of every session boundary,
  what precedes the first boundary is left out, and a trace without boundaries is one segment.\<close>

theorem session_slices_cut:
  "session_slices r events =
     (if list_ex (is_session_boundary r) events
      then cut_at (is_session_boundary r) (dropWhile (\<lambda>e. \<not> is_session_boundary r e) events)
      else if events = [] then [] else [events])"
  by (simp add: session_slices_from cuts_empty slices_cut)

section \<open>Transitions\<close>

lemma sum_update:
  "sum_list (map (\<lambda>p. f (snd p)) (AList.update a v m)) + (case map_of m a of None \<Rightarrow> 0 | Some w \<Rightarrow> f w) =
     sum_list (map (\<lambda>p. f (snd p)) m) + (f v :: nat)"
  by (induction m) auto

lemma total_Nil: "total [] = 0"
  by (simp add: total_def)

lemma total_bump: "total (bump k c) = total c + 1"
  using sum_update [of "\<lambda>n. n" k "count_of c k + 1" c]
  by (auto simp: total_def bump_def count_of_def comp_def split: option.splits)

definition row_of :: "transitions \<Rightarrow> pystr \<Rightarrow> pystr counter" where
  "row_of m a = (case map_of m a of None \<Rightarrow> [] | Some c \<Rightarrow> c)"

lemma row_of_add: "row_of (add_transition (a, b) m) x = (if x = a then bump b (row_of m a) else row_of m x)"
  by (simp add: row_of_def add_transition_def update_conv')

lemma totals_add:
  "sum_list (map (\<lambda>p. total (snd p)) (add_transition ab m)) = sum_list (map (\<lambda>p. total (snd p)) m) + 1"
proof (cases ab)
  case (Pair a b)
  show ?thesis
    using sum_update [of total a "bump b (row_of m a)" m]
    by (cases "map_of m a") (simp_all add: Pair add_transition_def row_of_def total_bump total_Nil)
qed

lemma transitions_fold:
  "count_of (row_of (fold add_transition ps m) a) b = count_of (row_of m a) b + count_list ps (a, b) \<and>
   sum_list (map (\<lambda>p. total (snd p)) (fold add_transition ps m)) = sum_list (map (\<lambda>p. total (snd p)) m) + length ps"
proof (induction ps arbitrary: m)
  case (Cons p ps)
  obtain x y where p: "p = (x, y)" by (cases p)
  from Cons [of "add_transition p m"] show ?case by (auto simp: p row_of_add totals_add)
qed simp

text \<open>The transition matrix counts every step of the trace once: the number of times one tag follows another is
  the number of neighbouring events with these tags, and the totals of the rows add up to one less than the
  number of events.\<close>

theorem transitions_exact:
  "count_of (row_of (transitions_of tags) a) b = count_list (zip tags (tl tags)) (a, b) \<and>
   sum_list (map (\<lambda>p. total (snd p)) (transitions_of tags)) = length tags - 1"
  using transitions_fold [of "zip tags (tl tags)" "[]" a b] by (simp add: transitions_of_def row_of_def)

section \<open>The text of a baseline\<close>

text \<open>No carriage return: universal newlines leave the text as it is.\<close>

definition no_cr :: "pystr \<Rightarrow> bool" where
  "no_cr s = (13 \<notin> set s)"

lemma no_cr_simps [simp]:
  "no_cr []" "no_cr (c # s) \<longleftrightarrow> c \<noteq> 13 \<and> no_cr s" "no_cr (s @ t) \<longleftrightarrow> no_cr s \<and> no_cr t"
  by (auto simp: no_cr_def)

lemma no_cr_one_line: "one_line s \<Longrightarrow> no_cr s"
  by (auto simp: one_line_def no_cr_def)

lemma no_cr_join: "no_cr sep \<Longrightarrow> \<forall>x \<in> set xs. no_cr x \<Longrightarrow> no_cr (join sep xs)"
  by (cases xs) (auto simp: join_def no_cr_def)

lemma no_cr_indent: "plain_floats r \<Longrightarrow> no_cr (json_indent r n j)"
proof (induction r n j rule: json_indent.induct)
  case (6 r n xs)
  then show ?case by (auto simp: u_Cons line_indent_def no_cr_def [of "replicate _ _"] intro!: no_cr_join)
next
  case (7 r n d)
  have "no_cr x" if "x \<in> set (map (\<lambda>(k, v). json_string k @ u '': '' @ json_indent r (n + 1) v) d)" for x
    using 7 that by (cases "d = []") (auto simp: u_Cons no_cr_one_line one_line_string)
  then show ?case by (auto simp: u_Cons line_indent_def no_cr_def [of "replicate _ _"] intro!: no_cr_join)
next
  case (4 r n f)
  then show ?case by (auto simp: json_number_def plain_floats_def u_Cons no_cr_one_line)
qed (auto simp: u_Cons no_cr_one_line one_line_str_int one_line_string)

lemma newlines_same: "no_cr s \<Longrightarrow> newlines s = s"
  by (induction s rule: newlines.induct) auto

section \<open>Saving and comparing\<close>

lemma write_baseline_done:
  assumes "write_baseline env h bpath data f = (Inr x, f')"
  shows "is_file (h\<lparr>fs := f'\<rparr>) bpath" "read_text f' bpath = Inr (json_indent (rt h) 0 (JObj data) @ newline)"
proof -
  obtain f1 where "write_text env bpath (json_chunks (rt h) 0 (JObj data) @ [newline]) f1 = (Inr x, f')"
    using assms by (auto simp: write_baseline_def bindIO_Inr)
  then obtain bs where e: "encode_all (json_chunks (rt h) 0 (JObj data) @ [newline]) = (bs, True)" and f': "f' bpath = File bs (now_ns env)"
    by (auto simp: write_text_def split: node.splits prod.splits if_splits)
  from encode_all_concat [OF e] have "utf8_encode (json_indent (rt h) 0 (JObj data) @ newline) = Some bs"
    using json_chunks_text [of "rt h" 0 "JObj data"] by (simp only: concat_append concat.simps append_Nil2)
  from utf8_decode_encode [OF this] f'
  show "is_file (h\<lparr>fs := f'\<rparr>) bpath" "read_text f' bpath = Inr (json_indent (rt h) 0 (JObj data) @ newline)"
    by (simp_all add: is_file_def read_text_def)
qed

lemma int_at_counts: "\<exists>i. int_at r (dict_val (counts_json c)) k = Inr i"
proof -
  have "(\<lambda>(k, n). (k, jnat n)) = (\<lambda>(k :: pystr, n). (k, jnat n))" by simp
  then have "getd (dict_val (counts_json c)) k (JInt 0) = JInt (case map_of c k of None \<Rightarrow> 0 | Some n \<Rightarrow> int n)"
    by (auto simp: counts_json_def getd_def map_of_map split: option.split)
  then show ?thesis by (simp add: int_at_def or_else_def)
qed

lemma unchanged: "dict_changes r order (dict_val (counts_json c)) (dict_val (counts_json c)) = Inr []"
proof -
  have "\<exists>rows. mapE (\<lambda>k. bindE (int_at r (dict_val (counts_json c)) k) (\<lambda>m. bindE (int_at r (dict_val (counts_json c)) k) (\<lambda>n. Inr (k, m, n)))) ks =
      Inr rows \<and> filter (\<lambda>(k, m, n). m \<noteq> n) rows = []" for ks
  proof (induction ks)
    case (Cons k ks)
    then show ?case using int_at_counts [of r c k] by auto
  qed simp
  then show ?thesis unfolding dict_changes_def by (metis bindE.simps(2))
qed

lemma dict_at_build:
  "dict_at (baseline_build r events @ rest) ''tags'' = dict_val (counts_json (tag_counts r events))"
  "dict_at (baseline_build r events @ rest) ''red_flags'' = dict_val (counts_json (flag_counts r events))"
  "getj (baseline_build r events @ rest) (u ''lines'') = jnat (length events)"
  by (simp_all add: dict_at_def baseline_build_def counts_json_def)

lemma dict_at_current:
  "dict_at (baseline_build r events) ''tags'' = dict_val (counts_json (tag_counts r events))"
  "dict_at (baseline_build r events) ''red_flags'' = dict_val (counts_json (flag_counts r events))"
  using dict_at_build [of r events "[]"] by simp_all

lemma fail_not_ok: "\<not> is_ok (fail_at p e)"
  by (simp add: fail_at_def fail_with_def is_ok_def)

lemma answer_ok: "is_ok (base_result p d @ rest)"
  by (simp add: is_ok_def base_result_def)

lemma baseline_save_ok:
  assumes "baseline_save_dtj env x h p b = (Inr saved, f')" "is_ok saved"
  obtains decoded events where "path_check b = None" "read_session_dtj h p = Inr decoded" "is_ok decoded"
      "event_dicts decoded = Inr events"
      "write_baseline env h (expanduser h b) (baseline_data (rt h) (expanduser h p) events) (fs h) = (Inr (), f')"
      "getj saved (u ''baseline'') = JObj (baseline_data (rt h) (expanduser h p) events)"
  using assms fail_not_ok unfolding baseline_save_dtj_def Let_def
  by (auto simp: base_result_def split: option.splits sum.splits prod.splits if_splits)

text \<open>C17: A baseline that was saved is read back and shows no change. If saving succeeded and the session reads as
  before, comparing the session with that baseline does not raise: it finds the saved document, and its text
  reports the same number of events, no tag and no red flag that differs. \<open>loads\<close> needs only to return the
  document whose text was written.\<close>

theorem baseline_unchanged:
  assumes "baseline_save_dtj env x h p b = (Inr saved, f')" "is_ok saved"
    and "read_session_dtj (h\<lparr>fs := f'\<rparr>) p = read_session_dtj h p" "plain_floats (rt h)"
    and "loads (json_indent (rt h) 0 (getj saved (u ''baseline'')) @ newline) = Parsed (getj saved (u ''baseline''))"
  shows "\<exists>res n. baseline_diff_dtj loads x order (h\<lparr>fs := f'\<rparr>) p b = Inr res \<and> is_ok res \<and>
    getj res (u ''baseline'') = getj saved (u ''baseline'') \<and>
    getj res (u ''text'') = JStr (join newline [u ''baseline: '' @ expanduser h b,
      u ''lines: '' @ nstr n @ [32, 8594, 32] @ nstr n, u ''tag diff:'', u ''  (none)'', u ''red flag diff:'', u ''  (none)''])"
proof -
  obtain decoded events where s: "path_check b = None" "read_session_dtj h p = Inr decoded" "is_ok decoded"
      "event_dicts decoded = Inr events"
      "write_baseline env h (expanduser h b) (baseline_data (rt h) (expanduser h p) events) (fs h) = (Inr (), f')"
      "getj saved (u ''baseline'') = JObj (baseline_data (rt h) (expanduser h p) events)"
    by (rule baseline_save_ok [OF assms(1,2)])
  let ?data = "baseline_data (rt h) (expanduser h p) events"
  note w = write_baseline_done [OF s(5)]
  have "no_cr (json_indent (rt h) 0 (JObj ?data) @ newline)"
    using no_cr_indent [OF assms(4)] by (simp only: no_cr_simps newline_def) simp
  then have l: "load_baseline loads x f' (expanduser h b) = Inr (Inr (JObj ?data))"
    unfolding load_baseline_def w using assms(5) s(6) by (simp add: newlines_same)
  have d: "baseline_diff_dtj loads x order (h\<lparr>fs := f'\<rparr>) p b =
      baseline_result order (rt h) (expanduser h b) ?data (expanduser h p) events decoded"
    unfolding baseline_diff_dtj_def with_session_def with_loadedE_def Let_def using s w l assms(3) by simp
  have "py_str (rt h) (getj ?data (u ''lines'')) = nstr (length events)"
    unfolding baseline_data_def dict_at_build(3) by (simp add: py_str_def)
  then have "baseline_result order (rt h) (expanduser h b) ?data (expanduser h p) events decoded =
      Inr (base_result (expanduser h p) decoded @
        [(u ''baseline_path'', JStr (expanduser h b)), (u ''baseline'', JObj ?data), (u ''current'', JObj (baseline_build (rt h) events)),
         (u ''text'', JStr (join newline [u ''baseline: '' @ expanduser h b,
            u ''lines: '' @ nstr (length events) @ [32, 8594, 32] @ nstr (length events), u ''tag diff:'', u ''  (none)'',
            u ''red flag diff:'', u ''  (none)'']))])"
    unfolding baseline_result_def Let_def dict_at_current
    by (simp add: baseline_data_def dict_at_build(1,2) unchanged diff_lines_def by_size_def del: join_def)
  then show ?thesis unfolding d s(6) using answer_ok
    by (intro exI [of _ "base_result (expanduser h p) decoded @ _"] exI [of _ "length events"]) (auto simp: base_result_def)
qed

section \<open>A concrete baseline\<close>

definition small_event :: jdict where
  "small_event = [(u ''category'', JStr (u ''c'')), (u ''event_name'', JStr (u ''e'')), (u ''monotonic_ns'', JInt 5)]"

lemma small_texts:
  "event_haystack sample_runtime small_event = [99, 32, 101]" "event_tag sample_runtime small_event = [99, 46, 101]"
  "name_of sample_runtime small_event = [101]" "\<forall>f \<in> set RED_FLAGS. \<not> red_hit sample_runtime [99, 32, 101] f"
  by code_simp+

lemma foldl_same: "\<forall>p \<in> set ps. f s p = s \<Longrightarrow> foldl f s ps = s"
  by (induction ps) auto

lemma small_scan:
  "scan_events sample_runtime 0 [small_event] =
     \<lparr>scanned = [small_event], categories = [(JStr (u ''c''), 1)], opens = [], closes = [],
      freq = [(([99, 46, 101], [99, 32, 101]), 1)], red_counts = [], red_samples = [], first_mono = JInt 5, last_mono = JInt 5\<rparr>"
proof -
  have "\<forall>p \<in> set EVENT_PAIRS. scan_pair [101] sr p = sr" for sr
    unfolding EVENT_PAIRS_def scan_pair_def event_matches_def by (simp add: u_Cons)
  moreover have "\<forall>f \<in> set RED_FLAGS. scan_flag sample_runtime 0 small_event sr f = sr" for sr
    using small_texts(1,4) by (simp add: scan_flag_def)
  ultimately have "foldl (scan_flag sample_runtime 0 small_event) sr RED_FLAGS = sr" "foldl (scan_pair [101]) sr EVENT_PAIRS = sr" for sr
    by (blast intro: foldl_same)+
  then show ?thesis
    by (simp add: scan_events_def scan_event_def empty_scan_def small_texts bump_def count_of_def Let_def)
      (simp add: small_event_def or_else_def u_Cons)
qed

definition small_baseline :: jdict where
  "small_baseline = [(u ''version'', JInt 1), (u ''format'', JStr (u ''dtj-baseline-v1'')), (u ''lines'', JInt 1),
     (u ''tags'', JObj [([99, 46, 101], JInt 1)]), (u ''categories'', JObj [(u ''c'', JInt 1)]), (u ''red_flags'', JObj []),
     (u ''last_monotonic_ns'', JInt 5), (u ''session_path'', JStr sample_path)]"

lemma small_data: "baseline_data sample_runtime sample_path [small_event] = small_baseline"
  by (simp add: baseline_data_def baseline_build_def small_scan tag_counts_def flag_counts_def counts_json_def small_texts
      bump_def count_of_def small_baseline_def)

lemma encode_ascii: "list_all (list_all (\<lambda>c. c < 128)) ts \<Longrightarrow> snd (encode_all ts)"
  by (induction ts) (auto simp: utf8_encode_ascii list_all_iff split: prod.splits)

lemma small_encodes: "snd (encode_all (json_chunks sample_runtime 0 (JObj small_baseline) @ [newline]))"
proof -
  have "list_all (list_all (\<lambda>c. c < 128)) (json_chunks sample_runtime 0 (JObj small_baseline) @ [newline])" by code_simp
  then show ?thesis by (rule encode_ascii)
qed

text \<open>A host whose reader returns that one event.\<close>

definition baseline_host :: host where
  "baseline_host = sample_host\<lparr>rust_reader := Some (\<lambda>p. Inr [(u ''ok'', JBool True), (u ''events'', JList [JObj small_event])])\<rparr>"

definition plain_texts :: exn_texts where
  "plain_texts = \<lparr>os_text = (\<lambda>_. []), decode_text = (\<lambda>_ m. m)\<rparr>"

theorem baseline_unchanged_witness:
  "\<exists>f' res. snd (baseline_save_dtj sample_env plain_texts baseline_host sample_path sample_index) = f' \<and>
     baseline_diff_dtj (\<lambda>_. Parsed (JObj small_baseline)) plain_texts id (baseline_host\<lparr>fs := f'\<rparr>) sample_path sample_index = Inr res \<and>
     getj res (u ''baseline'') = JObj small_baseline"
proof -
  let ?p = "[(u ''ok'', JBool True), (u ''events'', JList [JObj small_event])]"
  obtain bs where bs: "encode_all (json_chunks sample_runtime 0 (JObj small_baseline) @ [newline]) = (bs, True)"
    using small_encodes by (cases "encode_all (json_chunks sample_runtime 0 (JObj small_baseline) @ [newline])") auto
  let ?f = "(fs sample_host)(sample_index := File bs (now_ns sample_env))"
  have h: "expanduser baseline_host = id" "rt baseline_host = sample_runtime" "ancestors baseline_host sample_index = []"
    "fs baseline_host = fs sample_host" "fs sample_host sample_index = Missing"
    by (simp_all add: baseline_host_def sample_host_def sample_path_def sample_index_def)
  have r: "read_session_dtj (baseline_host\<lparr>fs := f\<rparr>) sample_path = Inr ?p" if "f sample_path = fs sample_host sample_path" for f
    using that by (simp add: read_session_dtj_def read_session_def is_file_def baseline_host_def sample_host_def Let_def)
  have "baseline_host = baseline_host\<lparr>fs := fs sample_host\<rparr>" by (simp add: baseline_host_def)
  with r [of "fs sample_host"] have r0: "read_session_dtj baseline_host sample_path = Inr ?p" by simp
  have ev: "event_dicts ?p = Inr [small_event]" "is_ok ?p" by (simp_all add: event_dicts_def dict_events_def iter_events_def or_else_def is_ok_def)
  have "path_check sample_index = None"
    by (simp add: path_check_def sample_index_def strip_def rstrip_def is_space_def u_Cons)
  then obtain saved where s: "baseline_save_dtj sample_env plain_texts baseline_host sample_path sample_index = (Inr saved, ?f)"
      "is_ok saved" "getj saved (u ''baseline'') = JObj small_baseline"
    using bs ev unfolding baseline_save_dtj_def Let_def h id_apply r0
    by (simp add: small_data write_baseline_def bindIO_def h write_text_def answer_ok base_result_def is_ok_def del: json_chunks.simps)
  have "plain_floats (rt baseline_host)" by (simp add: h plain_floats_def sample_runtime_def)
  from baseline_unchanged [OF s(1,2) _ this, where loads = "\<lambda>_. Parsed (JObj small_baseline)" and order = id] s r r0
  show ?thesis by (auto simp: sample_names)
qed

end
