(* ===== verification/Dtj_Timing_Props.thy ===== *)
theory Dtj_Timing_Props imports Dtj_Timing Dtj_Entity_Props begin

text \<open>
  Bursts: both loops return and cut the timed events into maximal groups. Latencies: the entities still open are
  those whose last opening or closing event opens them. Density: each bucket counts its events.
\<close>

section \<open>Bursts\<close>

lemma burst_end_returns:
  "j \<le> n \<Longrightarrow> \<exists>k. burst_end stop n j = Some k \<and> j \<le> k \<and> k \<le> n \<and> (\<forall>m. j \<le> m \<and> m < k \<longrightarrow> \<not> stop m) \<and> (k < n \<longrightarrow> stop k)"
proof (induction "n - j" arbitrary: j)
  case 0
  then show ?case by (intro exI [of _ j]) (auto simp: burst_end.simps)
next
  case (Suc d)
  show ?case
  proof (cases "stop j")
    case True
    with Suc show ?thesis by (intro exI [of _ j]) (auto simp: burst_end.simps)
  next
    case False
    from Suc have "d = n - (j + 1)" "j + 1 \<le> n" by simp_all
    from Suc(1) [OF this] obtain k where "burst_end stop n (j + 1) = Some k" "j + 1 \<le> k" "k \<le> n"
      "\<forall>m. j + 1 \<le> m \<and> m < k \<longrightarrow> \<not> stop m" "k < n \<longrightarrow> stop k" by blast
    moreover from this False have "\<forall>m. j \<le> m \<and> m < k \<longrightarrow> \<not> stop m" by (metis Suc_eq_plus1 Suc_leI le_neq_implies_less)
    ultimately show ?thesis using Suc(2) False by (intro exI [of _ k]) (subst burst_end.simps, simp)
  qed
qed

text \<open>The groups that start at \<open>i\<close>: consecutive, none empty, each up to where it must stop.\<close>

fun burst_cover :: "(nat \<Rightarrow> nat \<Rightarrow> bool) \<Rightarrow> nat \<Rightarrow> nat \<Rightarrow> (nat \<times> nat) list \<Rightarrow> bool" where
  "burst_cover stop n i [] = (i = n)"
| "burst_cover stop n i ((a, b) # gs) =
     (a = i \<and> i < b \<and> b \<le> n \<and> list_all (\<lambda>k. \<not> stop i k) [i + 1..<b] \<and> (b < n \<longrightarrow> stop i b) \<and> burst_cover stop n b gs)"

lemma burst_loop_returns:
  "i \<le> n \<Longrightarrow> \<exists>gs. burst_loop stop n i acc = Some (acc @ gs) \<and> burst_cover stop n i gs"
proof (induction "n - i" arbitrary: i acc rule: less_induct)
  case less
  show ?case
  proof (cases "i < n")
    case False
    with less.prems show ?thesis by (intro exI [of _ "[]"]) (simp add: burst_loop.simps)
  next
    case True
    then obtain j where j: "burst_end (stop i) n (i + 1) = Some j" "i + 1 \<le> j" "j \<le> n"
      "\<forall>m. i + 1 \<le> m \<and> m < j \<longrightarrow> \<not> stop i m" "j < n \<longrightarrow> stop i j"
      using burst_end_returns [of "i + 1" n "stop i"] by auto
    then have m: "max (i + 1) j = j" by simp
    from True j have "n - j < n - i" by simp
    from less.hyps [OF this j(3), of "acc @ [(i, j)]"] obtain gs where
      "burst_loop stop n j (acc @ [(i, j)]) = Some (acc @ (i, j) # gs)" "burst_cover stop n j gs" by auto
    with True j m show ?thesis
      by (intro exI [of _ "(i, j) # gs"]) (subst burst_loop.simps, auto simp: list_all_iff)
  qed
qed

lemma burst_cover_bounds: "burst_cover stop n i gs \<Longrightarrow> (a, b) \<in> set gs \<Longrightarrow> i \<le> a \<and> a < b \<and> b \<le> n"
proof (induction stop n i gs rule: burst_cover.induct)
  case (2 stop n i c d gs)
  then show ?case by (cases "(a, b) = (c, d)") auto
qed simp

lemma burst_cover_upt: "burst_cover stop n i gs \<Longrightarrow> i \<le> n \<and> concat (map (\<lambda>(a, b). [a..<b]) gs) = [i..<n]"
proof (induction stop n i gs rule: burst_cover.induct)
  case (2 stop n i a b gs)
  then have "a = i" "i < b" "b \<le> n" "concat (map (\<lambda>(a, b). [a..<b]) gs) = [b..<n]" by simp_all
  then show ?case using upt_add_eq_append [of i b "n - b"] by simp
qed simp

lemma burst_cover_each:
  "burst_cover stop n i gs \<Longrightarrow>
     list_all (\<lambda>(a, b). a < b \<and> list_all (\<lambda>k. \<not> stop a k) [a + 1..<b] \<and> (b < n \<longrightarrow> stop a b)) gs"
  by (induction stop n i gs rule: burst_cover.induct) auto

lemma bursts_of_returns:
  obtains groups where "burst_loop (burst_stop r w events) (length events) 0 [] = Some groups"
    "burst_cover (burst_stop r w events) (length events) 0 groups"
  using burst_loop_returns [of 0 "length events" "burst_stop r w events" "[]"] by auto

lemma bursts_result_returns: "bursts_result r window min_count n_top sc path decoded \<noteq> None"
proof (cases "event_dicts decoded")
  case (Inr events)
  obtain groups where "burst_loop (burst_stop r (f64_of_json window) (timed (scope_events r sc events)))
      (length (timed (scope_events r sc events))) 0 [] = Some groups"
    by (rule bursts_of_returns)
  with Inr show ?thesis by (simp add: bursts_result_def bursts_of_def Let_def)
qed (simp add: bursts_result_def)

lemma bursts_return: "bursts_dtj h p window min_count n_top from_clear \<noteq> None"
  using bursts_result_returns [of "rt h" window min_count n_top "since_scope from_clear None" "expanduser h p"]
  by (auto simp: bursts_dtj_def Let_def split: sum.split option.split)

text \<open>C16: The two loops of the burst search terminate on every input, however long the trace and whatever its
  times (also times that go back): the tool always returns. What it reports is a cut of the timed events into
  consecutive groups that covers each event exactly once; every group is as long as possible: its events carry the
  tag of its first and lie within the window from it, and the event after it does not. The report keeps the groups
  of the minimum size, the largest first.\<close>

theorem bursts_terminate:
  "bursts_dtj h p window min_count n_top from_clear \<noteq> None \<and>
   (\<exists>groups.
      bursts_of r window m k events =
        Some (take k (map (burst_row r window events) (sort_key (\<lambda>(i, j). - int (j - i)) (filter (\<lambda>(i, j). m \<le> j - i) groups)))) \<and>
      concat (map (\<lambda>(i, j). [i..<j]) groups) = [0..<length events] \<and>
      list_all (\<lambda>(i, j). i < j \<and> list_all (\<lambda>x. \<not> burst_stop r (f64_of_json window) events i x) [i + 1..<j] \<and>
        (j = length events \<or> burst_stop r (f64_of_json window) events i j)) groups)"
proof
  show "bursts_dtj h p window min_count n_top from_clear \<noteq> None"
    by (rule bursts_return)
next
  obtain groups where g: "burst_loop (burst_stop r (f64_of_json window) events) (length events) 0 [] = Some groups"
      "burst_cover (burst_stop r (f64_of_json window) events) (length events) 0 groups"
    by (rule bursts_of_returns)
  moreover have "(a, b) \<in> set groups \<Longrightarrow> b \<le> length events" for a b using burst_cover_bounds [OF g(2)] by blast
  ultimately show "\<exists>groups.
      bursts_of r window m k events =
        Some (take k (map (burst_row r window events) (sort_key (\<lambda>(i, j). - int (j - i)) (filter (\<lambda>(i, j). m \<le> j - i) groups)))) \<and>
      concat (map (\<lambda>(i, j). [i..<j]) groups) = [0..<length events] \<and>
      list_all (\<lambda>(i, j). i < j \<and> list_all (\<lambda>x. \<not> burst_stop r (f64_of_json window) events i x) [i + 1..<j] \<and>
        (j = length events \<or> burst_stop r (f64_of_json window) events i j)) groups"
    using burst_cover_upt [OF g(2)] burst_cover_each [OF g(2)]
    by (intro exI [of _ groups]) (fastforce simp: bursts_of_def list_all_iff)
qed

section \<open>Latency\<close>

lemma latency_step_key:
  "latency_step r os cs st ev =
     (case entity_key r ev of
        None \<Rightarrow> st
      | Some eid \<Rightarrow>
          if event_matches (name_of r ev) os then st\<lparr>open_ids := AList.update eid ev (open_ids st)\<rparr>
          else if event_matches (name_of r ev) cs then
            (case map_of (open_ids st) eid of
               None \<Rightarrow> st
             | Some e0 \<Rightarrow>
                 st\<lparr>latencies := latencies st @
                      (case (mono_sec e0, mono_sec ev) of
                         (Some a, Some b) \<Rightarrow> [f64_mul (f64_sub b a) 0x408F400000000000] | _ \<Rightarrow> []),
                    open_ids := AList.delete eid (open_ids st)\<rparr>)
          else st)"
  unfolding latency_step_def entity_key_def by (cases "entity_id_from_event r ev") (auto split: list.split)

text \<open>The event that holds the entity open after a history: its last opening or closing event, when it opens.\<close>

definition open_after :: "runtime \<Rightarrow> string list \<Rightarrow> string list \<Rightarrow> jdict list \<Rightarrow> pystr \<Rightarrow> jdict option" where
  "open_after r os cs events i =
     (case last_such (\<lambda>e. opens_entity r os i e \<or> closes_entity r os cs i e) events of
        None \<Rightarrow> None
      | Some e \<Rightarrow> if opens_entity r os i e then Some e else None)"

text \<open>The milliseconds a closing event adds after a history.\<close>

definition latency_of :: "runtime \<Rightarrow> string list \<Rightarrow> string list \<Rightarrow> jdict list \<Rightarrow> jdict \<Rightarrow> 64 word list" where
  "latency_of r os cs before_ev ev =
     (case entity_key r ev of
        None \<Rightarrow> []
      | Some i \<Rightarrow>
          if closes_entity r os cs i ev then
            (case open_after r os cs before_ev i of
               None \<Rightarrow> []
             | Some e0 \<Rightarrow> (case (mono_sec e0, mono_sec ev) of
                 (Some a, Some b) \<Rightarrow> [f64_mul (f64_sub b a) 0x408F400000000000] | _ \<Rightarrow> []))
          else [])"

lemma pair_latencies_snoc: "pair_latencies r os cs (es @ [e]) = latency_step r os cs (pair_latencies r os cs es) e"
  by (simp add: pair_latencies_def)

lemma latency_distinct: "distinct (map fst (open_ids (pair_latencies r os cs es)))"
proof (induction es rule: rev_induct)
  case (snoc e es)
  then show ?case
    by (auto simp: pair_latencies_snoc latency_step_key intro: distinct_update distinct_delete split: option.split)
qed (simp add: pair_latencies_def)

lemma open_after_snoc:
  "open_after r os cs (es @ [e]) i =
     (if opens_entity r os i e then Some e else if closes_entity r os cs i e then None else open_after r os cs es i)"
  by (simp add: open_after_def last_such_snoc)

lemma latency_open: "map_of (open_ids (pair_latencies r os cs es)) i = open_after r os cs es i"
proof (induction es rule: rev_induct)
  case (snoc e es)
  have d: "map_of (AList.delete j (open_ids (pair_latencies r os cs es))) i =
      (if i = j then None else map_of (open_ids (pair_latencies r os cs es)) i)" for j
    by (simp add: delete_conv')
  show ?case
    unfolding pair_latencies_snoc latency_step_key open_after_snoc
    using snoc by (auto simp: opens_entity_def closes_entity_def update_conv' d split: option.split)
qed (simp add: pair_latencies_def open_after_def)

lemma latency_list:
  "latencies (pair_latencies r os cs es) = concat (map (\<lambda>k. latency_of r os cs (take k es) (es ! k)) [0..<length es])"
proof (induction es rule: rev_induct)
  case (snoc e es)
  have a: "map (\<lambda>k. latency_of r os cs (take k (es @ [e])) ((es @ [e]) ! k)) [0..<length es] =
      map (\<lambda>k. latency_of r os cs (take k es) (es ! k)) [0..<length es]"
    by (rule map_cong) (simp_all add: nth_append)
  have b: "latencies (latency_step r os cs (pair_latencies r os cs es) e) =
      latencies (pair_latencies r os cs es) @ latency_of r os cs es e"
    unfolding latency_step_key latency_of_def closes_entity_def
    by (auto simp: latency_open split: option.split)
  have c: "[0..<length (es @ [e])] = [0..<length es] @ [length es]" by simp
  show ?case unfolding pair_latencies_snoc b c map_append concat_append a snoc by simp
qed (simp add: pair_latencies_def)

text \<open>C18: The latency of open and close pairs equals its specification over the history. An entity counts as still
  open exactly when its last opening or closing event opens it, and the event reported for it is that one; the
  latencies are, in the order of the closing events, the times from the event that held the entity open: a close
  with nothing open is ignored, a second open restarts the clock, and a close is counted once.\<close>

theorem pair_latency_history:
  "map_of (open_ids (pair_latencies r os cs events)) i = open_after r os cs events i \<and>
   distinct (map fst (open_ids (pair_latencies r os cs events))) \<and>
   latencies (pair_latencies r os cs events) =
     concat (map (\<lambda>k. latency_of r os cs (take k events) (events ! k)) [0..<length events])"
  by (simp add: latency_open latency_distinct latency_list)

section \<open>Density\<close>

definition bucket_at :: "density \<Rightarrow> int \<Rightarrow> pystr counter" where
  "bucket_at d i = (case map_of d i of None \<Rightarrow> [] | Some ctr \<Rightarrow> ctr)"

lemma bucket_at_add: "bucket_at (density_add i c d) j = (if j = i then bump c (bucket_at d i) else bucket_at d j)"
  by (simp add: bucket_at_def density_add_def update_conv')

lemma density_keys: "fst ` set (density_add i c d) = insert i (fst ` set d)"
  by (simp add: density_add_def dom_update)

definition in_bucket :: "runtime \<Rightarrow> json \<Rightarrow> 64 word \<Rightarrow> int \<Rightarrow> jdict \<Rightarrow> bool" where
  "in_bucket r b t0 i e = (bucket_index r b t0 e = Inr i)"

lemma density_fold:
  "foldE (\<lambda>e d. bindE (bucket_index r b t0 e) (\<lambda>i. Inr (density_add i (category_name e) d))) events d = Inr d' \<Longrightarrow>
   count_of (bucket_at d' i) c = count_of (bucket_at d i) c + length (filter (\<lambda>e. in_bucket r b t0 i e \<and> category_name e = c) events) \<and>
   fst ` set d' = fst ` set d \<union> {j. \<exists>e \<in> set events. in_bucket r b t0 j e}"
proof (induction events arbitrary: d)
  case (Cons e events)
  then obtain j where j: "bucket_index r b t0 e = Inr j" by (cases "bucket_index r b t0 e") auto
  then have k: "in_bucket r b t0 m e \<longleftrightarrow> m = j" for m by (auto simp: in_bucket_def)
  from Cons.prems j have "foldE (\<lambda>e d. bindE (bucket_index r b t0 e) (\<lambda>i. Inr (density_add i (category_name e) d))) events
      (density_add j (category_name e) d) = Inr d'" by simp
  from Cons.IH [OF this] show ?case
    by (auto simp: bucket_at_add density_keys k)
qed simp

lemma zero_f64: "round_f64 False 0 1 = 0" "f64_units 0 = 0" "f64_sign 0 = 0" "f64_finite 0" "f64_int 0 = 0" "f64_neg 0 = 0x8000000000000000"
  by (simp_all add: round_f64_def pack_f64_def f64_units_def f64_sig_def f64_exp_def f64_mant_def f64_sign_def
      f64_finite_def f64_int_def f64_neg_def)

lemma sub_zero: "f64_sub 0 0 = 0"
proof -
  have "f64_sign 0x8000000000000000 = 1" "f64_finite 0x8000000000000000" "f64_units 0x8000000000000000 = 0"
    by (simp_all add: f64_sign_def f64_finite_def f64_exp_def f64_units_def f64_sig_def f64_mant_def)
  then show ?thesis
    using zero_f64 by (simp add: f64_sub_def f64_add_def f64_int_def round_int_def finite_not_nan)
qed

text \<open>An event at the time of the first one falls into bucket 0.\<close>

lemma first_bucket:
  assumes "mono_or_zero e = 0"
  shows "bucket_index r bucket 0 e = Inr 0"
proof -
  have d: "f64_div 0 y = pack_f64 (if f64_sign y = 0 then 0 else 1) 0 0" for y
    using zero_f64 by (auto simp: f64_div_def finite_not_nan round_f64_def)
  have "f64_units (f64_div 0 y) = 0" "f64_finite (f64_div 0 y)" for y
    unfolding d by (simp_all add: pack_zero f64_finite_def pack_f64_parts)
  then have "f64_floordiv 0 y = 0" for y
    unfolding f64_floordiv_def using zero_f64 sub_zero by (simp add: round_int_def)
  moreover have "f64_trunc 0 = 0" by (simp add: f64_trunc_def f64_sig_def f64_exp_def f64_mant_def f64_sign_def)
  ultimately show ?thesis using assms sub_zero zero_f64(4) by (simp add: bucket_index_def)
qed

text \<open>The density buckets lose nothing and invent nothing. When the buckets can be computed, the counter of a
  bucket holds for every category exactly the number of timed events of that category whose time falls into it,
  and there is a bucket for an index exactly when some event falls into it.\<close>

theorem density_exact:
  assumes "density_buckets r bucket t0 events = Inr d"
  shows "count_of (bucket_at d i) c = length (filter (\<lambda>e. in_bucket r bucket t0 i e \<and> category_name e = c) events) \<and>
    (i \<in> fst ` set d \<longleftrightarrow> (\<exists>e \<in> set events. in_bucket r bucket t0 i e))"
  using density_fold [OF assms [unfolded density_buckets_def], of i c] by (simp add: bucket_at_def count_of_def)

definition tick_event :: "string \<Rightarrow> jdict" where
  "tick_event c = [(u ''monotonic_ns'', JInt 0), (u ''category'', JStr (u c))]"

theorem density_exact_witness:
  "count_of (bucket_at [(0, [(u ''io'', 2), (u ''ui'', 1)])] 0) (u ''io'') =
     length (filter (\<lambda>e. in_bucket (rt sample_host) (JInt 10) 0 0 e \<and> category_name e = u ''io'')
       [tick_event ''io'', tick_event ''ui'', tick_event ''io''])"
proof -
  have "mono_or_zero (tick_event c) = 0" "c \<noteq> [] \<Longrightarrow> category_name (tick_event c) = u c" for c
  proof -
    have "f64_div 0 NS_PER_SEC = 0"
      using zero_f64 by (simp add: f64_div_def finite_not_nan f64_sign_def round_f64_def)
    then show "mono_or_zero (tick_event c) = 0" "c \<noteq> [] \<Longrightarrow> category_name (tick_event c) = u c"
      using zero_f64 by (simp_all add: mono_or_zero_def mono_sec_def tick_event_def category_name_def or_else_def
          u_def round_int_def Let_def)
  qed
  then have "density_buckets (rt sample_host) (JInt 10) 0 [tick_event ''io'', tick_event ''ui'', tick_event ''io''] =
      Inr [(0, [(u ''io'', 2), (u ''ui'', 1)])]"
    by (simp add: density_buckets_def first_bucket density_add_def bump_def count_of_def u_def)
  from density_exact [OF this, of 0 "u ''io''"] show ?thesis by simp
qed

text \<open>The categories shown are those in the most buckets, not those with the most events.\<close>

lemma busiest_category_hidden:
  "bucket_counts 1 [(0, [(u ''noise'', 100), (u ''tick'', 1)]), (1, [(u ''tick'', 1)])] 0 = [(u ''tick'', 1)]"
  by (simp add: bucket_counts_def top_categories_def most_common_def bump_def count_of_def u_def)

end
