(* ===== verification/Mcp_Server_Props.thy ===== *)
theory Mcp_Server_Props imports Mcp_Server Dtj_Compare_Props Dtj_Timing_Props begin

text \<open>
  The tools always answer, change only the files their arguments name, and a configuration that was set is the one
  that is read. Two lemmas show that nothing keeps an index or a baseline from replacing the session it is made from.
\<close>

section \<open>Every tool answers\<close>

lemmas query_tools =
  debug_trace_session_info_dtj_def debug_trace_session_read_dtj_def debug_trace_session_tail_dtj_def
  debug_trace_session_events_dtj_def debug_trace_session_context_dtj_def debug_trace_session_search_dtj_def
  debug_trace_session_text_search_dtj_def debug_trace_session_regex_search_dtj_def
  debug_trace_session_correlation_dtj_def debug_trace_session_stats_dtj_def

lemmas analysis_tools =
  debug_trace_session_analyze_dtj_def debug_trace_session_since_last_repro_dtj_def
  debug_trace_session_trace_brief_dtj_def debug_trace_session_red_flags_dtj_def
  debug_trace_session_event_balance_dtj_def debug_trace_session_causal_chain_dtj_def
  debug_trace_session_last_session_dtj_def debug_trace_session_unmatched_entities_dtj_def
  debug_trace_session_preset_report_dtj_def debug_trace_session_analyze_bundle_dtj_def
  debug_trace_session_line_bundle_dtj_def

lemmas analytics_tools =
  debug_trace_session_repetition_dtj_def debug_trace_session_entity_timeline_dtj_def
  debug_trace_session_entity_cluster_dtj_def debug_trace_session_message_templates_dtj_def
  debug_trace_session_snapshot_diff_dtj_def debug_trace_session_pair_latency_dtj_def
  debug_trace_session_field_breakdown_dtj_def debug_trace_session_field_crosstab_dtj_def
  debug_trace_session_sequence_gap_dtj_def debug_trace_session_gaps_dtj_def

lemmas timeline_tools =
  debug_trace_session_compare_sessions_dtj_def debug_trace_session_transition_matrix_dtj_def
  debug_trace_session_snapshot_before_after_dtj_def debug_trace_session_first_last_dtj_def
  debug_trace_session_density_timeline_dtj_def debug_trace_session_minimal_repro_dtj_def
  debug_trace_session_baseline_diff_dtj_def debug_trace_session_persistence_mismatches_dtj_def
  debug_trace_session_search_dtj_index_def debug_trace_session_performance_report_dtj_index_def

definition json_answer :: "server \<Rightarrow> pystr \<Rightarrow> bool" where
  "json_answer s t = (\<exists>d. t = json_text (rt (sv_host s)) d)"

lemma tool_text_answer [simp]: "json_answer s (tool_text s ctx res)" "json_answer s (config_answer s p res)"
  by (auto simp: json_answer_def tool_text_def config_answer_def)

lemma on_files_simps [simp]:
  "rt (sv_host (on_files s f)) = rt (sv_host s)" "fs (sv_host (on_files s f)) = f" "sv_env (on_files s f) = sv_env s"
  "expanduser (sv_host (on_files s f)) = expanduser (sv_host s)" "ancestors (sv_host (on_files s f)) = ancestors (sv_host s)"
  "sv_loads (on_files s f) = sv_loads s" "sv_texts (on_files s f) = sv_texts s"
  by (simp_all add: on_files_def)

lemma on_files_answer: "json_answer (on_files s f) t \<Longrightarrow> json_answer s t"
  by (simp add: json_answer_def)

lemmas answers_on = tool_text_answer [of "on_files s f" for s f, THEN on_files_answer]

lemma query_answers: "json_answer s (run_query s q)"
  by (cases q) (simp_all add: query_tools)

lemma analysis_answers: "json_answer s (run_analysis s a)"
  by (cases a) (simp_all add: analysis_tools)

lemma analytics_answers: "json_answer s (run_analytics s b)"
  by (cases b) (simp_all add: analytics_tools)

lemma timeline_answers: "json_answer s (run_timeline s c)"
  by (cases c) (simp_all add: timeline_tools)

lemmas family_answers = query_answers analysis_answers analytics_answers timeline_answers

lemma config_set_answers: "json_answer s (fst (debug_trace_config_set s p raw))"
  by (auto simp: debug_trace_config_set_def Let_def split: sum.split prod.split)

lemma run_tool_answers:
  assumes "c \<noteq> Protocol_get"
  shows "\<exists>t f'. run_tool s f c = Some (Inr t, f') \<and> json_answer s t"
proof (cases c)
  case (Session_bursts_dtj p window min_count n_top since_clear)
  then obtain res where "bursts_dtj (sv_host (on_files s f)) p window min_count n_top since_clear = Some res"
    using bursts_return by blast
  with Session_bursts_dtj show ?thesis by (simp add: debug_trace_session_bursts_dtj_def answers_on)
next
  case (Config_set p raw)
  then show ?thesis using config_set_answers [of "on_files s f" p raw, THEN on_files_answer]
    by (cases "debug_trace_config_set (on_files s f) p raw") simp
next
  case (Session_baseline_save_dtj p b)
  then show ?thesis
    by (cases "baseline_save_dtj (sv_env s) (sv_texts s) (sv_host (on_files s f)) p b")
      (simp add: debug_trace_session_baseline_save_dtj_def answers_on)
next
  case (Session_index_dtj p i rebuild)
  then show ?thesis
    by (cases "index_session_dtj (sv_env s) (sv_host (on_files s f)) f p i rebuild None")
      (simp add: debug_trace_session_index_dtj_def answers_on)
qed (use assms in \<open>simp_all add: answers_on family_answers [THEN on_files_answer] debug_trace_event_catalog_def debug_trace_config_get_def debug_trace_sessions_list_dtj_def\<close>)

text \<open>C36: Every tool call returns, and no exception reaches the transport: whatever the arguments, the files and the
  parameters are, a call of any tool except \<open>protocol_get\<close> (which reads the schema files of the package outside a
  \<open>try\<close>) gives the JSON text of an object.\<close>

theorem tools_always_answer:
  "c = Protocol_get \<or> (\<exists>t f' d. run_tool s f c = Some (Inr t, f') \<and> t = json_text (rt (sv_host s)) d)"
  using run_tool_answers [of c s f] by (auto simp: json_answer_def)

section \<open>What a call may change\<close>

text \<open>The paths a call may write: its target, the temporary file and missing parent directories.\<close>

fun touched :: "server \<Rightarrow> tool_call \<Rightarrow> pystr list" where
  "touched s (Config_set p raw) = p # tmp_name (sv_env s) # ancestors (sv_host s) p"
| "touched s (Session_baseline_save_dtj p b) =
     (let bpath = expanduser (sv_host s) b in bpath # ancestors (sv_host s) bpath)"
| "touched s (Session_index_dtj p i rebuild) =
     (if rebuild then let index = expanduser (sv_host s) i in index # tmp_name (sv_env s) # ancestors (sv_host s) index else [])"
| "touched s c = []"

lemma try_publish_frame:
  assumes "try_publish env r index doc n f = (res, f')" "q \<noteq> index" "q \<noteq> tmp_name env"
  shows "f' q = f q"
  using index_publish.frame [of "(env, r, index, doc, n)" f res f' q] assms
  by (simp add: run_index_op_def index_target_def index_scratch_def)

lemma build_index_frame:
  assumes "build_index_atomic env h (fs h) reader session index = (res, f')"
    and "q \<noteq> index" "q \<noteq> tmp_name env" "q \<notin> set (ancestors h index)"
  shows "f' q = fs h q"
  using assms
  by (auto simp: build_index_atomic_def Let_def make_dirs_frame split: option.splits sum.splits if_splits prod.splits
      dest!: try_publish_frame [OF _ assms(2,3)] dest: make_dirs_frame [OF _ assms(4)])

lemma index_session_frame:
  assumes "index_session_dtj env h (fs h) p i rebuild rd = (res, f')"
    and "rebuild \<longrightarrow> q \<noteq> expanduser h i \<and> q \<noteq> tmp_name env \<and> q \<notin> set (ancestors h (expanduser h i))"
  shows "f' q = fs h q"
  using assms by (auto simp: index_session_dtj_def Let_def split: if_splits option.splits dest: build_index_frame)

lemma write_baseline_frame:
  assumes "write_baseline env h bpath data f = (res, f')" "q \<noteq> bpath" "q \<notin> set (ancestors h bpath)"
  shows "f' q = f q"
  using assms make_dirs_frame [of env "ancestors h bpath" f]
  by (auto simp: write_baseline_def bindIO_def write_text_def split: prod.splits sum.splits node.splits)

lemma baseline_save_frame:
  assumes "baseline_save_dtj env x h p b = (res, f')" "q \<noteq> expanduser h b" "q \<notin> set (ancestors h (expanduser h b))"
  shows "f' q = fs h q"
  using assms by (auto simp: baseline_save_dtj_def Let_def split: option.splits sum.splits if_splits prod.splits
      dest: write_baseline_frame)

lemma write_config_frame:
  assumes "write_config_atomic env h path config = (res, f')" "q \<noteq> path" "q \<noteq> tmp_name env" "q \<notin> set (ancestors h path)"
  shows "f' q = fs h q"
proof -
  obtain x f where m: "make_dirs (io_env.truncate env) (ancestors h path) (fs h) = (x, f)"
    by (cases "make_dirs (io_env.truncate env) (ancestors h path) (fs h)")
  obtain y f1 where r: "replace_config env path config f = (y, f1)" by (cases "replace_config env path config f")
  have "f1 q = f q"
    using config_publish.frame [of "(env, path, config)" f y f1 q] r assms(2,3)
    by (simp add: run_config_op_def config_target_def config_scratch_def)
  with make_dirs_frame [OF m assms(4)] m r assms(1) show ?thesis
    by (auto simp: write_config_atomic_def Let_def split: sum.splits if_splits)
qed

lemma config_set_frame:
  assumes "debug_trace_config_set s p raw = (t, f')" "q \<notin> set (touched s (Config_set p raw))"
  shows "f' q = fs (sv_host s) q"
proof -
  have e: "tmp_name (writer_env s) = tmp_name (sv_env s)" by (simp add: writer_env_def io_env.defs)
  have w: "f1 q = fs (sv_host s) q" if "write_config_atomic (writer_env s) (sv_host s) p base = (res, f1)" for base res f1
    using write_config_frame [OF that, of q] assms(2) by (simp add: e)
  show ?thesis using assms(1)
    by (auto simp: debug_trace_config_set_def Let_def split: sum.splits if_splits prod.splits dest: w)
qed

lemma run_tool_frame:
  assumes "run_tool s f c = Some (r, f')" "q \<notin> set (touched s c)"
  shows "f' q = f q"
proof (cases c)
  case (Config_set p raw)
  with assms config_set_frame [of "on_files s f" p raw _ f' q] show ?thesis by (auto split: prod.splits)
next
  case (Session_baseline_save_dtj p b)
  with assms show ?thesis
    using baseline_save_frame [of "sv_env s" "sv_texts s" "sv_host (on_files s f)" p b _ f' q]
    by (auto simp: debug_trace_session_baseline_save_dtj_def Let_def split: prod.splits)
next
  case (Session_index_dtj p i rebuild)
  with assms show ?thesis
    using index_session_frame [of "sv_env s" "sv_host (on_files s f)" p i rebuild None _ f' q]
    by (auto simp: debug_trace_session_index_dtj_def Let_def split: prod.splits if_splits)
qed (use assms in auto)

text \<open>A server over time: requests one after the other, each with parameters of its own (a clock, faults, the name of
  the temporary file). A server whose single requests spare a path spares it for ever; calls and HTTP requests are such.\<close>

inductive runs :: "('r \<Rightarrow> files \<Rightarrow> files \<Rightarrow> bool) \<Rightarrow> files \<Rightarrow> 'r list \<Rightarrow> files \<Rightarrow> bool" for step where
  idle: "runs step f [] f"
| request: "runs step f rs f1 \<Longrightarrow> step r f1 f2 \<Longrightarrow> runs step f (rs @ [r]) f2"

locale framed_server =
  fixes step :: "'r \<Rightarrow> files \<Rightarrow> files \<Rightarrow> bool" and spared :: "pystr \<Rightarrow> 'r \<Rightarrow> bool"
  assumes step_frame: "step r f f' \<Longrightarrow> spared q r \<Longrightarrow> f' q = f q"
begin

lemma runs_frame: "runs step f rs f' \<Longrightarrow> \<forall>r \<in> set rs. spared q r \<Longrightarrow> f' q = f q"
  by (induction rule: runs.induct) (auto dest: step_frame)

end

definition call_step :: "server \<times> tool_call \<Rightarrow> files \<Rightarrow> files \<Rightarrow> bool" where
  "call_step call f f' = (\<exists>r. run_tool (fst call) f (snd call) = Some (r, f'))"

interpretation calls: framed_server call_step "\<lambda>q call. q \<notin> set (touched (fst call) (snd call))"
  by unfold_locales (auto simp: call_step_def dest: run_tool_frame)

text \<open>C23: Whatever agents ask for, in any order, a file changes only when a call names it as its target: over any
  sequence of tool calls, a path that none of them gives as configuration, baseline or index to rebuild (and that is
  not the temporary file or a missing parent directory of such a target) holds what it held at the start; so the
  calls that only read change nothing at all.\<close>

theorem server_keeps_files:
  assumes "runs call_step f cs f'" "\<forall>(s, c) \<in> set cs. q \<notin> set (touched s c)"
  shows "f' q = f q"
  by (rule calls.runs_frame [OF assms(1)]) (use assms(2) in auto)

section \<open>A target that is the session itself\<close>

lemma baseline_replaces_target:
  assumes "baseline_save_dtj env x h p b = (Inr saved, f')" "is_ok saved"
  shows "\<exists>bs. f' (expanduser h b) = File bs (now_ns env) \<and>
    utf8_decode bs = Some (json_indent (rt h) 0 (getj saved (u ''baseline'')) @ newline)"
proof -
  obtain decoded events where s: "write_baseline env h (expanduser h b) (baseline_data (rt h) (expanduser h p) events) (fs h) = (Inr (), f')"
      "getj saved (u ''baseline'') = JObj (baseline_data (rt h) (expanduser h p) events)"
    by (rule baseline_save_ok [OF assms])
  obtain f1 where w: "write_text env (expanduser h b)
      (json_chunks (rt h) 0 (JObj (baseline_data (rt h) (expanduser h p) events)) @ [newline]) f1 = (Inr (), f')"
    using s(1) by (auto simp: write_baseline_def bindIO_Inr)
  then obtain bs where "f' (expanduser h b) = File bs (now_ns env)"
    by (auto simp: write_text_def split: node.splits prod.splits if_splits)
  with write_baseline_done(2) [OF s(1)] s(2) show ?thesis
    by (auto simp: read_text_def split: option.splits)
qed

text \<open>C38: The tool that builds an index replaces the session when it is given the session's own path as index path: for
  every session that loads, when no system call fails and the codec writes the document, it reports success, and the
  file then holds the JSON text of the index built from the session instead of the recording. Nothing checks the two
  paths, although the tool promises that the source file is never modified.\<close>

theorem index_overwrites_session:
  assumes s: "s = expanduser h p" "read_session_dtj (native h) s = Inr d" "is_ok d" "fs h s = File b m"
    and env: "fault env = (\<lambda>c. None)" "tmp_name env \<noteq> s" "s \<notin> set (ancestors h s)" "tmp_name env \<notin> set (ancestors h s)"
      "\<forall>q \<in> set (ancestors h s). fs h q = Missing \<or> is_dir (fs h q)" "\<not> is_dir (fs h (tmp_name env))"
    and codec: "\<forall>doc. build_document (rt h) (file_identity h s b m) d (events_in d) = Inr doc \<longrightarrow>
      (\<exists>body. json_dumps (rt h) (JObj doc) = Inr body) \<and> json_faithful (rt h) (JObj doc)"
  shows "\<exists>out f' doc body. index_session_dtj env (native h) (fs h) p p True None = (Inr out, f') \<and> is_ok out \<and>
    build_document (rt h) (file_identity h s b m) d (events_in d) = Inr doc \<and> json_dumps (rt h) (JObj doc) = Inr body \<and>
    f' s = File (body @ [10]) (now_ns env)"
proof -
  have "\<not> is_dir (fs h s)" by (simp add: s(4) is_dir_def)
  from fault_free_build [OF s(2-4,4) env(1-5) this env(6) codec] obtain out f' where
    b: "build_index_atomic env (native h) (fs h) (read_session_dtj (native h)) s s = (Inr out, f')" "is_ok out" by blast
  have "is_file (native h) s" by (simp add: is_file_def s(4))
  with b(1) have call: "index_session_dtj env (native h) (fs h) p p True None = (Inr out, f')"
    by (simp add: index_session_dtj_def flip: s(1))
  obtain ident d' doc body where built: "source_identity (native h) s = Some ident" "read_session_dtj (native h) s = Inr d'"
    "build_document (rt (native h)) ident d' (events_in d') = Inr doc" "json_dumps (rt (native h)) (JObj doc) = Inr body"
    "f' s = (if s = tmp_name env then Missing else File (body @ [10]) (now_ns env))"
    by (rule build_index_ok [OF b])
  then have "source_identity (native h) s = Some ident" "build_document (rt h) ident d (events_in d) = Inr doc"
    "json_dumps (rt h) (JObj doc) = Inr body" "f' s = File (body @ [10]) (now_ns env)"
    using s(2) env(2) by simp_all
  moreover from this(1) have "ident = file_identity h s b m"
    by (simp add: source_identity_def file_identity_def s(4))
  ultimately show ?thesis using call b(2) by blast
qed

theorem index_overwrites_session_witness:
  "\<exists>out f' body. index_session_dtj sample_env (native index_host) (fs index_host) sample_path sample_path True None = (Inr out, f') \<and>
     is_ok out \<and> json_dumps (rt index_host) (JObj sample_doc) = Inr body \<and> f' sample_path = File (body @ [10]) 9"
proof -
  have p: "sample_path = expanduser index_host sample_path" by simp
  have f: "fs index_host sample_path = File sample_bytes 7" by (simp add: sample_fs)
  from index_overwrites_session [OF p index_host_load sample_ok f sample_fault _ _ _ _ _ sample_faithful]
  obtain out f' doc body where "index_session_dtj sample_env (native index_host) (fs index_host) sample_path sample_path True None = (Inr out, f')"
    "is_ok out" "build_document (rt index_host) (file_identity index_host sample_path sample_bytes 7) sample_projection (events_in sample_projection) = Inr doc"
    "json_dumps (rt index_host) (JObj doc) = Inr body" "f' sample_path = File (body @ [10]) (now_ns sample_env)"
    using sample_names(2) by (auto simp: sample_fs is_dir_def)
  with sample_doc_built [of doc] show ?thesis by (auto simp: sample_env_def)
qed

section \<open>Setting the configuration\<close>

lemma dict_update_lookup:
  "map_of (dict_update base cfg) k = (case map_of (rev cfg) k of Some v \<Rightarrow> Some v | None \<Rightarrow> map_of base k)"
proof (induction cfg arbitrary: base)
  case (Cons p cfg)
  obtain k' v' where "p = (k', v')" by (cases p)
  with Cons [of "AList.update k' v' base"] show ?case
    by (auto simp: dict_update_def update_conv' map_add_def split: option.splits)
qed (simp add: dict_update_def)

text \<open>C37: Setting the configuration is all or nothing, and what was set is what is read. Either the file is what it
  was, or the text was the JSON of an object whose fields, over the defaults, validate, and reading the configuration
  then answers exactly with that. \<open>json.loads\<close> needs to give back only the one document that was written.\<close>

theorem config_set_then_get:
  assumes "debug_trace_config_set s p raw = (t, f')" "tmp_name (sv_env s) \<noteq> p" "p \<notin> set (ancestors (sv_host s) p)"
    and "\<forall>cfg b. sv_loads s raw = Parsed (JObj cfg) \<longrightarrow>
      utf8_encode (json_indent (rt (sv_host s)) 0 (JObj (dict_update default_config cfg)) @ [10]) = Some b \<longrightarrow>
      json_loads (rt (sv_host s)) b = Parsed (JObj (dict_update default_config cfg))"
  shows "f' p = fs (sv_host s) p \<or>
    (\<exists>cfg. sv_loads s raw = Parsed (JObj cfg) \<and> validate_config (rt (sv_host s)) (JObj (dict_update default_config cfg)) = [] \<and>
      debug_trace_config_get (on_files s f') p = json_text (rt (sv_host s))
        [(u ''ok'', JBool True), (u ''config_path'', JStr p), (u ''exists'', JBool True),
         (u ''config'', JObj (dict_update default_config cfg)), (u ''performanceRule'', JStr PERFORMANCE_RULE)])"
proof -
  have e: "tmp_name (writer_env s) = tmp_name (sv_env s)" by (simp add: writer_env_def io_env.defs)
  have d: "config_payload (writer_env s) base = utf8_encode (json_indent (rt (sv_host s)) 0 base @ [10])" for base
    by (simp add: config_payload_def writer_env_def io_env.defs)
  show ?thesis
  proof (cases "parse_json_object (sv_loads s) raw ''config_json''")
    case (Inl x)
    with assms(1) show ?thesis by (auto simp: debug_trace_config_set_def Let_def)
  next
    case (Inr cfg)
    then have l: "sv_loads s raw = Parsed (JObj cfg)"
      by (auto simp: parse_json_object_def elim: is_dict.elims split: loaded.splits if_splits)
    let ?base = "JObj (dict_update default_config cfg)"
    show ?thesis
    proof (cases "validate_config (rt (sv_host s)) ?base = []")
      case False
      with assms(1) Inr show ?thesis by (auto simp: debug_trace_config_set_def Let_def)
    next
      case True
      obtain r f1 where w: "write_config_atomic (writer_env s) (sv_host s) p ?base = (r, f1)"
        by (cases "write_config_atomic (writer_env s) (sv_host s) p ?base")
      then have f1: "f' = f1" using assms(1) True Inr by (auto simp: debug_trace_config_set_def Let_def split: sum.splits)
      note res = write_config_result [OF w, unfolded e, OF assms(2,3)]
      show ?thesis
      proof (cases r)
        case (Inl x)
        with res f1 show ?thesis by auto
      next
        case (Inr path)
        with res obtain b where b: "utf8_encode (json_indent (rt (sv_host s)) 0 ?base @ [10]) = Some b"
            "f' p = File b (now_ns (writer_env s))" by (auto simp: d f1)
        with assms(4) l have "json_loads (rt (sv_host s)) b = Parsed ?base" by blast
        with b True have "get_or_default (sv_host (on_files s f')) p = Inr ?base"
          "is_file (sv_host (on_files s f')) p"
          by (simp_all add: get_or_default_def read_config_def is_file_def)
        with l True show ?thesis by (auto simp: debug_trace_config_get_def config_answer_def)
      qed
    qed
  qed
qed

section \<open>A concrete server\<close>

definition sample_server :: server where
  "sample_server = \<lparr>sv_host = config_host, sv_env = sample_env, sv_store = \<lparr>listdir = (\<lambda>_. []), sort_others = Inr\<rparr>,
     sv_loads = (\<lambda>_. Parsed (JObj [])), sv_texts = plain_texts, sv_str = (\<lambda>_. []), sv_regex = (\<lambda>_. Inl []),
     sv_nan = id, sv_order = id, sv_classes = \<lparr>is_word = (\<lambda>c. c < 128), is_digit = (\<lambda>c. 48 \<le> c \<and> c < 58)\<rparr>,
     sv_sha = (\<lambda>_. []), sv_schemas = ([], [])\<rparr>"

lemma sample_server_simps:
  "sv_host sample_server = config_host" "sv_env sample_server = sample_env" "sv_loads sample_server = (\<lambda>_. Parsed (JObj []))"
  by (simp_all add: sample_server_def)

definition ascii :: "pystr \<Rightarrow> bool" where
  "ascii t = list_all (\<lambda>c. c < 128) t"

lemma ascii_simps [simp]:
  "ascii []" "ascii (c # t) \<longleftrightarrow> c < 128 \<and> ascii t" "ascii (t @ t') \<longleftrightarrow> ascii t \<and> ascii t'"
  "ascii (replicate n c) \<longleftrightarrow> n = 0 \<or> c < 128"
  by (auto simp: ascii_def list_all_iff)

lemma ascii_str_nat: "ascii (str_nat n)"
proof (induction n rule: str_nat.induct)
  case (1 n)
  then show ?case by (subst str_nat.simps) auto
qed

lemma ascii_string: "ascii t \<Longrightarrow> ascii (json_string t)"
proof -
  have "c < 128 \<Longrightarrow> ascii (escape_char c)" for c
    by (auto simp: escape_char_def hex4_def hex_bytes_def hex_lower_def u_Cons ascii_def list_all_iff)
  then have "ascii t \<Longrightarrow> ascii (concat (map escape_char t))" by (induction t) auto
  then show "ascii t \<Longrightarrow> ascii (json_string t)" by (simp add: json_string_def)
qed

lemma default_text_ascii: "ascii (json_indent r 0 (JObj default_config) @ [10])"
  by (simp add: default_config_def join_def line_indent_def ascii_string ascii_str_nat str_int_def u_Cons)

lemma sample_set: "snd (debug_trace_config_set sample_server (u ''c'') (u ''{}'')) (u ''c'') \<noteq> Missing"
proof -
  let ?text = "json_indent (rt config_host) 0 (JObj default_config) @ [10]"
  have t: "utf8_encode ?text = Some (map mk_byte ?text)"
    using default_text_ascii [of "rt config_host"] by (intro utf8_encode_ascii) (simp only: ascii_def list_all_iff)
  have e: "tmp_name (writer_env sample_server) = u ''i.tmp''" "fault (writer_env sample_server) = (\<lambda>s. None)"
    "config_payload (writer_env sample_server) (JObj default_config) = Some (map mk_byte ?text)"
    using t by (simp_all add: writer_env_def io_env.defs config_payload_def sample_server_simps sample_env_def)
  show ?thesis
    by (simp add: debug_trace_config_set_def parse_json_object_def dict_update_def sample_server_simps Let_def
        default_config_valid write_config_atomic_def config_host_simps replace_config_def e is_dir_def)
qed

theorem config_set_then_get_witness:
  "debug_trace_config_get (on_files sample_server (snd (debug_trace_config_set sample_server (u ''c'') (u ''{}'')))) (u ''c'') =
     json_text (rt config_host) [(u ''ok'', JBool True), (u ''config_path'', JStr (u ''c'')), (u ''exists'', JBool True),
       (u ''config'', JObj default_config), (u ''performanceRule'', JStr PERFORMANCE_RULE)]"
proof -
  obtain t f' where r: "debug_trace_config_set sample_server (u ''c'') (u ''{}'') = (t, f')"
    by (cases "debug_trace_config_set sample_server (u ''c'') (u ''{}'')")
  have "dict_update default_config [] = default_config" by (simp add: dict_update_def)
  with config_set_then_get [OF r] sample_set r show ?thesis
    by (auto simp: sample_server_simps config_host_simps sample_env_def)
qed

lemma run_tool_returns: "\<exists>r f'. run_tool s f c = Some (r, f')"
proof (cases c)
  case (Session_bursts_dtj p window min_count n_top since_clear)
  then show ?thesis using bursts_return [of "sv_host (on_files s f)" p window min_count n_top since_clear]
    by (auto simp: debug_trace_session_bursts_dtj_def)
qed (auto split: prod.split)

theorem server_keeps_files_witness:
  "\<exists>f'. runs call_step (fs sample_host)
      [(sample_server, Config_set (u ''c'') (u ''{}'')), (sample_server, Session_baseline_save_dtj sample_path sample_index)] f' \<and>
     f' sample_path = fs sample_host sample_path"
proof -
  obtain r1 f1 where 1: "run_tool sample_server (fs sample_host) (Config_set (u ''c'') (u ''{}'')) = Some (r1, f1)"
    using run_tool_returns by blast
  obtain r2 f2 where 2: "run_tool sample_server f1 (Session_baseline_save_dtj sample_path sample_index) = Some (r2, f2)"
    using run_tool_returns by blast
  have s: "runs call_step (fs sample_host)
      [(sample_server, Config_set (u ''c'') (u ''{}'')), (sample_server, Session_baseline_save_dtj sample_path sample_index)] f2"
    using request [OF request [OF idle, of call_step "(sample_server, Config_set (u ''c'') (u ''{}''))"], of
        "fs sample_host" f1 "(sample_server, Session_baseline_save_dtj sample_path sample_index)" f2] 1 2
    by (auto simp: call_step_def)
  from server_keeps_files [OF this, of sample_path] have "f2 sample_path = fs sample_host sample_path"
    by (simp add: sample_server_simps config_host_def sample_host_def Let_def sample_path_def sample_index_def sample_env_def)
  with s show ?thesis by blast
qed

end
