(* ===== verification/Http_Props.thy ===== *)
theory Http_Props imports Http_Server Mcp_Server_Props begin

text \<open>
  Every tool can be called by name over HTTP, every request object is answered under its own identifier, and a request
  changes only the files its call names.
\<close>

section \<open>Names and arguments\<close>

lemma arg_Cons [simp]: "arg parse k (v # vs) = (case parse v of None \<Rightarrow> None | Some a \<Rightarrow> k a vs)"
  by (simp add: arg_def)

lemma returns_Nil [simp]: "returns c [] = Some c"
  by (simp add: returns_def)

lemma read_written [simp]:
  "str_arg (JStr t) = Some t" "bool_arg (JBool b) = Some b" "truth_arg (JBool b) = Some b" "str_opt_arg (json_str_opt x) = Some x"
  "int_opt_arg (json_int_opt y) = Some y"
  by (simp_all add: str_arg_def bool_arg_def truth_arg_def str_opt_arg_def json_str_opt_def int_opt_arg_def json_int_opt_def split: option.split)

lemma filter_args_written [simp]: "filter_args k (map snd (filter_items flt) @ vs) = k flt vs"
  by (cases flt) (simp add: filter_args_def filter_items_def)

definition callable :: "tool list \<Rightarrow> tool_call \<Rightarrow> pystr \<times> jdict \<Rightarrow> bool" where
  "callable ts c msg =
     (case map_of ts (fst msg) of None \<Rightarrow> False
      | Some (sig, build) \<Rightarrow>
          distinct (map fst sig) \<and> map fst sig = map fst (snd msg) \<and> build (map snd (snd msg)) = Some c)"

lemma filter_names [simp]:
  "map fst FILTER_PARAMS =
     [u ''domain'', u ''category'', u ''event_name'', u ''event'', u ''correlation_id'', u ''severity'', u ''text'',
      u ''exclude'', u ''exclude_category'', u ''mono_from_ns'', u ''mono_to_ns'']"
  "map fst (filter_items flt) =
     [u ''domain'', u ''category'', u ''event_name'', u ''event'', u ''correlation_id'', u ''severity'', u ''text'',
      u ''exclude'', u ''exclude_category'', u ''mono_from_ns'', u ''mono_to_ns'']"
  by (simp_all add: FILTER_PARAMS_def filter_items_def)

lemma query_callable: "callable QUERY_TOOLS (Query q) (query_message q)"
  by (cases q) (simp_all add: callable_def QUERY_TOOLS_def)

lemma analysis_callable: "callable ANALYSIS_TOOLS (Analysis a) (analysis_message a)"
  by (cases a) (simp_all add: callable_def ANALYSIS_TOOLS_def)

lemma analytics_callable: "callable ANALYTICS_TOOLS (Analytics a) (analytics_message a)"
  by (cases a) (simp_all add: callable_def ANALYTICS_TOOLS_def)

lemma timeline_callable: "callable TIMELINE_TOOLS (Timeline t) (timeline_message t)"
  by (cases t) (simp_all add: callable_def TIMELINE_TOOLS_def)

lemma callable_TOOLS:
  assumes "callable ts c msg" "set ts \<subseteq> set TOOLS"
  shows "callable TOOLS c msg"
proof -
  from assms(1) obtain tool where "map_of ts (fst msg) = Some tool" by (auto simp: callable_def split: option.splits)
  moreover from this assms(2) have "map_of TOOLS (fst msg) = Some tool"
    by (auto intro!: map_of_is_SomeI [OF tool_names_distinct] dest!: map_of_SomeD)
  ultimately show ?thesis using assms(1) by (simp add: callable_def)
qed

lemma every_call_callable: "callable TOOLS c (call_message c)"
proof (cases c)
  case (Query q)
  then show ?thesis using callable_TOOLS [OF query_callable families_in(1)] by simp
next
  case (Analysis a)
  then show ?thesis using callable_TOOLS [OF analysis_callable families_in(2)] by simp
next
  case (Analytics a)
  then show ?thesis using callable_TOOLS [OF analytics_callable families_in(3)] by simp
next
  case (Timeline t)
  then show ?thesis using callable_TOOLS [OF timeline_callable families_in(4)] by simp
qed (rule callable_TOOLS [OF _ families_in(5)], simp add: callable_def OTHER_TOOLS_def)+

lemma bind_exact:
  assumes "distinct (map fst sig)" "map fst sig = map fst params"
  shows "bind_arguments fn sig params = Inr (map snd params)"
proof -
  have k: "fst ` set sig = fst ` set params" using assms(2) by (metis set_map)
  have n: "find (\<lambda>(k, v). k \<notin> fst ` set sig) params = None" unfolding k by (force simp: find_None_iff)
  have d: "distinct (map fst params)" using assms by simp
  have at: "map_of params (fst (sig ! i)) = Some (snd (params ! i))" if "i < length sig" for i
    using that d assms(2) by (metis length_map map_of_eq_Some_iff nth_map nth_mem prod.collapse)
  have all: "map_of params k \<noteq> None" if "(k, x) \<in> set sig" for k x
    using that k by (metis fst_conv imageI map_of_eq_None_iff)
  have "map (\<lambda>(p, default). case map_of params p of Some v \<Rightarrow> v | None \<Rightarrow> the default) sig = map snd params"
    using assms(2) 
    by (intro nth_equalityI) (auto simp: case_prod_beta at dest: map_eq_imp_length_eq)
  moreover have "filter (\<lambda>(p, default). default = None \<and> map_of params p = None) sig = []"
    by (auto simp: filter_empty_conv dest: all)
  ultimately show ?thesis using n by (simp add: bind_arguments_def)
qed

section \<open>Calling over HTTP\<close>

definition call_request :: "json \<Rightarrow> tool_call \<Rightarrow> jdict" where
  "call_request i c =
     [(u ''jsonrpc'', JStr (u ''2.0'')), (u ''id'', i), (u ''method'', JStr (fst (call_message c))),
      (u ''params'', JObj (snd (call_message c)))]"

lemma call_named:
  assumes "callable TOOLS c (m, params)"
  obtains tool where "map_of TOOLS m = Some tool" "call_tool s f m tool (JObj params) = run_tool (sv s) f c"
proof -
  obtain sig build where t: "map_of TOOLS m = Some (sig, build)" "distinct (map fst sig)" "map fst sig = map fst params"
      "build (map snd params) = Some c"
    using assms by (auto simp: callable_def split: option.splits)
  with bind_exact [OF t(2,3)] that show ?thesis by (simp add: call_tool_def)
qed

lemma names_nonempty: "map_of TOOLS m = Some tool \<Longrightarrow> m \<noteq> []"
  by (auto simp: TOOLS_def tool_tables dest!: map_of_SomeD)

lemma call_request_runs:
  "handle_single_request s f (call_request i c) =
     map_option (\<lambda>(res, f1). (case res of Inl e \<Rightarrow> internal_error s i e | Inr t \<Rightarrow> ok_reply i (JStr t), f1)) (run_tool (sv s) f c)"
proof -
  have "callable TOOLS c (fst (call_message c), snd (call_message c))" by (simp add: every_call_callable)
  then obtain tool where t: "map_of TOOLS (fst (call_message c)) = Some tool"
      "call_tool s f (fst (call_message c)) tool (JObj (snd (call_message c))) = run_tool (sv s) f c"
    by (rule call_named)
  with names_nonempty [OF t(1)] show ?thesis
    by (simp add: handle_single_request_def call_request_def getd_def hashable_def Let_def)
qed

section \<open>Every request object is answered\<close>

text \<open>The JSON value a request delivers, when nothing in front of the dispatch refuses it.\<close>

definition received :: "rpc \<Rightarrow> http_request \<Rightarrow> json option" where
  "received s req =
     (case (url_path s (target req), body_length s req) of
        (Inr path, Inr n) \<Rightarrow>
          (if path \<noteq> u ''/rpc'' \<or> n = 0 then None
           else (case utf8_decode (read_stream n (stream req)) of
               None \<Rightarrow> None
             | Some body \<Rightarrow> (case sv_loads (sv s) body of Parsed j \<Rightarrow> Some j | _ \<Rightarrow> None)))
      | _ \<Rightarrow> None)"

lemma do_POST_received: "received s req = Some j \<Longrightarrow> do_POST s f req = dispatch s f j"
  by (auto simp: received_def do_POST_def split: sum.splits if_splits option.splits loaded.splits)

lemma do_POST_refused: "received s req = None \<Longrightarrow> do_POST s f req = Some (reply, f') \<Longrightarrow> f' = f"
  by (auto simp: received_def do_POST_def split: sum.splits if_splits option.splits loaded.splits)

text \<open>A reply of the protocol: exactly one of a result and an error, under the identifier of the request.\<close>

definition one_reply :: "json \<Rightarrow> jdict \<Rightarrow> bool" where
  "one_reply i resp \<longleftrightarrow>
     (\<exists>t. resp = [(u ''jsonrpc'', JStr (u ''2.0'')), (u ''id'', i), (u ''result'', JStr t)]) \<or>
     (\<exists>code message. code \<in> {- 32600, - 32601, - 32603} \<and>
        resp = [(u ''jsonrpc'', JStr (u ''2.0'')), (u ''id'', i), (u ''error'', JObj [(u ''code'', JInt code), (u ''message'', JStr message)])])"

lemma one_reply_ok: "one_reply i (ok_reply i (JStr t))"
  by (simp add: one_reply_def ok_reply_def)

lemma one_reply_err: "code \<in> {- 32600, - 32601, - 32603} \<Longrightarrow> one_reply i (err_reply i code message None)"
  unfolding one_reply_def err_reply_def by auto

text \<open>What the client receives for a JSON value: status 200, the headers, and the UTF-8 bytes of its text. Only a text that
  UTF-8 cannot carry, one with a lone surrogate, is cut off behind the headers.\<close>

definition delivered :: "rpc \<Rightarrow> json \<Rightarrow> http_reply \<Rightarrow> bool" where
  "delivered s j reply \<longleftrightarrow>
     (if list_all is_scalar (json_line (rt (sv_host (sv s))) j)
      then \<exists>b. reply = Full 200 JSON_HEADERS b \<and> utf8_decode b = Some (json_line (rt (sv_host (sv s))) j)
      else \<exists>e. reply = Cut 200 JSON_HEADERS e)"

lemma utf8_encode_None: "utf8_encode t = None \<longleftrightarrow> (\<exists>c \<in> set t. \<not> is_scalar c)"
  by (induction t) (auto split: option.splits)

lemma send_json_delivered: "delivered s j (send_json s j)"
  by (cases "utf8_encode (json_line (rt (sv_host (sv s))) j)")
    (auto simp: delivered_def send_json_def list_all_iff utf8_encode_None [symmetric] dest: utf8_decode_encode)

text \<open>The arguments of a call have the annotated types.\<close>

definition typed_call :: "jdict \<Rightarrow> bool" where
  "typed_call d =
     (case (getd d (u ''method'') JNull, getd d (u ''params'') (JObj [])) of
        (JStr m, JObj params) \<Rightarrow>
          (case map_of TOOLS m of
             None \<Rightarrow> True
           | Some (sig, build) \<Rightarrow> (case bind_arguments (function_name m) sig params of Inl e \<Rightarrow> True | Inr vs \<Rightarrow> build vs \<noteq> None))
      | _ \<Rightarrow> True)"

text \<open>The outcomes of one request: refused without a call, or the call of a registered tool.\<close>

lemma handle_cases:
  obtains (refused) code message where "code \<in> {- 32600, - 32601, - 32603}"
      "handle_single_request s f req = Some (err_reply (getd req (u ''id'') JNull) code message None, f)"
  | (called) m tool where "getd req (u ''method'') JNull = JStr m" "map_of TOOLS m = Some tool"
      "handle_single_request s f req =
         map_option (\<lambda>(res, f1). (case res of Inl e \<Rightarrow> internal_error s (getd req (u ''id'') JNull) e
             | Inr t \<Rightarrow> ok_reply (getd req (u ''id'') JNull) (JStr t), f1))
           (call_tool s f m tool (getd req (u ''params'') (JObj [])))"
proof (cases "truthy (getd req (u ''method'') JNull) \<and> hashable (getd req (u ''method'') JNull)")
  case False
  then show ?thesis
    by (intro refused [of "if truthy (getd req (u ''method'') JNull) then - 32603 else - 32600"
          "if truthy (getd req (u ''method'') JNull)
           then u ''internal error: '' @ sv_str (sv s) (unhashable_type (getd req (u ''method'') JNull)) else u ''method is required''"])
      (auto simp: handle_single_request_def Let_def internal_error_def)
next
  case True
  show ?thesis
  proof (cases "is_str (getd req (u ''method'') JNull)")
    case False
    with True show ?thesis
      by (intro refused [of "- 32601"]) (simp_all add: handle_single_request_def Let_def)
  next
    case str: True
    then obtain m where m: "getd req (u ''method'') JNull = JStr m" by (cases "getd req (u ''method'') JNull") auto
    show ?thesis
    proof (cases "map_of TOOLS m")
      case None
      with True m show ?thesis by (intro refused [of "- 32601"]) (simp_all add: handle_single_request_def Let_def)
    next
      case (Some tool)
      with True m show ?thesis by (intro called [OF m Some]) (simp add: handle_single_request_def Let_def)
    qed
  qed
qed

lemma answered: "map_option (\<lambda>(res, f1). (k res, f1)) x = Some (resp, f') \<Longrightarrow> \<exists>res. x = Some (res, f') \<and> resp = k res"
  by (cases x) auto

lemma handle_shape:
  assumes "handle_single_request s f req = Some (resp, f')"
  shows "one_reply (getd req (u ''id'') JNull) resp"
proof (cases rule: handle_cases [of s f req])
  case (refused code message)
  with assms show ?thesis using one_reply_err [OF refused(1)] by auto
next
  case (called m tool)
  with assms obtain res where "resp = (case res of Inl e \<Rightarrow> internal_error s (getd req (u ''id'') JNull) e
      | Inr t \<Rightarrow> ok_reply (getd req (u ''id'') JNull) (JStr t))"
    by (auto dest!: answered)
  then show ?thesis by (cases res) (simp_all add: one_reply_ok one_reply_err internal_error_def)
qed

lemma handle_returns:
  assumes "typed_call req"
  shows "\<exists>resp f'. handle_single_request s f req = Some (resp, f')"
proof (cases rule: handle_cases [of s f req])
  case (called m tool)
  obtain sig build where tool: "tool = (sig, build)" by (cases tool)
  have "run_tool (sv s) f c \<noteq> None" for c using run_tool_returns [of "sv s" f c] by auto
  then have "call_tool s f m tool (getd req (u ''params'') (JObj [])) \<noteq> None"
    using assms called(1,2) unfolding typed_call_def tool call_tool_def
    by (cases "getd req (u ''params'') (JObj [])") (auto split: sum.splits option.splits)
  with called show ?thesis by auto
qed simp

text \<open>C21: Every request object that carries an identifier is answered, whatever the method, the parameters and the files
  are: the client receives, as UTF-8 with status 200, the text of an object with that identifier and exactly one of a
  result and an error whose code is one of three. The arguments must have the annotated types, otherwise the call is
  outside the model. When the text holds a lone surrogate, which an identifier, a method or a tool's answer can bring in,
  the reply ends behind its headers instead.\<close>

theorem http_answers_request:
  assumes "received s req = Some (JObj d)" "map_of d (u ''id'') = Some i" "typed_call d"
  shows "\<exists>resp reply f'. do_POST s f req = Some (reply, f') \<and> one_reply i resp \<and>
    (if list_all is_scalar (json_line (rt (sv_host (sv s))) (JObj resp))
     then \<exists>b. reply = Full 200 JSON_HEADERS b \<and> utf8_decode b = Some (json_line (rt (sv_host (sv s))) (JObj resp))
     else \<exists>e. reply = Cut 200 JSON_HEADERS e)"
proof -
  obtain resp f' where h: "handle_single_request s f d = Some (resp, f')" using handle_returns [OF assms(3)] by blast
  then have "do_POST s f req = Some (send_json s (JObj resp), f')"
    using assms(2) by (auto simp: do_POST_received [OF assms(1)] dispatch_def)
  with handle_shape [OF h] assms(2) send_json_delivered [of s "JObj resp"] show ?thesis
    unfolding delivered_def by (auto simp: getd_def)
qed

text \<open>C39: Every tool can be called by its name over HTTP, with its arguments by keyword, and answers there what it
  answers otherwise, with the same effect on the files: the client receives the result of exactly that call, never an
  error, under the identifier it came with. Only \<open>protocol_get\<close> may raise, which is reported as an internal error. A
  text with a lone surrogate is cut off, as for every reply.\<close>

theorem http_calls_every_tool:
  assumes "received s req = Some (JObj (call_request i c))"
  shows "\<exists>res reply f'. run_tool (sv s) f c = Some (res, f') \<and> do_POST s f req = Some (reply, f') \<and>
    (case res of
       Inr t \<Rightarrow> delivered s (JObj [(u ''jsonrpc'', JStr (u ''2.0'')), (u ''id'', i), (u ''result'', JStr t)]) reply
     | Inl e \<Rightarrow> c = Protocol_get \<and> delivered s (JObj (internal_error s i e)) reply)"
proof -
  obtain res f' where run: "run_tool (sv s) f c = Some (res, f')" using run_tool_returns [of "sv s" f c] by blast
  have "map_of (call_request i c) (u ''id'') = Some i" by (simp add: call_request_def)
  with run have post: "do_POST s f req =
      Some (send_json s (JObj (case res of Inl e \<Rightarrow> internal_error s i e | Inr t \<Rightarrow> ok_reply i (JStr t))), f')"
    by (simp add: do_POST_received [OF assms] dispatch_def call_request_runs)
  have only: "c = Protocol_get" if "res = Inl e" for e
    using run_tool_answers [of c "sv s" f] run that by auto
  from run post only send_json_delivered [of s "JObj (case res of Inl e \<Rightarrow> internal_error s i e | Inr t \<Rightarrow> ok_reply i (JStr t))"]
  show ?thesis by (cases res) (auto simp: ok_reply_def)
qed

text \<open>A batch, an array of requests, is refused as a whole: the code that answers each of its requests is behind the
  check that the request is an object.\<close>

lemma batch_refused:
  "received s req = Some (JList xs) \<Longrightarrow>
   do_POST s f req = Some (send_json s (JObj (err_reply JNull (- 32600) (u ''request must be an object'') None)), f)"
  by (simp add: do_POST_received dispatch_def)

lemma set_join: "x \<in> set xs \<Longrightarrow> set x \<subseteq> set (join sep xs)"
  by (cases xs) (auto simp: join_def)

lemma item_in_line: "(k, v) \<in> set d \<Longrightarrow> set (json_line r v) \<subseteq> set (json_line r (JObj d))"
  using set_join [of "json_string k @ u '': '' @ json_line r v" "map (\<lambda>(k, v). json_string k @ u '': '' @ json_line r v) d" "u '', ''"]
  by force

text \<open>A reply that repeats a lone surrogate, which JSON can spell as an escape, is not sent: the status 200 and the
  headers are, and then the encoder raises. The tool has run.\<close>

lemma surrogate_cuts_reply:
  assumes "received s req = Some (JObj d)" "map_of d (u ''id'') = Some (JStr [0xD800])" "do_POST s f req = Some (reply, f')"
  shows "\<exists>e. reply = Cut 200 JSON_HEADERS e"
proof -
  obtain resp where h: "handle_single_request s f d = Some (resp, f')" "reply = send_json s (JObj resp)"
    using assms by (auto simp: do_POST_received [OF assms(1)] dispatch_def)
  have not_scalar: "\<not> is_scalar 0xD800" by (simp add: is_scalar_def)
  have "one_reply (JStr [0xD800]) resp" using handle_shape [OF h(1)] assms(2) by (simp add: getd_def)
  then have "(u ''id'', JStr [0xD800]) \<in> set resp" by (auto simp: one_reply_def ok_reply_def err_reply_def Let_def)
  from item_in_line [OF this, of "rt (sv_host (sv s))"] have "0xD800 \<in> set (json_line (rt (sv_host (sv s))) (JObj resp))"
    by (simp add: json_string_def escape_char_def)
  then have "utf8_encode (json_line (rt (sv_host (sv s))) (JObj resp)) = None"
    unfolding utf8_encode_None using not_scalar by blast
  with h(2) show ?thesis by (simp add: send_json_def)
qed

section \<open>What a request may change\<close>

text \<open>The call a request stands for.\<close>

definition requested_call :: "rpc \<Rightarrow> http_request \<Rightarrow> tool_call option" where
  "requested_call s req =
     (case received s req of
        Some (JObj d) \<Rightarrow>
          (case (getd d (u ''method'') JNull, getd d (u ''params'') (JObj [])) of
             (JStr m, JObj params) \<Rightarrow>
               (case map_of TOOLS m of
                  None \<Rightarrow> None
                | Some (sig, build) \<Rightarrow> (case bind_arguments (function_name m) sig params of Inl e \<Rightarrow> None | Inr vs \<Rightarrow> build vs))
           | _ \<Rightarrow> None)
      | _ \<Rightarrow> None)"

lemma requested_call_of:
  assumes "received s req = Some (JObj (call_request i c))"
  shows "requested_call s req = Some c"
proof -
  obtain sig build where t: "map_of TOOLS (fst (call_message c)) = Some (sig, build)" "distinct (map fst sig)"
      "map fst sig = map fst (snd (call_message c))" "build (map snd (snd (call_message c))) = Some c"
    using every_call_callable [of c] by (auto simp: callable_def split: option.splits)
  with bind_exact [OF t(2,3)] assms show ?thesis by (simp add: requested_call_def call_request_def getd_def)
qed

definition post_step :: "rpc \<times> http_request \<Rightarrow> files \<Rightarrow> files \<Rightarrow> bool" where
  "post_step call f f' = (\<exists>reply. do_POST (fst call) f (snd call) = Some (reply, f'))"

definition spares :: "pystr \<Rightarrow> rpc \<Rightarrow> http_request \<Rightarrow> bool" where
  "spares q s req \<longleftrightarrow> (\<forall>c. requested_call s req = Some c \<longrightarrow> q \<notin> set (touched (sv s) c))"

definition typed_request :: "rpc \<Rightarrow> http_request \<Rightarrow> bool" where
  "typed_request s req \<longleftrightarrow> (\<forall>d. received s req = Some (JObj d) \<longrightarrow> typed_call d)"

lemma getd_append_id: "k \<noteq> u ''id'' \<Longrightarrow> getd (d @ [(u ''id'', v)]) k x = getd d k x"
  by (simp add: getd_def map_add_def split: option.split)

lemma handle_frame:
  assumes "handle_single_request s f d' = Some (resp, f')" "received s req = Some (JObj d)" "spares q s req"
    and "getd d' (u ''method'') JNull = getd d (u ''method'') JNull"
    and "getd d' (u ''params'') (JObj []) = getd d (u ''params'') (JObj [])"
  shows "f' q = f q"
proof (cases rule: handle_cases [of s f d'])
  case (called m tool)
  let ?p = "getd d (u ''params'') (JObj [])"
  obtain sig build where tool: "tool = (sig, build)" by (cases tool)
  obtain r where r: "call_tool s f m tool ?p = Some (r, f')" 
    using answered [OF trans [OF called(3) [symmetric] assms(1)]] assms(5) by auto
  consider "f' = f" | params vs where "?p = JObj params" "bind_arguments (function_name m) sig params = Inr vs"
      "(case build vs of Some c \<Rightarrow> run_tool (sv s) f c | None \<Rightarrow> None) = Some (r, f')"
    using r tool by (cases ?p) (auto simp: call_tool_def split: sum.splits)
  then show ?thesis
  proof cases
    case 2
    have "getd d (u ''method'') JNull = JStr m" using called(1) assms(4) by simp
    then have "requested_call s req = build vs"
      using assms(2) called(2) tool 2(1,2) by (simp add: requested_call_def)
    with 2(3) assms(3) show ?thesis
      by (auto simp: spares_def split: option.splits dest: run_tool_frame)
  qed simp
qed (use assms(1) in simp)

lemma post_frame:
  assumes "do_POST s f req = Some (reply, f')" "spares q s req"
  shows "f' q = f q"
proof (cases "received s req")
  case None
  with assms(1) show ?thesis by (auto dest: do_POST_refused)
next
  case (Some j)
  show ?thesis
  proof (cases "is_dict j")
    case False
    with assms(1) Some show ?thesis by (simp add: do_POST_received dispatch_def)
  next
    case True
    then obtain d where j: "j = JObj d" by (cases j) auto
    with assms(1) Some obtain d' resp where h: "handle_single_request s f d' = Some (resp, f')"
        "d' = d \<or> d' = d @ [(u ''id'', JNull)]"
      by (auto simp: do_POST_received dispatch_def split: if_splits)
    show ?thesis
      by (rule handle_frame [OF h(1) Some [unfolded j] assms(2)]) (use h(2) in \<open>auto simp: getd_append_id\<close>)
  qed
qed

interpretation posts: framed_server post_step "\<lambda>q call. spares q (fst call) (snd call)"
  by unfold_locales (auto simp: post_step_def dest: post_frame)

lemma typed_append_id: "typed_call (d @ [(u ''id'', JNull)]) = typed_call d"
  by (simp add: typed_call_def getd_append_id)

lemma post_returns:
  assumes "typed_request s req"
  shows "\<exists>reply f'. do_POST s f req = Some (reply, f')"
proof (cases "received s req")
  case None
  then show ?thesis
    by (auto simp: received_def do_POST_def split: sum.splits if_splits option.splits loaded.splits)
next
  case (Some j)
  show ?thesis
  proof (cases "is_dict j")
    case False
    with Some show ?thesis by (simp add: do_POST_received dispatch_def)
  next
    case True
    then obtain d where j: "j = JObj d" by (cases j) auto
    with assms Some have "typed_call d" by (simp add: typed_request_def)
    with handle_returns [of d s f] handle_returns [of "d @ [(u ''id'', JNull)]" s f] Some j show ?thesis
      by (auto simp: do_POST_received dispatch_def typed_append_id)
  qed
qed

lemma typed_call_request: "typed_call (call_request i c)"
proof -
  obtain sig build where t: "map_of TOOLS (fst (call_message c)) = Some (sig, build)" "distinct (map fst sig)"
      "map fst sig = map fst (snd (call_message c))" "build (map snd (snd (call_message c))) = Some c"
    using every_call_callable [of c] by (auto simp: callable_def split: option.splits)
  with bind_exact [OF t(2,3)] show ?thesis by (simp add: typed_call_def call_request_def getd_def)
qed

text \<open>C22: Any sequence of HTTP requests is served to its end, whatever their bytes, and a file changes only when one of
  them is a well-formed call of a tool that names it as its target: malformed bodies, unknown methods, wrong
  parameters, batches and the tools that read leave every file alone. Requests that pass a tool arguments of other than
  the annotated types are outside the model and excluded.\<close>

theorem http_keeps_files:
  assumes "\<forall>(s, req) \<in> set rs. typed_request s req \<and> spares q s req"
  shows "(\<exists>f'. runs post_step f rs f') \<and> (\<forall>f'. runs post_step f rs f' \<longrightarrow> f' q = f q)"
proof
  show "\<exists>f'. runs post_step f rs f'"
    using assms
  proof (induction rs rule: rev_induct)
    case (snoc r rs)
    then obtain g where g: "runs post_step f rs g" by fastforce
    obtain s req where r: "r = (s, req)" by (cases r)
    obtain reply f' where "do_POST s g req = Some (reply, f')" using post_returns [of s req g] snoc.prems r by auto
    with r have "post_step r g f'" by (auto simp: post_step_def)
    with g show ?case by (blast intro: request)
  qed (blast intro: idle)
next
  show "\<forall>f'. runs post_step f rs f' \<longrightarrow> f' q = f q"
    using posts.runs_frame [of f rs _ q] assms by (auto simp: case_prod_beta)
qed

section \<open>A concrete endpoint\<close>

definition sample_rpc :: "jdict \<Rightarrow> rpc" where
  "sample_rpc d = \<lparr>sv = sample_server\<lparr>sv_loads := (\<lambda>_. Parsed (JObj d)),
       sv_host := config_host\<lparr>rt := (rt config_host)\<lparr>int_of_str := (\<lambda>_. Some 2)\<rparr>\<rparr>\<rparr>, other_target = Inr\<rparr>"

definition sample_post :: http_request where
  "sample_post = \<lparr>target = u ''/rpc?x'', content_length = Some (u ''2''), stream = map mk_byte [123, 125, 10]\<rparr>"

lemma sample_received: "received (sample_rpc d) sample_post = Some (JObj d)"
proof -
  have "utf8_decode (read_stream 2 (stream sample_post)) = Some [123, 125]"
    by (simp add: read_stream_def sample_post_def utf8_step_def mk_byte_def)
  then show ?thesis
    by (simp add: received_def sample_rpc_def sample_post_def body_length_def url_path_def cut_params_def u_def)
qed

lemma refused_text_scalar: "utf8_encode (json_line r (JObj (err_reply (JInt 1) (- 32600) (u ''method is required'') None))) \<noteq> None"
  unfolding utf8_encode_None by (simp add: err_reply_def json_string_def escape_char_def u_Cons is_scalar_def join_def str_int_def str_nat.simps)

theorem http_answers_request_witness:
  "\<exists>resp b f'. do_POST (sample_rpc [(u ''id'', JInt 1)]) (fs sample_host) sample_post = Some (Full 200 JSON_HEADERS b, f') \<and>
     one_reply (JInt 1) resp \<and>
     utf8_decode b = Some (json_line (rt (sv_host (sv (sample_rpc [(u ''id'', JInt 1)])))) (JObj resp))"
proof -
  let ?d = "[(u ''id'', JInt 1)]"
  have "typed_call ?d" by (simp add: typed_call_def getd_def)
  from http_answers_request [OF sample_received _ this, of "JInt 1" "fs sample_host"]
  obtain resp reply f' where r: "do_POST (sample_rpc ?d) (fs sample_host) sample_post = Some (reply, f')" "one_reply (JInt 1) resp"
    "delivered (sample_rpc ?d) (JObj resp) reply"
    unfolding delivered_def by auto
  have "do_POST (sample_rpc ?d) (fs sample_host) sample_post =
      Some (send_json (sample_rpc ?d) (JObj (err_reply (JInt 1) (- 32600) (u ''method is required'') None)), fs sample_host)"
    by (simp add: do_POST_received [OF sample_received] dispatch_def handle_single_request_def getd_def)
  with r(1) refused_text_scalar [of "rt (sv_host (sv (sample_rpc ?d)))"] have "\<exists>b. reply = Full 200 JSON_HEADERS b"
    by (auto simp: send_json_def)
  with r show ?thesis by (auto simp: delivered_def split: if_splits)
qed

theorem http_calls_every_tool_witness:
  "\<exists>t reply f'. run_tool (sv (sample_rpc (call_request (JInt 1) (Config_set (u ''c'') (u ''{}''))))) (fs sample_host)
       (Config_set (u ''c'') (u ''{}'')) = Some (Inr t, f') \<and>
     do_POST (sample_rpc (call_request (JInt 1) (Config_set (u ''c'') (u ''{}'')))) (fs sample_host) sample_post = Some (reply, f') \<and>
     delivered (sample_rpc (call_request (JInt 1) (Config_set (u ''c'') (u ''{}''))))
       (JObj [(u ''jsonrpc'', JStr (u ''2.0'')), (u ''id'', JInt 1), (u ''result'', JStr t)]) reply"
proof -
  let ?s = "sample_rpc (call_request (JInt 1) (Config_set (u ''c'') (u ''{}'')))"
  from http_calls_every_tool [OF sample_received, of "JInt 1" "Config_set (u ''c'') (u ''{}'')" "fs sample_host"]
  obtain res reply f' where r: "run_tool (sv ?s) (fs sample_host) (Config_set (u ''c'') (u ''{}'')) = Some (res, f')"
    "do_POST ?s (fs sample_host) sample_post = Some (reply, f')"
    "case res of Inr t \<Rightarrow> delivered ?s (JObj [(u ''jsonrpc'', JStr (u ''2.0'')), (u ''id'', JInt 1), (u ''result'', JStr t)]) reply
     | Inl e \<Rightarrow> Config_set (u ''c'') (u ''{}'') = Protocol_get \<and> delivered ?s (JObj (internal_error ?s (JInt 1) e)) reply"
    by blast
  show ?thesis
  proof (cases res)
    case (Inr t)
    with r show ?thesis by (intro exI [of _ t] exI [of _ reply] exI [of _ f']) simp
  qed (use r(3) in simp)
qed

theorem http_keeps_files_witness:
  "\<exists>f'. runs post_step (fs sample_host) [(sample_rpc (call_request (JInt 1) (Config_set (u ''c'') (u ''{}''))), sample_post)] f' \<and>
     f' sample_path = fs sample_host sample_path"
proof -
  let ?s = "sample_rpc (call_request (JInt 1) (Config_set (u ''c'') (u ''{}'')))"
  have "typed_request ?s sample_post" by (simp add: typed_request_def sample_received typed_call_request)
  moreover have "spares sample_path ?s sample_post"
    by (simp add: spares_def requested_call_of [OF sample_received])
      (simp add: sample_rpc_def sample_server_simps config_host_def sample_host_def sample_path_def sample_env_def)
  ultimately show ?thesis
    using http_keeps_files [of "[(?s, sample_post)]" sample_path "fs sample_host"] by auto
qed

end
