(* ===== verification/Dtj_Prompts.thy ===== *)
theory Dtj_Prompts imports Mcp_Server begin

text \<open>
  The prompts of \<open>dtj_prompts.py\<close>: three fixed texts and their lookup by name. They are data; no property is
  stated about them.
\<close>
definition REQUIRED_INPUTS :: "pystr list" where "REQUIRED_INPUTS = [u ''session_path'']"

definition PROMPT_TRIAGE :: pystr where
  "PROMPT_TRIAGE =
     u ''Debug a native `.dtj` session using debug-trace MCP tools only (do not parse legacy `.log` '' @
     u ''/ JSONL).'' @ [10] @
     u ''Required input: session_path (absolute path to one `.dtj` file).'' @ [10] @
     [10] @
     u ''Bounded query plan:'' @ [10] @
     u ''1. session_since_last_repro_dtj(session_path, top<=5) for a compact overview of the latest '' @
     u ''session segment.'' @ [10] @
     u ''2. Pick a domain preset if obvious via session_preset_report_dtj(session_path, report='' @ [8230] @ u '') '' @
     u ''where report '' @ [8712] @ u '' {dangling, branch, gesture_route, tip_hold, commit_boundary, graph_undo} '' @
     u ''(top<=10), or session_persistence_mismatches_dtj(session_path, top<=10).'' @ [10] @
     u ''3. Drill in (bounds shown): session_unmatched_entities_dtj(session_path, kind, limit<=50); '' @
     u ''session_entity_cluster_dtj(session_path, entity_id, window<=20, limit<=30); '' @
     u ''session_causal_chain_dtj(session_path, event_sequence, hops<=5); '' @
     u ''session_snapshot_before_after_dtj(session_path, entity_id?, limit<=20).'' @ [10] @
     u ''4. session_context_dtj(session_path, event_sequence, before<=30, after<=30) for local '' @
     u ''context.'' @ [10] @
     [10] @
     u ''Evidence shape: cite event_sequence, correlation, entity ids (payload id/wire/'' @ [8230] @ u ''); include '' @
     u ''tool `text` excerpts. Do not invent wall-clock line numbers.'' @ [10] @
     u ''Optional catalog: resource debug-trace://event-catalog or event_catalog(registry_path='' @ [8230] @ u '').'' @ [10]"

definition PROMPT_DANGLING :: pystr where
  "PROMPT_DANGLING =
     u ''Investigate a dangling that was not destroyed on a native `.dtj` session.'' @ [10] @
     u ''Required input: session_path.'' @ [10] @
     [10] @
     u ''Bounded query plan:'' @ [10] @
     u ''1. session_preset_report_dtj(session_path, report='' @ [39] @ u ''dangling'' @ [39] @ u '', top<=5)'' @ [10] @
     u ''2. session_unmatched_entities_dtj(session_path, kind='' @ [39] @ u ''Dangling'' @ [39] @ u '', limit<=50) and '' @
     u ''session_pair_latency_dtj(session_path, kind='' @ [39] @ u ''Dangling'' @ [39] @ u '')'' @ [10] @
     u ''3. For each survivor id: session_entity_cluster_dtj(session_path, entity_id, window<=20, '' @
     u ''limit<=30) then session_causal_chain_dtj(session_path, event_sequence, hops<=5) using the '' @
     u ''creation event_sequence from unmatched_entities.'' @ [10] @
     u ''4. session_sequence_gap_dtj(session_path, open_event='' @ [39] @ u ''DanglingCreated'' @ [39] @ u '', '' @
     u ''close_event='' @ [39] @ u ''Destroyed|Consumed'' @ [39] @ u '', max_lines<=100, limit<=50) for near misses.'' @ [10] @
     [10] @
     u ''Evidence shape: survivor entity id, creation event_sequence, last-seen tag, pair latency / '' @
     u ''unclosed flags. Do not cite legacy log line numbers.'' @ [10]"

definition PROMPT_PERSISTENCE :: pystr where
  "PROMPT_PERSISTENCE =
     u ''Investigate Snapshot / persistence sync mismatches on a native `.dtj` session.'' @ [10] @
     u ''Required input: session_path.'' @ [10] @
     [10] @
     u ''Bounded query plan:'' @ [10] @
     u ''1. session_persistence_mismatches_dtj(session_path, top<=10)'' @ [10] @
     u ''2. session_snapshot_diff_dtj(session_path, limit<=5) and '' @
     u ''session_snapshot_before_after_dtj(session_path, entity_id='' @ [8230] @ u '', limit<=20)'' @ [10] @
     u ''3. session_search_dtj(session_path, category='' @ [39] @ u ''Snapshot'' @ [39] @ u '', event='' @ [39] @ u ''AfterSync'' @ [39] @ u '', limit<=100, '' @
     u ''offset=0)'' @ [10] @
     u ''4. session_context_dtj(session_path, event_sequence, before<=30, after<=30) on the mismatch '' @
     u ''event_sequence.'' @ [10] @
     [10] @
     u ''Evidence shape: field-level before'' @ [8594] @ u ''after diffs, affected entity ids, Snapshot '' @
     u ''event_sequence values, mismatch markers from tool `text`.'' @ [10]"

definition PROMPTS :: "(string \<times> (string \<times> pystr) list) list" where
  "PROMPTS =
     [(''triage'', [(''title'', u ''Triage''), (''description'', u ''Recommended first steps after reproducing a bug.''),
        (''text'', PROMPT_TRIAGE)]),
      (''dangling'', [(''title'', u ''Dangling survivor''), (''description'', u ''Investigate a dangling that was not destroyed.''),
        (''text'', PROMPT_DANGLING)]),
      (''persistence'', [(''title'', u ''Persistence mismatch''),
        (''description'', u ''Investigate Snapshot / persistence sync mismatches.''), (''text'', PROMPT_PERSISTENCE)])]"

definition prompt_text :: "string \<Rightarrow> py_exn + pystr" where
  "prompt_text name =
     (case map_of PROMPTS name of
        None \<Rightarrow> Inl (KeyError (u name))
      | Some entry \<Rightarrow> (case map_of entry ''text'' of None \<Rightarrow> Inl (KeyError (u ''text'')) | Some t \<Rightarrow> Inr t))"

definition debug_trace_triage :: "py_exn + pystr" where "debug_trace_triage = prompt_text ''triage''"

definition debug_trace_dangling :: "py_exn + pystr" where "debug_trace_dangling = prompt_text ''dangling''"

definition debug_trace_persistence :: "py_exn + pystr" where "debug_trace_persistence = prompt_text ''persistence''"

end
