(* ===== verification/Sdk_Connect.thy ===== *)
theory Sdk_Connect imports Sdk_Machine begin

text \<open>
  Connecting to the agent of \<open>client.py\<close>, which retries against a clock, the \<open>with\<close> statement over a session, and
  the configuration object \<open>TraceConfig\<close>.
\<close>

section \<open>The retry loop\<close>

text \<open>One attempt: the socket, an exception after which the client tries again (the agent has not yet bound its
  socket), or any other. The clock counts nanoseconds; \<open>clock n\<close> is its n-th reading.\<close>

datatype attempt = Connected conn | Not_yet pystr | Fatal pystr

partial_function (option) connect_loop ::
  "(nat \<Rightarrow> int) \<Rightarrow> (nat \<Rightarrow> attempt) \<Rightarrow> int \<Rightarrow> pystr \<Rightarrow> nat \<Rightarrow> (pystr + conn) option" where
  "connect_loop clock tries deadline last_error n =
     (if clock (Suc n) < deadline then
        (case tries n of
           Connected c \<Rightarrow> Some (Inr c)
         | Not_yet e \<Rightarrow> connect_loop clock tries deadline e (Suc n)
         | Fatal e \<Rightarrow> Some (Inl e))
      else Some (Inl last_error))"

definition CONNECT_TIMEOUT :: int where "CONNECT_TIMEOUT = 5000000000"

text \<open>\<open>time.sleep(0.01)\<close>\<close>

definition RETRY_PAUSE :: int where "RETRY_PAUSE = 10000000"

definition connect_with_retry :: "(nat \<Rightarrow> int) \<Rightarrow> (nat \<Rightarrow> attempt) \<Rightarrow> int \<Rightarrow> pystr \<Rightarrow> (sdk_error + conn) option" where
  "connect_with_retry clock tries timeout path =
     map_option (\<lambda>r. case r of
         Inl last_error \<Rightarrow> Inl (DTJConnectionError (u ''Failed to connect to agent at '' @ path @ u '': '' @ last_error))
       | Inr c \<Rightarrow> Inr c)
       (connect_loop clock tries (clock 0 + timeout) (u ''None'') 0)"

text \<open>\<open>TraceSession.open\<close> with this loop, which it reaches when tracing is on, the configuration exists, and the agent
  was found and started.\<close>

definition reaches_connect :: "open_env \<Rightarrow> process \<Rightarrow> bool" where
  "reaches_connect e p =
     (enabled e \<and> (config_path e = None \<or> is_config_file e (the (config_path e))) \<and>
      (non_empty (socket_path (disc e)) \<or> (\<not> isl (find_agent (disc e)) \<and> find_agent (disc e) \<noteq> Inr None)) \<and>
      \<not> isl (fst (start_agent (disc e) (find_config_path e \<noteq> None \<and> data_dir e = None) p)))"

definition agent_socket :: "open_env \<Rightarrow> pystr" where
  "agent_socket e = (if non_empty (socket_path (disc e)) then the (socket_path (disc e)) else new_socket (disc e))"

definition open_retrying :: "(nat \<Rightarrow> int) \<Rightarrow> (nat \<Rightarrow> attempt) \<Rightarrow> open_env \<Rightarrow> process \<Rightarrow> ((sdk_error + opened) \<times> process) option" where
  "open_retrying clock tries e p =
     (if reaches_connect e p
      then map_option (\<lambda>r. open_trace (e\<lparr>connect := \<lambda>path. r\<rparr>) p)
        (connect_with_retry clock tries CONNECT_TIMEOUT (agent_socket e))
      else Some (open_trace e p))"

lemma open_without_connect:
  assumes "\<not> reaches_connect e p"
  shows "open_trace (e\<lparr>connect := c\<rparr>) p = open_trace e p"
proof -
  have f: "find_config_path (e\<lparr>connect := c\<rparr>) = find_config_path e" by (simp add: find_config_path_def)
  obtain r p1 where st: "start_agent (disc e) (find_config_path e \<noteq> None \<and> data_dir e = None) p = (r, p1)"
    by (cases "start_agent (disc e) (find_config_path e \<noteq> None \<and> data_dir e = None) p")
  show ?thesis
  proof (cases r)
    case (Inl x)
    with st show ?thesis by (simp add: open_trace_def f Let_def)
  next
    case (Inr path)
    with assms st have "\<not> (enabled e \<and> (config_path e = None \<or> is_config_file e (the (config_path e))) \<and>
        (non_empty (socket_path (disc e)) \<or> (\<not> isl (find_agent (disc e)) \<and> find_agent (disc e) \<noteq> Inr None)))"
      by (simp add: reaches_connect_def)
    then show ?thesis by (auto simp: open_trace_def f Let_def)
  qed
qed

section \<open>Sessions in a \<open>with\<close> statement\<close>

text \<open>\<open>__enter__\<close> gives the session itself; \<open>__exit__\<close> closes it, and says whether an exception of the body is
  suppressed. The statement itself: \<open>Inr (Some x)\<close> when the body ended, \<open>Inr None\<close> when its exception was suppressed.\<close>

definition enter :: "session \<Rightarrow> session" where "enter s = s"

definition exit_session :: "session \<Rightarrow> bool \<times> session" where "exit_session s = (False, close_session s)"

definition with_statement :: "(session, 'a) sm \<Rightarrow> (session, 'a option) sm" where
  "with_statement body s =
     (case body (enter s) of (r, s1) \<Rightarrow> (case exit_session s1 of (suppressed, s2) \<Rightarrow>
        (case r of Inr x \<Rightarrow> (Inr (Some x), s2)
         | Inl e \<Rightarrow> (if suppressed then Inr None else Inl e, s2))))"

definition noop_close :: "noop \<Rightarrow> noop" where "noop_close s = s"

section \<open>TraceConfig\<close>

record client_config =
  tc_data_dir :: "pystr option"
  tc_agent_path :: "pystr option"
  tc_socket_path :: "pystr option"
  tc_enabled :: bool
  tc_session_file_name :: "pystr option"
  tc_config_path :: "pystr option"

text \<open>\<open>TraceConfig(...)\<close>; \<open>path\<close> is \<open>str(Path(p))\<close>.\<close>

definition new_config :: "(pystr \<Rightarrow> pystr) \<Rightarrow> pystr option \<Rightarrow> pystr option \<Rightarrow> pystr option \<Rightarrow> bool \<Rightarrow> pystr option \<Rightarrow> pystr option \<Rightarrow> client_config" where
  "new_config path dir agent sock on file_name config =
     \<lparr>tc_data_dir = map_option path dir, tc_agent_path = agent, tc_socket_path = sock, tc_enabled = on,
      tc_session_file_name = file_name, tc_config_path = config\<rparr>"

text \<open>\<open>TraceConfig.open_session\<close>: the environment \<open>e\<close> holds what the machine provides and the name
  that is made up when none is given.\<close>

definition client_config_env :: "client_config \<Rightarrow> open_env \<Rightarrow> open_env" where
  "client_config_env cfg e =
     e\<lparr>disc := (disc e)\<lparr>agent_path := tc_agent_path cfg, socket_path := tc_socket_path cfg\<rparr>, enabled := tc_enabled cfg,
       data_dir := tc_data_dir cfg, config_path := tc_config_path cfg,
       meta := (case tc_session_file_name cfg of None \<Rightarrow> meta e | Some n \<Rightarrow> (meta e)\<lparr>md_file_name := n\<rparr>)\<rparr>"

definition open_config_session :: "client_config \<Rightarrow> open_env \<Rightarrow> (process, opened) sm" where
  "open_config_session cfg e = open_trace (client_config_env cfg e)"

section \<open>Retrying ends\<close>

definition gives_up :: "(nat \<Rightarrow> int) \<Rightarrow> (nat \<Rightarrow> attempt) \<Rightarrow> int \<Rightarrow> nat \<Rightarrow> bool" where
  "gives_up clock tries deadline n \<longleftrightarrow> deadline \<le> clock (Suc n) \<or> (\<forall>e. tries n \<noteq> Not_yet e)"

definition outcome :: "(nat \<Rightarrow> int) \<Rightarrow> (nat \<Rightarrow> attempt) \<Rightarrow> int \<Rightarrow> nat \<Rightarrow> pystr + conn" where
  "outcome clock tries deadline n =
     (let last_error = (case n of 0 \<Rightarrow> u ''None'' | Suc m \<Rightarrow> (case tries m of Not_yet e \<Rightarrow> e | _ \<Rightarrow> [])) in
      if clock (Suc n) < deadline then (case tries n of Connected c \<Rightarrow> Inr c | Fatal e \<Rightarrow> Inl e | Not_yet e \<Rightarrow> Inl e)
      else Inl last_error)"

lemma connect_loop_reaches:
  assumes "\<And>k. n \<le> k \<Longrightarrow> k < N \<Longrightarrow> \<not> gives_up clock tries deadline k" "gives_up clock tries deadline N" "n \<le> N"
    and "last_error = (case n of 0 \<Rightarrow> u ''None'' | Suc m \<Rightarrow> (case tries m of Not_yet e \<Rightarrow> e | _ \<Rightarrow> []))"
  shows "connect_loop clock tries deadline last_error n = Some (outcome clock tries deadline N)"
  using assms
proof (induction "N - n" arbitrary: n last_error)
  case 0
  then have "n = N" by simp
  with 0 show ?case
    by (subst connect_loop.simps) (auto simp: gives_up_def outcome_def split: attempt.split)
next
  case (Suc d)
  have "n < N" using Suc.hyps(2) by simp
  then have "\<not> gives_up clock tries deadline n" using Suc.prems(1) by blast
  then obtain e where e: "clock (Suc n) < deadline" "tries n = Not_yet e" unfolding gives_up_def by auto
  have "connect_loop clock tries deadline e (Suc n) = Some (outcome clock tries deadline N)"
    by (rule Suc.hyps(1)) (use Suc.prems Suc.hyps(2) e \<open>n < N\<close> in auto)
  with e show ?case by (subst connect_loop.simps) simp
qed

text \<open>The clock never goes back, and by the reading after a retry the pause has passed.\<close>

definition pauses :: "(nat \<Rightarrow> int) \<Rightarrow> (nat \<Rightarrow> attempt) \<Rightarrow> bool" where
  "pauses clock tries \<longleftrightarrow>
     clock 0 \<le> clock 1 \<and> (\<forall>n e. tries n = Not_yet e \<longrightarrow> clock (Suc n) + RETRY_PAUSE \<le> clock (Suc (Suc n)))"

lemma clock_advances:
  assumes "pauses clock tries" and "\<forall>k < n. \<exists>e. tries k = Not_yet e"
  shows "clock 0 + int n * RETRY_PAUSE \<le> clock (Suc n)"
  using assms(2)
proof (induction n)
  case (Suc n)
  then obtain e where "tries n = Not_yet e" by blast
  with assms(1) have "clock (Suc n) + RETRY_PAUSE \<le> clock (Suc (Suc n))" unfolding pauses_def by blast
  with Suc show ?case by (simp add: algebra_simps)
qed (use assms(1) in \<open>simp add: pauses_def\<close>)

lemma connect_loop_ends:
  assumes "pauses clock tries"
  shows "\<exists>N \<le> 500. (\<forall>k < N. clock (Suc k) < clock 0 + CONNECT_TIMEOUT \<and> (\<exists>e. tries k = Not_yet e)) \<and>
     gives_up clock tries (clock 0 + CONNECT_TIMEOUT) N \<and>
     connect_loop clock tries (clock 0 + CONNECT_TIMEOUT) (u ''None'') 0 = Some (outcome clock tries (clock 0 + CONNECT_TIMEOUT) N)"
proof -
  let ?d = "clock 0 + CONNECT_TIMEOUT"
  have some: "\<exists>n \<le> 500. gives_up clock tries ?d n"
  proof (rule ccontr)
    assume "\<not> ?thesis"
    then have no: "\<And>n. n \<le> 500 \<Longrightarrow> clock (Suc n) < ?d \<and> (\<exists>e. tries n = Not_yet e)" by (force simp: gives_up_def)
    have "\<forall>k < 500. \<exists>e. tries k = Not_yet e" using no by auto
    then have "clock 0 + int 500 * RETRY_PAUSE \<le> clock (Suc 500)"
      by (rule clock_advances [OF assms])
    moreover have "clock (Suc 500) < ?d" using no [of 500] by blast
    ultimately show False by (simp add: RETRY_PAUSE_def CONNECT_TIMEOUT_def)
  qed
  define N where "N = (LEAST n. gives_up clock tries ?d n)"
  have N: "gives_up clock tries ?d N" "N \<le> 500" and least: "\<And>k. k < N \<Longrightarrow> \<not> gives_up clock tries ?d k"
    using some by (auto simp: N_def intro: LeastI Least_le order_trans dest: not_less_Least)
  show ?thesis
  proof (intro exI conjI)
    show "connect_loop clock tries ?d (u ''None'') 0 = Some (outcome clock tries ?d N)"
      by (rule connect_loop_reaches) (use N least in auto)
    show "\<forall>k < N. clock (Suc k) < ?d \<and> (\<exists>e. tries k = Not_yet e)"
      using least by (force simp: gives_up_def)
  qed (use N in auto)
qed

text \<open>C24: Connecting ends: as each retry sleeps for a hundredth of a second, at most five hundred attempts ask for another one
  before the five seconds are over, and the answer is that of the first attempt that does not ask for another one, or the
  last error when the time is over first.\<close>

theorem connect_retry_ends:
  assumes "pauses clock tries"
  shows "\<exists>N \<le> 500. (\<forall>k < N. clock (Suc k) < clock 0 + CONNECT_TIMEOUT \<and> (\<exists>e. tries k = Not_yet e)) \<and>
     gives_up clock tries (clock 0 + CONNECT_TIMEOUT) N \<and>
     connect_loop clock tries (clock 0 + CONNECT_TIMEOUT) (u ''None'') 0 = Some (outcome clock tries (clock 0 + CONNECT_TIMEOUT) N)"
  by (rule connect_loop_ends [OF assms])

text \<open>An agent that listens after two attempts.\<close>

theorem connect_retry_ends_witness:
  "\<exists>N \<le> 500. gives_up (\<lambda>n. int n * RETRY_PAUSE) (\<lambda>n. if n < 2 then Not_yet [] else Connected silent_conn) CONNECT_TIMEOUT N \<and>
     connect_loop (\<lambda>n. int n * RETRY_PAUSE) (\<lambda>n. if n < 2 then Not_yet [] else Connected silent_conn) CONNECT_TIMEOUT (u ''None'') 0 =
       Some (outcome (\<lambda>n. int n * RETRY_PAUSE) (\<lambda>n. if n < 2 then Not_yet [] else Connected silent_conn) CONNECT_TIMEOUT N)"
proof -
  have "pauses (\<lambda>n. int n * RETRY_PAUSE) (\<lambda>n. if n < 2 then Not_yet [] else Connected silent_conn)"
    by (simp add: pauses_def RETRY_PAUSE_def)
  from connect_retry_ends [OF this] show ?thesis by auto
qed

text \<open>So opening a trace returns, too.\<close>

lemma open_retrying_returns:
  assumes "pauses clock tries"
  shows "\<exists>r p'. open_retrying clock tries e p = Some (r, p')"
proof -
  obtain x where "connect_loop clock tries (clock 0 + CONNECT_TIMEOUT) (u ''None'') 0 = Some x"
    using connect_loop_ends [OF assms] by blast
  then show ?thesis
    by (auto simp: open_retrying_def connect_with_retry_def intro: prod.collapse [symmetric])
qed

section \<open>Leaving a \<open>with\<close> statement\<close>

text \<open>C25: A session in a \<open>with\<close> statement is released however the body ends: whatever emits and closes the body makes,
  and whether it returns or raises, afterwards the session is closed, its socket is closed and its agent process is let
  go, and the statement ends as the body did: with its result, or with its exception, which is never suppressed.\<close>

theorem with_session_releases:
  assumes "reachable c run s" "body s = (r, s1)" "session_step\<^sup>*\<^sup>* s s1"
  shows "\<exists>t. with_statement body s = (case r of Inl e \<Rightarrow> Inl e | Inr x \<Rightarrow> Inr (Some x), t) \<and> closed t \<and> sock_closed (sk t) \<and> \<not> agent_running t"
proof -
  have i: "session_inv c run (close_session s1)"
    by (rule close_inv [OF reachable_inv [OF step_star_reachable [OF assms(3,1)]]])
  have "closed (close_session s1)" by (cases "closed s1") (use close_facts [of s1] in \<open>auto simp: close_session_def\<close>)
  with i show ?thesis
    by (cases r) (simp_all add: with_statement_def enter_def exit_session_def assms(2) session_inv_def)
qed

theorem with_session_releases_witness:
  "\<exists>t. with_statement (\<lambda>s. (Inl StructError :: sdk_error + unit, s)) (new_session silent_conn True) = (Inl StructError, t) \<and>
     closed t \<and> sock_closed (sk t) \<and> \<not> agent_running t"
  using with_session_releases [OF opened [of silent_conn True], of "\<lambda>s. (Inl StructError :: sdk_error + unit, s)"] by auto

end
