(* ===== verification/Dtj_Cli.thy ===== *)
theory Dtj_Cli imports Mcp_Server begin

text \<open>
  The command \<open>dtj\<close> of \<open>cli.py\<close>: its arguments, what it prints, and how it ends. Two of its commands call the library
  with arguments of another shape than it takes; both defects are proved.
\<close>

definition ADAPTER_NAME :: pystr where "ADAPTER_NAME = u ''dtj-core''"

definition ADAPTER_VERSION :: int where "ADAPTER_VERSION = 1"

text \<open>How a run ends: with an exit status, with an exception, or by handing over to the server with the arguments
  that are left.\<close>

datatype ending = Exits int | Raised py_exn | Serves "pystr list"

record run =
  out :: pystr
  err :: pystr
  ending :: ending

definition USAGE :: pystr where
  "USAGE =
     u ''dtj '' @ [8212] @ u '' Debug Trace Journal tools (unified CLI + MCP)'' @ [10] @
     u ''Adapter: '' @ ADAPTER_NAME @ u '' v'' @ str_int ADAPTER_VERSION @ [10] @
     u ''Uses Rust dtj-core when available, falls back to pure Python.'' @ [10] @
     [10] @
     u ''Usage: dtj <command> [options]'' @ [10] @
     [10] @
     u ''Commands:'' @ [10] @
     u ''  read-session <path>    Read and print a .dtj session as JSON'' @ [10] @
     u ''  search <dir> <query>   Search sessions in directory'' @ [10] @
     u ''  list <dir>             List sessions in directory'' @ [10] @
     u ''  mcp                    Run MCP server (default when using as library)'' @ [10] @
     u ''  --version, -V         Print version'' @ [10] @
     u ''  --help, -h            Show this help'' @ [10] @
     [10] @
     u ''Examples:'' @ [10] @
     u ''  dtj read-session session-123.dtj'' @ [10] @
     u ''  dtj search ./traces '' @ [34] @ u ''connection error'' @ [34] @ [10] @
     u ''  dtj list ./traces'' @ [10] @
     u ''  dtj mcp --help'' @ [10] @
     [10] @
     u ''The same dtj-core implementation is used by both CLI and MCP,'' @ [10] @
     u ''ensuring identical parsing results for humans and agents.''"

definition print_usage :: pystr where "print_usage = USAGE @ [10]"

definition usage_error :: "pystr \<Rightarrow> run" where
  "usage_error text = \<lparr>out = [], err = text @ [10], ending = Exits 1\<rparr>"

text \<open>\<open>print(json_output)\<close> prints the \<open>repr\<close> of the dictionary.\<close>

definition cmd_read_session :: "server \<Rightarrow> pystr list \<Rightarrow> run" where
  "cmd_read_session s argv =
     (if length argv < 3 then usage_error (u ''usage: dtj read-session <session_path>'')
      else case read_session_dtj (sv_host s) (argv ! 2) of
        Inl e \<Rightarrow> \<lparr>out = [], err = [], ending = Raised e\<rparr>
      | Inr d \<Rightarrow> \<lparr>out = py_str (rt (sv_host s)) (JObj d) @ [10], err = [], ending = Exits 0\<rparr>)"

text \<open>\<open>search_session_dtj(dir_path, query)\<close>, where every parameter but the first is keyword-only.\<close>

definition too_many_positional :: "pystr \<Rightarrow> py_exn" where
  "too_many_positional fn = TypeError (fn @ u ''() takes 1 positional argument but 2 were given'')"

definition cmd_search :: "server \<Rightarrow> pystr list \<Rightarrow> run" where
  "cmd_search s argv =
     (if length argv < 4 then usage_error (u ''usage: dtj search <dir> <query>'')
      else \<lparr>out = [], err = [], ending = Raised (too_many_positional (u ''search_session_dtj''))\<rparr>)"

text \<open>\<open>for s in sessions: print(s)\<close> over a dictionary prints its keys.\<close>

definition cmd_list :: "server \<Rightarrow> pystr list \<Rightarrow> run" where
  "cmd_list s argv =
     (if length argv < 3 then usage_error (u ''usage: dtj list <dir>'')
      else case event_catalog_dtj (sv_sha s) (sv_host s) (fs (sv_host s)) (Some (argv ! 2)) of
        Inl e \<Rightarrow> \<lparr>out = [], err = [], ending = Raised e\<rparr>
      | Inr d \<Rightarrow> \<lparr>out = concat (map (\<lambda>(k, v). k @ [10]) d), err = [], ending = Exits 0\<rparr>)"

definition cli_main :: "server \<Rightarrow> pystr list \<Rightarrow> run" where
  "cli_main s argv =
     (if length argv < 2 then \<lparr>out = print_usage, err = [], ending = Exits 1\<rparr>
      else let cmd = argv ! 1 in
        if cmd = u ''read-session'' then cmd_read_session s argv
        else if cmd = u ''search'' then cmd_search s argv
        else if cmd = u ''list'' then cmd_list s argv
        else if cmd = u ''mcp'' then \<lparr>out = [], err = [], ending = Serves (hd argv # drop 2 argv)\<rparr>
        else if cmd = u ''--version'' \<or> cmd = u ''-V''
        then \<lparr>out = u ''dtj-mcp '' @ ADAPTER_NAME @ u ''/'' @ str_int ADAPTER_VERSION @ [10], err = [], ending = Exits 0\<rparr>
        else if cmd = u ''--help'' \<or> cmd = u ''-h'' then \<lparr>out = print_usage, err = [], ending = Exits 0\<rparr>
        else \<lparr>out = print_usage, err = u ''unknown command: '' @ cmd @ [10], ending = Exits 1\<rparr>)"

section \<open>\<open>dtj_core.open_session\<close>\<close>

text \<open>Without the Rust extension it names a function that is defined nowhere.\<close>

definition core_open_session :: "host \<Rightarrow> (pystr \<Rightarrow> py_exn + 'r) option \<Rightarrow> pystr \<Rightarrow> py_exn + 'r" where
  "core_open_session h rust_open p =
     (case rust_open of
        Some f \<Rightarrow> f (expanduser h p)
      | None \<Rightarrow> Inl (NameError (u ''decode_session_file'')))"

section \<open>What the commands do\<close>

text \<open>Searching never searches: with every directory and every query the command ends in a \<open>TypeError\<close>.\<close>

lemma cli_search_raises:
  assumes "4 \<le> length argv" "argv ! 1 = u ''search''"
  shows "\<exists>m. cli_main s argv = \<lparr>out = [], err = [], ending = Raised (TypeError m)\<rparr>"
  using assms by (simp add: cli_main_def cmd_search_def too_many_positional_def)

text \<open>Listing a directory never lists it: the directory is taken for the file of a schema registry, and the four
  names printed are the fields of the error about it.\<close>

lemma cli_list_names_fields:
  assumes "3 \<le> length argv" "argv ! 1 = u ''list''" "strip (argv ! 2) \<noteq> []"
    and "\<not> is_file (sv_host s) (expanduser (sv_host s) (argv ! 2))"
  shows "cli_main s argv =
    \<lparr>out = u ''ok'' @ [10] @ u ''adapter'' @ [10] @ u ''registry_path'' @ [10] @ u ''error'' @ [10], err = [], ending = Exits 0\<rparr>"
  using assms by (simp add: cli_main_def cmd_list_def event_catalog_dtj_def load_registry_def Let_def)

text \<open>The exit status tells failures that are not exceptions apart only for wrong usage: a session that does not
  decode is printed, with status 0.\<close>

lemma cli_read_status:
  assumes "3 \<le> length argv" "argv ! 1 = u ''read-session''" "read_session_dtj (sv_host s) (argv ! 2) = Inr d"
  shows "ending (cli_main s argv) = Exits 0"
  using assms by (simp add: cli_main_def cmd_read_session_def)

end
