(* ===== verification/Spec2Isabelle.thy ===== *)
theory Spec2Isabelle imports Dtj_Integrity Dtj_Query_Props Dtj_Index_Props Sdk_Session_Props Sdk_Request_Props
  Trace_Config_Props Config_Io Dtj_Store_Props Dtj_Catalog Sdk_Machine
  Dtj_Entity_Props Jsonl_Samples Perf_Report_Props Dtj_Snapshots Http_Props Dtj_Prompts Sdk_Connect Dtj_Cli begin

text \<open>
  A model of the Python implementation of Debug Trace Journal: the package \<open>debug_trace_mcp\<close>
  (\<open>src/packages/dtj-mcp/src/debug_trace_mcp/\<close>, the tools an agent uses on recorded sessions) and the
  SDK \<open>dtj_sdk\<close> (\<open>src/packages/dtj-python/src/dtj_sdk/\<close>, the producer's side of the agent protocol).

  \<^bold>\<open>How the program fits together.\<close> A producer opens a session through \<open>client.py\<close>: the SDK finds and
  starts the agent (\<open>discovery.py\<close>), speaks the framed protocol of \<open>protocol.py\<close> over a socket, interns
  names and sends events. The agent, a Rust program, writes \<open>.dtj\<close> files. \<open>dtj_native.py\<close> decodes such a
  file; \<open>dtj_core.py\<close> and \<open>dtj_read.py\<close> choose between it and the Rust extension and wrap the result into
  the projection dictionary all tools use. \<open>dtj_search.py\<close>, \<open>dtj_query.py\<close>, \<open>dtj_analyze.py\<close> and
  \<open>dtj_analytics.py\<close> answer questions about one session, \<open>dtj_index.py\<close> keeps a rebuildable JSON index of a
  session, \<open>dtj_report.py\<close> reports durations over it, \<open>dtj_store.py\<close> enumerates the sessions of a directory.
  \<open>dtg_schema.py\<close> loads a pinned registry of event schemas, \<open>dtj_catalog.py\<close> presents it. \<open>protocol.py\<close> of the
  tools validates trace configurations and events and decides which events a producer emits;
  \<open>config_io.py\<close> stores configurations. \<open>store.py\<close>, \<open>ingest.py\<close>, \<open>search.py\<close> and \<open>report.py\<close> are the older
  store of JSONL sessions. \<open>server.py\<close> offers the functions as tools and prompts (\<open>dtj_prompts.py\<close>),
  \<open>http_server.py\<close> the tools over HTTP, \<open>cli.py\<close> some functions on the command line.

  \<^bold>\<open>Values and files.\<close>
  \<^item> \<open>Prelude\<close>, \<open>Le_Bytes\<close>, \<open>Crc32\<close>, \<open>Utf8\<close>, \<open>Json_Text\<close>, \<open>Py_Float\<close>: Python values and strings, JSON values
    with Python's truth and equality, decimal text, \<open>struct\<close>, \<open>zlib.crc32\<close>, the UTF-8 codec, the text of
    \<open>json.dumps\<close> and binary64 arithmetic. A string is a list of code points, a byte an 8-bit word, a Python
    integer an \<open>int\<close>, a float its 64-bit pattern, a dictionary its list of items. An exception is a value of
    \<open>Inl\<close>. The file system is a function from paths to nodes; a record of faults decides which system calls fail.
  \<^item> \<open>Atomic_Publish\<close>: the locale of replacing a file through a temporary one; the index and the
    configuration writer interpret it.

  \<^bold>\<open>The recorded session.\<close>
  \<^item> \<open>Dtj_Format\<close>, \<open>Dtj_Reader\<close>: \<open>dtj_native.py\<close>. The record decoders (\<open>decode_header\<close>, \<open>decode_dict_entries\<close>,
    \<open>decode_events\<close>, \<open>decode_value\<close>), the dictionary, reference validation, and \<open>open_session\<close> with the
    scan of the chunks (\<open>scan_chunk\<close>, \<open>scan_loop\<close>) whose state is the record \<open>scan\<close>. The scan terminates
    because every chunk moves the position forward; there is no fuel.
  \<^item> \<open>Dtj_Writer\<close>, \<open>Dtj_Session\<close>: the encoding of sessions, as a specification of the format the reader
    accepts. The locales \<open>record_body\<close> and \<open>record_codec\<close> state what one kind of record must satisfy and
    prove that lists of records round trip; entries, fields and events interpret them. \<open>run_chunks\<close> is
    the abstract meaning of a sequence of chunks.
  \<^item> \<open>Dtj_Trace\<close>, \<open>Dtj_Integrity\<close>: the reader returns the meaning of the chunks wholly written, whatever follows
    them, detects every changed payload byte, accepts nothing but well-formed sessions, and appending only
    extends. No dictionary in the layout of the format document is read as what it says.
  \<^item> \<open>Dtj_Projection\<close>, \<open>Dtj_Read\<close>: the JSON projection and the read layer over a \<open>host\<close> (file system, path
    functions, and the Rust extension when there is one). The locale \<open>event_source\<close> is what the tools
    rely on; the native reader interprets it.

  \<^bold>\<open>Questions about a session.\<close>
  \<^item> \<open>Dtj_Search\<close>, \<open>Dtj_Query\<close> and their \<open>_Props\<close>: pages, windows, ranges and neighbourhoods are exactly the
    events they should be, filters are conjunctions, byte strings never leak into text search.
  \<^item> \<open>Dtj_Analyze\<close>, \<open>Dtj_Brief\<close>, with \<open>Dtj_Scan_Props\<close>, \<open>Dtj_Analyze_Props\<close>, \<open>Dtj_Entity_Props\<close>: the scan counts what
    the scope holds, "since the last repro" is the suffix from the last boundary, the causal walk is a
    closure, unmatched entities are those opened and never closed.
  \<^item> \<open>Dtj_Analytics\<close>, \<open>Dtj_Fields\<close>, \<open>Dtj_Snapshots\<close>, \<open>Dtj_Timing\<close>, \<open>Dtj_Compare\<close> and their \<open>_Props\<close>: the loops of
    \<open>dtj_analytics.py\<close>; bursts return and partition, latencies agree with the history of openings and closings, gaps end at the first closing event of the window,
    the matrix and the density count exactly, an unchanged baseline shows no difference.
  \<^item> \<open>Perf_Percentile\<close>, \<open>Perf_Report\<close>, \<open>Perf_Report_Props\<close>: the duration reports over a session, an index and the
    JSONL store, on binary64 values; the report over an index is the report over the session, for categories that do
    not differ in case only.
  \<^item> \<open>Dtj_Index\<close>, \<open>Dtj_Index_Props\<close>: building is atomic under all faults, searching through the index agrees with
    searching the session, stale indexes are refused. \<open>Dtj_Store\<close>, \<open>Dtj_Store_Props\<close>: listings account for every file.

  \<^bold>\<open>Schemas, configuration, the JSONL store.\<close>
  \<^item> \<open>Dtg_Schema\<close>, \<open>Dtg_Schema_Props\<close>, \<open>Dtj_Catalog\<close>: a registry that loads is well formed and of the pinned digest;
    a candidate is accepted exactly when it satisfies its schema.
  \<^item> \<open>Trace_Config\<close>, \<open>Trace_Config_Props\<close>, \<open>Config_Io\<close>, \<open>Protocol_Doc\<close>: the gate computes a specification on typed
    data and never raises on validated input; written configurations are read back; the documented examples
    are valid.
  \<^item> \<open>Jsonl_Store\<close>, \<open>Jsonl_Ingest\<close>, \<open>Jsonl_Props\<close>, \<open>Jsonl_Samples\<close>: what is saved is kept, an import accounts for
    every line, a search returns the first hits.

  \<^bold>\<open>The producer.\<close>
  \<^item> \<open>Sdk_Protocol\<close>, \<open>Sdk_Client\<close>, \<open>Sdk_Connect\<close>, with \<open>Sdk_Props\<close>, \<open>Sdk_Session_Props\<close>, \<open>Sdk_Request_Props\<close>,
    \<open>Sdk_Machine\<close>: a connection is a record of the pieces the socket will deliver, the frames sent and the faults
    of sending; a session holds the connection, the four caches and whether it holds an agent process. Frames
    survive any fragmentation, an event carries the identifiers of its names, sessions release what they own, also
    at the end of a \<open>with\<close> statement (which asks \<open>__exit__\<close> whether to suppress the exception of its body),
    retrying to connect ends. The locale \<open>state_order\<close> says what one computation may do to a session.

  \<^bold>\<open>The surface.\<close>
  \<^item> \<open>Mcp_Server\<close>, \<open>Mcp_Server_Props\<close>: every tool as a function of its arguments and the file system. All tools
    return and answer, and only the files their arguments name change. The locale \<open>framed_server\<close> lifts this from
    one request to a sequence; tool calls and HTTP requests interpret it.
  \<^item> \<open>Tool_Calls\<close>, \<open>Http_Server\<close>, \<open>Http_Props\<close>: the table of tools with their parameters, binding of keyword
    arguments, and the request handler from bytes to bytes. Every tool can be called by name, every request
    object with an identifier is answered under it, down to the bytes the client receives, and malformed requests
    change nothing. A call whose argument values are not of the annotated types is outside the model
    (\<open>call_tool\<close> is \<open>None\<close>); the theorems name the requests without such calls (\<open>typed_call\<close>).
  \<^item> \<open>Dtj_Prompts\<close>: the texts of the prompts. \<open>Dtj_Cli\<close>: the command line.

  \<^bold>\<open>Defects the theorems state.\<close> The dictionary layout of the format document is not read; a missing session
  file raises a \<open>NameError\<close>; byte strings of the SDK are misread; an index of a file with time stamp zero is never
  accepted; an index or a baseline can replace the session it is made from; a session identifier can lead the
  JSONL store out of its directory; a JSON-RPC batch is refused as a whole and a reply with a lone surrogate is cut;
  \<open>dtj search\<close> always raises and \<open>dtj list\<close> prints field names.

  \<^bold>\<open>Parameters and hypotheses.\<close> The record \<open>runtime\<close> holds what CPython takes from data outside the
  repository (case tables, float and string rendering, integer literals, the JSON codec of files, how far a text file that is
  not UTF-8 is read, the order of keys that do not compare). The reader
  of \<open>json.loads\<close>, the texts of exceptions, the regular expression engine, the Unicode classes of \<open>re\<close>, the order in
  which a set is visited, the sort order of lists with NaN, the digest and the clock are arguments of the
  definitions that use them.
  The laws that theorems use of them are stated with them: that loading what was dumped gives it back, for
  the document concerned, and that a sleep lets time pass. The clock of the retry loop counts whole nanoseconds.

  \<^bold>\<open>Not modelled.\<close> FastMCP with its transports, argument coercion and \<open>mcp.run\<close>; sockets and header parsing of
  \<open>http.server\<close>; what a tool makes of an argument that is not of the annotated type, over HTTP, where nothing checks it; and \<open>serve_http\<close> and \<open>serve_http_threaded\<close>, which start and stop it with threads and signal
  handlers; \<open>argparse\<close> in \<open>__main__.py\<close> and the re-exports of the \<open>__init__\<close> modules; the warnings of
  \<open>AgentDiscovery\<close>; the agent and the SDKs in other languages. These are operating system and library plumbing
  without logic of the repository's own.
\<close>

end
